(* ===== verification/Hub_Prelude.thy ===== *)
theory Hub_Prelude
  imports Main "HOL-Library.Sublist"
begin

text \<open>
  The prelude of the ServerHub client development: the text model shared by all
  components, the parts of the JavaScript string library the sources call, decimal
  printing of integers, and the contract of a character-wise text codec.

  A TypeScript string is modelled by the list of its UTF-8 bytes (type \<open>string\<close>).
  Case conversion and trimming are modelled on ASCII, which covers every keyword the
  sources compare with; length and slicing count bytes, which agrees with the sources on
  the ASCII text they slice (hashes, identifiers, timestamps).
\<close>

named_theorems js_string_simps \<open>definitions of the JavaScript string functions\<close>

section \<open>Characters\<close>

definition is_digit_char :: "char \<Rightarrow> bool" where
  "is_digit_char c \<longleftrightarrow> 48 \<le> (of_char c :: nat) \<and> (of_char c :: nat) \<le> 57"

definition is_upper_char :: "char \<Rightarrow> bool" where
  "is_upper_char c \<longleftrightarrow> 65 \<le> (of_char c :: nat) \<and> (of_char c :: nat) \<le> 90"

definition is_lower_char :: "char \<Rightarrow> bool" where
  "is_lower_char c \<longleftrightarrow> 97 \<le> (of_char c :: nat) \<and> (of_char c :: nat) \<le> 122"

definition is_alnum_char :: "char \<Rightarrow> bool" where
  "is_alnum_char c \<longleftrightarrow> is_digit_char c \<or> is_upper_char c \<or> is_lower_char c"

definition is_space_char :: "char \<Rightarrow> bool" where
  "is_space_char c \<longleftrightarrow> (of_char c :: nat) = 32 \<or> (9 \<le> (of_char c :: nat) \<and> (of_char c :: nat) \<le> 13)"

definition lower_char :: "char \<Rightarrow> char" where
  "lower_char c = (if is_upper_char c then char_of ((of_char c :: nat) + 32) else c)"

definition upper_char :: "char \<Rightarrow> char" where
  "upper_char c = (if is_lower_char c then char_of ((of_char c :: nat) - 32) else c)"

lemma of_char_less_256 [simp]: "(of_char c :: nat) < 256"
  by (cases c) (simp add: of_char_def horner_sum_simps)

lemma lower_char_idem [simp]: "lower_char (lower_char c) = lower_char c"
  by (auto simp: lower_char_def is_upper_char_def)

lemma upper_char_idem [simp]: "upper_char (upper_char c) = upper_char c"
  by (auto simp: upper_char_def is_lower_char_def)

section \<open>JavaScript string functions\<close>

definition js_toLowerCase :: "string \<Rightarrow> string" where
  [js_string_simps]: "js_toLowerCase s = map lower_char s"

definition js_toUpperCase :: "string \<Rightarrow> string" where
  [js_string_simps]: "js_toUpperCase s = map upper_char s"

definition js_trimStart :: "string \<Rightarrow> string" where
  [js_string_simps]: "js_trimStart s = dropWhile is_space_char s"

definition js_trimEnd :: "string \<Rightarrow> string" where
  [js_string_simps]: "js_trimEnd s = rev (dropWhile is_space_char (rev s))"

definition js_trim :: "string \<Rightarrow> string" where
  "js_trim s = js_trimEnd (js_trimStart s)"

fun js_startsWith :: "string \<Rightarrow> string \<Rightarrow> bool" where
  "js_startsWith s [] = True"
| "js_startsWith [] (p # ps) = False"
| "js_startsWith (c # s) (p # ps) = (c = p \<and> js_startsWith s ps)"

fun js_includes :: "string \<Rightarrow> string \<Rightarrow> bool" where
  "js_includes [] n = (n = [])"
| "js_includes (c # s) n = (js_startsWith (c # s) n \<or> js_includes s n)"

text \<open>\<open>String.prototype.slice\<close> with non-negative bounds.\<close>

definition js_slice :: "nat \<Rightarrow> nat \<Rightarrow> string \<Rightarrow> string" where
  [js_string_simps]: "js_slice i j s = take (j - i) (drop i s)"

definition js_padStart :: "nat \<Rightarrow> char \<Rightarrow> string \<Rightarrow> string" where
  [js_string_simps]: "js_padStart n c s = replicate (n - length s) c @ s"

text \<open>\<open>s.replace(" ", "T")\<close>: the first occurrence of one character.\<close>

fun js_replace_first :: "char \<Rightarrow> string \<Rightarrow> string \<Rightarrow> string" where
  "js_replace_first c r [] = []"
| "js_replace_first c r (x # xs) = (if x = c then r @ xs else x # js_replace_first c r xs)"

fun js_split :: "char \<Rightarrow> string \<Rightarrow> string list" where
  "js_split c [] = [[]]"
| "js_split c (x # xs) =
     (if x = c then [] # js_split c xs
      else case js_split c xs of [] \<Rightarrow> [[x]] | p # ps \<Rightarrow> (x # p) # ps)"

text \<open>\<open>slice(-n)\<close>: the last \<open>n\<close> elements.\<close>

definition take_last :: "nat \<Rightarrow> 'a list \<Rightarrow> 'a list" where
  "take_last n xs = drop (length xs - n) xs"

lemma length_take_last [simp]: "length (take_last n xs) = min n (length xs)"
  by (simp add: take_last_def)

lemma take_last_all: "length xs \<le> n \<Longrightarrow> take_last n xs = xs"
  by (simp add: take_last_def)

lemma take_last_append: "take_last n (take_last n xs @ ys) = take_last n (xs @ ys)"
  by (cases "length xs \<le> n") (auto simp: take_last_def add.commute)

text \<open>\<open>lastIndexOf\<close> of one character; \<open>None\<close> stands for -1.\<close>

fun js_lastIndexOf :: "char \<Rightarrow> string \<Rightarrow> nat option" where
  "js_lastIndexOf c [] = None"
| "js_lastIndexOf c (x # xs) =
     (case js_lastIndexOf c xs of
        Some i \<Rightarrow> Some (Suc i)
      | None \<Rightarrow> if x = c then Some 0 else None)"

lemma js_lastIndexOf_None: "js_lastIndexOf c s = None \<longleftrightarrow> c \<notin> set s"
  by (induction s) (auto split: option.splits)

lemma js_lastIndexOf_append: "c \<notin> set n \<Longrightarrow> js_lastIndexOf c (d @ c # n) = Some (length d)"
  by (induction d) (auto simp: js_lastIndexOf_None split: option.splits)

text \<open>A string that JavaScript treats as false is \<open>undefined\<close>, \<open>null\<close> or empty.\<close>

fun js_truthy :: "string option \<Rightarrow> bool" where
  "js_truthy None = False"
| "js_truthy (Some s) = (s \<noteq> [])"

definition or_else :: "'a option \<Rightarrow> 'a \<Rightarrow> 'a" where
  [simp]: "or_else x d = (case x of None \<Rightarrow> d | Some v \<Rightarrow> v)"

lemma js_startsWith_iff_prefix: "js_startsWith s p \<longleftrightarrow> prefix p s"
  by (induction s p rule: js_startsWith.induct) auto

lemma js_includes_iff_sublist: "js_includes s n \<longleftrightarrow> sublist n s"
proof (induction s n rule: js_includes.induct)
  case (2 c s n)
  then show ?case
    by (simp only: js_includes.simps js_startsWith_iff_prefix sublist_Cons_right)
qed simp

lemma js_startsWith_append [simp]: "js_startsWith (p @ s) p"
  by (simp add: js_startsWith_iff_prefix)

lemma js_includes_append: "js_includes (a @ n @ b) n"
  by (auto simp: js_includes_iff_sublist sublist_def)

lemma js_toLowerCase_idem [simp]: "js_toLowerCase (js_toLowerCase s) = js_toLowerCase s"
  by (simp add: js_toLowerCase_def)

lemma js_toUpperCase_idem [simp]: "js_toUpperCase (js_toUpperCase s) = js_toUpperCase s"
  by (simp add: js_toUpperCase_def)

text \<open>Stripping a class of characters at the end, the pattern shared by trimming and by
  the URL normaliser.\<close>

definition strip_end :: "(char \<Rightarrow> bool) \<Rightarrow> string \<Rightarrow> string" where
  "strip_end P s = rev (dropWhile P (rev s))"

lemma strip_end_prefix: "prefix (strip_end P s) s"
  unfolding strip_end_def by (metis suffix_dropWhile suffix_to_prefix rev_rev_ident)

lemma strip_end_idem [simp]: "strip_end P (strip_end P s) = strip_end P s"
  by (simp add: strip_end_def)

lemma strip_end_last: "strip_end P s \<noteq> [] \<Longrightarrow> \<not> P (last (strip_end P s))"
  unfolding strip_end_def by (simp add: last_rev hd_dropWhile)

lemma strip_end_id: "s = [] \<or> \<not> P (last s) \<Longrightarrow> strip_end P s = s"
  by (induction s rule: rev_induct) (auto simp: strip_end_def)

lemma strip_end_append [simp]:
  "(\<forall>c \<in> set t. P c) \<Longrightarrow> strip_end P (s @ t) = strip_end P s"
  by (induction t rule: rev_induct) (auto simp: strip_end_def)

definition is_slash :: "char \<Rightarrow> bool" where
  "is_slash c \<longleftrightarrow> c = CHR ''/''"

lemma strip_slash_append_name:
  "n \<noteq> [] \<Longrightarrow> CHR ''/'' \<notin> set n \<Longrightarrow> strip_end is_slash (s @ n) = s @ n"
  by (rule strip_end_id) (metis is_slash_def last_appendR last_in_set)

lemma js_trimEnd_strip: "js_trimEnd s = strip_end is_space_char s"
  by (simp add: js_trimEnd_def strip_end_def)

lemma hd_strip_end: "strip_end P s \<noteq> [] \<Longrightarrow> hd (strip_end P s) = hd s"
  using strip_end_prefix [of P s] by (metis hd_append prefix_def)

lemma js_trim_hd:
  assumes "js_trim s \<noteq> []"
  shows "\<not> is_space_char (hd (js_trim s))"
proof -
  have t: "strip_end is_space_char (js_trimStart s) \<noteq> []"
    using assms by (simp add: js_trim_def js_trimEnd_strip)
  then have "js_trimStart s \<noteq> []" by (auto simp: strip_end_def)
  then have "\<not> is_space_char (hd (js_trimStart s))"
    unfolding js_trimStart_def by (rule hd_dropWhile)
  with hd_strip_end [OF t] show ?thesis by (simp add: js_trim_def js_trimEnd_strip)
qed

lemma js_trim_fixed:
  "s = [] \<or> (\<not> is_space_char (hd s) \<and> \<not> is_space_char (last s)) \<Longrightarrow> js_trim s = s"
  by (cases s) (auto simp: js_trim_def js_trimEnd_strip js_trimStart_def strip_end_id)

lemma js_trim_idem [simp]: "js_trim (js_trim s) = js_trim s"
  by (rule js_trim_fixed)
     (metis js_trim_hd js_trim_def js_trimEnd_strip strip_end_last)

section \<open>Splitting at a separator\<close>

lemma js_split_not_Nil [simp]: "js_split c s \<noteq> []"
  by (induction s) (auto split: list.splits)

lemma js_split_no_sep: "c \<notin> set s \<Longrightarrow> js_split c s = [s]"
  by (induction s) auto

lemma js_split_append_sep:
  "c \<notin> set p \<Longrightarrow> js_split c (p @ c # s) = p # js_split c s"
  by (induction p) auto

fun join_with :: "char \<Rightarrow> string list \<Rightarrow> string" where
  "join_with c [] = []"
| "join_with c [p] = p"
| "join_with c (p # q # ps) = p @ c # join_with c (q # ps)"

lemma js_split_join:
  "ps \<noteq> [] \<Longrightarrow> (\<And>p. p \<in> set ps \<Longrightarrow> c \<notin> set p) \<Longrightarrow> js_split c (join_with c ps) = ps"
  by (induction c ps rule: join_with.induct) (auto simp: js_split_no_sep js_split_append_sep)

section \<open>Decimal integers\<close>

definition digit_char :: "nat \<Rightarrow> char" where
  "digit_char d = char_of (48 + d)"

fun nat_str :: "nat \<Rightarrow> string" where
  "nat_str n = (if n < 10 then [digit_char n] else nat_str (n div 10) @ [digit_char (n mod 10)])"

declare nat_str.simps [simp del]

definition int_str :: "int \<Rightarrow> string" where
  "int_str i = (if i < 0 then CHR ''-'' # nat_str (nat (- i)) else nat_str (nat i))"

definition digit_val :: "char \<Rightarrow> nat" where
  "digit_val c = of_char c - 48"

definition digits_val :: "string \<Rightarrow> nat" where
  "digits_val s = foldl (\<lambda>a c. 10 * a + digit_val c) 0 s"

lemma digit_char_props:
  assumes "d < 10"
  shows "is_digit_char (digit_char d)" and "digit_val (digit_char d) = d"
  using assms by (simp_all add: is_digit_char_def digit_val_def digit_char_def)

lemma nat_str_not_Nil [simp]: "nat_str n \<noteq> []"
  by (subst nat_str.simps) simp

lemma nat_str_0: "nat_str 0 = ''0''"
  by (simp add: nat_str.simps digit_char_def char_of_def bit_0)

text \<open>Unfolding the string functions on literal texts.\<close>

lemmas js_eval =
  js_trim_def js_string_simps lower_char_def is_upper_char_def is_space_char_def is_digit_char_def

lemma js_trim_empty: "js_trim [] = []" "js_toLowerCase [] = []"
  by (simp_all add: js_eval)

lemma nat_str_digits: "c \<in> set (nat_str n) \<Longrightarrow> is_digit_char c"
proof (induction n rule: nat_str.induct)
  case (1 n)
  then show ?case
    by (subst (asm) (2) nat_str.simps) (auto simp: digit_char_props split: if_splits)
qed

lemma digits_val_append [simp]:
  "digits_val (s @ [c]) = 10 * digits_val s + digit_val c"
  by (simp add: digits_val_def)

lemma digits_val_Nil [simp]: "digits_val [] = 0"
  by (simp add: digits_val_def)

lemma digits_val_nat_str [simp]: "digits_val (nat_str n) = n"
proof (induction n rule: nat_str.induct)
  case (1 n)
  show ?case
  proof (cases "n < 10")
    case True
    then show ?thesis
      by (subst nat_str.simps) (simp add: digits_val_def digit_char_props)
  next
    case False
    with "1.IH" show ?thesis
      by (subst nat_str.simps) (simp add: digit_char_props)
  qed
qed

lemma nat_str_inj: "nat_str m = nat_str n \<longleftrightarrow> m = n"
  by (metis digits_val_nat_str)

lemma nat_str_hd_zero: "n \<noteq> 0 \<Longrightarrow> hd (nat_str n) \<noteq> CHR ''0''"
proof (induction n rule: nat_str.induct)
  case (1 n)
  show ?case
  proof (cases "n < 10")
    case True
    with "1.prems" have "digit_val (digit_char n) \<noteq> 0" by (simp add: digit_char_props)
    with True show ?thesis
      by (subst nat_str.simps) (auto simp: digit_val_def)
  next
    case False
    then have "n div 10 \<noteq> 0" by simp
    with "1.IH" False have "hd (nat_str (n div 10)) \<noteq> CHR ''0''" by simp
    with False show ?thesis
      by (subst nat_str.simps) simp
  qed
qed

lemma int_str_not_Nil [simp]: "int_str i \<noteq> []"
  by (simp add: int_str_def)

lemma int_str_chars: "c \<in> set (int_str i) \<Longrightarrow> is_digit_char c \<or> c = CHR ''-''"
  by (auto simp: int_str_def dest: nat_str_digits split: if_splits)

lemma int_str_inj: "int_str i = int_str j \<longleftrightarrow> i = j"
proof
  have minus: "\<not> is_digit_char (CHR ''-'')" by (simp add: is_digit_char_def)
  assume eq: "int_str i = int_str j"
  have "(i < 0) = (j < 0)"
    using eq minus nat_str_digits
    by (metis int_str_def list.set_intros(1))
  with eq show "i = j" by (auto simp: int_str_def nat_str_inj split: if_splits)
qed simp

lemma length_nat_str_le2: "n < 100 \<Longrightarrow> length (nat_str n) \<le> 2"
proof -
  assume "n < 100"
  then have "n div 10 < 10" by simp
  then have "length (nat_str (n div 10)) = 1" by (subst nat_str.simps) simp
  then show "length (nat_str n) \<le> 2" by (subst nat_str.simps) simp
qed

section \<open>Character-wise codecs\<close>

text \<open>
  The contract shared by every text encoding of the clients: the encoder maps each
  character to a chunk, and the decoder gives the character back and continues with what
  follows the chunk. \<open>put\<close> adds one decoded character to a decoded rest.
\<close>

locale chunk_codec =
  fixes enc :: "char \<Rightarrow> string"
    and dec :: "string \<Rightarrow> 'r option"
    and put :: "char \<Rightarrow> 'r \<Rightarrow> 'r"
  assumes dec_chunk: "dec (enc c @ rest) = map_option (put c) (dec rest)"
begin

lemma dec_chunks: "dec (concat (map enc s) @ rest) = map_option (foldr put s) (dec rest)"
  by (induction s) (simp_all add: dec_chunk option.map_comp comp_def option.map_id0 [unfolded id_def])

end

locale text_codec = chunk_codec enc dec "(#)"
  for enc :: "char \<Rightarrow> string" and dec :: "string \<Rightarrow> string option" +
  assumes dec_empty: "dec [] = Some []"
begin

lemma roundtrip: "dec (concat (map enc s)) = Some s"
proof -
  have "foldr (#) s [] = s" by (induction s) simp_all
  then show ?thesis using dec_chunks [of s "[]"] dec_empty by simp
qed

lemma enc_injective: "concat (map enc s) = concat (map enc t) \<Longrightarrow> s = t"
  using roundtrip by (metis option.inject)

end

end
