(* ===== verification/Js_Number.thy ===== *)
theory Js_Number
  imports Complex_Main Hub_Prelude
begin

text \<open>
  JavaScript numbers. A finite number is the exact rational it denotes (arithmetic is not
  rounded to doubles); the three non-finite values are separate constructors. Printing
  follows \<open>Number.prototype.toString\<close> in its plain decimal range (at most 17
  decimals, below \<open>10^21\<close>) and \<open>Number.prototype.toFixed\<close>.
\<close>

datatype jsnum = Fin rat | NaN | PosInf | NegInf

section \<open>Comparisons and arithmetic\<close>

fun js_less :: "jsnum \<Rightarrow> jsnum \<Rightarrow> bool" where
  "js_less (Fin a) (Fin b) = (a < b)"
| "js_less NegInf (Fin b) = True"
| "js_less NegInf PosInf = True"
| "js_less (Fin a) PosInf = True"
| "js_less _ _ = False"

definition js_leq :: "jsnum \<Rightarrow> jsnum \<Rightarrow> bool" where
  [simp]: "js_leq a b \<longleftrightarrow> js_less a b \<or> (a = b \<and> a \<noteq> NaN)"

fun js_num_truthy :: "jsnum \<Rightarrow> bool" where
  "js_num_truthy (Fin q) = (q \<noteq> 0)"
| "js_num_truthy NaN = False"
| "js_num_truthy _ = True"

fun js_isFinite :: "jsnum \<Rightarrow> bool" where
  "js_isFinite (Fin q) = True"
| "js_isFinite _ = False"

text \<open>Division by a positive constant, the only division the sources make.\<close>

fun js_div_pos :: "jsnum \<Rightarrow> rat \<Rightarrow> jsnum" where
  "js_div_pos (Fin q) d = Fin (q / d)"
| "js_div_pos x d = x"

text \<open>The remainder takes the sign of the dividend.\<close>

definition js_trunc :: "rat \<Rightarrow> int" where
  "js_trunc q = (if q < 0 then - \<lfloor>- q\<rfloor> else \<lfloor>q\<rfloor>)"

definition js_rem :: "rat \<Rightarrow> rat \<Rightarrow> rat" where
  "js_rem a b = a - b * of_int (js_trunc (a / b))"

text \<open>\<open>Math.round\<close> rounds halves towards plus infinity.\<close>

definition js_round :: "rat \<Rightarrow> int" where
  "js_round q = \<lfloor>q + 1 / 2\<rfloor>"

lemma js_rem_nonneg:
  assumes "0 \<le> a" and "0 < b"
  shows "js_rem a b = a - b * of_int \<lfloor>a / b\<rfloor>" and "0 \<le> js_rem a b" and "js_rem a b < b"
proof -
  have q: "0 \<le> a / b" using assms by simp
  then show eq: "js_rem a b = a - b * of_int \<lfloor>a / b\<rfloor>"
    by (simp add: js_rem_def js_trunc_def)
  have "of_int \<lfloor>a / b\<rfloor> * b \<le> a" and "a < (of_int \<lfloor>a / b\<rfloor> + 1) * b"
    using assms(2) by (rule floor_divide_lower, rule floor_divide_upper)
  then show "0 \<le> js_rem a b" and "js_rem a b < b"
    by (simp_all add: eq algebra_simps)
qed

lemma js_rem_int:
  assumes "0 \<le> a" and "0 < b"
  shows "js_rem (of_int a) (of_int b) = of_int (a mod b)"
proof -
  have "js_rem (of_int a) (of_int b) = (of_int a :: rat) - of_int b * of_int \<lfloor>(of_int a :: rat) / of_int b\<rfloor>"
    using assms by (simp add: js_rem_nonneg(1))
  also have "\<dots> = of_int (a - b * (a div b))"
    by (simp add: floor_divide_of_int_eq)
  finally show ?thesis by (simp add: minus_mult_div_eq_mod)
qed

section \<open>Printing\<close>

definition is_int_rat :: "rat \<Rightarrow> bool" where
  "is_int_rat q \<longleftrightarrow> of_int \<lfloor>q\<rfloor> = q"

fun dec_places :: "nat \<Rightarrow> rat \<Rightarrow> nat" where
  "dec_places 0 q = 0"
| "dec_places (Suc n) q = (if is_int_rat q then 0 else Suc (dec_places n (10 * q)))"

text \<open>\<open>n\<close> written with \<open>k\<close> digits after the point.\<close>

definition fixed_str :: "nat \<Rightarrow> nat \<Rightarrow> string" where
  "fixed_str k n =
     (if k = 0 then nat_str n
      else nat_str (n div 10 ^ k) @ CHR ''.'' # js_padStart k (CHR ''0'') (nat_str (n mod 10 ^ k)))"

definition num_str :: "rat \<Rightarrow> string" where
  "num_str q =
     (let k = dec_places 17 \<bar>q\<bar>; s = fixed_str k (nat \<lfloor>\<bar>q\<bar> * 10 ^ k\<rfloor>)
      in if q < 0 then CHR ''-'' # s else s)"

definition toFixed_rat :: "nat \<Rightarrow> rat \<Rightarrow> string" where
  "toFixed_rat k q =
     (let s = fixed_str k (nat \<lfloor>\<bar>q\<bar> * 10 ^ k + 1 / 2\<rfloor>)
      in if q < 0 then CHR ''-'' # s else s)"

fun js_toString :: "jsnum \<Rightarrow> string" where
  "js_toString (Fin q) = num_str q"
| "js_toString NaN = ''NaN''"
| "js_toString PosInf = ''Infinity''"
| "js_toString NegInf = ''-Infinity''"

fun js_toFixed :: "nat \<Rightarrow> jsnum \<Rightarrow> string" where
  "js_toFixed k (Fin q) = toFixed_rat k q"
| "js_toFixed k x = js_toString x"

lemma is_int_rat_of_int [simp]: "is_int_rat (of_int i)"
  by (simp add: is_int_rat_def)

lemma dec_places_int [simp]: "is_int_rat q \<Longrightarrow> dec_places n q = 0"
  by (cases n) auto

lemma num_str_of_int [simp]: "num_str (of_int i) = int_str i"
proof -
  have "is_int_rat \<bar>of_int i\<bar>" using is_int_rat_of_int [of "\<bar>i\<bar>"] by (simp only: of_int_abs)
  moreover have "\<lfloor>\<bar>of_int i :: rat\<bar>\<rfloor> = \<bar>i\<bar>" by (metis floor_of_int of_int_abs)
  ultimately show ?thesis by (auto simp: num_str_def Let_def fixed_str_def int_str_def)
qed

lemma num_str_numeral [simp]: "num_str (numeral n) = int_str (numeral n)"
  using num_str_of_int [of "numeral n"] by simp

lemma num_str_zero_one [simp]: "num_str 0 = int_str 0" "num_str 1 = int_str 1"
  using num_str_of_int [of 0] num_str_of_int [of 1] by simp_all

section \<open>Reading a decimal back\<close>

definition frac_val :: "string \<Rightarrow> rat" where
  "frac_val ds = of_nat (digits_val ds) / 10 ^ length ds"

definition decimal :: "rat \<Rightarrow> bool" where
  "decimal q \<longleftrightarrow> is_int_rat (\<bar>q\<bar> * 10 ^ dec_places 17 \<bar>q\<bar>)"

lemma length_padStart: "length (js_padStart k c s) = max k (length s)"
  by (simp add: js_padStart_def)

lemma digits_val_replicate_zero: "digits_val (replicate m (CHR ''0'') @ s) = digits_val s"
  by (induction m) (simp_all add: digits_val_def digit_val_def)

lemma digits_val_padStart: "digits_val (js_padStart k (CHR ''0'') (nat_str n)) = n"
  by (simp add: js_padStart_def digits_val_replicate_zero)

lemma length_nat_str_bound: "n < 10 ^ k \<Longrightarrow> 0 < k \<Longrightarrow> length (nat_str n) \<le> k"
proof (induction k arbitrary: n)
  case (Suc k)
  show ?case
  proof (cases "n < 10")
    case True
    then show ?thesis by (subst nat_str.simps) simp
  next
    case False
    with Suc.prems have "n div 10 < 10 ^ k" and "0 < k"
      by (auto simp: less_mult_imp_div_less mult.commute intro: gr0I)
    then have "length (nat_str (n div 10)) \<le> k" by (rule Suc.IH)
    with False show ?thesis by (subst nat_str.simps) simp
  qed
qed simp

lemma length_padStart_mod:
  "0 < k \<Longrightarrow> length (js_padStart k (CHR ''0'') (nat_str (n mod 10 ^ k))) = k"
  using length_nat_str_bound [of "n mod 10 ^ k" k] by (simp add: length_padStart max_def)

lemma padStart_digits: "c \<in> set (js_padStart k (CHR ''0'') (nat_str n)) \<Longrightarrow> is_digit_char c"
  by (auto simp: js_padStart_def is_digit_char_def dest: nat_str_digits [unfolded is_digit_char_def])

lemma fixed_str_value:
  assumes "0 < k"
  shows "of_nat (n div 10 ^ k)
       + frac_val (js_padStart k (CHR ''0'') (nat_str (n mod 10 ^ k))) = (of_nat n :: rat) / 10 ^ k"
proof -
  have "of_nat (n mod 10 ^ k) + 10 ^ k * of_nat (n div 10 ^ k) = (of_nat n :: rat)"
  proof -
    have "of_nat (n mod 10 ^ k + 10 ^ k * (n div 10 ^ k)) = (of_nat n :: rat)"
      by (simp only: mod_mult_div_eq)
    then show ?thesis by (simp only: of_nat_add of_nat_mult of_nat_power of_nat_numeral)
  qed
  then show ?thesis
    using assms by (simp add: frac_val_def digits_val_padStart length_padStart_mod field_simps)
qed

lemma decimal_value:
  assumes "decimal q"
  shows "of_nat (nat \<lfloor>\<bar>q\<bar> * 10 ^ dec_places 17 \<bar>q\<bar>\<rfloor>) / 10 ^ dec_places 17 \<bar>q\<bar> = \<bar>q\<bar>"
proof -
  let ?m = "\<bar>q\<bar> * 10 ^ dec_places 17 \<bar>q\<bar>"
  have "0 \<le> \<lfloor>?m\<rfloor>" by simp
  moreover have "of_int \<lfloor>?m\<rfloor> = ?m" using assms by (simp add: decimal_def is_int_rat_def)
  ultimately have "of_nat (nat \<lfloor>?m\<rfloor>) = ?m" by (metis of_int_of_nat_eq int_nat_eq)
  then show ?thesis by (metis nonzero_mult_div_cancel_right power_not_zero zero_neq_numeral)
qed

lemma decimal_of_int [simp]: "decimal (of_int i)"
  using is_int_rat_of_int [of "\<bar>i\<bar>"] by (simp add: decimal_def)

end
