(* ===== verification/Js_Uri.thy ===== *)
theory Js_Uri
  imports Hub_Prelude
begin

text \<open>
  URL text as the path builders produce it: \<open>encodeURIComponent\<close> and the
  \<open>URLSearchParams\<close> serialiser of the JavaScript library, their decoders, and the
  reading of a request target (path segments and query pairs) that a server makes of it.
  The decoders are the reference against which the builders of
  \<open>packages/shared/src/endpoints.ts\<close> are proved correct.
\<close>

named_theorems uri_simps \<open>reading back what the URL encoders write\<close>

section \<open>Percent encoding\<close>

definition hex_char :: "nat \<Rightarrow> char" where
  "hex_char n = (if n < 10 then char_of (48 + n) else char_of (55 + n))"

definition hex_val :: "char \<Rightarrow> nat option" where
  "hex_val c =
     (let n = (of_char c :: nat) in
      if 48 \<le> n \<and> n \<le> 57 then Some (n - 48)
      else if 65 \<le> n \<and> n \<le> 70 then Some (n - 55)
      else if 97 \<le> n \<and> n \<le> 102 then Some (n - 87)
      else None)"

definition pct_char :: "(char \<Rightarrow> bool) \<Rightarrow> char \<Rightarrow> string" where
  "pct_char keep c =
     (if keep c then [c]
      else [CHR ''%'', hex_char (of_char c div 16), hex_char (of_char c mod 16)])"

fun pct_decode :: "(char \<Rightarrow> char) \<Rightarrow> string \<Rightarrow> string option" where
  "pct_decode f [] = Some []"
| "pct_decode f (c # s) =
     (if c = CHR ''%'' then
        (case s of
           h # l # r \<Rightarrow>
             (case (hex_val h, hex_val l) of
                (Some a, Some b) \<Rightarrow> map_option ((#) (char_of (16 * a + b))) (pct_decode f r)
              | _ \<Rightarrow> None)
         | _ \<Rightarrow> None)
      else map_option ((#) (f c)) (pct_decode f s))"

lemma hex_val_hex_char [simp]: "n < 16 \<Longrightarrow> hex_val (hex_char n) = Some n"
  by (auto simp: hex_val_def hex_char_def Let_def)

lemma of_char_nibbles: "(of_char c :: nat) div 16 < 16" "(of_char c :: nat) mod 16 < 16"
  using of_char_less_256 [of c] by (simp_all add: less_mult_imp_div_less)

lemma pct_decode_chunk:
  assumes "keep c \<Longrightarrow> c \<noteq> CHR ''%'' \<and> f c = c"
  shows "pct_decode f (pct_char keep c @ rest) = map_option ((#) c) (pct_decode f rest)"
proof (cases "keep c")
  case True
  with assms show ?thesis by (simp add: pct_char_def)
next
  case False
  have "16 * ((of_char c :: nat) div 16) + of_char c mod 16 = of_char c"
    by simp
  with False show ?thesis by (simp add: pct_char_def of_char_nibbles)
qed

section \<open>\<open>encodeURIComponent\<close>\<close>

definition uri_unreserved :: "char \<Rightarrow> bool" where
  "uri_unreserved c \<longleftrightarrow> is_alnum_char c \<or> c \<in> set ''-_.!~*()'' \<or> c = CHR 0x27"

definition encodeURIComponent :: "string \<Rightarrow> string" where
  "encodeURIComponent s = concat (map (pct_char uri_unreserved) s)"

definition decodeURIComponent :: "string \<Rightarrow> string option" where
  "decodeURIComponent s = pct_decode (\<lambda>c. c) s"

lemma uri_unreserved_not_pct: "uri_unreserved c \<Longrightarrow> c \<noteq> CHR ''%''"
  by (auto simp: uri_unreserved_def is_alnum_char_def is_digit_char_def is_upper_char_def
      is_lower_char_def)

interpretation uri: text_codec "pct_char uri_unreserved" decodeURIComponent
proof unfold_locales
  show "decodeURIComponent (pct_char uri_unreserved c @ rest)
      = map_option ((#) c) (decodeURIComponent rest)" for c rest
    unfolding decodeURIComponent_def
    by (rule pct_decode_chunk) (simp add: uri_unreserved_not_pct)
  show "decodeURIComponent [] = Some []" by (simp add: decodeURIComponent_def)
qed

lemma decode_encodeURIComponent [uri_simps]: "decodeURIComponent (encodeURIComponent s) = Some s"
  unfolding encodeURIComponent_def by (rule uri.roundtrip)

lemma hex_char_alnum: "n < 16 \<Longrightarrow> is_alnum_char (hex_char n)"
  by (auto simp: hex_char_def is_alnum_char_def is_digit_char_def is_upper_char_def)

lemma pct_char_chars:
  "d \<in> set (pct_char keep c) \<Longrightarrow> keep d \<or> d = CHR ''%'' \<or> is_alnum_char d"
proof (cases "keep c")
  case False
  then show "d \<in> set (pct_char keep c) \<Longrightarrow> ?thesis"
    by (auto simp: pct_char_def hex_char_alnum of_char_nibbles)
qed (auto simp: pct_char_def)

lemma encodeURIComponent_chars:
  "d \<in> set (encodeURIComponent s) \<Longrightarrow> uri_unreserved d \<or> d = CHR ''%''"
  by (auto simp: encodeURIComponent_def uri_unreserved_def dest!: pct_char_chars)

definition uri_delimiter :: "char \<Rightarrow> bool" where
  "uri_delimiter c \<longleftrightarrow> c \<in> set ''/?#&=+ ''"

lemma encodeURIComponent_no_delimiter:
  "uri_delimiter d \<Longrightarrow> d \<notin> set (encodeURIComponent s)"
  by (auto simp: uri_delimiter_def uri_unreserved_def is_alnum_char_def is_digit_char_def
      is_upper_char_def is_lower_char_def dest!: encodeURIComponent_chars)

lemma encodeURIComponent_id:
  "(\<And>c. c \<in> set s \<Longrightarrow> uri_unreserved c) \<Longrightarrow> encodeURIComponent s = s"
  by (induction s) (auto simp: encodeURIComponent_def pct_char_def)

section \<open>\<open>URLSearchParams\<close>\<close>

type_synonym query = "(string \<times> string) list"

definition form_keep :: "char \<Rightarrow> bool" where
  "form_keep c \<longleftrightarrow> is_alnum_char c \<or> c \<in> set ''*-._''"

definition form_char :: "char \<Rightarrow> string" where
  "form_char c = (if c = CHR '' '' then ''+'' else pct_char form_keep c)"

definition form_encode :: "string \<Rightarrow> string" where
  "form_encode s = concat (map form_char s)"

definition form_decode :: "string \<Rightarrow> string option" where
  "form_decode s = pct_decode (\<lambda>c. if c = CHR ''+'' then CHR '' '' else c) s"

lemma form_keep_plain:
  "form_keep c \<Longrightarrow> c \<noteq> CHR ''%'' \<and> c \<noteq> CHR ''+'' \<and> c \<noteq> CHR '' ''
     \<and> c \<noteq> CHR ''&'' \<and> c \<noteq> CHR ''='' \<and> c \<noteq> CHR ''?'' \<and> c \<noteq> CHR ''#''"
  by (auto simp: form_keep_def is_alnum_char_def is_digit_char_def is_upper_char_def
      is_lower_char_def)

interpretation form: text_codec form_char form_decode
proof unfold_locales
  show "form_decode (form_char c @ rest) = map_option ((#) c) (form_decode rest)" for c rest
  proof (cases "c = CHR '' ''")
    case False
    then show ?thesis
      unfolding form_decode_def form_char_def
      using pct_decode_chunk [of form_keep c _ rest] form_keep_plain [of c] by simp
  qed (simp add: form_decode_def form_char_def)
  show "form_decode [] = Some []" by (simp add: form_decode_def)
qed

lemma form_encode_no_delimiter:
  assumes "d \<in> set (form_encode s)"
  shows "d \<noteq> CHR ''&'' \<and> d \<noteq> CHR ''='' \<and> d \<noteq> CHR ''?'' \<and> d \<noteq> CHR ''#''"
proof -
  from assms obtain c where "d \<in> set (form_char c)" by (auto simp: form_encode_def)
  then have "d = CHR ''+'' \<or> form_keep d \<or> d = CHR ''%'' \<or> is_alnum_char d"
    by (auto simp: form_char_def dest: pct_char_chars split: if_splits)
  then show ?thesis by (auto simp: form_keep_def is_alnum_char_def is_digit_char_def
      is_upper_char_def is_lower_char_def)
qed

text \<open>\<open>URLSearchParams.set\<close>: overwrite the first pair of that name and drop the others,
  or append.\<close>

fun usp_set :: "string \<Rightarrow> string \<Rightarrow> query \<Rightarrow> query" where
  "usp_set k v [] = [(k, v)]"
| "usp_set k v ((k', v') # q) =
     (if k' = k then (k, v) # filter (\<lambda>p. fst p \<noteq> k) q else (k', v') # usp_set k v q)"

definition usp_pair :: "string \<times> string \<Rightarrow> string" where
  "usp_pair p = form_encode (fst p) @ CHR ''='' # form_encode (snd p)"

definition usp_toString :: "query \<Rightarrow> string" where
  "usp_toString q = join_with (CHR ''&'') (map usp_pair q)"

definition cut_at :: "char \<Rightarrow> string \<Rightarrow> string \<times> string" where
  "cut_at c s = (takeWhile (\<lambda>x. x \<noteq> c) s, drop 1 (dropWhile (\<lambda>x. x \<noteq> c) s))"

fun all_some :: "'a option list \<Rightarrow> 'a list option" where
  "all_some [] = Some []"
| "all_some (None # xs) = None"
| "all_some (Some x # xs) = map_option ((#) x) (all_some xs)"

definition usp_parse_pair :: "string \<Rightarrow> (string \<times> string) option" where
  "usp_parse_pair s =
     (case (form_decode (fst (cut_at (CHR ''='') s)), form_decode (snd (cut_at (CHR ''='') s))) of
        (Some k, Some v) \<Rightarrow> Some (k, v)
      | _ \<Rightarrow> None)"

definition usp_parse :: "string \<Rightarrow> query option" where
  "usp_parse s =
     (if s = [] then Some []
      else all_some (map usp_parse_pair (js_split (CHR ''&'') s)))"

lemma cut_append: "c \<notin> set a \<Longrightarrow> cut_at c (a @ c # b) = (a, b)"
  unfolding cut_at_def by (subst takeWhile_append2, force, subst dropWhile_append2, force) simp

lemma cut_none: "c \<notin> set a \<Longrightarrow> cut_at c a = (a, [])"
  unfolding cut_at_def by (metis (mono_tags, lifting) drop_Nil dropWhile_eq_Nil_conv takeWhile_eq_all_conv)

lemma all_some_map_Some [simp]: "all_some (map (\<lambda>x. Some (f x)) xs) = Some (map f xs)"
  by (induction xs) auto

lemma usp_parse_pair_pair: "usp_parse_pair (usp_pair p) = Some p"
proof -
  have "CHR ''='' \<notin> set (form_encode (fst p))"
    using form_encode_no_delimiter by blast
  then show ?thesis
    using form.roundtrip by (simp add: usp_parse_pair_def usp_pair_def cut_append form_encode_def)
qed

lemma usp_pair_no_amp: "CHR ''&'' \<notin> set (usp_pair p)"
  unfolding usp_pair_def using form_encode_no_delimiter by auto

lemma usp_toString_Nil_iff: "usp_toString q = [] \<longleftrightarrow> q = []"
  by (cases q rule: remdups_adj.cases) (auto simp: usp_toString_def usp_pair_def)

lemma usp_roundtrip [uri_simps]: "usp_parse (usp_toString q) = Some q"
proof (cases "q = []")
  case True
  then show ?thesis by (simp add: usp_parse_def usp_toString_def)
next
  case False
  then have "js_split (CHR ''&'') (usp_toString q) = map usp_pair q"
    unfolding usp_toString_def using usp_pair_no_amp by (intro js_split_join) auto
  with False show ?thesis
    by (simp add: usp_parse_def usp_toString_Nil_iff comp_def usp_parse_pair_pair)
qed

section \<open>Request targets\<close>

text \<open>How a server reads a request target: the part before the first question mark,
  split at slashes and percent-decoded segment by segment, and the query after it.\<close>

definition target_segments :: "string \<Rightarrow> string list option" where
  "target_segments t =
     all_some (map decodeURIComponent (js_split (CHR ''/'') (fst (cut_at (CHR ''?'') t))))"

definition target_query :: "string \<Rightarrow> query option" where
  "target_query t = usp_parse (snd (cut_at (CHR ''?'') t))"

definition read_target :: "string \<Rightarrow> (string list \<times> query) option" where
  "read_target t =
     (case (target_segments t, target_query t) of
        (Some s, Some q) \<Rightarrow> Some (s, q)
      | _ \<Rightarrow> None)"

subsection \<open>Evaluating the reading of a target\<close>

text \<open>The rules that let the simplifier read a target made of literal text, encoded
  arguments and printed integers.\<close>

definition plain_text :: "string \<Rightarrow> bool" where
  "plain_text s \<longleftrightarrow> (\<forall>c \<in> set s. is_alnum_char c \<or> c \<in> set ''-_.'')"

lemma plain_text_no_special:
  "plain_text s \<Longrightarrow> d \<in> set ''/?#&=+% '' \<Longrightarrow> d \<notin> set s"
  by (auto simp: plain_text_def is_alnum_char_def is_digit_char_def is_upper_char_def
      is_lower_char_def)

lemma plain_text_int_str [simp]: "plain_text (int_str i)"
  by (auto simp: plain_text_def is_alnum_char_def dest!: int_str_chars)

lemma cut_Nil [uri_simps]: "cut_at c [] = ([], [])"
  by (simp add: cut_at_def)

lemma cut_Cons [uri_simps]: "cut_at c (x # xs) = (if x = c then ([], xs) else apfst ((#) x) (cut_at c xs))"
  by (simp add: cut_at_def)

lemma cut_app: "c \<notin> set p \<Longrightarrow> cut_at c (p @ xs) = apfst ((@) p) (cut_at c xs)"
  by (induction p; cases "cut_at c xs") (auto simp: cut_Cons)

lemma js_split_app:
  "c \<notin> set p \<Longrightarrow> js_split c (p @ s) = (p @ hd (js_split c s)) # tl (js_split c s)"
  by (induction p) (auto simp: neq_Nil_conv split: list.splits)

lemmas cut_arg [uri_simps] =
  cut_app [OF encodeURIComponent_no_delimiter]
  cut_none [OF encodeURIComponent_no_delimiter]
  cut_app [OF plain_text_no_special]
  cut_none [OF plain_text_no_special]

lemmas js_split_arg [uri_simps] =
  js_split_app [OF encodeURIComponent_no_delimiter]
  js_split_no_sep [OF encodeURIComponent_no_delimiter]
  js_split_app [OF plain_text_no_special]
  js_split_no_sep [OF plain_text_no_special]

lemma pct_decode_plain:
  "(\<And>c. c \<in> set s \<Longrightarrow> c \<noteq> CHR ''%'' \<and> f c = c) \<Longrightarrow> pct_decode f s = Some s"
  by (induction s) auto

lemma decode_plain [uri_simps]:
  "plain_text s \<Longrightarrow> decodeURIComponent s = Some s"
  "plain_text s \<Longrightarrow> form_decode s = Some s"
  unfolding decodeURIComponent_def form_decode_def
  by (rule pct_decode_plain, use plain_text_no_special [of s] in force)+

lemma form_decode_encodeURIComponent [uri_simps]:
  "form_decode (encodeURIComponent s) = Some s"
proof -
  have plus: "uri_unreserved c \<Longrightarrow> c \<noteq> CHR ''+''" for c
    by (auto simp: uri_unreserved_def is_alnum_char_def is_digit_char_def is_upper_char_def
        is_lower_char_def)
  have "form_decode (pct_char uri_unreserved c @ rest) = map_option ((#) c) (form_decode rest)"
    for c rest
    unfolding form_decode_def
    by (rule pct_decode_chunk) (auto simp: uri_unreserved_not_pct dest: plus)
  then show ?thesis
    unfolding encodeURIComponent_def
    by (induction s) (simp_all add: form_decode_def)
qed

lemma decode_Nil [uri_simps]: "decodeURIComponent [] = Some []" "form_decode [] = Some []"
  by (simp_all add: decodeURIComponent_def form_decode_def)

lemma decode_literal [uri_simps]:
  "c \<noteq> CHR ''%'' \<Longrightarrow> decodeURIComponent (c # s) = map_option ((#) c) (decodeURIComponent s)"
  "c \<noteq> CHR ''%'' \<Longrightarrow> c \<noteq> CHR ''+'' \<Longrightarrow> form_decode (c # s) = map_option ((#) c) (form_decode s)"
  by (simp_all add: decodeURIComponent_def form_decode_def)

lemmas read_target_simps =
  read_target_def target_segments_def target_query_def usp_parse_def usp_parse_pair_def
  uri_delimiter_def

end
