(* ===== verification/Js_Json.thy ===== *)
theory Js_Json
  imports Js_Number Js_Uri
begin

text \<open>
  JSON as the clients use it: \<open>JSON.stringify\<close> for request bodies and stored
  settings, \<open>JSON.parse\<close> for stored settings, event frames and responses. The parser
  follows the ECMAScript JSON grammar and returns \<open>None\<close> where \<open>JSON.parse\<close>
  throws. It recurses on fuel; \<open>JSON_parse\<close> supplies more than twice the length of
  the text, which the round trip below shows to be enough for every printed value.
\<close>

datatype json =
    JNull
  | JBool bool
  | JNum rat
  | JStr string
  | JArr "json list"
  | JObj "(string \<times> json) list"

section \<open>Printing\<close>

definition hex_char_lower :: "nat \<Rightarrow> char" where
  "hex_char_lower n = (if n < 10 then char_of (48 + n) else char_of (87 + n))"

definition json_esc :: "char \<Rightarrow> string" where
  "json_esc c =
     (if c = CHR 0x22 then [CHR 0x5C, CHR 0x22]
      else if c = CHR 0x5C then [CHR 0x5C, CHR 0x5C]
      else if c = CHR 0x08 then [CHR 0x5C, CHR ''b'']
      else if c = CHR 0x0C then [CHR 0x5C, CHR ''f'']
      else if c = CHR 0x0A then [CHR 0x5C, CHR ''n'']
      else if c = CHR 0x0D then [CHR 0x5C, CHR ''r'']
      else if c = CHR 0x09 then [CHR 0x5C, CHR ''t'']
      else if (of_char c :: nat) < 32 then
        [CHR 0x5C, CHR ''u'', CHR ''0'', CHR ''0'',
         hex_char_lower (of_char c div 16), hex_char_lower (of_char c mod 16)]
      else [c])"

definition json_quote :: "string \<Rightarrow> string" where
  "json_quote s = CHR 0x22 # concat (map json_esc s) @ [CHR 0x22]"

fun JSON_stringify :: "json \<Rightarrow> string"
and json_elems :: "json list \<Rightarrow> string"
and json_members :: "(string \<times> json) list \<Rightarrow> string" where
  "JSON_stringify JNull = ''null''"
| "JSON_stringify (JBool b) = (if b then ''true'' else ''false'')"
| "JSON_stringify (JNum q) = num_str q"
| "JSON_stringify (JStr s) = json_quote s"
| "JSON_stringify (JArr vs) = CHR ''['' # json_elems vs @ '']''"
| "JSON_stringify (JObj ms) = CHR ''{'' # json_members ms @ ''}''"
| "json_elems [] = []"
| "json_elems [v] = JSON_stringify v"
| "json_elems (v # w # vs) = JSON_stringify v @ CHR '','' # json_elems (w # vs)"
| "json_members [] = []"
| "json_members [(k, v)] = json_quote k @ CHR '':'' # JSON_stringify v"
| "json_members ((k, v) # m # ms) =
     json_quote k @ CHR '':'' # JSON_stringify v @ CHR '','' # json_members (m # ms)"

section \<open>Parsing\<close>

definition is_json_ws :: "char \<Rightarrow> bool" where
  "is_json_ws c \<longleftrightarrow> c = CHR '' '' \<or> c = CHR 0x09 \<or> c = CHR 0x0A \<or> c = CHR 0x0D"

definition skip_ws :: "string \<Rightarrow> string" where
  "skip_ws s = dropWhile is_json_ws s"

text \<open>A code point as UTF-8; a lone surrogate keeps its three-byte form.\<close>

definition utf8 :: "nat \<Rightarrow> string" where
  "utf8 n =
     (if n < 128 then [char_of n]
      else if n < 2048 then [char_of (192 + n div 64), char_of (128 + n mod 64)]
      else if n < 65536 then
        [char_of (224 + n div 4096), char_of (128 + n div 64 mod 64), char_of (128 + n mod 64)]
      else
        [char_of (240 + n div 262144), char_of (128 + n div 4096 mod 64),
         char_of (128 + n div 64 mod 64), char_of (128 + n mod 64)])"

fun hex4 :: "string \<Rightarrow> (nat \<times> string) option" where
  "hex4 (a # b # c # d # r) =
     (case (hex_val a, hex_val b, hex_val c, hex_val d) of
        (Some x, Some y, Some z, Some w) \<Rightarrow> Some (4096 * x + 256 * y + 16 * z + w, r)
      | _ \<Rightarrow> None)"
| "hex4 _ = None"

text \<open>The text after \<open>\u\<close>: one escape, or a surrogate pair of two.\<close>

definition unicode_escape :: "string \<Rightarrow> (string \<times> string) option" where
  "unicode_escape s =
     (case hex4 s of
        None \<Rightarrow> None
      | Some (hi, r) \<Rightarrow>
          if 55296 \<le> hi \<and> hi < 56320 \<and> js_startsWith r [CHR 0x5C, CHR ''u''] then
            (case hex4 (drop 2 r) of
               None \<Rightarrow> None
             | Some (lo, r') \<Rightarrow>
                 if 56320 \<le> lo \<and> lo < 57344
                 then Some (utf8 (65536 + (hi - 55296) * 1024 + (lo - 56320)), r')
                 else Some (utf8 hi, r))
          else Some (utf8 hi, r))"

definition simple_escape :: "char \<Rightarrow> char option" where
  "simple_escape e =
     (if e = CHR 0x22 then Some (CHR 0x22)
      else if e = CHR 0x5C then Some (CHR 0x5C)
      else if e = CHR ''/'' then Some (CHR ''/'')
      else if e = CHR ''b'' then Some (CHR 0x08)
      else if e = CHR ''f'' then Some (CHR 0x0C)
      else if e = CHR ''n'' then Some (CHR 0x0A)
      else if e = CHR ''r'' then Some (CHR 0x0D)
      else if e = CHR ''t'' then Some (CHR 0x09)
      else None)"

lemma hex4_shorter: "hex4 s = Some (n, r) \<Longrightarrow> length r < length s"
  by (cases s rule: hex4.cases) (auto split: option.splits)

lemma unicode_escape_shorter: "unicode_escape s = Some (u, r) \<Longrightarrow> length r < length s"
  by (auto simp: unicode_escape_def split: option.splits if_splits dest!: hex4_shorter)

text \<open>A string literal after its opening quote.\<close>

function parse_string :: "string \<Rightarrow> (string \<times> string) option" where
  "parse_string [] = None"
| "parse_string (c # s) =
     (if c = CHR 0x22 then Some ([], s)
      else if c = CHR 0x5C then
        (case s of
           [] \<Rightarrow> None
         | e # r \<Rightarrow>
             if e = CHR ''u'' then
               (case unicode_escape r of
                  None \<Rightarrow> None
                | Some (u, r') \<Rightarrow> map_option (apfst ((@) u)) (parse_string r'))
             else
               (case simple_escape e of
                  None \<Rightarrow> None
                | Some x \<Rightarrow> map_option (apfst ((#) x)) (parse_string r)))
      else if (of_char c :: nat) < 32 then None
      else map_option (apfst ((#) c)) (parse_string s))"
  by pat_completeness auto
termination
  by (relation "measure length") (auto dest: unicode_escape_shorter)

definition parse_digits :: "string \<Rightarrow> (string \<times> string) option" where
  "parse_digits s =
     (if takeWhile is_digit_char s = [] then None
      else Some (takeWhile is_digit_char s, dropWhile is_digit_char s))"

definition parse_int_part :: "string \<Rightarrow> (string \<times> string) option" where
  "parse_int_part s =
     (case s of
        [] \<Rightarrow> None
      | c # r \<Rightarrow> if c = CHR ''0'' then Some (''0'', r) else parse_digits s)"

definition parse_frac :: "string \<Rightarrow> (rat \<times> string) option" where
  "parse_frac s =
     (case s of
        [] \<Rightarrow> Some (0, [])
      | c # r \<Rightarrow> if c = CHR ''.'' then map_option (apfst frac_val) (parse_digits r) else Some (0, s))"

definition parse_exp :: "string \<Rightarrow> (rat \<times> string) option" where
  "parse_exp s =
     (case s of
        [] \<Rightarrow> Some (1, [])
      | c # r \<Rightarrow>
          if c = CHR ''e'' \<or> c = CHR ''E'' then
            (case r of
               [] \<Rightarrow> None
             | d # r' \<Rightarrow>
                 if d = CHR ''-'' then map_option (apfst (\<lambda>ds. 1 / 10 ^ digits_val ds)) (parse_digits r')
                 else if d = CHR ''+'' then map_option (apfst (\<lambda>ds. 10 ^ digits_val ds)) (parse_digits r')
                 else map_option (apfst (\<lambda>ds. 10 ^ digits_val ds)) (parse_digits r))
          else Some (1, s))"

definition parse_unsigned :: "string \<Rightarrow> (rat \<times> string) option" where
  "parse_unsigned s =
     (case parse_int_part s of
        None \<Rightarrow> None
      | Some (ds, r) \<Rightarrow>
          (case parse_frac r of
             None \<Rightarrow> None
           | Some (f, r') \<Rightarrow>
               map_option (apfst (\<lambda>e. (of_nat (digits_val ds) + f) * e)) (parse_exp r')))"

definition parse_number :: "string \<Rightarrow> (rat \<times> string) option" where
  "parse_number s =
     (case s of
        [] \<Rightarrow> None
      | c # r \<Rightarrow> if c = CHR ''-'' then map_option (apfst uminus) (parse_unsigned r) else parse_unsigned s)"

definition parse_literal :: "string \<Rightarrow> json \<Rightarrow> string \<Rightarrow> (json \<times> string) option" where
  "parse_literal w v s = (if js_startsWith s w then Some (v, drop (length w) s) else None)"

fun parse_value :: "nat \<Rightarrow> string \<Rightarrow> (json \<times> string) option"
and parse_elems :: "nat \<Rightarrow> string \<Rightarrow> (json list \<times> string) option"
and parse_members :: "nat \<Rightarrow> string \<Rightarrow> ((string \<times> json) list \<times> string) option" where
  "parse_value 0 s = None"
| "parse_value (Suc n) s =
     (case skip_ws s of
        [] \<Rightarrow> None
      | c # r \<Rightarrow>
          if c = CHR ''{'' then
            (if js_startsWith (skip_ws r) ''}'' then Some (JObj [], drop 1 (skip_ws r))
             else map_option (apfst JObj) (parse_members n r))
          else if c = CHR ''['' then
            (if js_startsWith (skip_ws r) '']'' then Some (JArr [], drop 1 (skip_ws r))
             else map_option (apfst JArr) (parse_elems n r))
          else if c = CHR 0x22 then map_option (apfst JStr) (parse_string r)
          else if c = CHR ''t'' then parse_literal ''true'' (JBool True) (c # r)
          else if c = CHR ''f'' then parse_literal ''false'' (JBool False) (c # r)
          else if c = CHR ''n'' then parse_literal ''null'' JNull (c # r)
          else map_option (apfst JNum) (parse_number (c # r)))"
| "parse_elems 0 s = None"
| "parse_elems (Suc n) s =
     (case parse_value n s of
        None \<Rightarrow> None
      | Some (v, r) \<Rightarrow>
          (case skip_ws r of
             [] \<Rightarrow> None
           | c # r' \<Rightarrow>
               if c = CHR '','' then map_option (apfst ((#) v)) (parse_elems n r')
               else if c = CHR '']'' then Some ([v], r')
               else None))"
| "parse_members 0 s = None"
| "parse_members (Suc n) s =
     (case skip_ws s of
        [] \<Rightarrow> None
      | q # s' \<Rightarrow>
          if q \<noteq> CHR 0x22 then None
          else
            (case parse_string s' of
               None \<Rightarrow> None
             | Some (k, r) \<Rightarrow>
                 if \<not> js_startsWith (skip_ws r) '':'' then None
                 else
                   (case parse_value n (drop 1 (skip_ws r)) of
                      None \<Rightarrow> None
                    | Some (v, r1) \<Rightarrow>
                        (case skip_ws r1 of
                           [] \<Rightarrow> None
                         | c # r2 \<Rightarrow>
                             if c = CHR '','' then map_option (apfst ((#) (k, v))) (parse_members n r2)
                             else if c = CHR ''}'' then Some ([(k, v)], r2)
                             else None))))"

definition JSON_parse :: "string \<Rightarrow> json option" where
  "JSON_parse s =
     (case parse_value (2 * length s + 2) s of
        Some (v, r) \<Rightarrow> if skip_ws r = [] then Some v else None
      | None \<Rightarrow> None)"

text \<open>Property access on a parsed value: the last member of that name wins.\<close>

fun json_get :: "string \<Rightarrow> json \<Rightarrow> json option" where
  "json_get k (JObj ms) = map_of (rev ms) k"
| "json_get k _ = None"

section \<open>Printed values parse back\<close>

subsection \<open>Strings\<close>

lemma hex_val_hex_char_lower [simp]: "n < 16 \<Longrightarrow> hex_val (hex_char_lower n) = Some n"
  by (auto simp: hex_val_def hex_char_lower_def Let_def)

lemma of_char_small: "(of_char c :: nat) < 32 \<Longrightarrow> utf8 (of_char c) = [c]"
  by (simp add: utf8_def)

lemma unicode_escape_control:
  assumes "(of_char c :: nat) < 32"
  shows "unicode_escape (CHR ''0'' # CHR ''0'' # hex_char_lower (of_char c div 16)
           # hex_char_lower (of_char c mod 16) # rest) = Some ([c], rest)"
proof -
  have "hex_val (CHR ''0'') = Some 0" by (simp add: hex_val_def)
  moreover have "16 * ((of_char c :: nat) div 16) + of_char c mod 16 = of_char c" by simp
  ultimately show ?thesis
    using assms by (simp add: unicode_escape_def of_char_nibbles of_char_small)
qed

lemma parse_string_esc:
  "parse_string (json_esc c @ rest) = map_option (apfst ((#) c)) (parse_string rest)"
  by (simp add: json_esc_def simple_escape_def unicode_escape_control Cons_eq_append_conv
      apfst_def map_prod_def)

interpretation json_text: chunk_codec json_esc parse_string "\<lambda>c. apfst ((#) c)"
  by unfold_locales (rule parse_string_esc)

lemma foldr_apfst_Cons: "foldr (\<lambda>c. apfst ((#) c)) s (xs, r) = (s @ xs, r)"
  by (induction s) simp_all

lemma parse_string_quote:
  "parse_string (concat (map json_esc s) @ CHR 0x22 # rest) = Some (s, rest)"
  using json_text.dec_chunks [of s "CHR 0x22 # rest"] by (simp add: foldr_apfst_Cons)

subsection \<open>Numbers\<close>

definition number_end :: "string \<Rightarrow> bool" where
  "number_end r \<longleftrightarrow>
     r = [] \<or> \<not> (is_digit_char (hd r) \<or> hd r = CHR ''.'' \<or> hd r = CHR ''e'' \<or> hd r = CHR ''E'')"

lemma parse_digits_append:
  assumes "ds \<noteq> []" and "\<And>c. c \<in> set ds \<Longrightarrow> is_digit_char c"
    and "r = [] \<or> \<not> is_digit_char (hd r)"
  shows "parse_digits (ds @ r) = Some (ds, r)"
proof -
  have "takeWhile is_digit_char (ds @ r) = ds" and "dropWhile is_digit_char (ds @ r) = r"
    using assms by (cases r; auto simp: takeWhile_append dropWhile_append)+
  with assms(1) show ?thesis by (simp add: parse_digits_def)
qed

lemma parse_int_part_nat_str:
  assumes "r = [] \<or> \<not> is_digit_char (hd r)"
  shows "parse_int_part (nat_str n @ r) = Some (nat_str n, r)"
proof (cases "n = 0")
  case True
  then show ?thesis by (simp add: parse_int_part_def nat_str_0)
next
  case False
  obtain c cs where "nat_str n = c # cs" by (meson nat_str_not_Nil neq_Nil_conv)
  with nat_str_hd_zero [OF False] have "parse_int_part (nat_str n @ r) = parse_digits (nat_str n @ r)"
    by (simp add: parse_int_part_def)
  then show ?thesis
    using assms nat_str_digits by (simp add: parse_digits_append)
qed

lemma parse_exp_end: "number_end r \<Longrightarrow> parse_exp r = Some (1, r)"
  by (cases r) (auto simp: parse_exp_def number_end_def)

lemma parse_frac_end: "number_end r \<Longrightarrow> parse_frac r = Some (0, r)"
  by (cases r) (auto simp: parse_frac_def number_end_def)

lemma parse_unsigned_fixed:
  assumes "number_end r"
  shows "parse_unsigned (fixed_str k n @ r) = Some (of_nat n / 10 ^ k, r)"
proof (cases "k = 0")
  case True
  have "r = [] \<or> \<not> is_digit_char (hd r)" using assms by (auto simp: number_end_def)
  with True assms show ?thesis
    by (simp add: parse_unsigned_def fixed_str_def parse_int_part_nat_str parse_frac_end parse_exp_end)
next
  case False
  define ds where "ds = js_padStart k (CHR ''0'') (nat_str (n mod 10 ^ k))"
  have ds: "ds \<noteq> []" "\<And>c. c \<in> set ds \<Longrightarrow> is_digit_char c"
    using padStart_digits by (auto simp: ds_def js_padStart_def)
  have dot: "\<not> is_digit_char (CHR ''.'')" by (simp add: is_digit_char_def)
  have "parse_digits (ds @ r) = Some (ds, r)"
    using ds assms by (intro parse_digits_append) (auto simp: number_end_def)
  then have "parse_frac (CHR ''.'' # ds @ r) = Some (frac_val ds, r)"
    by (simp add: parse_frac_def)
  with False dot assms show ?thesis
    using fixed_str_value [of k n]
    by (simp add: parse_unsigned_def fixed_str_def parse_int_part_nat_str parse_exp_end
        flip: ds_def)
qed

lemma fixed_str_hd: "is_digit_char (hd (fixed_str k n @ r))" and fixed_str_not_Nil: "fixed_str k n \<noteq> []"
proof -
  have "is_digit_char (hd (nat_str m))" for m
    by (rule nat_str_digits [of _ m]) simp
  then show "is_digit_char (hd (fixed_str k n @ r))"
    by (simp add: fixed_str_def)
  show "fixed_str k n \<noteq> []" by (simp add: fixed_str_def)
qed

lemma parse_number_num_str:
  assumes "decimal q" and "number_end r"
  shows "parse_number (num_str q @ r) = Some (q, r)"
proof -
  define s where "s = fixed_str (dec_places 17 \<bar>q\<bar>) (nat \<lfloor>\<bar>q\<bar> * 10 ^ dec_places 17 \<bar>q\<bar>\<rfloor>)"
  have abs: "parse_unsigned (s @ r) = Some (\<bar>q\<bar>, r)"
    unfolding s_def using assms decimal_value by (simp add: parse_unsigned_fixed)
  have num: "num_str q = (if q < 0 then CHR ''-'' # s else s)"
    by (simp add: num_str_def s_def Let_def)
  have minus: "\<not> is_digit_char (CHR ''-'')" by (simp add: is_digit_char_def)
  have "s @ r \<noteq> []" and "is_digit_char (hd (s @ r))"
    using fixed_str_hd fixed_str_not_Nil by (simp_all add: s_def)
  then obtain c cs where cs: "s @ r = c # cs" and "c \<noteq> CHR ''-''"
    using minus by (cases "s @ r") auto
  then have "parse_number (s @ r) = parse_unsigned (s @ r)"
    by (simp add: parse_number_def)
  with abs num show ?thesis by (auto simp: parse_number_def)
qed

lemma num_str_hd: "hd (num_str q @ r) = CHR ''-'' \<or> is_digit_char (hd (num_str q @ r))"
  and num_str_not_Nil: "num_str q \<noteq> []"
  using fixed_str_hd fixed_str_not_Nil by (auto simp: num_str_def Let_def)

subsection \<open>Values\<close>

text \<open>Every number of the value prints exactly (at most 17 decimals).\<close>

fun json_exact :: "json \<Rightarrow> bool" where
  "json_exact (JNum q) = decimal q"
| "json_exact (JArr vs) = (\<forall>v \<in> set vs. json_exact v)"
| "json_exact (JObj ms) = (\<forall>m \<in> set ms. json_exact (snd m))"
| "json_exact _ = True"

definition value_start :: "char \<Rightarrow> bool" where
  "value_start c \<longleftrightarrow> c \<in> set ''{[tfn-'' \<or> c = CHR 0x22 \<or> is_digit_char c"

lemma value_start_props:
  "value_start c \<Longrightarrow> \<not> is_json_ws c \<and> c \<noteq> CHR '']'' \<and> c \<noteq> CHR ''}''"
  by (auto simp: value_start_def is_json_ws_def is_digit_char_def)

lemma stringify_start: "\<exists>c cs. JSON_stringify v = c # cs \<and> value_start c"
proof (cases v)
  case (JNum q)
  then show ?thesis
    using num_str_hd [of q "[]"] num_str_not_Nil [of q]
    by (cases "num_str q") (auto simp: value_start_def)
qed (auto simp: value_start_def json_quote_def)

lemma skip_ws_Cons [simp]: "\<not> is_json_ws c \<Longrightarrow> skip_ws (c # s) = c # s"
  by (simp add: skip_ws_def)

lemma skip_ws_stringify [simp]: "skip_ws (JSON_stringify v @ r) = JSON_stringify v @ r"
  using stringify_start [of v] value_start_props by auto

lemma json_ws_literals [simp]:
  "\<not> is_json_ws (CHR '','')" "\<not> is_json_ws (CHR '']'')" "\<not> is_json_ws (CHR ''}'')"
  "\<not> is_json_ws (CHR '':'')" "\<not> is_json_ws (CHR 0x22)" "\<not> is_json_ws (CHR ''['')"
  "\<not> is_json_ws (CHR ''{'')" "\<not> is_json_ws (CHR ''t'')" "\<not> is_json_ws (CHR ''f'')"
  "\<not> is_json_ws (CHR ''n'')"
  by (simp_all add: is_json_ws_def)

lemma number_end_delim [simp]:
  "number_end []" "number_end (CHR '','' # r)" "number_end (CHR '']'' # r)"
  "number_end (CHR ''}'' # r)"
  by (simp_all add: number_end_def is_digit_char_def)

lemma parse_value_number:
  assumes "decimal q" and "number_end r"
  shows "parse_value (Suc n) (num_str q @ r) = Some (JNum q, r)"
proof -
  obtain c cs where cs: "num_str q @ r = c # cs" and c: "c = CHR ''-'' \<or> is_digit_char c"
    using num_str_hd [of q r] num_str_not_Nil [of q] by (cases "num_str q @ r") auto
  have "\<not> is_json_ws c" using c by (auto simp: is_json_ws_def is_digit_char_def)
  moreover have "c \<notin> {CHR ''{'', CHR ''['', CHR 0x22, CHR ''t'', CHR ''f'', CHR ''n''}"
    using c by (auto simp: is_digit_char_def)
  ultimately show ?thesis
    using parse_number_num_str [OF assms] cs by simp
qed

lemma elems_start:
  assumes "vs \<noteq> []"
  shows "\<exists>c cs. json_elems vs @ r = c # cs \<and> value_start c"
proof -
  obtain v vs' where "vs = v # vs'" using assms by (cases vs) auto
  then show ?thesis using stringify_start [of v] by (cases vs') auto
qed

lemma members_start: "ms \<noteq> [] \<Longrightarrow> \<exists>cs. json_members ms @ r = CHR 0x22 # cs"
  by (cases ms rule: json_members.cases) (auto simp: json_quote_def)

lemma parse_printed:
  "json_exact v \<Longrightarrow> number_end r \<Longrightarrow> 2 * length (JSON_stringify v) \<le> n \<Longrightarrow>
     parse_value (Suc n) (JSON_stringify v @ r) = Some (v, r)"
  "(\<forall>v \<in> set vs. json_exact v) \<Longrightarrow> vs \<noteq> [] \<Longrightarrow> 2 * length (json_elems vs) + 1 \<le> n \<Longrightarrow>
     parse_elems (Suc n) (json_elems vs @ CHR '']'' # r) = Some (vs, r)"
  "(\<forall>m \<in> set ms. json_exact (snd m)) \<Longrightarrow> ms \<noteq> [] \<Longrightarrow> 2 * length (json_members ms) + 1 \<le> n \<Longrightarrow>
     parse_members (Suc n) (json_members ms @ CHR ''}'' # r) = Some (ms, r)"
proof (induction v and vs and ms arbitrary: n r and n r and n r
    rule: JSON_stringify_json_elems_json_members.induct)
  case (3 q)
  then show ?case by (simp only: JSON_stringify.simps json_exact.simps parse_value_number)
next
  case (4 s)
  then show ?case by (simp add: json_quote_def parse_string_quote)
next
  case (5 vs)
  show ?case
  proof (cases "vs = []")
    case False
    from 5 obtain m where m: "n = Suc m" and le: "2 * length (json_elems vs) + 1 \<le> m"
      by (cases n) auto
    obtain c cs where "json_elems vs @ CHR '']'' # r = c # cs" and "value_start c"
      using elems_start [OF False] by blast
    then have "\<not> js_startsWith (skip_ws (json_elems vs @ CHR '']'' # r)) '']''"
      using value_start_props by auto
    with 5 False m le show ?thesis by simp
  qed simp
next
  case (6 ms)
  show ?case
  proof (cases "ms = []")
    case False
    from 6 obtain m where m: "n = Suc m" and le: "2 * length (json_members ms) + 1 \<le> m"
      by (cases n) auto
    obtain cs where "json_members ms @ CHR ''}'' # r = CHR 0x22 # cs"
      using members_start [OF False] by blast
    then have "\<not> js_startsWith (skip_ws (json_members ms @ CHR ''}'' # r)) ''}''"
      by auto
    with 6 False m le show ?thesis by simp
  qed simp
next
  case (8 v)
  then obtain m where "n = Suc m" by (cases n) auto
  with 8 show ?case by simp
next
  case (9 v w vs)
  then obtain m where "n = Suc m" by (cases n) auto
  with 9 show ?case by simp
next
  case (11 k v)
  then obtain m where "n = Suc m" by (cases n) auto
  with 11 show ?case by (simp add: json_quote_def parse_string_quote)
next
  case (12 k v m ms)
  then obtain n' where "n = Suc n'" by (cases n) auto
  with 12 show ?case by (simp add: json_quote_def parse_string_quote)
qed (simp_all add: parse_literal_def)

lemma JSON_parse_stringify: "json_exact v \<Longrightarrow> JSON_parse (JSON_stringify v) = Some v"
  using parse_printed(1) [of v "[]" "2 * length (JSON_stringify v) + 1"]
  by (simp add: JSON_parse_def skip_ws_def)

end
