(* ===== verification/Api_Status.thy ===== *)
theory Api_Status
  imports Js_Number
begin

text \<open>
  The pure helpers of \<open>packages/shared/src/api-types.ts\<close>: the three-way query state, the
  fleet status and the business status with its tone ranking, and the plain-language alert
  descriptions. Dashes and apostrophes of the source texts are written by their UTF-8 bytes.
\<close>

section \<open>Query state\<close>

datatype QueryState = QLoading | QError | QReady

record QueryArgs =
  q_hasData :: bool
  q_isLoading :: bool
  q_isError :: bool

definition queryState :: "QueryArgs \<Rightarrow> QueryState" where
  "queryState a =
     (if q_hasData a then QReady
      else if q_isError a \<and> \<not> q_isLoading a then QError
      else QLoading)"

section \<open>Fleet status\<close>

datatype FleetStatus = Sailing | Choppy | Lost | Docked

definition toFleetStatus :: "string option \<Rightarrow> FleetStatus" where
  "toFleetStatus raw =
     (let s = js_toLowerCase (or_else raw []) in
      if s = ''healthy'' \<or> s = ''running'' \<or> s = ''success'' \<or> s = ''ok'' then Sailing
      else if s = ''degraded'' \<or> s = ''choppy'' \<or> s = ''running_partial'' then Choppy
      else if s = ''down'' \<or> s = ''failed'' \<or> s = ''error'' then Lost
      else Docked)"

fun fleetLabel :: "FleetStatus \<Rightarrow> string" where
  "fleetLabel Sailing = ''Working''"
| "fleetLabel Choppy = ''Needs attention''"
| "fleetLabel Lost = ''Down''"
| "fleetLabel Docked = ''Stopped''"

section \<open>Business status\<close>

datatype BusinessTone = Working | Attention | Down | Stopped | Unknown

record BusinessStatus =
  tone :: BusinessTone
  label :: string

definition BUSINESS_WORKING :: "string list" where
  "BUSINESS_WORKING =
     [''sailing'', ''healthy'', ''ok'', ''success'', ''successful'', ''running'',
      ''up'', ''online'', ''nominal'', ''resolved'', ''reachable'', ''passing'', ''pass'', ''good'']"

definition BUSINESS_ATTENTION :: "string list" where
  "BUSINESS_ATTENTION =
     [''choppy'', ''degraded'', ''warning'', ''watch'', ''unstable'', ''flapping'']"

definition BUSINESS_DOWN :: "string list" where
  "BUSINESS_DOWN =
     [''lost'', ''down'', ''failed'', ''failure'', ''error'', ''critical'', ''offline'',
      ''disconnected'', ''alert'', ''firing'', ''triggered'', ''unreachable'']"

definition BUSINESS_STOPPED :: "string list" where
  "BUSINESS_STOPPED =
     [''docked'', ''stopped'', ''paused'', ''idle'', ''standby'', ''disabled'']"

definition toBusinessStatus :: "string option \<Rightarrow> BusinessStatus" where
  "toBusinessStatus raw =
     (let s = js_toLowerCase (js_trim (or_else raw [])) in
      if s \<in> set BUSINESS_WORKING then \<lparr>tone = Working, label = ''Working''\<rparr>
      else if s \<in> set BUSINESS_ATTENTION then \<lparr>tone = Attention, label = ''Needs attention''\<rparr>
      else if s \<in> set BUSINESS_DOWN then \<lparr>tone = Down, label = ''Down''\<rparr>
      else if s \<in> set BUSINESS_STOPPED then \<lparr>tone = Stopped, label = ''Stopped''\<rparr>
      else \<lparr>tone = Unknown, label = ''Unknown''\<rparr>)"

fun toneRank :: "BusinessTone \<Rightarrow> nat" where
  "toneRank Down = 0"
| "toneRank Attention = 1"
| "toneRank Unknown = 2"
| "toneRank Stopped = 3"
| "toneRank Working = 4"

section \<open>Alert descriptions\<close>

record AlertDescription =
  ad_what :: string
  ad_next :: string

record AlertArgs =
  al_condition :: string
  al_message :: "string option"
  al_severity :: "string option"
  al_source :: "string option"
  al_threshold :: "rat option"

abbreviation em_dash :: string where
  "em_dash \<equiv> [CHR 0xE2, CHR 0x80, CHR 0x94]"

abbreviation apos :: string where
  "apos \<equiv> [CHR 0x27]"

definition resolveNote :: string where
  "resolveNote = ''Resolving marks it handled, but doesn'' @ apos @ ''t fix the cause ''
     @ em_dash @ '' act first, then resolve.''"

definition alert_hay :: "AlertArgs \<Rightarrow> string" where
  "alert_hay a = js_toLowerCase (al_condition a @ '' '' @ or_else (al_message a) [])"

definition alert_limit :: "AlertArgs \<Rightarrow> string" where
  "alert_limit a =
     (case al_threshold a of
        Some t \<Rightarrow> if t > 0 then '' (alert limit '' @ num_str t @ '')'' else []
      | None \<Rightarrow> [])"

definition mentions :: "string \<Rightarrow> string list \<Rightarrow> bool" where
  "mentions hay ws \<longleftrightarrow> (\<exists>w \<in> set ws. js_includes hay w)"

definition OFFLINE_WORDS :: "string list" where
  "OFFLINE_WORDS = [''offline'', ''disconnected'', ''heartbeat'', ''agent'']"

definition CPU_WORDS :: "string list" where
  "CPU_WORDS = [''cpu'', ''processor'', ''load'']"

definition MEM_WORDS :: "string list" where
  "MEM_WORDS = [''mem'', ''ram'']"

definition DISK_WORDS :: "string list" where
  "DISK_WORDS = [''disk'', ''storage'', ''space'']"

definition CHECK_WORDS :: "string list" where
  "CHECK_WORDS = [''http'', ''tcp'', ''ping'', ''health check'', ''healthcheck'',
     ''website'', ''url'', ''endpoint'']"

definition describeAlert :: "AlertArgs \<Rightarrow> AlertDescription" where
  "describeAlert a =
     (let hay = alert_hay a; limit = alert_limit a in
      if mentions hay OFFLINE_WORDS then
        \<lparr>ad_what = ''This server stopped reporting in.'',
         ad_next = ''Check that the machine is powered on and connected to the network, then make sure its monitoring agent is running. The alert clears on the next successful check-in. '' @ resolveNote\<rparr>
      else if mentions hay CPU_WORDS then
        \<lparr>ad_what = ''This machine is working very hard '' @ em_dash @ '' processor use is above its normal range'' @ limit @ ''.'',
         ad_next = ''Find the busiest app and restart it from its project page. If this happens during normal use, the machine may need more capacity. '' @ resolveNote\<rparr>
      else if mentions hay MEM_WORDS then
        \<lparr>ad_what = ''This machine is running low on memory'' @ limit @ ''.'',
         ad_next = ''Restart the busiest app to free memory. If it keeps happening, the machine may need more memory. '' @ resolveNote\<rparr>
      else if mentions hay DISK_WORDS then
        \<lparr>ad_what = ''This machine is running low on disk space'' @ limit @ ''.'',
         ad_next = ''Delete or move unneeded files, old backups, or old uploads, then watch for the all-clear. '' @ resolveNote\<rparr>
      else if mentions hay CHECK_WORDS then
        \<lparr>ad_what = ''A website or service check failed '' @ em_dash @ '' it didn'' @ apos @ ''t respond in time.'',
         ad_next = ''Open the site in a browser. If it'' @ apos @ ''s down, restart the related project, then re-run the check from Website checks. '' @ resolveNote\<rparr>
      else if js_toLowerCase (or_else (al_source a) []) = ''alertmanager'' then
        \<lparr>ad_what = ''An external monitor raised this alert.'',
         ad_next = ''Open Monitoring for the full details and fix the underlying issue there. '' @ resolveNote\<rparr>
      else
        \<lparr>ad_what = (if js_truthy (al_message a) then or_else (al_message a) [] else ''Something crossed an alert limit.''),
         ad_next = ''Open the related page to investigate. '' @ resolveNote\<rparr>)"

section \<open>Properties\<close>

lemma is_space_lower_char [simp]: "is_space_char (lower_char c) \<longleftrightarrow> is_space_char c"
  by (auto simp: lower_char_def is_upper_char_def is_space_char_def)

lemma lower_trim: "js_toLowerCase (js_trim s) = js_trim (js_toLowerCase s)"
  by (simp add: js_toLowerCase_def js_trim_def js_trimEnd_def js_trimStart_def rev_map
      dropWhile_map comp_def)

lemma business_cases:
  "toBusinessStatus raw = \<lparr>tone = t, label = l\<rparr> \<Longrightarrow>
     (t, l) \<in> {(Working, ''Working''), (Attention, ''Needs attention''), (Down, ''Down''),
              (Stopped, ''Stopped''), (Unknown, ''Unknown'')}"
  by (auto simp: toBusinessStatus_def Let_def split: if_splits)

lemma trim_keyword:
  assumes "js_toLowerCase s = w" and "w \<noteq> []" and "\<not> is_space_char (hd w)" and "\<not> is_space_char (last w)"
  shows "js_toLowerCase (js_trim s) = w"
  using assms by (simp add: lower_trim js_trim_fixed)

definition business_key :: "string option \<Rightarrow> string" where
  "business_key raw = js_toLowerCase (js_trim (or_else raw []))"

lemma business_words_disjoint:
  "set BUSINESS_WORKING \<inter> set BUSINESS_ATTENTION = {}"
  "set BUSINESS_WORKING \<inter> set BUSINESS_DOWN = {}"
  "set BUSINESS_WORKING \<inter> set BUSINESS_STOPPED = {}"
  "set BUSINESS_ATTENTION \<inter> set BUSINESS_DOWN = {}"
  "set BUSINESS_ATTENTION \<inter> set BUSINESS_STOPPED = {}"
  "set BUSINESS_DOWN \<inter> set BUSINESS_STOPPED = {}"
  by (simp_all add: BUSINESS_WORKING_def BUSINESS_ATTENTION_def BUSINESS_DOWN_def BUSINESS_STOPPED_def)

text \<open>\<open>toBusinessStatus\<close> decides each tone by its own word set, independently of
  the order of the tests: the sets are disjoint, every word of a set gets that tone after
  trimming and lower-casing, and input outside all four sets is \<open>Unknown\<close>, never
  \<open>Working\<close>. The label is a function of the tone.\<close>

lemma business_status_exact:
  "(tone (toBusinessStatus raw) = Working \<longleftrightarrow> business_key raw \<in> set BUSINESS_WORKING)
   \<and> (tone (toBusinessStatus raw) = Attention \<longleftrightarrow> business_key raw \<in> set BUSINESS_ATTENTION)
   \<and> (tone (toBusinessStatus raw) = Down \<longleftrightarrow> business_key raw \<in> set BUSINESS_DOWN)
   \<and> (tone (toBusinessStatus raw) = Stopped \<longleftrightarrow> business_key raw \<in> set BUSINESS_STOPPED)
   \<and> (tone (toBusinessStatus raw) = Unknown \<longleftrightarrow>
        business_key raw \<notin> set BUSINESS_WORKING \<union> set BUSINESS_ATTENTION
          \<union> set BUSINESS_DOWN \<union> set BUSINESS_STOPPED)
   \<and> (tone (toBusinessStatus raw) = tone (toBusinessStatus raw') \<longleftrightarrow>
        label (toBusinessStatus raw) = label (toBusinessStatus raw'))"
proof -
  have tones: "tone (toBusinessStatus r) =
      (if business_key r \<in> set BUSINESS_WORKING then Working
       else if business_key r \<in> set BUSINESS_ATTENTION then Attention
       else if business_key r \<in> set BUSINESS_DOWN then Down
       else if business_key r \<in> set BUSINESS_STOPPED then Stopped else Unknown)" for r
    by (simp add: toBusinessStatus_def business_key_def Let_def)
  have labels: "label (toBusinessStatus r) =
      (case tone (toBusinessStatus r) of Working \<Rightarrow> ''Working'' | Attention \<Rightarrow> ''Needs attention''
         | Down \<Rightarrow> ''Down'' | Stopped \<Rightarrow> ''Stopped'' | Unknown \<Rightarrow> ''Unknown'')" for r
    by (simp add: toBusinessStatus_def Let_def)
  have "(tone (toBusinessStatus raw) = tone (toBusinessStatus raw')) =
        (label (toBusinessStatus raw) = label (toBusinessStatus raw'))"
    by (simp add: labels split: BusinessTone.splits)
  moreover have "(tone (toBusinessStatus raw) = Working) = (business_key raw \<in> set BUSINESS_WORKING)"
    by (simp add: tones)
  moreover have "(tone (toBusinessStatus raw) = Attention) = (business_key raw \<in> set BUSINESS_ATTENTION)"
    using business_words_disjoint by (auto simp: tones)
  moreover have "(tone (toBusinessStatus raw) = Down) = (business_key raw \<in> set BUSINESS_DOWN)"
    using business_words_disjoint by (auto simp: tones)
  moreover have "(tone (toBusinessStatus raw) = Stopped) = (business_key raw \<in> set BUSINESS_STOPPED)"
    using business_words_disjoint by (auto simp: tones)
  moreover have "(tone (toBusinessStatus raw) = Unknown) = (business_key raw \<notin> set BUSINESS_WORKING
      \<union> set BUSINESS_ATTENTION \<union> set BUSINESS_DOWN \<union> set BUSINESS_STOPPED)"
    by (auto simp: tones)
  ultimately show ?thesis by blast
qed

lemma fleet_business_word:
  assumes "js_toLowerCase (or_else raw []) = w"
    and "w \<in> set [''healthy'', ''running'', ''success'', ''ok'', ''degraded'', ''choppy'',
                 ''running_partial'', ''down'', ''failed'', ''error'']"
  shows "business_key raw = w"
  unfolding business_key_def
  by (rule trim_keyword [OF assms(1)]) (use assms(2) in \<open>auto simp: is_space_char_def\<close>)

text \<open>The two status vocabularies agree wherever the fleet status is informative: a
  project shown as \<open>Working\<close>, \<open>Down\<close> or \<open>Needs attention\<close> by the
  fleet label gets the same business label, with one exception, the word
  \<open>running_partial\<close>, which the fleet status knows and the business status does not.\<close>

lemma fleet_business_agree:
  assumes "toFleetStatus raw \<noteq> Docked"
  shows "label (toBusinessStatus raw) =
           (if js_toLowerCase (or_else raw []) = ''running_partial'' then ''Unknown''
            else fleetLabel (toFleetStatus raw))"
proof -
  define w where "w = js_toLowerCase (or_else raw [])"
  have "w \<in> set [''healthy'', ''running'', ''success'', ''ok'', ''degraded'', ''choppy'',
                 ''running_partial'', ''down'', ''failed'', ''error'']"
    using assms by (auto simp: toFleetStatus_def Let_def w_def split: if_splits)
  moreover from this have "js_toLowerCase (js_trim (or_else raw [])) = w"
    using fleet_business_word [of raw w] by (simp add: w_def business_key_def)
  ultimately show ?thesis
    unfolding toBusinessStatus_def toFleetStatus_def w_def [symmetric] set_simps insert_iff empty_iff
    by (elim disjE; simp add: BUSINESS_WORKING_def BUSINESS_ATTENTION_def BUSINESS_DOWN_def BUSINESS_STOPPED_def)
qed

lemma js_includes_suffix: "js_includes (a @ n) n"
  using js_includes_append [of a n "[]"] by simp

text \<open>Every alert gets an actionable card: whatever the condition, message, source and
  threshold, the description is not empty and the next step carries the note that
  resolving does not fix the cause.\<close>

lemma describeAlert_actionable:
  "ad_what (describeAlert a) \<noteq> [] \<and> js_includes (ad_next (describeAlert a)) resolveNote
   \<and> ad_next (describeAlert a) \<noteq> resolveNote"
proof -
  have "\<exists>p. p \<noteq> [] \<and> ad_next (describeAlert a) = p @ resolveNote"
    by (simp add: describeAlert_def Let_def)
  then have "js_includes (ad_next (describeAlert a)) resolveNote" "ad_next (describeAlert a) \<noteq> resolveNote"
    using js_includes_suffix by auto
  moreover have "ad_what (describeAlert a) \<noteq> []"
    by (cases "al_message a") (simp_all add: describeAlert_def Let_def)
  ultimately show ?thesis by blast
qed

end
