(* ===== verification/Format.thy ===== *)
theory Format
  imports Js_Json Api_Status
begin

text \<open>
  The shared formatters of \<open>packages/shared/src/format.ts\<close>. The current time and the
  engine's date parser are arguments: \<open>dp\<close> stands for \<open>new Date(iso).getTime()\<close>,
  with \<open>None\<close> for an invalid date, and times are milliseconds.
\<close>

section \<open>Times\<close>

definition parseTime :: "(string \<Rightarrow> rat option) \<Rightarrow> string option \<Rightarrow> rat option" where
  "parseTime dp s =
     (if \<not> js_truthy s then None
      else let t = or_else s [];
               iso = (if js_includes t ''T'' then t else js_replace_first (CHR '' '') ''T'' t @ ''Z'')
           in dp iso)"

definition plural :: "int \<Rightarrow> string" where
  "plural n = (if n = 1 then [] else ''s'')"

text \<open>The three divisions of \<open>timeAgo\<close> on whole seconds.\<close>

definition secs_ago :: "int \<Rightarrow> string" where
  "secs_ago secs =
     (if secs < 60 then int_str secs @ ''s ago''
      else let mins = secs div 60 in
      if mins < 60 then int_str mins @ '' min'' @ plural mins @ '' ago''
      else let hrs = mins div 60 in
      if hrs < 24 then int_str hrs @ '' hour'' @ plural hrs @ '' ago''
      else let days = hrs div 24 in
      int_str days @ '' day'' @ plural days @ '' ago'')"

definition timeAgo :: "(string \<Rightarrow> rat option) \<Rightarrow> rat \<Rightarrow> string option \<Rightarrow> string" where
  "timeAgo dp now s =
     (case parseTime dp s of
        None \<Rightarrow> em_dash
      | Some d \<Rightarrow> secs_ago (max 0 \<lfloor>(now - d) / 1000\<rfloor>))"

definition fmtDuration :: "rat option \<Rightarrow> string" where
  "fmtDuration sec =
     (case sec of
        None \<Rightarrow> em_dash
      | Some t \<Rightarrow>
          if t < 60 then num_str t @ ''s''
          else int_str \<lfloor>t / 60\<rfloor> @ ''m '' @ js_padStart 2 (CHR ''0'') (num_str (js_rem t 60)) @ ''s'')"

definition fmtUptime :: "rat \<Rightarrow> string" where
  "fmtUptime t =
     (let d = \<lfloor>t / 86400\<rfloor>; h = \<lfloor>js_rem t 86400 / 3600\<rfloor> in
      if d > 0 then int_str d @ ''d '' @ int_str h @ ''h''
      else if h > 0 then int_str h @ ''h '' @ int_str \<lfloor>js_rem t 3600 / 60\<rfloor> @ ''m''
      else int_str \<lfloor>t / 60\<rfloor> @ ''m'')"

definition greeting :: "nat \<Rightarrow> string" where
  "greeting h =
     (if h < 12 then ''Good morning'' else if h < 18 then ''Good afternoon'' else ''Good evening'')"

text \<open>Ages for freshness indicators; a non-finite or skewed age reads as fresh.\<close>

definition formatAge :: "jsnum \<Rightarrow> string" where
  "formatAge ageMs =
     (case ageMs of
        Fin a \<Rightarrow>
          if a < 10000 then ''just now''
          else let secs = \<lfloor>a / 1000\<rfloor> in
          if secs < 60 then int_str secs @ ''s ago''
          else let mins = secs div 60 in
          if mins < 60 then int_str mins @ '' min ago''
          else let hrs = mins div 60 in
          if hrs < 24 then int_str hrs @ '' hr ago''
          else int_str (hrs div 24) @ '' days ago''
      | _ \<Rightarrow> ''just now'')"

definition STALE_AFTER_MS :: rat where
  "STALE_AFTER_MS = 90000"

section \<open>Identifiers\<close>

definition shortSha :: "string option \<Rightarrow> string" where
  "shortSha sha =
     (if \<not> js_truthy sha then em_dash
      else let s = or_else sha [] in if length s > 8 then js_slice 0 7 s else s)"

definition shortId :: "string option \<Rightarrow> string" where
  "shortId i =
     (if \<not> js_truthy i then em_dash
      else let s = or_else i [] in if length s > 12 then js_slice 0 12 s else s)"

section \<open>Sizes\<close>

definition fmtBytes :: "jsnum \<Rightarrow> string" where
  "fmtBytes b =
     (if \<not> js_num_truthy b \<or> js_leq b (Fin 0) then ''0 B''
      else if js_less b (Fin 1024) then js_toString b @ '' B''
      else if js_less b (Fin (1024 * 1024)) then js_toFixed 1 (js_div_pos b 1024) @ '' KB''
      else js_toFixed 1 (js_div_pos (js_div_pos b 1024) 1024) @ '' MB'')"

fun js_round_1024 :: "jsnum \<Rightarrow> string" where
  "js_round_1024 (Fin q) = int_str (js_round (q * 1024))"
| "js_round_1024 x = js_toString x"

definition fmtRate :: "jsnum \<Rightarrow> string" where
  "fmtRate k =
     (if \<not> js_num_truthy k \<or> js_less k (Fin 0) then ''0 B/s''
      else if js_less k (Fin 1) then js_round_1024 k @ '' B/s''
      else if js_less k (Fin 1024) then js_toFixed 1 k @ '' KB/s''
      else js_toFixed 2 (js_div_pos k 1024) @ '' MB/s'')"

definition fmtGBFromMB :: "jsnum option \<Rightarrow> string" where
  "fmtGBFromMB mb =
     (case mb of
        None \<Rightarrow> em_dash
      | Some m \<Rightarrow>
          if js_less m (Fin 0) then em_dash
          else if js_less m (Fin 1024) then js_toFixed 0 m @ '' MB''
          else js_toFixed 1 (js_div_pos m 1024) @ '' GB'')"

section \<open>Printed sizes are accurate\<close>

lemma toFixed_reads_back:
  assumes "0 \<le> q" and "number_end r"
  shows "parse_unsigned (toFixed_rat k q @ r) = Some (of_int \<lfloor>q * 10 ^ k + 1 / 2\<rfloor> / 10 ^ k, r)"
proof -
  have "0 \<le> q * 10 ^ k" using assms(1) by simp
  then have "0 \<le> \<lfloor>q * 10 ^ k + 1 / 2\<rfloor>" by linarith
  then show ?thesis
    using assms by (simp add: toFixed_rat_def Let_def parse_unsigned_fixed)
qed

lemma round_error: "\<bar>of_int \<lfloor>q * 10 ^ k + 1 / 2\<rfloor> / 10 ^ k - q\<bar> \<le> 1 / (2 * 10 ^ k)" for q :: rat
proof -
  let ?n = "of_int \<lfloor>q * 10 ^ k + 1 / 2\<rfloor> :: rat"
  have "\<bar>?n - q * 10 ^ k\<bar> \<le> 1 / 2" by linarith
  then have "\<bar>?n - q * 10 ^ k\<bar> / 10 ^ k \<le> (1 / 2) / 10 ^ k"
    by (rule divide_right_mono) simp
  moreover have "?n / 10 ^ k - q = (?n - q * 10 ^ k) / 10 ^ k" by (simp add: field_simps)
  ultimately show ?thesis by (simp add: abs_divide)
qed

definition size_unit :: "rat \<Rightarrow> rat" where
  "size_unit b = (if b < 1024 * 1024 then 1024 else 1024 * 1024)"

definition size_suffix :: "rat \<Rightarrow> string" where
  "size_suffix b = (if b < 1024 * 1024 then '' KB'' else '' MB'')"

text \<open>A size above one kilobyte prints as a decimal that reads back to within half a
  unit of its last digit of the exact quotient, followed by the unit of its range; below,
  the byte count itself is printed, and zero, negative and not-a-number sizes print as
  zero bytes.\<close>

lemma fmtBytes_accurate:
  assumes "0 < b"
  shows "(b < 1024 \<longrightarrow> fmtBytes (Fin b) = num_str b @ '' B'')
       \<and> (1024 \<le> b \<longrightarrow> (\<exists>r. parse_unsigned (fmtBytes (Fin b)) = Some (r, (size_suffix b))
              \<and> \<bar>r * (size_unit b) - b\<bar> \<le> (size_unit b) / 20))
       \<and> fmtBytes (Fin (- b)) = ''0 B'' \<and> fmtBytes (Fin 0) = ''0 B'' \<and> fmtBytes NaN = ''0 B''"
proof -
  have big: "\<exists>r. parse_unsigned (fmtBytes (Fin b)) = Some (r, (size_suffix b)) \<and> \<bar>r * (size_unit b) - b\<bar> \<le> (size_unit b) / 20"
    if "1024 \<le> b"
  proof -
    let ?r = "of_int \<lfloor>b / (size_unit b) * 10 ^ 1 + 1 / 2\<rfloor> / 10 ^ 1 :: rat"
    have unit: "0 < (size_unit b)" by (simp add: size_unit_def)
    have shape: "fmtBytes (Fin b) = toFixed_rat 1 (b / (size_unit b)) @ (size_suffix b)"
      using assms(1) that by (simp add: fmtBytes_def size_unit_def size_suffix_def)
    have "number_end (size_suffix b)" by (simp add: size_suffix_def number_end_def is_digit_char_def)
    then have "parse_unsigned (fmtBytes (Fin b)) = Some (?r, (size_suffix b))"
      unfolding shape using assms(1) unit by (intro toFixed_reads_back) simp_all
    moreover have "\<bar>?r - b / (size_unit b)\<bar> \<le> 1 / 20" using round_error [of "b / (size_unit b)" 1] by simp
    then have "\<bar>?r - b / (size_unit b)\<bar> * (size_unit b) \<le> 1 / 20 * (size_unit b)"
      using unit by (intro mult_right_mono) simp_all
    then have "\<bar>(?r - b / (size_unit b)) * (size_unit b)\<bar> \<le> (size_unit b) / 20" using unit by (simp add: abs_mult)
    then have "\<bar>?r * (size_unit b) - b\<bar> \<le> (size_unit b) / 20" using unit by (simp add: left_diff_distrib)
    ultimately show ?thesis by blast
  qed
  have small: "b < 1024 \<longrightarrow> fmtBytes (Fin b) = num_str b @ '' B''"
    using assms(1) by (simp add: fmtBytes_def)
  have zero: "fmtBytes (Fin (- b)) = ''0 B''" "fmtBytes (Fin 0) = ''0 B''" "fmtBytes NaN = ''0 B''"
    using assms(1) by (simp_all add: fmtBytes_def)
  show ?thesis using big small zero by blast
qed

section \<open>Printed ages\<close>

lemma int_div_bracket:
  fixes e u :: int
  assumes "0 < u"
  shows "e div u * u \<le> e \<and> e < (e div u + 1) * u"
proof -
  have "0 \<le> e - e div u * u" and "e - e div u * u < u"
    using assms by (simp_all add: minus_div_mult_eq_mod)
  then show ?thesis by (simp add: distrib_right)
qed

lemma div_chain: "e div 60 div 60 = e div (3600 :: int)" "e div 3600 div 24 = e div (86400 :: int)"
  by (simp_all flip: zdiv_zmult2_eq)

definition age_unit :: "int \<Rightarrow> int \<times> string" where
  "age_unit e =
     (if e < 60 then (1, ''s'') else if e < 3600 then (60, '' min'')
      else if e < 86400 then (3600, '' hour'') else (86400, '' day''))"

text \<open>\<open>timeAgo\<close> reports the age of a valid timestamp as a count of the largest unit
  that fits: the count is exact to that unit (never rounded up), at least one for minutes
  and above, plural unless it is one, and a timestamp in the future reads as zero
  seconds.\<close>

lemma timeAgo_exact_unit:
  assumes "parseTime dp s = Some d"
  shows "\<exists>n. timeAgo dp now s = int_str n @ snd (age_unit (max 0 \<lfloor>(now - d) / 1000\<rfloor>))
              @ (if max 0 \<lfloor>(now - d) / 1000\<rfloor> < 60 then [] else plural n) @ '' ago''
           \<and> n * fst (age_unit (max 0 \<lfloor>(now - d) / 1000\<rfloor>)) \<le> max 0 \<lfloor>(now - d) / 1000\<rfloor>
           \<and> max 0 \<lfloor>(now - d) / 1000\<rfloor> < (n + 1) * fst (age_unit (max 0 \<lfloor>(now - d) / 1000\<rfloor>))
           \<and> (1 \<le> n \<or> max 0 \<lfloor>(now - d) / 1000\<rfloor> < 60)
           \<and> (d > now \<longrightarrow> timeAgo dp now s = ''0s ago'')"
proof -
  define e where "e = max 0 \<lfloor>(now - d) / 1000\<rfloor>"
  have ago: "timeAgo dp now s = secs_ago e" using assms by (simp add: timeAgo_def e_def)
  have future: "d > now \<Longrightarrow> timeAgo dp now s = ''0s ago''"
  proof -
    assume "d > now"
    then have "\<lfloor>(now - d) / 1000\<rfloor> < 0" by simp
    then have "e = 0" by (simp add: e_def)
    then show ?thesis unfolding ago by (simp add: secs_ago_def int_str_def nat_str_0)
  qed
  let ?n = "e div fst (age_unit e)"
  have pos: "0 < fst (age_unit e)" by (simp add: age_unit_def)
  have "secs_ago e = int_str ?n @ snd (age_unit e) @ (if e < 60 then [] else plural ?n) @ '' ago''"
    by (auto simp: secs_ago_def age_unit_def Let_def div_chain)
  moreover have "1 \<le> ?n \<or> e < 60"
    by (auto simp: age_unit_def)
  moreover note int_div_bracket [OF pos, of e]
  ultimately show ?thesis
    using future unfolding ago e_def [symmetric] by blast
qed

lemma rem_int_floor:
  "0 \<le> n \<Longrightarrow> 0 < b \<Longrightarrow> 0 < c \<Longrightarrow>
     \<lfloor>js_rem (of_int n) (of_int b) / of_int c\<rfloor> = n mod b div c"
  by (simp add: js_rem_int floor_divide_of_int_eq)

text \<open>On whole non-negative seconds the uptime and duration formatters are the exact
  mixed-radix decomposition: days and hours below 24, hours and minutes below 60, minutes
  and exactly two digits of seconds below 60.\<close>

lemma uptime_duration_decompose:
  assumes "0 \<le> n"
  shows "fmtUptime (of_int n) =
           (if 86400 \<le> n then int_str (n div 86400) @ ''d '' @ int_str (n mod 86400 div 3600) @ ''h''
            else if 3600 \<le> n then int_str (n div 3600) @ ''h '' @ int_str (n mod 3600 div 60) @ ''m''
            else int_str (n div 60) @ ''m'')
       \<and> fmtDuration (Some (of_int n)) =
           (if n < 60 then int_str n @ ''s''
            else int_str (n div 60) @ ''m '' @ js_padStart 2 (CHR ''0'') (int_str (n mod 60)) @ ''s'')
       \<and> length (js_padStart 2 (CHR ''0'') (int_str (n mod 60))) = 2"
proof -
  have floors: "\<lfloor>(of_int n :: rat) / 86400\<rfloor> = n div 86400" "\<lfloor>(of_int n :: rat) / 60\<rfloor> = n div 60"
    using floor_divide_of_int_eq [of n 86400, where 'a = rat]
      floor_divide_of_int_eq [of n 60, where 'a = rat] by simp_all
  have rems: "\<lfloor>js_rem (of_int n) 86400 / 3600\<rfloor> = n mod 86400 div 3600"
      "\<lfloor>js_rem (of_int n) 3600 / 60\<rfloor> = n mod 3600 div 60"
      "js_rem (of_int n) 60 = of_int (n mod 60)"
    using rem_int_floor [OF assms, of 86400 3600] rem_int_floor [OF assms, of 3600 60]
      js_rem_int [OF assms, of 60] by simp_all
  have small: "n < 86400 \<Longrightarrow> n mod 86400 div 3600 = n div 3600" using assms by simp
  have pos: "(0 < n div 86400) = (86400 \<le> n)" "(0 < n div 3600) = (3600 \<le> n)"
    by (simp_all add: pos_imp_zdiv_pos_iff)
  have up: "fmtUptime (of_int n) =
           (if 86400 \<le> n then int_str (n div 86400) @ ''d '' @ int_str (n mod 86400 div 3600) @ ''h''
            else if 3600 \<le> n then int_str (n div 3600) @ ''h '' @ int_str (n mod 3600 div 60) @ ''m''
            else int_str (n div 60) @ ''m'')"
    unfolding fmtUptime_def Let_def floors rems
    by (cases "86400 \<le> n") (simp_all add: pos small)
  have dur: "fmtDuration (Some (of_int n)) =
           (if n < 60 then int_str n @ ''s''
            else int_str (n div 60) @ ''m '' @ js_padStart 2 (CHR ''0'') (int_str (n mod 60)) @ ''s'')"
    by (simp add: fmtDuration_def floors rems)
  have "0 \<le> n mod 60" and "n mod 60 < 60" by simp_all
  then have "nat (n mod 60) < 100" and "\<not> n mod 60 < 0" by linarith+
  then have "length (int_str (n mod 60)) \<le> 2"
    using length_nat_str_le2 [of "nat (n mod 60)"] by (simp only: int_str_def if_False)
  then show ?thesis using up dur by (simp add: length_padStart)
qed

end
