(* ===== verification/Types_Fleet.thy ===== *)
theory Types_Fleet
  imports Js_Json
begin

text \<open>
  Response contracts of managed servers, agent tokens, alerts, health checks and the
  Prometheus and Alertmanager proxies.
  One \<open>record\<close> per interface, its fields in the order of the source and prefixed by the
  interface name. An optional or nullable field is an option; counters, identifiers and
  byte counts are \<open>int\<close>, measured quantities are \<open>rat\<close>; a union of string
  literals is a \<open>datatype\<close>; unchecked payloads are \<open>json\<close>.
\<close>

datatype managedServer_agentStatus_enum = ManagedServerAgentStatus_CONNECTED | ManagedServerAgentStatus_DISCONNECTED | ManagedServerAgentStatus_UNKNOWN

datatype managedServer_status_enum = ManagedServerStatus_ONLINE | ManagedServerStatus_OFFLINE | ManagedServerStatus_WARNING | ManagedServerStatus_UNKNOWN

record ManagedServer =
  managedServer_id :: int
  managedServer_name :: string
  managedServer_hostname :: string
  managedServer_ipAddress :: string
  managedServer_os :: string
  managedServer_osVersion :: string
  managedServer_arch :: string
  managedServer_cpuInfo :: string
  managedServer_cpuCores :: int
  managedServer_ramTotal :: int
  managedServer_diskTotal :: int
  managedServer_status :: managedServer_status_enum
  managedServer_agentStatus :: managedServer_agentStatus_enum
  managedServer_lastHeartbeat :: "string option"
  managedServer_groupId :: "int option"
  managedServer_createdAt :: string
  managedServer_updatedAt :: string

record ServerGroup =
  serverGroup_id :: int
  serverGroup_name :: string
  serverGroup_description :: string
  serverGroup_createdAt :: string

record ServerMetricPoint =
  serverMetricPoint_id :: int
  serverMetricPoint_serverId :: int
  serverMetricPoint_timestamp :: string
  serverMetricPoint_cpuUsage :: rat
  serverMetricPoint_memoryUsage :: rat
  serverMetricPoint_memoryUsedMB :: rat
  serverMetricPoint_diskUsage :: rat
  serverMetricPoint_diskUsedGB :: rat
  serverMetricPoint_netRx :: rat
  serverMetricPoint_netTx :: rat
  serverMetricPoint_loadAvg1 :: rat
  serverMetricPoint_uptimeSec :: int

record AgentToken =
  agentToken_id :: int
  agentToken_serverId :: int
  agentToken_label :: string
  agentToken_revoked :: bool
  agentToken_createdAt :: string
  agentToken_lastUsedAt :: "string option"

datatype alert_severity_enum = AlertSeverity_INFO | AlertSeverity_WARNING | AlertSeverity_CRITICAL

datatype alert_status_enum = AlertStatus_TRIGGERED | AlertStatus_RESOLVED

record Alert =
  alert_id :: int
  alert_serverId :: "int option"
  alert_condition :: string
  alert_threshold :: rat
  alert_severity :: alert_severity_enum
  alert_status :: alert_status_enum
  alert_message :: string
  alert_triggeredAt :: string
  alert_resolvedAt :: "string option"
  alert_fingerprint :: string
  alert_source :: string

record InAppNotification =
  inAppNotification_id :: int
  inAppNotification_username :: string
  inAppNotification_title :: string
  inAppNotification_body :: string
  inAppNotification_category :: string
  inAppNotification_read :: bool
  inAppNotification_serverId :: "int option"
  inAppNotification_alertId :: "int option"
  inAppNotification_createdAt :: string

datatype healthCheck_status_enum = HealthCheckStatus_UP | HealthCheckStatus_DOWN | HealthCheckStatus_UNKNOWN

datatype healthCheck_type_enum = HealthCheckType_http | HealthCheckType_tcp | HealthCheckType_ping

record HealthCheck =
  healthCheck_id :: int
  healthCheck_name :: string
  healthCheck_type :: healthCheck_type_enum
  healthCheck_target :: string
  healthCheck_interval :: int
  healthCheck_timeout :: int
  healthCheck_expectedStatus :: int
  healthCheck_enabled :: bool
  healthCheck_status :: healthCheck_status_enum
  healthCheck_responseTimeMs :: "int option"
  healthCheck_lastCheckedAt :: "string option"
  healthCheck_serverId :: "int option"
  healthCheck_createdAt :: string
  healthCheck_updatedAt :: string

datatype healthCheckResult_status_enum = HealthCheckResultStatus_UP | HealthCheckResultStatus_DOWN

record HealthCheckResult =
  healthCheckResult_id :: int
  healthCheckResult_healthCheckId :: int
  healthCheckResult_timestamp :: string
  healthCheckResult_status :: healthCheckResult_status_enum
  healthCheckResult_responseTimeMs :: int
  healthCheckResult_error :: string

record MonitoringOverview =
  monitoringOverview_available :: bool
  monitoringOverview_cpu :: "rat option"
  monitoringOverview_memory :: "rat option"
  monitoringOverview_disk :: "rat option"
  monitoringOverview_networkRx :: "rat option"
  monitoringOverview_networkTx :: "rat option"

record PrometheusStatus =
  prometheusStatus_available :: bool
  prometheusStatus_healthy :: "bool option"
  prometheusStatus_status :: string

record AlertmanagerStatus =
  alertmanagerStatus_available :: bool
  alertmanagerStatus_healthy :: "bool option"
  alertmanagerStatus_status :: string

datatype promTarget_health_enum = PromTargetHealth_up | PromTargetHealth_down | PromTargetHealth_unknown

record PromTarget =
  promTarget_discoveredLabels :: "(string \<times> string) list"
  promTarget_labels :: "(string \<times> string) list"
  promTarget_scrapePool :: string
  promTarget_scrapeUrl :: string
  promTarget_globalUrl :: string
  promTarget_lastError :: string
  promTarget_lastScrape :: string
  promTarget_lastScrapeDuration :: rat
  promTarget_health :: promTarget_health_enum

record PromTargetsData =
  promTargetsData_activeTargets :: "PromTarget list"
  promTargetsData_droppedTargets :: "PromTarget list"

datatype amAlert_status_state_enum = AmAlert_statusState_active | AmAlert_statusState_suppressed | AmAlert_statusState_unprocessed

record AmAlert_status =
  amAlert_status_state :: amAlert_status_state_enum
  amAlert_status_silencedBy :: "string list"
  amAlert_status_inhibitedBy :: "string list"

record AmAlert_receivers_item =
  amAlert_receivers_item_name :: string

record AmAlert =
  amAlert_fingerprint :: string
  amAlert_status :: AmAlert_status
  amAlert_labels :: "(string \<times> string) list"
  amAlert_annotations :: "(string \<times> string) list"
  amAlert_startsAt :: string
  amAlert_endsAt :: string
  amAlert_generatorURL :: string
  amAlert_receivers :: "AmAlert_receivers_item list"

datatype amSilence_status_state_enum = AmSilence_statusState_active | AmSilence_statusState_expired | AmSilence_statusState_pending

record AmSilence_status =
  amSilence_status_state :: amSilence_status_state_enum

record AmSilence_matchers_item =
  amSilence_matchers_item_name :: string
  amSilence_matchers_item_value :: string
  amSilence_matchers_item_isRegex :: bool
  amSilence_matchers_item_isEqual :: bool

record AmSilence =
  amSilence_id :: string
  amSilence_status :: AmSilence_status
  amSilence_updatedAt :: string
  amSilence_comment :: string
  amSilence_createdBy :: string
  amSilence_startsAt :: string
  amSilence_endsAt :: string
  amSilence_matchers :: "AmSilence_matchers_item list"

record PromRangeResult_result_item =
  promRangeResult_result_item_metric :: "(string \<times> string) list"
  promRangeResult_result_item_values :: "(rat \<times> string) list"

record PromRangeResult =
  promRangeResult_resultType :: string
  promRangeResult_result :: "PromRangeResult_result_item list"

record MonitoringMetricHistory =
  monitoringMetricHistory_metric :: string
  monitoringMetricHistory_range :: string
  monitoringMetricHistory_data :: PromRangeResult

record LogsParams =
  logsParams_level :: "string option"
  logsParams_source :: "string option"
  logsParams_search :: "string option"
  logsParams_projectId :: "int option"
  logsParams_limit :: "int option"
  logsParams_offset :: "int option"

end
