(* ===== verification/Endpoints.thy ===== *)
theory Endpoints
  imports Types_Fleet
begin

text \<open>
  The path builders of \<open>packages/shared/src/endpoints.ts\<close>, one definition per exported
  function, prefixed \<open>ep_\<close> as the web client imports them. A parameter with a default
  value is an option, \<open>None\<close> where the caller omits it. Arguments are percent-encoded
  exactly where the source calls \<open>encodeURIComponent\<close>.
\<close>

named_theorems endpoint_defs \<open>definitions of the path builders\<close>

definition API :: string where
  "API = ''/server-hub/api''"

section \<open>Auth\<close>

definition ep_authLogin :: "string" where
  [endpoint_defs]: "ep_authLogin = API @ ''/auth/login''"

definition ep_authToken :: "string" where
  [endpoint_defs]: "ep_authToken = API @ ''/auth/token''"

definition ep_authRefresh :: "string" where
  [endpoint_defs]: "ep_authRefresh = API @ ''/auth/refresh''"

definition ep_authLogout :: "string" where
  [endpoint_defs]: "ep_authLogout = API @ ''/auth/logout''"

definition ep_authLogoutAll :: "string" where
  [endpoint_defs]: "ep_authLogoutAll = API @ ''/auth/logout-all''"

definition ep_authMe :: "string" where
  [endpoint_defs]: "ep_authMe = API @ ''/auth/me''"

definition ep_authPassword :: "string" where
  [endpoint_defs]: "ep_authPassword = API @ ''/auth/password''"

section \<open>Dashboard / host\<close>

definition ep_dashboard :: "string" where
  [endpoint_defs]: "ep_dashboard = API @ ''/dashboard''"

definition ep_server :: "string" where
  [endpoint_defs]: "ep_server = API @ ''/server''"

definition ep_serverDetail :: "string" where
  [endpoint_defs]: "ep_serverDetail = API @ ''/server/detail''"

definition ep_storage :: "string" where
  [endpoint_defs]: "ep_storage = API @ ''/server/storage''"

definition ep_audit :: "int option \<Rightarrow> string" where
  [endpoint_defs]: "ep_audit n = API @ ''/audit?limit='' @ int_str (or_else n 8)"

section \<open>Projects / services / deployments\<close>

definition ep_projects :: "string" where
  [endpoint_defs]: "ep_projects = API @ ''/projects''"

definition ep_project :: "int \<Rightarrow> string" where
  [endpoint_defs]: "ep_project i = API @ ''/projects/'' @ int_str i"

definition ep_projectServices :: "int \<Rightarrow> string" where
  [endpoint_defs]: "ep_projectServices projectId = API @ ''/projects/'' @ int_str projectId @ ''/services''"

definition ep_projectDeployments :: "int \<Rightarrow> string" where
  [endpoint_defs]: "ep_projectDeployments projectId = API @ ''/projects/'' @ int_str projectId @ ''/deployments''"

datatype lifecycle_action = Start | Stop | Restart

fun action_name :: "lifecycle_action \<Rightarrow> string" where
  "action_name Start = ''start''"
| "action_name Stop = ''stop''"
| "action_name Restart = ''restart''"

definition ep_projectAction :: "int \<Rightarrow> lifecycle_action \<Rightarrow> bool option \<Rightarrow> string" where
  [endpoint_defs]: "ep_projectAction i action confirm =
     API @ ''/projects/'' @ int_str i @ ''/'' @ action_name action
       @ (if or_else confirm False then ''?confirm=true'' else [])"

definition ep_projectDeploy :: "int \<Rightarrow> string" where
  [endpoint_defs]: "ep_projectDeploy projectId = API @ ''/projects/'' @ int_str projectId @ ''/deploy''"

definition ep_deploymentRollback :: "int \<Rightarrow> int \<Rightarrow> string" where
  [endpoint_defs]: "ep_deploymentRollback projectId depId = API @ ''/projects/'' @ int_str projectId @ ''/deployments/'' @ int_str depId @ ''/rollback''"

definition ep_deploymentsAll :: "string" where
  [endpoint_defs]: "ep_deploymentsAll = API @ ''/deployments''"

definition ep_bulkLifecycle :: "string" where
  [endpoint_defs]: "ep_bulkLifecycle = API @ ''/projects/bulk-lifecycle''"

definition ep_service :: "int \<Rightarrow> string" where
  [endpoint_defs]: "ep_service i = API @ ''/services/'' @ int_str i"

section \<open>Discovery\<close>

definition ep_discovery :: "string" where
  [endpoint_defs]: "ep_discovery = API @ ''/discovery''"

definition ep_discoveryImport :: "string" where
  [endpoint_defs]: "ep_discoveryImport = API @ ''/discovery/import''"

definition ep_discoveryImportAll :: "string" where
  [endpoint_defs]: "ep_discoveryImportAll = API @ ''/discovery/import-all''"

section \<open>Secrets\<close>

definition ep_secrets :: "int \<Rightarrow> string" where
  [endpoint_defs]: "ep_secrets projectId = API @ ''/projects/'' @ int_str projectId @ ''/secrets''"

definition ep_secret :: "int \<Rightarrow> string" where
  [endpoint_defs]: "ep_secret i = API @ ''/secrets/'' @ int_str i"

definition ep_secretReveal :: "int \<Rightarrow> string" where
  [endpoint_defs]: "ep_secretReveal i = API @ ''/secrets/'' @ int_str i @ ''/reveal''"

section \<open>Telemetry / containers\<close>

definition ep_telemetry :: "string option \<Rightarrow> string" where
  [endpoint_defs]: "ep_telemetry r = API @ ''/telemetry?range='' @ (or_else r ''1h'')"

definition ep_telemetryLatest :: "string" where
  [endpoint_defs]: "ep_telemetryLatest = API @ ''/telemetry/latest''"

definition ep_containersStats :: "string" where
  [endpoint_defs]: "ep_containersStats = API @ ''/containers/stats''"

definition ep_container :: "string \<Rightarrow> string" where
  [endpoint_defs]: "ep_container i = API @ ''/containers/'' @ encodeURIComponent i"

definition ep_containerLogs :: "string \<Rightarrow> string" where
  [endpoint_defs]: "ep_containerLogs i = API @ ''/containers/'' @ encodeURIComponent i @ ''/logs''"

definition ep_containerLogsStream :: "string \<Rightarrow> string \<Rightarrow> bool option \<Rightarrow> string" where
  [endpoint_defs]: "ep_containerLogsStream i tail follow = ep_containerLogs i @ ''?tail='' @ tail @ (if (or_else follow True) then ''&follow=1'' else [])"

definition ep_containerStats :: "string \<Rightarrow> string" where
  [endpoint_defs]: "ep_containerStats i = API @ ''/containers/'' @ encodeURIComponent i @ ''/stats''"

definition ep_containerExec :: "string \<Rightarrow> bool option \<Rightarrow> string" where
  [endpoint_defs]: "ep_containerExec i confirm = API @ ''/containers/'' @ encodeURIComponent i @ ''/exec'' @ (if (or_else confirm True) then ''?confirm=true'' else [])"

definition ep_images :: "string" where
  [endpoint_defs]: "ep_images = API @ ''/images''"

definition ep_volumes :: "string" where
  [endpoint_defs]: "ep_volumes = API @ ''/volumes''"

section \<open>Operations\<close>

definition ep_operations :: "int option \<Rightarrow> string" where
  [endpoint_defs]: "ep_operations n = API @ ''/operations?limit='' @ int_str (or_else n 20)"

definition ep_operation :: "string \<Rightarrow> string" where
  [endpoint_defs]: "ep_operation i = API @ ''/operations/'' @ i"

section \<open>Backups\<close>

definition ep_backups :: "int \<Rightarrow> string" where
  [endpoint_defs]: "ep_backups projectId = API @ ''/projects/'' @ int_str projectId @ ''/backups''"

definition ep_backup :: "int \<Rightarrow> string" where
  [endpoint_defs]: "ep_backup i = API @ ''/backups/'' @ int_str i"

definition ep_backupDownload :: "int \<Rightarrow> string" where
  [endpoint_defs]: "ep_backupDownload i = API @ ''/backups/'' @ int_str i @ ''/download''"

definition ep_backupRestore :: "int \<Rightarrow> string" where
  [endpoint_defs]: "ep_backupRestore i = API @ ''/backups/'' @ int_str i @ ''/restore?confirm=true''"

section \<open>Databases\<close>

definition ep_dbServers :: "string" where
  [endpoint_defs]: "ep_dbServers = API @ ''/databases/servers''"

definition ep_dbBrowse :: "string" where
  [endpoint_defs]: "ep_dbBrowse = API @ ''/databases/browse''"

definition ep_dbConnect :: "string" where
  [endpoint_defs]: "ep_dbConnect = API @ ''/databases/connect''"

definition ep_dbRegister :: "string" where
  [endpoint_defs]: "ep_dbRegister = API @ ''/databases/register''"

section \<open>Logs\<close>

text \<open>A string parameter is sent when it is truthy, a numeric one when it is defined.\<close>

definition set_text :: "string \<Rightarrow> string option \<Rightarrow> query \<Rightarrow> query" where
  "set_text k v q = (if js_truthy v then usp_set k (or_else v []) q else q)"

definition set_num :: "string \<Rightarrow> int option \<Rightarrow> query \<Rightarrow> query" where
  "set_num k v q = (case v of None \<Rightarrow> q | Some n \<Rightarrow> usp_set k (int_str n) q)"

definition query_suffix :: "query \<Rightarrow> string" where
  "query_suffix q = (if usp_toString q = [] then [] else CHR ''?'' # usp_toString q)"

definition logs_query :: "LogsParams option \<Rightarrow> query" where
  "logs_query ps =
     (case ps of
        None \<Rightarrow> []
      | Some p \<Rightarrow>
          set_num ''offset'' (logsParams_offset p)
            (set_num ''limit'' (logsParams_limit p)
              (set_num ''projectId'' (logsParams_projectId p)
                (set_text ''search'' (logsParams_search p)
                  (set_text ''source'' (logsParams_source p)
                    (set_text ''level'' (logsParams_level p) []))))))"

definition ep_logs :: "LogsParams option \<Rightarrow> string" where
  "ep_logs ps = API @ ''/logs'' @ query_suffix (logs_query ps)"

section \<open>Users\<close>

definition ep_users :: "string" where
  [endpoint_defs]: "ep_users = API @ ''/users''"

definition ep_userRole :: "string \<Rightarrow> string" where
  [endpoint_defs]: "ep_userRole username = API @ ''/users/'' @ encodeURIComponent username @ ''/role''"

definition ep_user :: "string \<Rightarrow> string" where
  [endpoint_defs]: "ep_user username = API @ ''/users/'' @ encodeURIComponent username"

section \<open>Notification channels\<close>

definition ep_notifySettings :: "string" where
  [endpoint_defs]: "ep_notifySettings = API @ ''/settings/notifications''"

definition ep_notifyTest :: "string" where
  [endpoint_defs]: "ep_notifyTest = API @ ''/settings/notifications/test''"

section \<open>Notification groups (Phase 1: multi-recipient email)\<close>

definition ep_notificationGroups :: "string" where
  [endpoint_defs]: "ep_notificationGroups = API @ ''/notification-groups''"

definition ep_notificationGroup :: "int \<Rightarrow> string" where
  [endpoint_defs]: "ep_notificationGroup i = API @ ''/notification-groups/'' @ int_str i"

definition ep_notificationGroupMembers :: "int \<Rightarrow> string" where
  [endpoint_defs]: "ep_notificationGroupMembers i = API @ ''/notification-groups/'' @ int_str i @ ''/members''"

definition ep_notificationGroupMember :: "int \<Rightarrow> int \<Rightarrow> string" where
  [endpoint_defs]: "ep_notificationGroupMember i memberId = API @ ''/notification-groups/'' @ int_str i @ ''/members/'' @ int_str memberId"

section \<open>Notification rules (Phase 2 engine)\<close>

definition ep_notificationRules :: "string" where
  [endpoint_defs]: "ep_notificationRules = API @ ''/notification-rules''"

definition ep_notificationRule :: "int \<Rightarrow> string" where
  [endpoint_defs]: "ep_notificationRule i = API @ ''/notification-rules/'' @ int_str i"

section \<open>Central delivery policy\<close>

definition ep_notificationPolicy :: "string" where
  [endpoint_defs]: "ep_notificationPolicy = API @ ''/notification-policy''"

record DeliveriesParams =
  deliveriesParams_status :: "string option"
  deliveriesParams_channel :: "string option"
  deliveriesParams_limit :: "int option"

definition deliveries_query :: "DeliveriesParams option \<Rightarrow> query" where
  "deliveries_query ps =
     (case ps of
        None \<Rightarrow> []
      | Some p \<Rightarrow>
          set_num ''limit'' (deliveriesParams_limit p)
            (set_text ''channel'' (deliveriesParams_channel p)
              (set_text ''status'' (deliveriesParams_status p) [])))"

definition ep_notificationDeliveries :: "DeliveriesParams option \<Rightarrow> string" where
  "ep_notificationDeliveries ps =
     API @ ''/notification-deliveries'' @ query_suffix (deliveries_query ps)"

definition ep_maintenanceWindows :: "string" where
  [endpoint_defs]: "ep_maintenanceWindows = API @ ''/maintenance-windows''"

definition ep_maintenanceWindow :: "int \<Rightarrow> string" where
  [endpoint_defs]: "ep_maintenanceWindow i = API @ ''/maintenance-windows/'' @ int_str i"

section \<open>Managed servers\<close>

definition ep_servers :: "string" where
  [endpoint_defs]: "ep_servers = API @ ''/servers''"

definition ep_serverById :: "int \<Rightarrow> string" where
  [endpoint_defs]: "ep_serverById i = API @ ''/servers/'' @ int_str i"

definition ep_serverMetrics :: "int \<Rightarrow> string option \<Rightarrow> string" where
  [endpoint_defs]: "ep_serverMetrics i r = API @ ''/servers/'' @ int_str i @ ''/metrics?range='' @ (or_else r ''1h'')"

definition ep_serverMetricsLatest :: "int \<Rightarrow> string" where
  [endpoint_defs]: "ep_serverMetricsLatest i = API @ ''/servers/'' @ int_str i @ ''/metrics/latest''"

definition ep_serverTokens :: "int \<Rightarrow> string" where
  [endpoint_defs]: "ep_serverTokens serverId = API @ ''/servers/'' @ int_str serverId @ ''/tokens''"

definition ep_serverToken :: "int \<Rightarrow> int \<Rightarrow> string" where
  [endpoint_defs]: "ep_serverToken serverId tokenId = API @ ''/servers/'' @ int_str serverId @ ''/tokens/'' @ int_str tokenId"

definition ep_serverGroups :: "string" where
  [endpoint_defs]: "ep_serverGroups = API @ ''/server-groups''"

definition ep_serverGroup :: "int \<Rightarrow> string" where
  [endpoint_defs]: "ep_serverGroup i = API @ ''/server-groups/'' @ int_str i"

section \<open>Agent\<close>

definition ep_agentHeartbeat :: "string" where
  [endpoint_defs]: "ep_agentHeartbeat = API @ ''/agent/heartbeat''"

definition ep_agentMetrics :: "string" where
  [endpoint_defs]: "ep_agentMetrics = API @ ''/agent/metrics''"

section \<open>Alerts\<close>

definition ep_alerts :: "string option \<Rightarrow> string" where
  [endpoint_defs]: "ep_alerts st =
     API @ ''/alerts'' @ (if js_truthy st then ''?status='' @ or_else st [] else [])"

definition ep_alertResolve :: "int \<Rightarrow> string" where
  [endpoint_defs]: "ep_alertResolve i = API @ ''/alerts/'' @ int_str i @ ''/resolve''"

section \<open>In-app notifications\<close>

definition ep_notifications :: "string" where
  [endpoint_defs]: "ep_notifications = API @ ''/notifications''"

definition ep_notificationRead :: "int \<Rightarrow> string" where
  [endpoint_defs]: "ep_notificationRead i = API @ ''/notifications/'' @ int_str i @ ''/read''"

definition ep_notificationsReadAll :: "string" where
  [endpoint_defs]: "ep_notificationsReadAll = API @ ''/notifications/read-all''"

section \<open>Health checks\<close>

definition ep_healthChecks :: "string" where
  [endpoint_defs]: "ep_healthChecks = API @ ''/health-checks''"

definition ep_healthCheck :: "int \<Rightarrow> string" where
  [endpoint_defs]: "ep_healthCheck i = API @ ''/health-checks/'' @ int_str i"

definition ep_healthCheckResults :: "int \<Rightarrow> string" where
  [endpoint_defs]: "ep_healthCheckResults i = API @ ''/health-checks/'' @ int_str i @ ''/results''"

section \<open>Monitoring (Prometheus / Alertmanager proxy)\<close>

definition ep_monitoringOverview :: "string" where
  [endpoint_defs]: "ep_monitoringOverview = API @ ''/monitoring/overview''"

definition ep_prometheusStatus :: "string" where
  [endpoint_defs]: "ep_prometheusStatus = API @ ''/monitoring/prometheus/status''"

definition ep_prometheusTargets :: "string" where
  [endpoint_defs]: "ep_prometheusTargets = API @ ''/monitoring/prometheus/targets''"

definition ep_prometheusRules :: "string" where
  [endpoint_defs]: "ep_prometheusRules = API @ ''/monitoring/prometheus/rules''"

definition ep_prometheusQuery :: "string \<Rightarrow> string" where
  [endpoint_defs]: "ep_prometheusQuery q = API @ ''/monitoring/prometheus/query?query='' @ encodeURIComponent q"

definition ep_prometheusQueryRange :: "string \<Rightarrow> string \<Rightarrow> string \<Rightarrow> string option \<Rightarrow> string" where
  [endpoint_defs]: "ep_prometheusQueryRange q t0 t1 st = API @ ''/monitoring/prometheus/query-range?query='' @ encodeURIComponent q @ ''&start='' @ t0 @ ''&end='' @ t1 @ ''&step='' @ (or_else st ''60'')"

definition ep_monitoringMetrics :: "string \<Rightarrow> string option \<Rightarrow> string option \<Rightarrow> string" where
  [endpoint_defs]: "ep_monitoringMetrics m r st = API @ ''/monitoring/metrics?metric='' @ m @ ''&range='' @ (or_else r ''1h'') @ ''&step='' @ (or_else st ''60'')"

definition ep_alertmanagerStatus :: "string" where
  [endpoint_defs]: "ep_alertmanagerStatus = API @ ''/monitoring/alertmanager/status''"

definition ep_monitoringAlerts :: "string" where
  [endpoint_defs]: "ep_monitoringAlerts = API @ ''/monitoring/alerts''"

definition ep_monitoringSilences :: "string" where
  [endpoint_defs]: "ep_monitoringSilences = API @ ''/monitoring/silences''"

definition ep_monitoringSilence :: "string \<Rightarrow> string" where
  [endpoint_defs]: "ep_monitoringSilence i = API @ ''/monitoring/silences/'' @ encodeURIComponent i"

section \<open>File transfers (merged homelabs-upload module)\<close>

definition ep_transfersFiles :: "string option \<Rightarrow> string" where
  [endpoint_defs]: "ep_transfersFiles p = API @ ''/transfers/files?path='' @ encodeURIComponent (or_else p ''/'')"

definition ep_transfersFileMetadata :: "string \<Rightarrow> string" where
  [endpoint_defs]: "ep_transfersFileMetadata p = API @ ''/transfers/files/metadata?path='' @ encodeURIComponent p"

definition ep_transfersDownload :: "string \<Rightarrow> string" where
  [endpoint_defs]: "ep_transfersDownload p = API @ ''/transfers/files/download?path='' @ encodeURIComponent p"

definition ep_transfersFolderSize :: "string \<Rightarrow> string" where
  [endpoint_defs]: "ep_transfersFolderSize p = API @ ''/transfers/files/size?path='' @ encodeURIComponent p"

definition ep_transfersUpload :: "string option \<Rightarrow> string" where
  [endpoint_defs]: "ep_transfersUpload destDir = API @ ''/transfers/files/upload?path='' @ encodeURIComponent (or_else destDir ''/'')"

definition ep_transfersRename :: "string" where
  [endpoint_defs]: "ep_transfersRename = API @ ''/transfers/files''"

definition ep_transfersDelete :: "string" where
  [endpoint_defs]: "ep_transfersDelete = API @ ''/transfers/files''"

definition ep_transfersMove :: "string" where
  [endpoint_defs]: "ep_transfersMove = API @ ''/transfers/files/move''"

definition ep_transfersCopy :: "string" where
  [endpoint_defs]: "ep_transfersCopy = API @ ''/transfers/files/copy''"

definition ep_transfersZip :: "string" where
  [endpoint_defs]: "ep_transfersZip = API @ ''/transfers/files/zip''"

definition ep_transfersChunk :: "string \<Rightarrow> int \<Rightarrow> string" where
  [endpoint_defs]: "ep_transfersChunk uploadId idx = API @ ''/transfers/files/chunk?upload_id='' @ encodeURIComponent uploadId @ ''&index='' @ int_str idx"

definition ep_transfersChunkFinalize :: "string" where
  [endpoint_defs]: "ep_transfersChunkFinalize = API @ ''/transfers/files/chunk/finalize''"

definition ep_transfersBulkRename :: "string" where
  [endpoint_defs]: "ep_transfersBulkRename = API @ ''/transfers/files/bulk-rename''"

definition ep_transfersMkdir :: "string" where
  [endpoint_defs]: "ep_transfersMkdir = API @ ''/transfers/directories''"

definition ep_transfersSearch :: "string \<Rightarrow> string option \<Rightarrow> string" where
  [endpoint_defs]: "ep_transfersSearch q p = API @ ''/transfers/search?q='' @ encodeURIComponent q @ ''&path='' @ encodeURIComponent (or_else p ''/'')"

definition ep_transfersStorage :: "string" where
  [endpoint_defs]: "ep_transfersStorage = API @ ''/transfers/storage''"

definition ep_transfersStorageBreakdown :: "string" where
  [endpoint_defs]: "ep_transfersStorageBreakdown = API @ ''/transfers/storage/breakdown''"

definition ep_transfersTrash :: "string" where
  [endpoint_defs]: "ep_transfersTrash = API @ ''/transfers/trash''"

definition ep_transfersTrashRestore :: "string" where
  [endpoint_defs]: "ep_transfersTrashRestore = API @ ''/transfers/trash/restore''"

definition ep_transfersActivity :: "int option \<Rightarrow> string" where
  [endpoint_defs]: "ep_transfersActivity n = API @ ''/transfers/activity?limit='' @ int_str (or_else n 100)"

section \<open>Database backups (VaultGuard integration)\<close>

definition ep_dbBackupsDashboard :: "string" where
  [endpoint_defs]: "ep_dbBackupsDashboard = API @ ''/db-backups/dashboard''"

definition ep_dbBackupsTargets :: "string" where
  [endpoint_defs]: "ep_dbBackupsTargets = API @ ''/db-backups/storage-targets''"

definition ep_dbBackupsTarget :: "string \<Rightarrow> string" where
  [endpoint_defs]: "ep_dbBackupsTarget i = API @ ''/db-backups/storage-targets/'' @ encodeURIComponent i"

definition ep_dbBackupsTargetTest :: "string" where
  [endpoint_defs]: "ep_dbBackupsTargetTest = API @ ''/db-backups/storage-targets/test''"

definition ep_dbBackupsConnections :: "string" where
  [endpoint_defs]: "ep_dbBackupsConnections = API @ ''/db-backups/connections''"

definition ep_dbBackupsConnection :: "string \<Rightarrow> string" where
  [endpoint_defs]: "ep_dbBackupsConnection i = API @ ''/db-backups/connections/'' @ encodeURIComponent i"

definition ep_dbBackupsConnectionTest :: "string" where
  [endpoint_defs]: "ep_dbBackupsConnectionTest = API @ ''/db-backups/connections/test''"

definition ep_dbBackupsPolicies :: "string" where
  [endpoint_defs]: "ep_dbBackupsPolicies = API @ ''/db-backups/policies''"

definition ep_dbBackupsPolicy :: "string \<Rightarrow> string" where
  [endpoint_defs]: "ep_dbBackupsPolicy i = API @ ''/db-backups/policies/'' @ encodeURIComponent i"

definition ep_dbBackupsJobs :: "string" where
  [endpoint_defs]: "ep_dbBackupsJobs = API @ ''/db-backups/jobs''"

definition ep_dbBackupsJob :: "string \<Rightarrow> string" where
  [endpoint_defs]: "ep_dbBackupsJob i = API @ ''/db-backups/jobs/'' @ encodeURIComponent i"

definition ep_dbBackupsJobEnable :: "string \<Rightarrow> string" where
  [endpoint_defs]: "ep_dbBackupsJobEnable i = API @ ''/db-backups/jobs/'' @ encodeURIComponent i @ ''/enable''"

definition ep_dbBackupsJobDisable :: "string \<Rightarrow> string" where
  [endpoint_defs]: "ep_dbBackupsJobDisable i = API @ ''/db-backups/jobs/'' @ encodeURIComponent i @ ''/disable''"

definition ep_dbBackupsJobRun :: "string \<Rightarrow> string" where
  [endpoint_defs]: "ep_dbBackupsJobRun i = API @ ''/db-backups/jobs/'' @ encodeURIComponent i @ ''/run''"

definition ep_dbBackupsJobPreflight :: "string \<Rightarrow> string" where
  [endpoint_defs]: "ep_dbBackupsJobPreflight i = API @ ''/db-backups/jobs/'' @ encodeURIComponent i @ ''/preflight''"

record RunsParams =
  runsParams_job_id :: "string option"
  runsParams_status :: "string option"
  runsParams_search :: "string option"
  runsParams_page :: "int option"
  runsParams_limit :: "int option"
  runsParams_sort :: "string option"
  runsParams_order :: "string option"

definition runs_query :: "RunsParams option \<Rightarrow> query" where
  "runs_query ps =
     (case ps of
        None \<Rightarrow> []
      | Some p \<Rightarrow>
          set_text ''order'' (runsParams_order p)
            (set_text ''sort'' (runsParams_sort p)
              (set_num ''limit'' (runsParams_limit p)
                (set_num ''page'' (runsParams_page p)
                  (set_text ''search'' (runsParams_search p)
                    (set_text ''status'' (runsParams_status p)
                      (set_text ''job_id'' (runsParams_job_id p) [])))))))"

definition ep_dbBackupsRuns :: "RunsParams option \<Rightarrow> string" where
  "ep_dbBackupsRuns ps = API @ ''/db-backups/runs'' @ query_suffix (runs_query ps)"

definition ep_dbBackupsRun :: "string \<Rightarrow> string" where
  [endpoint_defs]: "ep_dbBackupsRun i = API @ ''/db-backups/runs/'' @ encodeURIComponent i"

definition ep_dbBackupsRunArtifacts :: "string \<Rightarrow> string" where
  [endpoint_defs]: "ep_dbBackupsRunArtifacts i = API @ ''/db-backups/runs/'' @ encodeURIComponent i @ ''/artifacts''"

definition ep_dbBackupsRunCancel :: "string \<Rightarrow> string" where
  [endpoint_defs]: "ep_dbBackupsRunCancel i = API @ ''/db-backups/runs/'' @ encodeURIComponent i @ ''/cancel''"

definition ep_dbBackupsRunVerify :: "string \<Rightarrow> string" where
  [endpoint_defs]: "ep_dbBackupsRunVerify i = API @ ''/db-backups/runs/'' @ encodeURIComponent i @ ''/verify''"

definition ep_dbBackupsRestores :: "string" where
  [endpoint_defs]: "ep_dbBackupsRestores = API @ ''/db-backups/restores''"

definition ep_dbBackupsRestore :: "string \<Rightarrow> string" where
  [endpoint_defs]: "ep_dbBackupsRestore i = API @ ''/db-backups/restores/'' @ encodeURIComponent i"

definition ep_dbBackupsAgents :: "string" where
  [endpoint_defs]: "ep_dbBackupsAgents = API @ ''/db-backups/agents''"

definition ep_dbBackupsAgent :: "string \<Rightarrow> string" where
  [endpoint_defs]: "ep_dbBackupsAgent i = API @ ''/db-backups/agents/'' @ encodeURIComponent i"

definition ep_dbBackupsAgentToken :: "string" where
  [endpoint_defs]: "ep_dbBackupsAgentToken = API @ ''/db-backups/agents/token''"

definition ep_dbBackupsAgentRotate :: "string \<Rightarrow> string" where
  [endpoint_defs]: "ep_dbBackupsAgentRotate i = API @ ''/db-backups/agents/'' @ encodeURIComponent i @ ''/rotate-token''"

definition ep_dbBackupsAgentRevoke :: "string \<Rightarrow> string" where
  [endpoint_defs]: "ep_dbBackupsAgentRevoke i = API @ ''/db-backups/agents/'' @ encodeURIComponent i @ ''/revoke''"

definition ep_dbBackupsEnrollTokens :: "string" where
  [endpoint_defs]: "ep_dbBackupsEnrollTokens = API @ ''/db-backups/enrollment-tokens''"

definition ep_dbBackupsEnrollToken :: "string \<Rightarrow> string" where
  [endpoint_defs]: "ep_dbBackupsEnrollToken i = API @ ''/db-backups/enrollment-tokens/'' @ encodeURIComponent i"

definition ep_dbBackupsMachines :: "string" where
  [endpoint_defs]: "ep_dbBackupsMachines = API @ ''/db-backups/machines''"

definition ep_dbBackupsMachine :: "string \<Rightarrow> string" where
  [endpoint_defs]: "ep_dbBackupsMachine i = API @ ''/db-backups/machines/'' @ encodeURIComponent i"

section \<open>Webhooks / exec\<close>

definition ep_webhookGithub :: "string" where
  [endpoint_defs]: "ep_webhookGithub = API @ ''/webhooks/github''"

definition ep_webhookAlertmanager :: "string" where
  [endpoint_defs]: "ep_webhookAlertmanager = API @ ''/webhooks/alertmanager''"

definition ep_execSession :: "string \<Rightarrow> string" where
  [endpoint_defs]: "ep_execSession tok = API @ ''/exec/'' @ tok"

definition ep_events :: "string" where
  [endpoint_defs]: "ep_events = API @ ''/events''"

section \<open>What a server reads\<close>

lemma plain_action_name [simp]: "plain_text (action_name a)"
  by (cases a) (simp_all add: plain_text_def is_alnum_char_def is_lower_char_def)

lemmas endpoint_read = endpoint_defs API_def read_target_simps uri_simps


text \<open>Every builder that takes numeric identifiers puts each of them in its own segment
  or query value, and sends the confirmation flag exactly when asked to.\<close>

lemma numeric_endpoints_read_back:
  "read_target (ep_project k) = Some ([[], ''server-hub'', ''api'', ''projects'', int_str k], [])
   \<and> read_target (ep_projectServices k) = Some ([[], ''server-hub'', ''api'', ''projects'', int_str k, ''services''], [])
   \<and> read_target (ep_projectDeployments k) = Some ([[], ''server-hub'', ''api'', ''projects'', int_str k, ''deployments''], [])
   \<and> read_target (ep_projectDeploy k) = Some ([[], ''server-hub'', ''api'', ''projects'', int_str k, ''deploy''], [])
   \<and> read_target (ep_projectAction k a (Some True)) = Some ([[], ''server-hub'', ''api'', ''projects'', int_str k, action_name a], [(''confirm'', ''true'')])
   \<and> read_target (ep_projectAction k a None) = Some ([[], ''server-hub'', ''api'', ''projects'', int_str k, action_name a], [])
   \<and> read_target (ep_deploymentRollback k n) = Some ([[], ''server-hub'', ''api'', ''projects'', int_str k, ''deployments'', int_str n, ''rollback''], [])
   \<and> read_target (ep_secrets k) = Some ([[], ''server-hub'', ''api'', ''projects'', int_str k, ''secrets''], [])
   \<and> read_target (ep_secretReveal k) = Some ([[], ''server-hub'', ''api'', ''secrets'', int_str k, ''reveal''], [])
   \<and> read_target (ep_backups k) = Some ([[], ''server-hub'', ''api'', ''projects'', int_str k, ''backups''], [])
   \<and> read_target (ep_backup k) = Some ([[], ''server-hub'', ''api'', ''backups'', int_str k], [])
   \<and> read_target (ep_backupDownload k) = Some ([[], ''server-hub'', ''api'', ''backups'', int_str k, ''download''], [])
   \<and> read_target (ep_backupRestore k) = Some ([[], ''server-hub'', ''api'', ''backups'', int_str k, ''restore''], [(''confirm'', ''true'')])
   \<and> read_target (ep_notificationGroupMember k n) = Some ([[], ''server-hub'', ''api'', ''notification-groups'', int_str k, ''members'', int_str n], [])
   \<and> read_target (ep_notificationRule k) = Some ([[], ''server-hub'', ''api'', ''notification-rules'', int_str k], [])
   \<and> read_target (ep_maintenanceWindow k) = Some ([[], ''server-hub'', ''api'', ''maintenance-windows'', int_str k], [])
   \<and> read_target (ep_serverById k) = Some ([[], ''server-hub'', ''api'', ''servers'', int_str k], [])
   \<and> read_target (ep_serverToken k n) = Some ([[], ''server-hub'', ''api'', ''servers'', int_str k, ''tokens'', int_str n], [])
   \<and> read_target (ep_alertResolve k) = Some ([[], ''server-hub'', ''api'', ''alerts'', int_str k, ''resolve''], [])
   \<and> read_target (ep_healthCheckResults k) = Some ([[], ''server-hub'', ''api'', ''health-checks'', int_str k, ''results''], [])
   \<and> read_target (ep_audit (Some k)) = Some ([[], ''server-hub'', ''api'', ''audit''], [(''limit'', int_str k)])
   \<and> read_target (ep_operations (Some k)) = Some ([[], ''server-hub'', ''api'', ''operations''], [(''limit'', int_str k)])
   \<and> read_target (ep_transfersActivity (Some k)) = Some ([[], ''server-hub'', ''api'', ''transfers'', ''activity''], [(''limit'', int_str k)])"
  by (intro conjI; simp add: endpoint_read)

text \<open>The builders that interpolate text without encoding it read back correctly for
  plain text (letters, digits, dash, underscore, dot), which is what their callers pass.\<close>

lemma raw_endpoints_read_back:
  assumes "plain_text s" and "plain_text t" and "plain_text u"
  shows "read_target (ep_operation s) = Some ([[], ''server-hub'', ''api'', ''operations'', s], [])
   \<and> read_target (ep_execSession s) = Some ([[], ''server-hub'', ''api'', ''exec'', s], [])
   \<and> read_target (ep_telemetry (Some s)) = Some ([[], ''server-hub'', ''api'', ''telemetry''], [(''range'', s)])
   \<and> read_target (ep_serverMetrics k (Some s)) = Some ([[], ''server-hub'', ''api'', ''servers'', int_str k, ''metrics''], [(''range'', s)])
   \<and> read_target (ep_containerLogsStream i s None) = Some ([[], ''server-hub'', ''api'', ''containers'', i, ''logs''], [(''tail'', s), (''follow'', ''1'')])
   \<and> read_target (ep_monitoringMetrics s (Some t) (Some u)) = Some ([[], ''server-hub'', ''api'', ''monitoring'', ''metrics''], [(''metric'', s), (''range'', t), (''step'', u)])
   \<and> read_target (ep_prometheusQueryRange i s t (Some u)) = Some ([[], ''server-hub'', ''api'', ''monitoring'', ''prometheus'', ''query-range''], [(''query'', i), (''start'', s), (''end'', t), (''step'', u)])"
  using assms by (intro conjI; simp add: endpoint_read)

section \<open>Query builders\<close>

definition text_pair :: "string \<Rightarrow> string option \<Rightarrow> query" where
  "text_pair k v = (if js_truthy v then [(k, or_else v [])] else [])"

definition num_pair :: "string \<Rightarrow> int option \<Rightarrow> query" where
  "num_pair k v = (case v of None \<Rightarrow> [] | Some n \<Rightarrow> [(k, int_str n)])"

lemma usp_set_fresh: "k \<notin> fst ` set q \<Longrightarrow> usp_set k v q = q @ [(k, v)]"
  by (induction q) auto

lemma set_text_fresh: "k \<notin> fst ` set q \<Longrightarrow> set_text k v q = q @ text_pair k v"
  by (simp add: set_text_def text_pair_def usp_set_fresh)

lemma set_num_fresh: "k \<notin> fst ` set q \<Longrightarrow> set_num k v q = q @ num_pair k v"
  by (simp add: set_num_def num_pair_def usp_set_fresh split: option.splits)

lemma fst_text_pair: "fst ` set (text_pair k v) \<subseteq> {k}"
  by (cases v) (auto simp: text_pair_def)

lemma fst_num_pair: "fst ` set (num_pair k v) \<subseteq> {k}"
  by (cases v) (auto simp: num_pair_def)

lemma not_in_pairs [simp]:
  "k \<noteq> k' \<Longrightarrow> k \<notin> fst ` set (text_pair k' v)"
  "k \<noteq> k' \<Longrightarrow> k \<notin> fst ` set (num_pair k' n)"
  using fst_text_pair fst_num_pair by blast+

lemma logs_query_pairs:
  "logs_query (Some p) =
     text_pair ''level'' (logsParams_level p) @ text_pair ''source'' (logsParams_source p)
     @ text_pair ''search'' (logsParams_search p) @ num_pair ''projectId'' (logsParams_projectId p)
     @ num_pair ''limit'' (logsParams_limit p) @ num_pair ''offset'' (logsParams_offset p)"
  by (simp add: logs_query_def set_text_fresh set_num_fresh image_Un)

lemma deliveries_query_pairs:
  "deliveries_query (Some p) =
     text_pair ''status'' (deliveriesParams_status p) @ text_pair ''channel'' (deliveriesParams_channel p)
     @ num_pair ''limit'' (deliveriesParams_limit p)"
  by (simp add: deliveries_query_def set_text_fresh set_num_fresh image_Un)

lemma runs_query_pairs:
  "runs_query (Some p) =
     text_pair ''job_id'' (runsParams_job_id p) @ text_pair ''status'' (runsParams_status p)
     @ text_pair ''search'' (runsParams_search p) @ num_pair ''page'' (runsParams_page p)
     @ num_pair ''limit'' (runsParams_limit p) @ text_pair ''sort'' (runsParams_sort p)
     @ text_pair ''order'' (runsParams_order p)"
  by (simp add: runs_query_def set_text_fresh set_num_fresh image_Un)

text \<open>A target with a built query: the path is literal, so the first question mark is the
  one the suffix adds.\<close>

lemma read_target_suffix:
  assumes "CHR ''?'' \<notin> set path"
    and "all_some (map decodeURIComponent (js_split (CHR ''/'') path)) = Some segs"
  shows "read_target (path @ query_suffix q) = Some (segs, q)"
proof (cases "usp_toString q = []")
  case True
  then show ?thesis
    using assms by (simp add: query_suffix_def read_target_def target_segments_def target_query_def
        cut_none usp_parse_def usp_toString_Nil_iff)
next
  case False
  with assms show ?thesis
    by (simp add: query_suffix_def read_target_def target_segments_def target_query_def
        cut_append usp_roundtrip)
qed

lemma read_filters:
  "read_target (ep_logs l) = Some ([[], ''server-hub'', ''api'', ''logs''], logs_query l)"
  "read_target (ep_notificationDeliveries d) =
     Some ([[], ''server-hub'', ''api'', ''notification-deliveries''], deliveries_query d)"
  "read_target (ep_dbBackupsRuns r) = Some ([[], ''server-hub'', ''api'', ''db-backups'', ''runs''], runs_query r)"
  unfolding ep_logs_def ep_notificationDeliveries_def ep_dbBackupsRuns_def append_assoc [symmetric]
  by (rule read_target_suffix; simp add: API_def uri_simps)+

text \<open>The three list filters (activity logs, notification deliveries, backup runs) send
  exactly the filters that are set, once each and in a fixed order, and the server reads
  every value back unchanged, whatever characters a search text contains.\<close>

lemma filter_endpoints_read_back:
  "read_target (ep_logs (Some l)) = Some ([[], ''server-hub'', ''api'', ''logs''],
       text_pair ''level'' (logsParams_level l) @ text_pair ''source'' (logsParams_source l)
       @ text_pair ''search'' (logsParams_search l) @ num_pair ''projectId'' (logsParams_projectId l)
       @ num_pair ''limit'' (logsParams_limit l) @ num_pair ''offset'' (logsParams_offset l))
   \<and> read_target (ep_notificationDeliveries (Some d)) =
       Some ([[], ''server-hub'', ''api'', ''notification-deliveries''],
       text_pair ''status'' (deliveriesParams_status d) @ text_pair ''channel'' (deliveriesParams_channel d)
       @ num_pair ''limit'' (deliveriesParams_limit d))
   \<and> read_target (ep_dbBackupsRuns (Some r)) =
       Some ([[], ''server-hub'', ''api'', ''db-backups'', ''runs''],
       text_pair ''job_id'' (runsParams_job_id r) @ text_pair ''status'' (runsParams_status r)
       @ text_pair ''search'' (runsParams_search r) @ num_pair ''page'' (runsParams_page r)
       @ num_pair ''limit'' (runsParams_limit r) @ text_pair ''sort'' (runsParams_sort r)
       @ text_pair ''order'' (runsParams_order r))
   \<and> read_target (ep_logs None) = Some ([[], ''server-hub'', ''api'', ''logs''], [])
   \<and> read_target (ep_notificationDeliveries None) =
       Some ([[], ''server-hub'', ''api'', ''notification-deliveries''], [])
   \<and> read_target (ep_dbBackupsRuns None) = Some ([[], ''server-hub'', ''api'', ''db-backups'', ''runs''], [])"
proof -
  have none: "logs_query None = []" "deliveries_query None = []" "runs_query None = []"
    by (simp_all add: logs_query_def deliveries_query_def runs_query_def)
  show ?thesis
    by (simp only: read_filters none logs_query_pairs deliveries_query_pairs runs_query_pairs simp_thms)
qed

end
