(* ===== verification/Hub_Steps.thy ===== *)
theory Hub_Steps
  imports Main
begin

text \<open>
  Event-driven components. A component is an executable step function that rejects the
  events its state does not allow; an execution is an explicit sequence of events, so
  every interleaving of user actions, responses and timers is a list. The locales state
  what a component has to show for one step and give the consequence for all executions.
\<close>

fun run :: "('s \<Rightarrow> 'e \<Rightarrow> 's option) \<Rightarrow> 's \<Rightarrow> 'e list \<Rightarrow> 's option" where
  "run step s [] = Some s"
| "run step s (e # es) = (case step s e of None \<Rightarrow> None | Some s' \<Rightarrow> run step s' es)"

lemma run_append: "run step s (es @ fs) = (case run step s es of None \<Rightarrow> None | Some s' \<Rightarrow> run step s' fs)"
  by (induction es arbitrary: s) (auto split: option.splits)

lemma run_snoc: "run step s (es @ [e]) = (case run step s es of None \<Rightarrow> None | Some s' \<Rightarrow> step s' e)"
  by (auto simp: run_append split: option.splits)

text \<open>A property every step keeps holds along every execution.\<close>

locale step_invariant =
  fixes step :: "'s \<Rightarrow> 'e \<Rightarrow> 's option"
    and inv :: "'s \<Rightarrow> bool"
  assumes step_inv: "inv s \<Longrightarrow> step s e = Some s' \<Longrightarrow> inv s'"
begin

lemma run_inv: "inv s \<Longrightarrow> run step s es = Some s' \<Longrightarrow> inv s'"
  by (induction es arbitrary: s) (auto split: option.splits dest: step_inv)

end

text \<open>A system started in a state that satisfies its invariant.\<close>

locale started_system = step_invariant step inv
  for step :: "'s \<Rightarrow> 'e \<Rightarrow> 's option" and inv :: "'s \<Rightarrow> bool" +
  fixes init :: 's
  assumes init_inv: "inv init"
begin

lemma reachable_inv: "run step init es = Some s \<Longrightarrow> inv s"
  using init_inv by (rule run_inv)

end

text \<open>A measure that every step decreases bounds the length of every execution.\<close>

locale decreasing_system = step_invariant step inv
  for step :: "'s \<Rightarrow> 'e \<Rightarrow> 's option" and inv :: "'s \<Rightarrow> bool" +
  fixes work :: "'s \<Rightarrow> nat"
  assumes step_decreases: "inv s \<Longrightarrow> step s e = Some s' \<Longrightarrow> work s' < work s"
begin

lemma run_length: "inv s \<Longrightarrow> run step s es = Some s' \<Longrightarrow> length es + work s' \<le> work s"
proof (induction es arbitrary: s)
  case (Cons e es)
  then obtain t where t: "step s e = Some t" "run step t es = Some s'"
    by (auto split: option.splits)
  with Cons step_inv have "length es + work s' \<le> work t" by blast
  with step_decreases [OF Cons.prems(1) t(1)] show ?case by simp
qed simp

end

text \<open>What is observed of a state comes from an event: when a step makes an observation true
  only by an event that is its source, every observation has a source in the execution.\<close>

locale traced_system =
  fixes step :: "'s \<Rightarrow> 'e \<Rightarrow> 's option"
    and init :: 's
    and obs :: "'x \<Rightarrow> 's \<Rightarrow> bool"
    and source :: "'x \<Rightarrow> 'e \<Rightarrow> bool"
  assumes init_obs: "\<not> obs x init"
    and step_obs: "step s e = Some s' \<Longrightarrow> obs x s' \<Longrightarrow> obs x s \<or> source x e"
begin

lemma traced: "run step init es = Some s \<Longrightarrow> obs x s \<Longrightarrow> \<exists>e \<in> set es. source x e"
proof (induction es arbitrary: s rule: rev_induct)
  case Nil
  then show ?case using init_obs by simp
next
  case (snoc e es)
  then obtain t where "run step init es = Some t" and "step t e = Some s"
    by (auto simp: run_snoc split: option.splits)
  with snoc step_obs show ?case by fastforce
qed

end

text \<open>A law about the events so far and the state they led to.\<close>

locale recorded_system =
  fixes step :: "'s \<Rightarrow> 'e \<Rightarrow> 's option"
    and init :: 's
    and law :: "'e list \<Rightarrow> 's \<Rightarrow> bool"
  assumes law_init: "law [] init"
    and law_step: "law es s \<Longrightarrow> step s e = Some s' \<Longrightarrow> law (es @ [e]) s'"
begin

lemma recorded: "run step init es = Some s \<Longrightarrow> law es s"
proof (induction es arbitrary: s rule: rev_induct)
  case Nil
  then show ?case using law_init by simp
next
  case (snoc e es)
  then obtain t where "run step init es = Some t" "step t e = Some s"
    by (auto simp: run_snoc split: option.splits)
  with snoc.IH law_step show ?case by blast
qed

end

text \<open>Every request goes back to an event in a state that explains it.\<close>

definition explained_by ::
  "('s \<Rightarrow> 'e \<Rightarrow> 's option) \<Rightarrow> 's \<Rightarrow> ('s \<Rightarrow> 'e \<Rightarrow> 'w \<Rightarrow> bool) \<Rightarrow> 'e list \<Rightarrow> 'w \<Rightarrow> bool"
where
  "explained_by step init why es w \<longleftrightarrow>
     (\<exists>as e bs t. es = as @ e # bs \<and> run step init as = Some t \<and> why t e w)"

locale explained_system =
  fixes step :: "'s \<Rightarrow> 'e \<Rightarrow> 's option"
    and init :: 's
    and sent :: "'s \<Rightarrow> 'w list"
    and why :: "'s \<Rightarrow> 'e \<Rightarrow> 'w \<Rightarrow> bool"
  assumes step_why: "step s e = Some s' \<Longrightarrow> w \<in> set (sent s') \<Longrightarrow> w \<in> set (sent s) \<or> why s e w"
begin

lemma explained:
  "run step init es = Some s \<Longrightarrow> w \<in> set (sent s) \<Longrightarrow> w \<in> set (sent init) \<or> explained_by step init why es w"
proof (induction es arbitrary: s rule: rev_induct)
  case (snoc e es)
  then obtain t where t: "run step init es = Some t" "step t e = Some s"
    by (auto simp: run_snoc split: option.splits)
  from step_why [OF t(2) snoc.prems(2)] show ?case
  proof
    assume "w \<in> set (sent t)"
    from snoc.IH [OF t(1) this] show ?thesis
    proof
      assume "explained_by step init why es w"
      then obtain as f bs u where "es = as @ f # bs" "run step init as = Some u" "why u f w"
        unfolding explained_by_def by blast
      then have "explained_by step init why (es @ [e]) w"
        unfolding explained_by_def by (intro exI [of _ as] exI [of _ f] exI [of _ "bs @ [e]"] exI [of _ u]) simp
      then show ?thesis ..
    qed simp
  next
    assume "why t e w"
    with t(1) have "explained_by step init why (es @ [e]) w" unfolding explained_by_def by blast
    then show ?thesis ..
  qed
qed simp

end

text \<open>Refinement: a concrete component implements an abstract one when each of its steps is,
  through an abstraction function, some steps of the abstract component or none at all.
  Every concrete execution is then an abstract one, and what holds of every state the
  abstract component can reach holds of the concrete one.\<close>

locale simulation = step_invariant step inv
  for step :: "'s \<Rightarrow> 'e \<Rightarrow> 's option" and inv :: "'s \<Rightarrow> bool" +
  fixes spec :: "'a \<Rightarrow> 'f \<Rightarrow> 'a option"
    and abs :: "'s \<Rightarrow> 'a"
  assumes simulates: "inv s \<Longrightarrow> step s e = Some s' \<Longrightarrow> \<exists>fs. run spec (abs s) fs = Some (abs s')"
begin

lemma run_refines: "inv s \<Longrightarrow> run step s es = Some s' \<Longrightarrow> \<exists>fs. run spec (abs s) fs = Some (abs s')"
proof (induction es arbitrary: s)
  case Nil
  then show ?case by (auto intro: exI [of _ "[]"])
next
  case (Cons e es)
  then obtain t where t: "step s e = Some t" "run step t es = Some s'"
    by (auto split: option.splits)
  with Cons step_inv obtain gs where "run spec (abs t) gs = Some (abs s')" by blast
  moreover obtain fs where "run spec (abs s) fs = Some (abs t)" using simulates [OF Cons.prems(1) t(1)] ..
  ultimately have "run spec (abs s) (fs @ gs) = Some (abs s')" by (simp add: run_append)
  then show ?case ..
qed

end

text \<open>Confirmation: a component that makes a dangerous request only while it is armed for its
  object. Every such request then goes back to the event that armed it, with nothing in
  between that disarms it or arms it for something else, and to a confirming event.\<close>

definition armed_by ::
  "('s \<Rightarrow> 'e \<Rightarrow> 's option) \<Rightarrow> 's \<Rightarrow> ('s \<Rightarrow> 'e \<Rightarrow> 'x option) \<Rightarrow> ('e \<Rightarrow> bool) \<Rightarrow> 'e list \<Rightarrow> 'x \<Rightarrow> bool"
where
  "armed_by step init arm disarm es x \<longleftrightarrow>
     (\<exists>as a bs t. es = as @ a # bs \<and> run step init as = Some t \<and> arm t a = Some x
        \<and> (\<forall>b \<in> set bs. \<not> disarm b))"

locale confirmed_system =
  fixes step :: "'s \<Rightarrow> 'e \<Rightarrow> 's option"
    and init :: 's
    and armed :: "'s \<Rightarrow> 'x option"
    and arm :: "'s \<Rightarrow> 'e \<Rightarrow> 'x option"
    and disarm :: "'e \<Rightarrow> bool"
    and sent :: "'s \<Rightarrow> 'w list"
    and confirm :: 'e
    and danger :: "'w \<Rightarrow> bool"
    and req :: "'x \<Rightarrow> 'w \<Rightarrow> bool"
  assumes init_armed: "armed init = None"
    and init_sent: "sent init = []"
    and step_armed: "step s e = Some s' \<Longrightarrow> armed s' = Some x
      \<Longrightarrow> arm s e = Some x \<or> (armed s = Some x \<and> \<not> disarm e \<and> arm s e = None)"
    and step_sent: "step s e = Some s' \<Longrightarrow> w \<in> set (sent s') \<Longrightarrow> danger w
      \<Longrightarrow> w \<in> set (sent s) \<or> (e = confirm \<and> (\<exists>x. armed s = Some x \<and> req x w))"
begin

lemma armed_since: "run step init es = Some s \<Longrightarrow> armed s = Some x \<Longrightarrow> armed_by step init arm disarm es x"
proof (induction es arbitrary: s rule: rev_induct)
  case Nil
  then show ?case using init_armed by simp
next
  case (snoc e es)
  then obtain t where t: "run step init es = Some t" "step t e = Some s"
    by (auto simp: run_snoc split: option.splits)
  from step_armed [OF t(2) snoc.prems(2)] show ?case
  proof
    assume "arm t e = Some x"
    with t(1) show ?case
      unfolding armed_by_def by (intro exI [of _ es] exI [of _ e] exI [of _ "[]"] exI [of _ t]) simp
  next
    assume *: "armed t = Some x \<and> \<not> disarm e \<and> arm t e = None"
    with snoc.IH t(1) obtain as a bs u where "es = as @ a # bs" "run step init as = Some u" "arm u a = Some x"
      "\<forall>b \<in> set bs. \<not> disarm b"
      unfolding armed_by_def by blast
    with * show ?case
      unfolding armed_by_def
      by (intro exI [of _ as] exI [of _ a] exI [of _ "bs @ [e]"] exI [of _ u]) auto
  qed
qed

lemma confirmed:
  "run step init es = Some s \<Longrightarrow> w \<in> set (sent s) \<Longrightarrow> danger w
    \<Longrightarrow> \<exists>es' cs x. es = es' @ confirm # cs \<and> armed_by step init arm disarm es' x \<and> req x w"
proof (induction es arbitrary: s rule: rev_induct)
  case Nil
  then show ?case using init_sent by simp
next
  case (snoc e es)
  then obtain t where t: "run step init es = Some t" "step t e = Some s"
    by (auto simp: run_snoc split: option.splits)
  from step_sent [OF t(2) snoc.prems(2,3)] show ?case
  proof
    assume "w \<in> set (sent t)"
    with snoc.IH [OF t(1)] snoc.prems(3) show ?case by fastforce
  next
    assume "e = confirm \<and> (\<exists>x. armed t = Some x \<and> req x w)"
    with armed_since [OF t(1)] show ?case by auto
  qed
qed

end

end
