(* ===== verification/Web_Refresh.thy ===== *)
theory Web_Refresh
  imports Hub_Steps
begin

text \<open>
  The single-flight session refresh under concurrency, \<open>client/src/lib/api.ts\<close> lines 107
  to 137 (the mobile client's \<open>refreshSession\<close> follows the same protocol). Any number
  of \<open>req\<close> calls run at once; the module variable \<open>refreshPromise\<close> is
  \<open>sf_current\<close>, a promise is named by the number of refreshes started before it, and
  each event is one turn of the event loop. The order of events is arbitrary.
\<close>

section \<open>Calls and the shared promise\<close>

datatype call_phase =
    Idle
  | FirstSent
  | Waiting nat
  | SecondSent
  | Finished

record sf_state =
  sf_calls :: "nat \<Rightarrow> call_phase"
  sf_current :: "nat option"
  sf_started :: nat
  sf_result :: "nat \<Rightarrow> bool option"

definition sf_init :: sf_state where
  "sf_init = \<lparr>sf_calls = (\<lambda>_. Idle), sf_current = None, sf_started = 0, sf_result = (\<lambda>_. None)\<rparr>"

datatype sf_event =
    Send nat
  | Answer nat
  | Unauthorized nat
  | RefreshAnswer bool
  | Resume nat
  | Answer2 nat

text \<open>\<open>refreshSession\<close>: join the promise in flight or start one.\<close>

definition sf_join :: "sf_state \<Rightarrow> nat \<times> sf_state" where
  "sf_join s =
     (case sf_current s of
        Some p \<Rightarrow> (p, s)
      | None \<Rightarrow> (sf_started s, s\<lparr>sf_current := Some (sf_started s), sf_started := Suc (sf_started s)\<rparr>))"

definition set_call :: "nat \<Rightarrow> call_phase \<Rightarrow> sf_state \<Rightarrow> sf_state" where
  "set_call i p s = s\<lparr>sf_calls := (sf_calls s)(i := p)\<rparr>"

text \<open>\<open>Unauthorized\<close> is a 401 on a retryable call; any other first answer, and every
  second answer, ends the call. The \<open>finally\<close> handler clears the variable before the
  waiting calls resume.\<close>

fun sf_step :: "sf_state \<Rightarrow> sf_event \<Rightarrow> sf_state option" where
  "sf_step s (Send i) =
     (if sf_calls s i = Idle then Some (set_call i FirstSent s) else None)"
| "sf_step s (Answer i) =
     (if sf_calls s i = FirstSent then Some (set_call i Finished s) else None)"
| "sf_step s (Unauthorized i) =
     (if sf_calls s i = FirstSent
      then (case sf_join s of (p, s') \<Rightarrow> Some (set_call i (Waiting p) s'))
      else None)"
| "sf_step s (RefreshAnswer ok) =
     (case sf_current s of
        None \<Rightarrow> None
      | Some p \<Rightarrow> Some (s\<lparr>sf_current := None, sf_result := (sf_result s)(p := Some ok)\<rparr>))"
| "sf_step s (Resume i) =
     (case sf_calls s i of
        Waiting p \<Rightarrow>
          (case sf_result s p of
             None \<Rightarrow> None
           | Some ok \<Rightarrow> Some (set_call i (if ok then SecondSent else Finished) s))
      | _ \<Rightarrow> None)"
| "sf_step s (Answer2 i) =
     (if sf_calls s i = SecondSent then Some (set_call i Finished s) else None)"

section \<open>Invariant\<close>

text \<open>Exactly the promises started and not in flight have a result, the one in flight is
  the last one started, and every waiting call waits for a started promise.\<close>

definition sf_inv :: "sf_state \<Rightarrow> bool" where
  "sf_inv s \<longleftrightarrow>
     (\<forall>p. sf_result s p = None \<longleftrightarrow> (sf_started s \<le> p \<or> sf_current s = Some p))
     \<and> (\<forall>p. sf_current s = Some p \<longrightarrow> Suc p = sf_started s)
     \<and> (\<forall>i p. sf_calls s i = Waiting p \<longrightarrow> p < sf_started s)"

lemma sf_inv_init: "sf_inv sf_init"
  by (simp add: sf_inv_def sf_init_def)

lemma sf_join_inv: "sf_inv s \<Longrightarrow> sf_join s = (p, s') \<Longrightarrow> sf_inv s' \<and> p < sf_started s'"
  by (auto simp: sf_inv_def sf_join_def less_Suc_eq Suc_le_eq split: option.splits)

lemma sf_waiting:
  "sf_inv s \<Longrightarrow> sf_calls s i = Waiting p \<Longrightarrow> sf_current s = Some p \<or> sf_result s p \<noteq> None"
  unfolding sf_inv_def by (metis not_less)

lemma set_call_inv:
  "sf_inv s \<Longrightarrow> (\<And>q. p = Waiting q \<Longrightarrow> q < sf_started s) \<Longrightarrow> sf_inv (set_call i p s)"
  by (simp add: sf_inv_def set_call_def)

lemma sf_step_inv:
  assumes "sf_inv s" and "sf_step s e = Some s'"
  shows "sf_inv s'"
proof (cases e)
  case (Unauthorized i)
  obtain p t where "sf_join s = (p, t)" by fastforce
  with assms Unauthorized sf_join_inv show ?thesis
    by (auto split: if_splits intro!: set_call_inv)
next
  case (RefreshAnswer ok)
  with assms show ?thesis
    by (fastforce simp: sf_inv_def split: option.splits)
next
  case (Resume i)
  with assms show ?thesis
    by (auto split: call_phase.splits option.splits if_splits intro!: set_call_inv)
qed (use assms in \<open>auto split: if_splits intro!: set_call_inv\<close>)

interpretation sf: started_system sf_step sf_inv sf_init
  by unfold_locales (auto intro: sf_step_inv sf_inv_init)

section \<open>Work\<close>

text \<open>What is left to do for the calls below \<open>n\<close>, counting the refresh in flight.\<close>

fun phase_work :: "call_phase \<Rightarrow> nat" where
  "phase_work Idle = 5"
| "phase_work FirstSent = 4"
| "phase_work (Waiting p) = 2"
| "phase_work SecondSent = 1"
| "phase_work Finished = 0"

definition sf_work :: "nat \<Rightarrow> sf_state \<Rightarrow> nat" where
  "sf_work n s = (\<Sum>i<n. phase_work (sf_calls s i)) + (if sf_current s = None then 0 else 1)"

fun event_call :: "sf_event \<Rightarrow> nat option" where
  "event_call (Send i) = Some i"
| "event_call (Answer i) = Some i"
| "event_call (Unauthorized i) = Some i"
| "event_call (RefreshAnswer ok) = None"
| "event_call (Resume i) = Some i"
| "event_call (Answer2 i) = Some i"

text \<open>The system restricted to \<open>n\<close> calls.\<close>

definition sf_step_upto :: "nat \<Rightarrow> sf_state \<Rightarrow> sf_event \<Rightarrow> sf_state option" where
  "sf_step_upto n s e =
     (if (case event_call e of None \<Rightarrow> True | Some i \<Rightarrow> i < n) then sf_step s e else None)"

lemma sum_update:
  fixes f :: "'a \<Rightarrow> nat" and i n :: nat
  assumes "i < n"
  shows "(\<Sum>j<n. f ((c(i := p)) j)) + f (c i) = (\<Sum>j<n. f (c j)) + f p"
proof -
  have "(\<Sum>j<n. f ((c(i := p)) j)) = f p + (\<Sum>j \<in> {..<n} - {i}. f (c j))"
    using assms by (subst sum.remove [of _ i]) (auto intro!: sum.cong)
  moreover have "(\<Sum>j<n. f (c j)) = f (c i) + (\<Sum>j \<in> {..<n} - {i}. f (c j))"
    using assms by (subst sum.remove [of _ i]) auto
  ultimately show ?thesis by simp
qed

lemma set_call_work:
  "i < n \<Longrightarrow> sf_work n (set_call i p s) + phase_work (sf_calls s i) = sf_work n s + phase_work p"
  using sum_update [of i n phase_work "sf_calls s" p] by (simp add: sf_work_def set_call_def)

lemma sf_join_work:
  "sf_join s = (p, t) \<Longrightarrow> sf_work n t \<le> sf_work n s + 1 \<and> sf_calls t = sf_calls s"
  by (auto simp: sf_join_def sf_work_def split: option.splits)

lemma sf_step_work:
  assumes "sf_step_upto n s e = Some s'"
  shows "sf_work n s' < sf_work n s"
proof (cases e)
  case (Unauthorized i)
  obtain p t where j: "sf_join s = (p, t)" by fastforce
  with assms Unauthorized have "i < n" "sf_calls s i = FirstSent" "s' = set_call i (Waiting p) t"
    by (auto simp: sf_step_upto_def split: if_splits)
  with sf_join_work [OF j, of n] set_call_work [of i n "Waiting p" t] show ?thesis by simp
next
  case (Send i)
  with assms set_call_work [of i n FirstSent s] show ?thesis
    by (auto simp: sf_step_upto_def split: if_splits)
next
  case (Answer i)
  with assms set_call_work [of i n Finished s] show ?thesis
    by (auto simp: sf_step_upto_def split: if_splits)
next
  case (RefreshAnswer ok)
  with assms show ?thesis
    by (auto simp: sf_step_upto_def sf_work_def split: option.splits)
next
  case (Resume i)
  with assms set_call_work [of i n SecondSent s] set_call_work [of i n Finished s] show ?thesis
    by (auto simp: sf_step_upto_def split: if_splits call_phase.splits option.splits)
next
  case (Answer2 i)
  with assms set_call_work [of i n Finished s] show ?thesis
    by (auto simp: sf_step_upto_def split: if_splits)
qed

lemma sf_step_upto_inv: "sf_inv s \<Longrightarrow> sf_step_upto n s e = Some s' \<Longrightarrow> sf_inv s'"
  by (auto simp: sf_step_upto_def split: if_splits intro: sf_step_inv)

interpretation sf_bounded: decreasing_system "sf_step_upto n" sf_inv "sf_work n" for n
  by unfold_locales (auto intro: sf_step_upto_inv sf_step_work)

section \<open>Properties\<close>

text \<open>C1: at most one refresh is in flight, in every interleaving of any number of
  concurrent calls: the shared variable holds the only promise without a result, every
  waiting call waits either for that promise or for one that has already been answered,
  and a new refresh is started only when none is in flight.\<close>

theorem single_flight:
  assumes "run sf_step sf_init es = Some s"
  shows "(\<forall>p < sf_started s. sf_result s p = None \<longleftrightarrow> sf_current s = Some p)
       \<and> card {p. p < sf_started s \<and> sf_result s p = None} \<le> 1
       \<and> (\<forall>i p. sf_calls s i = Waiting p \<longrightarrow> sf_current s = Some p \<or> sf_result s p \<noteq> None)
       \<and> (\<forall>e s'. sf_step s e = Some s' \<longrightarrow> sf_started s' \<noteq> sf_started s \<longrightarrow>
            sf_current s = None \<and> sf_started s' = Suc (sf_started s))"
proof -
  have inv: "sf_inv s" using assms by (rule sf.reachable_inv)
  then have open_iff: "\<forall>p < sf_started s. sf_result s p = None \<longleftrightarrow> sf_current s = Some p"
    by (auto simp: sf_inv_def)
  have "{p. p < sf_started s \<and> sf_result s p = None} \<subseteq> set_option (sf_current s)"
    using open_iff by auto
  then have "card {p. p < sf_started s \<and> sf_result s p = None} \<le> card (set_option (sf_current s))"
    by (intro card_mono) auto
  also have "\<dots> \<le> 1" by (cases "sf_current s") auto
  finally have one: "card {p. p < sf_started s \<and> sf_result s p = None} \<le> 1" .
  have wait: "\<forall>i p. sf_calls s i = Waiting p \<longrightarrow> sf_current s = Some p \<or> sf_result s p \<noteq> None"
    using inv sf_waiting by blast
  have "sf_current s = None \<and> sf_started s' = Suc (sf_started s)"
    if "sf_step s e = Some s'" and "sf_started s' \<noteq> sf_started s" for e s'
    using that by (cases e) (auto simp: sf_join_def set_call_def split: if_splits option.splits
        call_phase.splits)
  with open_iff one wait show ?thesis by blast
qed

theorem single_flight_witness:
  "\<exists>s. run sf_step sf_init [Send 0, Send 1, Unauthorized 0, Unauthorized 1] = Some s
     \<and> sf_started s = 1 \<and> sf_calls s 0 = Waiting 0 \<and> sf_calls s 1 = Waiting 0
     \<and> card {p. p < sf_started s \<and> sf_result s p = None} \<le> 1"
proof -
  obtain s where s: "run sf_step sf_init [Send 0, Send 1, Unauthorized 0, Unauthorized 1] = Some s"
    and "sf_started s = 1" "sf_calls s 0 = Waiting 0" "sf_calls s 1 = Waiting 0"
    by (simp add: sf_init_def set_call_def sf_join_def)
  with single_flight [OF s] show ?thesis by blast
qed

text \<open>C28: no refresh storm and no lost call. With \<open>n\<close> calls, every execution is shorter
  than \<open>5 n + 1\<close> events, so the retry cannot loop, and as long as a call has been
  sent and has not finished some event is possible, so no call waits for ever on a
  promise nobody settles.\<close>

theorem refresh_terminates:
  assumes "run (sf_step_upto n) sf_init es = Some s"
  shows "length es \<le> 5 * n
       \<and> (\<forall>i < n. sf_calls s i \<notin> {Idle, Finished} \<longrightarrow> (\<exists>e s'. sf_step_upto n s e = Some s'))"
proof -
  have "sf_work n sf_init = 5 * n" by (simp add: sf_work_def sf_init_def)
  with sf_bounded.run_length [OF sf_inv_init assms] have len: "length es \<le> 5 * n" by simp
  have inv: "sf_inv s" using sf_inv_init assms by (rule sf_bounded.run_inv)
  have "\<exists>e s'. sf_step_upto n s e = Some s'" if "i < n" and "sf_calls s i \<notin> {Idle, Finished}" for i
  proof (cases "sf_calls s i")
    case FirstSent
    with that have "sf_step_upto n s (Answer i) = Some (set_call i Finished s)"
      by (simp add: sf_step_upto_def)
    then show ?thesis by blast
  next
    case (Waiting p)
    show ?thesis
    proof (cases "sf_result s p")
      case None
      with inv Waiting sf_waiting have "sf_current s = Some p" by blast
      then have "sf_step_upto n s (RefreshAnswer True) \<noteq> None" by (simp add: sf_step_upto_def)
      then show ?thesis by blast
    next
      case (Some ok)
      with Waiting that have "sf_step_upto n s (Resume i) \<noteq> None" by (simp add: sf_step_upto_def)
      then show ?thesis by blast
    qed
  next
    case SecondSent
    with that have "sf_step_upto n s (Answer2 i) \<noteq> None" by (simp add: sf_step_upto_def)
    then show ?thesis by blast
  qed (use that in auto)
  with len show ?thesis by blast
qed

theorem refresh_terminates_witness:
  "\<exists>s. run (sf_step_upto 2) sf_init [Send 0, Unauthorized 0, RefreshAnswer True] = Some s
     \<and> (\<exists>e s'. sf_step_upto 2 s e = Some s')"
proof -
  obtain s where s: "run (sf_step_upto 2) sf_init [Send 0, Unauthorized 0, RefreshAnswer True] = Some s"
    and "sf_calls s 0 = Waiting 0"
    by (simp add: sf_init_def set_call_def sf_join_def sf_step_upto_def)
  with refresh_terminates [OF s] show ?thesis by force
qed

end
