(* ===== verification/Web_Request.thy ===== *)
theory Web_Request
  imports Endpoints
begin

text \<open>
  The request core of the web client, \<open>client/src/lib/api.ts\<close> lines 76 to 153 and 495 to
  518: the error class, session refresh, \<open>req\<close> with its one transparent retry, and the
  multipart \<open>uploadReq\<close>. The browser's \<open>fetch\<close> and the server behind it are a
  parameter \<open>net\<close>: it answers a request in a world of any type \<open>'w\<close>, or rejects.
\<close>

section \<open>Requests and responses\<close>

datatype http_method = GET | POST | PUT | PATCH | DELETE

datatype req_body = NoBody | TextBody string | FormFile string string

record http_request =
  hr_url :: string
  hr_method :: http_method
  hr_credentials :: bool
  hr_jsonHeader :: bool
  hr_body :: req_body

text \<open>The response body is \<open>None\<close> where \<open>res.json()\<close> throws.\<close>

record http_response =
  rs_status :: int
  rs_json :: "json option"

definition rs_ok :: "http_response \<Rightarrow> bool" where
  "rs_ok r \<longleftrightarrow> 200 \<le> rs_status r \<and> rs_status r \<le> 299"

datatype fetch_result = Rejected string | Response http_response

type_synonym 'w net = "http_request \<Rightarrow> 'w \<Rightarrow> fetch_result \<times> 'w"

text \<open>The request options of the callers: method and body.\<close>

record RequestInit =
  ri_method :: http_method
  ri_body :: req_body

definition API_BASE :: "string option \<Rightarrow> string" where
  "API_BASE env = or_else env ''http://localhost:4000''"

datatype js_error = ApiError int string | JsError string

fun error_message :: "js_error \<Rightarrow> string" where
  "error_message (ApiError s m) = m"
| "error_message (JsError m) = m"

section \<open>Session refresh\<close>

definition refresh_request :: "string \<Rightarrow> http_request" where
  "refresh_request base =
     \<lparr>hr_url = base @ ep_authRefresh, hr_method = POST, hr_credentials = True,
      hr_jsonHeader = True, hr_body = NoBody\<rparr>"

text \<open>One refresh as a caller sees it that starts it and awaits it; how concurrent callers
  share it is the subject of the theory of the refresh protocol.\<close>

definition refreshSession :: "'w net \<Rightarrow> string \<Rightarrow> 'w \<Rightarrow> bool \<times> 'w" where
  "refreshSession net base w =
     (case net (refresh_request base) w of
        (Response r, w') \<Rightarrow> (rs_ok r, w')
      | (Rejected m, w') \<Rightarrow> (False, w'))"

section \<open>Reading a response\<close>

fun js_String :: "json \<Rightarrow> string" and js_join :: "json list \<Rightarrow> string" where
  "js_String JNull = ''null''"
| "js_String (JBool b) = (if b then ''true'' else ''false'')"
| "js_String (JNum q) = num_str q"
| "js_String (JStr s) = s"
| "js_String (JArr vs) = js_join vs"
| "js_String (JObj ms) = ''[object Object]''"
| "js_join [] = []"
| "js_join [v] = (case v of JNull \<Rightarrow> [] | _ \<Rightarrow> js_String v)"
| "js_join (v # w # vs) = (case v of JNull \<Rightarrow> [] | _ \<Rightarrow> js_String v) @ CHR '','' # js_join (w # vs)"

definition response_error :: "string \<Rightarrow> http_response \<Rightarrow> json \<Rightarrow> string" where
  "response_error verb res body =
     (case json_get ''error'' body of
        Some e \<Rightarrow> js_String e
      | None \<Rightarrow> verb @ '' failed ('' @ int_str (rs_status res) @ '')'')"

text \<open>The tail of \<open>req\<close> and \<open>uploadReq\<close> after the retry: \<open>None\<close> is
  \<open>undefined\<close>.\<close>

definition finish :: "string \<Rightarrow> json option \<Rightarrow> http_response \<Rightarrow> js_error + json option" where
  "finish verb blank res =
     (if rs_status res = 204 then Inr blank
      else let body = or_else (rs_json res) JNull in
      if \<not> rs_ok res then Inl (ApiError (rs_status res) (response_error verb res body))
      else Inr (Some body))"

section \<open>\<open>req\<close>\<close>

definition mk_request :: "string \<Rightarrow> string \<Rightarrow> RequestInit \<Rightarrow> http_request" where
  "mk_request base path init =
     \<lparr>hr_url = base @ path, hr_method = ri_method init, hr_credentials = True,
      hr_jsonHeader = True, hr_body = ri_body init\<rparr>"

definition is_auth_path :: "string \<Rightarrow> bool" where
  "is_auth_path path \<longleftrightarrow> js_startsWith path ''/server-hub/api/auth/''"

function req :: "'w net \<Rightarrow> string \<Rightarrow> string \<Rightarrow> RequestInit \<Rightarrow> bool \<Rightarrow> 'w \<Rightarrow> (js_error + json option) \<times> 'w" where
  "req net base path init retry w =
     (case net (mk_request base path init) w of
        (Rejected m, w1) \<Rightarrow> (Inl (JsError m), w1)
      | (Response res, w1) \<Rightarrow>
          if rs_status res = 401 \<and> retry \<and> \<not> is_auth_path path then
            (case refreshSession net base w1 of
               (ok, w2) \<Rightarrow>
                 if ok then req net base path init False w2
                 else (finish ''Request'' None res, w2))
          else (finish ''Request'' None res, w1))"
  by pat_completeness auto
termination
  by (relation "measure (\<lambda>(net, base, path, init, retry, w). if retry then 1 else 0)") auto

declare req.simps [simp del]

section \<open>\<open>uploadReq\<close>\<close>

definition upload_request :: "string \<Rightarrow> string \<Rightarrow> req_body \<Rightarrow> http_request" where
  "upload_request base path form =
     \<lparr>hr_url = base @ path, hr_method = POST, hr_credentials = True,
      hr_jsonHeader = False, hr_body = form\<rparr>"

definition upload_empty :: json where
  "upload_empty = JObj [(''message'', JStr ''ok''), (''path'', JStr [])]"

definition uploadReq :: "'w net \<Rightarrow> string \<Rightarrow> string \<Rightarrow> req_body \<Rightarrow> 'w \<Rightarrow> (js_error + json option) \<times> 'w" where
  "uploadReq net base path form w =
     (case net (upload_request base path form) w of
        (Rejected m, w1) \<Rightarrow> (Inl (JsError m), w1)
      | (Response res, w1) \<Rightarrow>
          if rs_status res = 401 then
            (case refreshSession net base w1 of
               (ok, w2) \<Rightarrow>
                 if ok then
                   (case net (upload_request base path form) w2 of
                      (Rejected m, w3) \<Rightarrow> (Inl (JsError m), w3)
                    | (Response res', w3) \<Rightarrow> (finish ''Upload'' (Some upload_empty) res', w3))
                 else (finish ''Upload'' (Some upload_empty) res, w2))
          else (finish ''Upload'' (Some upload_empty) res, w1))"

section \<open>Traffic\<close>

text \<open>A network that also records the requests it is sent.\<close>

definition recording :: "'w net \<Rightarrow> ('w \<times> http_request list) net" where
  "recording net r w = (case net r (fst w) of (a, w') \<Rightarrow> (a, (w', snd w @ [r])))"

lemma recording_log: "recording net r (w, l) = (fst (net r w), (snd (net r w), l @ [r]))"
  by (simp add: recording_def split: prod.splits)

lemma refreshSession_log:
  "refreshSession (recording net) base (w, l) =
     (fst (refreshSession net base w), (snd (refreshSession net base w), l @ [refresh_request base]))"
  by (simp add: refreshSession_def recording_log split: prod.splits fetch_result.splits)

lemma req_no_retry:
  "req net base path init False w =
     (case net (mk_request base path init) w of
        (Rejected m, w1) \<Rightarrow> (Inl (JsError m), w1)
      | (Response res, w1) \<Rightarrow> (finish ''Request'' None res, w1))"
  by (subst req.simps) (simp split: prod.splits fetch_result.splits)

lemma req_no_retry_log:
  "snd (snd (req (recording net) base path init False (w, l))) = l @ [mk_request base path init]"
  by (simp add: req_no_retry recording_log split: prod.splits fetch_result.splits)

lemma req_result_no_retry:
  "fst (req (recording net) base path init False (w, l)) = fst (req net base path init False w)"
  by (simp add: req_no_retry recording_log split: prod.splits fetch_result.splits)

text \<open>The first answer asks for a refresh.\<close>

definition expired :: "fetch_result \<Rightarrow> bool" where
  "expired a \<longleftrightarrow> (\<exists>r. a = Response r \<and> rs_status r = 401)"

text \<open>C2: the whole traffic of one \<open>req\<close> call. It sends the request once; only when the
  answer is 401 and the path is not an authentication endpoint does it send one refresh,
  and only when the refresh succeeds does it repeat the identical request, once. No
  answer of the network makes it send more.\<close>

theorem req_traffic:
  "snd (snd (req (recording net) base path init True (w, []))) =
     (let r = mk_request base path init; a = fst (net r w); w1 = snd (net r w) in
      if expired a \<and> \<not> is_auth_path path then
        (if fst (refreshSession net base w1) then [r, refresh_request base, r]
         else [r, refresh_request base])
      else [r])"
  by (subst req.simps)
     (auto simp: Let_def recording_log refreshSession_log req_no_retry_log expired_def
       split: prod.splits fetch_result.splits)



text \<open>An upload is sent at most twice, the second time only after a 401 and a
  successful refresh, with the same form; uploads are never exempt from the refresh.\<close>

lemma uploadReq_traffic:
  "snd (snd (uploadReq (recording net) base path form (w, []))) =
     (let r = upload_request base path form; a = fst (net r w); w1 = snd (net r w) in
      if expired a then
        (if fst (refreshSession net base w1) then [r, refresh_request base, r]
         else [r, refresh_request base])
      else [r])"
  by (auto simp: uploadReq_def Let_def recording_log refreshSession_log expired_def
       split: prod.splits fetch_result.splits)

section \<open>Which endpoints are exempt from the refresh\<close>

lemmas auth_path_simps = is_auth_path_def endpoint_defs API_def

lemma auth_endpoints_exempt:
  "is_auth_path ep_authLogin" "is_auth_path ep_authToken" "is_auth_path ep_authRefresh"
  "is_auth_path ep_authLogout" "is_auth_path ep_authLogoutAll" "is_auth_path ep_authMe"
  "is_auth_path ep_authPassword"
  by (simp_all add: auth_path_simps)

text \<open>The session check is exempt: \<open>api.me\<close>, which the web store calls at start-up,
  is an authentication endpoint, so a 401 there is final and is never renewed through the
  refresh cookie, even when a refresh would have succeeded.\<close>

lemma me_never_refreshes:
  "is_auth_path ep_authMe
   \<and> snd (snd (req (recording net) base ep_authMe init True (w, []))) = [mk_request base ep_authMe init]"
proof -
  have "is_auth_path ep_authMe" by (rule auth_endpoints_exempt)
  then show ?thesis
    by (subst req.simps) (auto simp: recording_log split: prod.splits fetch_result.splits)
qed

end
