(* ===== verification/Types_Core.thy ===== *)
theory Types_Core
  imports Js_Json
begin

text \<open>
  Response contracts of the first part of \<open>packages/shared/src/api-types.ts\<close>: projects, services,
  deployments, dashboard, host inventory, operations and logs.
  One \<open>record\<close> per interface, its fields in the order of the source and prefixed by the
  interface name. An optional or nullable field is an option; counters, identifiers and
  byte counts are \<open>int\<close>, measured quantities are \<open>rat\<close>; a union of string
  literals is a \<open>datatype\<close>; unchecked payloads are \<open>json\<close>.
\<close>

record User =
  user_username :: string
  user_role :: string

record Project =
  project_id :: int
  project_name :: string
  project_description :: "string option"
  project_repository :: "string option"
  project_branch :: "string option"
  project_environment :: "string option"
  project_deploymentPath :: "string option"
  project_composeFile :: "string option"
  project_gatewayPrefix :: "string option"
  project_healthUrl :: "string option"
  project_status :: string
  project_autoDeploy :: bool
  project_createdAt :: string
  project_updatedAt :: string

record Service =
  service_id :: int
  service_projectId :: int
  service_name :: string
  service_type :: string
  service_containerName :: "string option"
  service_internalPort :: "int option"
  service_hostPort :: "int option"
  service_healthUrl :: "string option"
  service_dockerServiceName :: "string option"
  service_status :: string
  service_lastHealth :: "string option"
  service_lastHealthAt :: "string option"
  service_responseTimeMs :: "int option"

record Deployment =
  deployment_id :: int
  deployment_projectId :: int
  deployment_commitSha :: "string option"
  deployment_branch :: "string option"
  deployment_trigger :: "string option"
  deployment_status :: string
  deployment_startedAt :: string
  deployment_completedAt :: "string option"
  deployment_durationSec :: "int option"
  deployment_logs :: "string option"

record SecretMeta =
  secretMeta_id :: int
  secretMeta_projectId :: int
  secretMeta_name :: string
  secretMeta_environment :: string
  secretMeta_serviceId :: "int option"
  secretMeta_configured :: bool
  secretMeta_updatedAt :: string

record DashboardData_server =
  dashboardData_server_cpuPercent :: rat
  dashboardData_server_memTotalMB :: rat
  dashboardData_server_memUsedMB :: rat
  dashboardData_server_memPercent :: rat
  dashboardData_server_diskTotalGB :: rat
  dashboardData_server_diskUsedGB :: rat
  dashboardData_server_diskPercent :: rat
  dashboardData_server_uptimeSec :: int

record DashboardData_counts =
  dashboardData_counts_projects :: int
  dashboardData_counts_services :: int
  dashboardData_counts_deployments :: int
  dashboardData_counts_healthy :: int
  dashboardData_counts_degraded :: int
  dashboardData_counts_down :: int

record DashboardData =
  dashboardData_server :: DashboardData_server
  dashboardData_counts :: DashboardData_counts
  dashboardData_projects :: "Project list"
  dashboardData_recentDeployments :: "Deployment list"
  dashboardData_dockerAvailable :: bool

record ServerInfo =
  serverInfo_cpu :: rat
  serverInfo_memTotalMB :: rat
  serverInfo_memUsedMB :: rat
  serverInfo_memPercent :: rat
  serverInfo_diskTotalGB :: rat
  serverInfo_diskUsedGB :: rat
  serverInfo_diskPercent :: rat
  serverInfo_uptimeSec :: int
  serverInfo_cpuCores :: int
  serverInfo_netRxRate :: rat
  serverInfo_netTxRate :: rat
  serverInfo_projects :: int
  serverInfo_services :: int
  serverInfo_deployments :: int
  serverInfo_containers :: int
  serverInfo_runningContainers :: int
  serverInfo_dockerAvailable :: bool

record AuditLog =
  auditLog_id :: int
  auditLog_actor :: string
  auditLog_action :: string
  auditLog_resource :: string
  auditLog_resourceId :: "string option"
  auditLog_timestamp :: string
  auditLog_result :: string
  auditLog_metadata :: "string option"

record DiscoveredService =
  discoveredService_name :: string
  discoveredService_container :: string
  discoveredService_image :: string
  discoveredService_state :: string
  discoveredService_type :: string

record DiscoveredProject =
  discoveredProject_name :: string
  discoveredProject_deploymentPath :: string
  discoveredProject_composeFile :: string
  discoveredProject_registered :: bool
  discoveredProject_services :: "DiscoveredService list"

record FoundProject =
  foundProject_name :: string
  foundProject_path :: string
  foundProject_stack :: "string list"
  foundProject_composeFile :: string
  foundProject_registered :: bool

record DiscoveryResult =
  discoveryResult_dockerAvailable :: bool
  discoveryResult_projects :: "DiscoveredProject list"
  discoveryResult_filesystem :: "FoundProject list"

record DbServerInfo =
  dbServerInfo_key :: string
  dbServerInfo_engine :: string
  dbServerInfo_source :: string
  dbServerInfo_name :: string
  dbServerInfo_host :: string
  dbServerInfo_port :: int
  dbServerInfo_container :: string
  dbServerInfo_version :: string
  dbServerInfo_state :: string
  dbServerInfo_verified :: bool
  dbServerInfo_hasCreds :: bool
  dbServerInfo_registered :: "string list"

record DbItem =
  dbItem_name :: string
  dbItem_sizeBytes :: int
  dbItem_registered :: bool
  dbItem_system :: bool

record DbTarget =
  dbTarget_engine :: string
  dbTarget_source :: string
  dbTarget_host :: string
  dbTarget_port :: int
  dbTarget_container :: string
  dbTarget_username :: "string option"
  dbTarget_password :: "string option"

record BulkLifecycleResult_results_item =
  bulkLifecycleResult_results_item_id :: int
  bulkLifecycleResult_results_item_name :: string
  bulkLifecycleResult_results_item_ok :: bool
  bulkLifecycleResult_results_item_error :: "string option"
  bulkLifecycleResult_results_item_operationId :: "string option"

record BulkLifecycleResult =
  bulkLifecycleResult_ok :: bool
  bulkLifecycleResult_action :: string
  bulkLifecycleResult_succeeded :: int
  bulkLifecycleResult_failed :: int
  bulkLifecycleResult_results :: "BulkLifecycleResult_results_item list"

record NotifySettings_events =
  notifySettings_events_deployFailed :: bool
  notifySettings_events_threshold :: bool
  notifySettings_events_backupFailed :: bool
  notifySettings_events_projectFailed :: bool

record NotifySettings_telegram =
  notifySettings_telegram_enabled :: bool
  notifySettings_telegram_chatId :: string
  notifySettings_telegram_hasToken :: bool

record NotifySettings_email =
  notifySettings_email_enabled :: bool
  notifySettings_email_host :: string
  notifySettings_email_port :: string
  notifySettings_email_username :: string
  notifySettings_email_from :: string
  notifySettings_email_to :: string
  notifySettings_email_tls :: bool
  notifySettings_email_hasPassword :: bool
  notifySettings_email_emailGroupId :: "int option"

record NotifySettings =
  notifySettings_enabled :: bool
  notifySettings_events :: NotifySettings_events
  notifySettings_telegram :: NotifySettings_telegram
  notifySettings_email :: NotifySettings_email

record ImportAllResult_projects_item =
  importAllResult_projects_item_id :: int
  importAllResult_projects_item_name :: string
  importAllResult_projects_item_servicesAdded :: int

record ImportAllResult_failed_item =
  importAllResult_failed_item_name :: string
  importAllResult_failed_item_error :: string

record ImportAllResult =
  importAllResult_ok :: bool
  importAllResult_imported :: int
  importAllResult_servicesAdded :: int
  importAllResult_projects :: "ImportAllResult_projects_item list"
  importAllResult_failed :: "ImportAllResult_failed_item list"

record TelemetryPoint =
  telemetryPoint_ts :: int
  telemetryPoint_cpu :: rat
  telemetryPoint_memPct :: rat
  telemetryPoint_memMB :: rat
  telemetryPoint_diskPct :: rat
  telemetryPoint_netRx :: rat
  telemetryPoint_netTx :: rat
  telemetryPoint_diskRead :: rat
  telemetryPoint_diskWrite :: rat

record TelemetryHistory =
  telemetryHistory_range :: string
  telemetryHistory_points :: "TelemetryPoint list"

record OpStage =
  opStage_name :: string
  opStage_state :: string

record Operation =
  operation_id :: string
  operation_type :: string
  operation_targetType :: string
  operation_targetId :: string
  operation_status :: string
  operation_stage :: string
  operation_stages :: "OpStage list"
  operation_initiatedBy :: string
  operation_error :: "string option"
  operation_createdAt :: string
  operation_startedAt :: "string option"
  operation_completedAt :: "string option"

record Backup =
  backup_id :: int
  backup_projectId :: int
  backup_kind :: string
  backup_sizeBytes :: int
  backup_status :: string
  backup_createdAt :: string

record BusEvent =
  busEvent_type :: string
  busEvent_data :: "json option"
  busEvent_timestamp :: string

record AppLog =
  appLog_id :: int
  appLog_timestamp :: string
  appLog_level :: string
  appLog_source :: string
  appLog_actor :: "string option"
  appLog_action :: "string option"
  appLog_resource :: "string option"
  appLog_resourceId :: "string option"
  appLog_projectId :: "int option"
  appLog_message :: string
  appLog_metadata :: "string option"
  appLog_requestId :: "string option"
  appLog_method :: "string option"
  appLog_path :: "string option"
  appLog_statusCode :: "int option"
  appLog_latencyMs :: "int option"

record MemDetail =
  memDetail_totalMB :: rat
  memDetail_usedMB :: rat
  memDetail_availableMB :: rat
  memDetail_freeMB :: rat
  memDetail_cachedMB :: rat
  memDetail_buffersMB :: rat
  memDetail_usedPct :: rat
  memDetail_swapTotalMB :: rat
  memDetail_swapUsedMB :: rat
  memDetail_swapFreeMB :: rat
  memDetail_swapPct :: rat

record Filesystem =
  filesystem_device :: string
  filesystem_mount :: string
  filesystem_fstype :: string
  filesystem_totalGB :: rat
  filesystem_usedGB :: rat
  filesystem_freeGB :: rat
  filesystem_usedPct :: rat

record CPUDetail =
  cPUDetail_logicalCores :: int
  cPUDetail_physicalCores :: int
  cPUDetail_model :: string
  cPUDetail_mhz :: rat
  cPUDetail_load1 :: rat
  cPUDetail_load5 :: rat
  cPUDetail_load15 :: rat
  cPUDetail_timesUserPct :: rat
  cPUDetail_timesSysPct :: rat
  cPUDetail_timesIdlePct :: rat
  cPUDetail_timesIowaitPct :: rat

record NetIface =
  netIface_name :: string
  netIface_rxBytes :: int
  netIface_txBytes :: int
  netIface_rxErrors :: int
  netIface_txErrors :: int

record DiskIO =
  diskIO_device :: string
  diskIO_readMB :: rat
  diskIO_writeMB :: rat
  diskIO_readOps :: int
  diskIO_writeOps :: int

record ProcInfo =
  procInfo_pid :: int
  procInfo_name :: string
  procInfo_status :: string
  procInfo_memMB :: rat
  procInfo_memPct :: rat

record ServerDetail_host =
  serverDetail_host_hostname :: string
  serverDetail_host_os :: string
  serverDetail_host_platform :: string
  serverDetail_host_kernel :: string
  serverDetail_host_arch :: string
  serverDetail_host_uptimeSec :: int
  serverDetail_host_goVersion :: string

record ServerDetail_processes =
  serverDetail_processes_total :: int
  serverDetail_processes_running :: int
  serverDetail_processes_sleeping :: int
  serverDetail_processes_other :: int
  serverDetail_processes_zombie :: int
  serverDetail_processes_top :: "ProcInfo list"

record ServerDetail_pressure =
  serverDetail_pressure_cpu :: string
  serverDetail_pressure_memory :: string
  serverDetail_pressure_disk :: string

record ServerDetail =
  serverDetail_host :: ServerDetail_host
  serverDetail_cpu :: CPUDetail
  serverDetail_memory :: MemDetail
  serverDetail_filesystems :: "Filesystem list"
  serverDetail_network :: "NetIface list"
  serverDetail_diskIO :: "DiskIO list"
  serverDetail_processes :: ServerDetail_processes
  serverDetail_pressure :: ServerDetail_pressure

record AppUsage =
  appUsage_name :: string
  appUsage_path :: string
  appUsage_bytesMB :: rat

record StorageInfo_docker_imagesTop_item =
  storageInfo_docker_imagesTop_item_name :: string
  storageInfo_docker_imagesTop_item_sizeMB :: rat

record StorageInfo_docker =
  storageInfo_docker_imagesMB :: rat
  storageInfo_docker_containersMB :: rat
  storageInfo_docker_volumesMB :: rat
  storageInfo_docker_buildCacheMB :: rat
  storageInfo_docker_imagesTop :: "StorageInfo_docker_imagesTop_item list"

record StorageInfo =
  storageInfo_filesystems :: "Filesystem list"
  storageInfo_appsRoot :: string
  storageInfo_apps :: "AppUsage list"
  storageInfo_appsPartial :: bool
  storageInfo_docker :: "StorageInfo_docker option"

record ContainerStat =
  containerStat_id :: string
  containerStat_name :: string
  containerStat_image :: string
  containerStat_state :: string
  containerStat_cpuPercent :: rat
  containerStat_memMB :: rat
  containerStat_memLimitMB :: rat
  containerStat_memPct :: rat
  containerStat_netRxMB :: rat
  containerStat_netTxMB :: rat
  containerStat_blockReadMB :: rat
  containerStat_blockWriteMB :: rat
  containerStat_pids :: int

end
