(* ===== verification/Types_Notify.thy ===== *)
theory Types_Notify
  imports Js_Json
begin

text \<open>
  Contracts of notification groups, rules, the delivery policy and maintenance windows.
  One \<open>record\<close> per interface, its fields in the order of the source and prefixed by the
  interface name. An optional or nullable field is an option; counters, identifiers and
  byte counts are \<open>int\<close>, measured quantities are \<open>rat\<close>; a union of string
  literals is a \<open>datatype\<close>; unchecked payloads are \<open>json\<close>.
\<close>

record NotificationGroup =
  notificationGroup_id :: int
  notificationGroup_name :: string
  notificationGroup_description :: string
  notificationGroup_memberCount :: int
  notificationGroup_createdAt :: string
  notificationGroup_updatedAt :: string

record NotificationGroupMember =
  notificationGroupMember_id :: int
  notificationGroupMember_email :: string
  notificationGroupMember_createdAt :: string

record NotificationGroupDetail =
  notificationGroupDetail_id :: int
  notificationGroupDetail_name :: string
  notificationGroupDetail_description :: string
  notificationGroupDetail_members :: "NotificationGroupMember list"
  notificationGroupDetail_createdAt :: string
  notificationGroupDetail_updatedAt :: string

datatype DigestMode = Digest_immediate | Digest_digest

datatype NotificationEventType = AGENT_OFFLINE | AGENT_ONLINE | SERVER_ALERT | SERVER_ALERT_RESOLVED

record NotificationRule =
  notificationRule_id :: int
  notificationRule_name :: string
  notificationRule_description :: string
  notificationRule_enabled :: bool
  notificationRule_eventType :: NotificationEventType
  notificationRule_severity :: string
  notificationRule_conditionJson :: string
  notificationRule_notificationGroupId :: int
  notificationRule_groupName :: string
  notificationRule_channels :: string
  notificationRule_cooldownSeconds :: int
  notificationRule_notifyOnRecovery :: bool
  notificationRule_repeatIntervalSec :: int
  notificationRule_maxRepeats :: int
  notificationRule_digestMode :: DigestMode
  notificationRule_digestIntervalMin :: int
  notificationRule_groupBy :: string
  notificationRule_createdBy :: string
  notificationRule_updatedBy :: string
  notificationRule_createdAt :: string
  notificationRule_updatedAt :: string

datatype notificationRuleCondition_field_enum = NotificationRuleConditionField_severity | NotificationRuleConditionField_condition | NotificationRuleConditionField_value | NotificationRuleConditionField_serverId

datatype notificationRuleCondition_operator_enum = NotificationRuleConditionOperator_eq | NotificationRuleConditionOperator_neq | NotificationRuleConditionOperator_gt | NotificationRuleConditionOperator_gte | NotificationRuleConditionOperator_lt | NotificationRuleConditionOperator_lte | NotificationRuleConditionOperator_contains | NotificationRuleConditionOperator_in

record NotificationRuleCondition =
  notificationRuleCondition_field :: notificationRuleCondition_field_enum
  notificationRuleCondition_operator :: notificationRuleCondition_operator_enum
  notificationRuleCondition_value :: json

datatype NotificationChannel = EMAIL | TELEGRAM | IN_APP

record NotificationRuleCreate =
  notificationRuleCreate_name :: string
  notificationRuleCreate_description :: "string option"
  notificationRuleCreate_enabled :: "bool option"
  notificationRuleCreate_eventType :: NotificationEventType
  notificationRuleCreate_severity :: "string option"
  notificationRuleCreate_conditionJson :: "string option"
  notificationRuleCreate_notificationGroupId :: int
  notificationRuleCreate_channels :: "NotificationChannel list option"
  notificationRuleCreate_cooldownSeconds :: "int option"
  notificationRuleCreate_notifyOnRecovery :: "bool option"
  notificationRuleCreate_repeatIntervalSec :: "int option"
  notificationRuleCreate_maxRepeats :: "int option"
  notificationRuleCreate_digestMode :: "DigestMode option"
  notificationRuleCreate_digestIntervalMin :: "int option"
  notificationRuleCreate_groupBy :: "string list option"

record NotificationRuleUpdate =
  notificationRuleUpdate_name :: "string option"
  notificationRuleUpdate_description :: "string option"
  notificationRuleUpdate_enabled :: "bool option"
  notificationRuleUpdate_eventType :: "NotificationEventType option"
  notificationRuleUpdate_severity :: "string option"
  notificationRuleUpdate_conditionJson :: "string option"
  notificationRuleUpdate_notificationGroupId :: "int option"
  notificationRuleUpdate_channels :: "NotificationChannel list option"
  notificationRuleUpdate_cooldownSeconds :: "int option"
  notificationRuleUpdate_notifyOnRecovery :: "bool option"
  notificationRuleUpdate_repeatIntervalSec :: "int option"
  notificationRuleUpdate_maxRepeats :: "int option"
  notificationRuleUpdate_digestMode :: "DigestMode option"
  notificationRuleUpdate_digestIntervalMin :: "int option"
  notificationRuleUpdate_groupBy :: "string list option"

record NotificationGroupQuiet =
  notificationGroupQuiet_quietStart :: string
  notificationGroupQuiet_quietEnd :: string
  notificationGroupQuiet_quietTZ :: string
  notificationGroupQuiet_quietAllowCritical :: bool

record DeliveryPolicy =
  deliveryPolicy_emergencyPause :: bool
  deliveryPolicy_pauseUntil :: "string option"
  deliveryPolicy_pauseReason :: string
  deliveryPolicy_cooldownCriticalSec :: int
  deliveryPolicy_cooldownWarningSec :: int
  deliveryPolicy_cooldownInfoSec :: int
  deliveryPolicy_repeatIntervalSec :: int
  deliveryPolicy_maxRepeats :: int
  deliveryPolicy_notifyOnRecovery :: bool
  deliveryPolicy_emailPerHour :: int
  deliveryPolicy_tgPerHour :: int
  deliveryPolicy_digestIntervalMin :: int

datatype DeliveryStatus = Delivery_pending | Delivery_sending | Delivery_sent | Delivery_failed | Delivery_deferred

record DeliveryRecord =
  deliveryRecord_id :: int
  deliveryRecord_dedupeKey :: string
  deliveryRecord_severity :: string
  deliveryRecord_channel :: string
  deliveryRecord_groupId :: int
  deliveryRecord_title :: string
  deliveryRecord_body :: string
  deliveryRecord_status :: DeliveryStatus
  deliveryRecord_attempts :: int
  deliveryRecord_nextRetryAt :: string
  deliveryRecord_lastError :: string
  deliveryRecord_createdAt :: string
  deliveryRecord_sentAt :: "string option"

record MaintenanceWindow =
  maintenanceWindow_id :: int
  maintenanceWindow_name :: string
  maintenanceWindow_scope :: string
  maintenanceWindow_startsAt :: string
  maintenanceWindow_endsAt :: string
  maintenanceWindow_reason :: string
  maintenanceWindow_enabled :: bool
  maintenanceWindow_active :: bool
  maintenanceWindow_createdBy :: string
  maintenanceWindow_createdAt :: string
  maintenanceWindow_updatedAt :: string

end
