(* ===== verification/Types_Vault.thy ===== *)
theory Types_Vault
  imports Js_Json
begin

text \<open>
  Contracts of the file-transfer module and of the database-backup integration,
  with the request inputs of the latter.
  One \<open>record\<close> per interface, its fields in the order of the source and prefixed by the
  interface name. An optional or nullable field is an option; counters, identifiers and
  byte counts are \<open>int\<close>, measured quantities are \<open>rat\<close>; a union of string
  literals is a \<open>datatype\<close>; unchecked payloads are \<open>json\<close>.
\<close>

datatype transferFileItem_type_enum = TransferFileItemType_file | TransferFileItemType_directory

record TransferFileItem =
  transferFileItem_name :: string
  transferFileItem_path :: string
  transferFileItem_type :: transferFileItem_type_enum
  transferFileItem_size :: int
  transferFileItem_extension :: "string option"
  transferFileItem_mime_type :: "string option"
  transferFileItem_modified_at :: string

record TransferListResponse =
  transferListResponse_path :: string
  transferListResponse_items :: "TransferFileItem list"

record TransferStorageInfo =
  transferStorageInfo_storage_root :: string
  transferStorageInfo_total_bytes :: int
  transferStorageInfo_used_bytes :: int
  transferStorageInfo_available_bytes :: int

record TransferTrashItem =
  transferTrashItem_id :: string
  transferTrashItem_original_path :: string
  transferTrashItem_name :: string
  transferTrashItem_is_dir :: bool
  transferTrashItem_size :: int
  transferTrashItem_deleted_at :: string

record TransferFolderSize =
  transferFolderSize_path :: string
  transferFolderSize_size_bytes :: int
  transferFolderSize_file_count :: int

record TransferFolderStat =
  transferFolderStat_name :: string
  transferFolderStat_path :: string
  transferFolderStat_bytes :: int
  transferFolderStat_files :: int

record TransferStorageBreakdown =
  transferStorageBreakdown_folders :: "TransferFolderStat list"

record TransferActivity =
  transferActivity_time :: string
  transferActivity_user :: string
  transferActivity_role :: "string option"
  transferActivity_action :: string
  transferActivity_path :: "string option"
  transferActivity_detail :: "string option"
  transferActivity_status :: "int option"

record VgAgent =
  vgAgent_id :: string
  vgAgent_name :: string
  vgAgent_platform :: string
  vgAgent_architecture :: string
  vgAgent_machine_name :: string
  vgAgent_status :: string
  vgAgent_lifecycle :: string
  vgAgent_version :: string
  vgAgent_last_seen_at :: "string option"
  vgAgent_installed_at :: "string option"
  vgAgent_revoked_at :: "string option"
  vgAgent_created_at :: string

record VgMachine =
  vgMachine_id :: string
  vgMachine_agent_id :: string
  vgMachine_hostname :: string
  vgMachine_os :: string
  vgMachine_ip_address :: string
  vgMachine_agent :: "VgAgent option"
  vgMachine_created_at :: string

record VgStorageTarget =
  vgStorageTarget_id :: string
  vgStorageTarget_created_at :: string
  vgStorageTarget_updated_at :: string
  vgStorageTarget_name :: string
  vgStorageTarget_type :: string
  vgStorageTarget_bucket :: string
  vgStorageTarget_region :: string
  vgStorageTarget_endpoint :: string
  vgStorageTarget_use_path_style :: bool
  vgStorageTarget_path :: string
  vgStorageTarget_has_credentials :: bool

record VgDatabaseInfo =
  vgDatabaseInfo_name :: string
  vgDatabaseInfo_size_bytes :: int
  vgDatabaseInfo_table_count :: int

record VgConnection =
  vgConnection_id :: string
  vgConnection_agent_id :: string
  vgConnection_name :: string
  vgConnection_type :: string
  vgConnection_host :: string
  vgConnection_port :: int
  vgConnection_username :: string
  vgConnection_status :: string
  vgConnection_last_checked_at :: "string option"
  vgConnection_databases :: "VgDatabaseInfo list"
  vgConnection_database_count :: int
  vgConnection_agent :: "VgAgent option"
  vgConnection_created_at :: string
  vgConnection_updated_at :: string

record VgBackupSchedule =
  vgBackupSchedule_backup_job_id :: string
  vgBackupSchedule_cron_expr :: string
  vgBackupSchedule_timezone :: string

record VgBackupPolicy =
  vgBackupPolicy_id :: string
  vgBackupPolicy_name :: string
  vgBackupPolicy_strategy :: string
  vgBackupPolicy_cron_expr :: string
  vgBackupPolicy_timezone :: string
  vgBackupPolicy_enabled :: bool
  vgBackupPolicy_mode :: string
  vgBackupPolicy_encrypted :: bool
  vgBackupPolicy_retention_days :: int
  vgBackupPolicy_verification_enabled :: bool
  vgBackupPolicy_max_retries :: int
  vgBackupPolicy_retry_delay_seconds :: int
  vgBackupPolicy_sla_target_minutes :: int
  vgBackupPolicy_rpo_target_minutes :: int
  vgBackupPolicy_rto_target_minutes :: int

record VgPolicyDetail =
  vgPolicyDetail_policy :: VgBackupPolicy
  vgPolicyDetail_attached_jobs :: int

record VgDatabaseConnection =
  vgDatabaseConnection_id :: string
  vgDatabaseConnection_name :: string

record VgBackupJob =
  vgBackupJob_id :: string
  vgBackupJob_agent_id :: string
  vgBackupJob_storage_target_id :: string
  vgBackupJob_policy_id :: "string option"
  vgBackupJob_name :: string
  vgBackupJob_source_type :: string
  vgBackupJob_connection_id :: "string option"
  vgBackupJob_source_path :: string
  vgBackupJob_source_database :: string
  vgBackupJob_include_patterns :: string
  vgBackupJob_exclude_patterns :: string
  vgBackupJob_export_format :: string
  vgBackupJob_mode :: string
  vgBackupJob_encrypted :: bool
  vgBackupJob_retention_days :: int
  vgBackupJob_enabled :: bool
  vgBackupJob_sla_target_minutes :: int
  vgBackupJob_rpo_target_minutes :: int
  vgBackupJob_rto_target_minutes :: int
  vgBackupJob_schedule :: "VgBackupSchedule option"
  vgBackupJob_policy :: "VgBackupPolicy option"
  vgBackupJob_agent :: "VgAgent option"
  vgBackupJob_storage_target :: "VgStorageTarget option"
  vgBackupJob_connection :: "VgDatabaseConnection option"

record VgBackupRun =
  vgBackupRun_id :: string
  vgBackupRun_backup_job_id :: string
  vgBackupRun_agent_id :: string
  vgBackupRun_storage_target_id :: string
  vgBackupRun_status :: string
  vgBackupRun_scheduled_for :: "string option"
  vgBackupRun_cancel_requested :: bool
  vgBackupRun_retry_of_run_id :: "string option"
  vgBackupRun_retry_attempt :: int
  vgBackupRun_started_at :: "string option"
  vgBackupRun_completed_at :: "string option"
  vgBackupRun_bytes_read :: int
  vgBackupRun_bytes_compressed :: int
  vgBackupRun_bytes_uploaded :: int
  vgBackupRun_duration_seconds :: int
  vgBackupRun_source_type :: string
  vgBackupRun_error_message :: string
  vgBackupRun_failure_category :: string
  vgBackupRun_storage_path :: string
  vgBackupRun_checksum :: string
  vgBackupRun_backup_job :: "VgBackupJob option"
  vgBackupRun_created_at :: string
  vgBackupRun_updated_at :: string

record VgRunsPage =
  vgRunsPage_data :: "VgBackupRun list"
  vgRunsPage_total :: int
  vgRunsPage_page :: int
  vgRunsPage_limit :: int

record VgBackupArtifact =
  vgBackupArtifact_id :: string
  vgBackupArtifact_backup_run_id :: string
  vgBackupArtifact_name :: string
  vgBackupArtifact_size :: int
  vgBackupArtifact_checksum :: string
  vgBackupArtifact_storage_path :: string
  vgBackupArtifact_storage_target_id :: string
  vgBackupArtifact_verified_at :: "string option"
  vgBackupArtifact_verification_status :: string

record VgRestoreJob =
  vgRestoreJob_id :: string
  vgRestoreJob_backup_run_id :: string
  vgRestoreJob_agent_id :: string
  vgRestoreJob_connection_id :: "string option"
  vgRestoreJob_status :: string
  vgRestoreJob_destination_path :: string
  vgRestoreJob_target_database :: string
  vgRestoreJob_started_at :: "string option"
  vgRestoreJob_completed_at :: "string option"
  vgRestoreJob_duration_seconds :: int
  vgRestoreJob_error_message :: string
  vgRestoreJob_backup_run :: "VgBackupRun option"
  vgRestoreJob_connection :: "VgConnection option"
  vgRestoreJob_created_at :: string
  vgRestoreJob_updated_at :: string

record VgRpoBreach =
  vgRpoBreach_job_id :: string
  vgRpoBreach_job_name :: string
  vgRpoBreach_rpo_target_minutes :: int
  vgRpoBreach_minutes_since_success :: "int option"

record VgSlaBreach =
  vgSlaBreach_job_id :: string
  vgSlaBreach_job_name :: string
  vgSlaBreach_sla_target_minutes :: int
  vgSlaBreach_duration_seconds :: int

record VgDashboard =
  vgDashboard_total_jobs :: int
  vgDashboard_enabled_jobs :: int
  vgDashboard_agents_online :: int
  vgDashboard_agents_offline :: int
  vgDashboard_successful_runs :: int
  vgDashboard_failed_runs :: int
  vgDashboard_total_bytes :: int
  vgDashboard_recent_runs :: "VgBackupRun list"
  vgDashboard_sla_breaches :: "VgSlaBreach list"
  vgDashboard_rpo_breaches :: "VgRpoBreach list"

record VgPreflightCheck =
  vgPreflightCheck_name :: string
  vgPreflightCheck_status :: string
  vgPreflightCheck_detail :: "string option"

record VgPreflight =
  vgPreflight_overall :: string
  vgPreflight_checks :: "VgPreflightCheck list"

record VgEnrollMint =
  vgEnrollMint_agent_id :: string
  vgEnrollMint_enrollment_token :: string
  vgEnrollMint_expires_at :: string

record VgEnrollTokenRow =
  vgEnrollTokenRow_id :: string
  vgEnrollTokenRow_agent_id :: string
  vgEnrollTokenRow_expires_at :: string
  vgEnrollTokenRow_used_at :: "string option"
  vgEnrollTokenRow_revoked_at :: "string option"
  vgEnrollTokenRow_created_at :: string

record VgConnectionTest =
  vgConnectionTest_status :: string
  vgConnectionTest_latency_ms :: "int option"
  vgConnectionTest_databases :: "VgDatabaseInfo list option"
  vgConnectionTest_agent_status :: "string option"
  vgConnectionTest_error :: "string option"

record VgStorageTest =
  vgStorageTest_status :: string
  vgStorageTest_latency_ms :: "int option"
  vgStorageTest_path :: "string option"
  vgStorageTest_error :: "string option"

record VgJobInput =
  vgJobInput_name :: string
  vgJobInput_agent_id :: string
  vgJobInput_storage_target_id :: string
  vgJobInput_source_type :: string
  vgJobInput_connection_id :: "string option"
  vgJobInput_source_path :: "string option"
  vgJobInput_source_database :: "string option"
  vgJobInput_include_patterns :: "string option"
  vgJobInput_exclude_patterns :: "string option"
  vgJobInput_mode :: "string option"
  vgJobInput_encrypted :: "bool option"
  vgJobInput_retention_days :: "int option"
  vgJobInput_export_format :: "string option"
  vgJobInput_cron_expr :: "string option"
  vgJobInput_timezone :: "string option"
  vgJobInput_policy_id :: "string option"
  vgJobInput_sla_target_minutes :: "int option"
  vgJobInput_rpo_target_minutes :: "int option"
  vgJobInput_rto_target_minutes :: "int option"

record VgPolicyInput =
  vgPolicyInput_name :: string
  vgPolicyInput_strategy :: "string option"
  vgPolicyInput_cron_expr :: "string option"
  vgPolicyInput_timezone :: "string option"
  vgPolicyInput_enabled :: "bool option"
  vgPolicyInput_mode :: "string option"
  vgPolicyInput_encrypted :: "bool option"
  vgPolicyInput_retention_days :: "int option"
  vgPolicyInput_verification_enabled :: "bool option"
  vgPolicyInput_max_retries :: "int option"
  vgPolicyInput_retry_delay_seconds :: "int option"
  vgPolicyInput_sla_target_minutes :: "int option"
  vgPolicyInput_rpo_target_minutes :: "int option"
  vgPolicyInput_rto_target_minutes :: "int option"

record VgConnectionInput =
  vgConnectionInput_name :: string
  vgConnectionInput_type :: string
  vgConnectionInput_agent_id :: string
  vgConnectionInput_host :: string
  vgConnectionInput_port :: "int option"
  vgConnectionInput_username :: "string option"
  vgConnectionInput_password :: "string option"
  vgConnectionInput_databases :: "string list option"

record VgStorageInput =
  vgStorageInput_name :: string
  vgStorageInput_type :: string
  vgStorageInput_path :: "string option"

record VgRestoreInput =
  vgRestoreInput_backup_run_id :: string
  vgRestoreInput_agent_id :: string
  vgRestoreInput_destination_path :: "string option"
  vgRestoreInput_target_database :: "string option"
  vgRestoreInput_confirmed :: bool

end
