(* ===== verification/Web_Api.thy ===== *)
theory Web_Api
  imports Web_Request Types_Core Types_Notify Types_Vault
begin

text \<open>
  The typed API surface of the web client, \<open>client/src/lib/api.ts\<close> lines 155 to 661: the
  objects \<open>api\<close>, \<open>transfersApi\<close>, \<open>fmApi\<close> and \<open>dbBackupsApi\<close>. A
  method builds a call: path, HTTP method and body; the type argument of \<open>call\<close> is the
  response type the method casts to, which TypeScript erases. An inline response type is
  the product of its field types. \<open>JSON.stringify\<close> leaves out undefined fields, so a
  body is built from optional fields.
\<close>

named_theorems api_defs \<open>definitions of the API methods\<close>
named_theorems body_defs \<open>definitions of the body encoders\<close>

section \<open>Calls and bodies\<close>

datatype 'a call = Call (call_path: string) (call_method: http_method) (call_body: req_body)

definition call_init :: "'a call \<Rightarrow> RequestInit" where
  "call_init c = \<lparr>ri_method = call_method c, ri_body = call_body c\<rparr>"

text \<open>Performing a call: \<open>req\<close> on its path and options.\<close>

definition perform :: "'w net \<Rightarrow> string \<Rightarrow> 'a call \<Rightarrow> 'w \<Rightarrow> (js_error + json option) \<times> 'w" where
  "perform net base c w = req net base (call_path c) (call_init c) True w"

definition jint :: "int \<Rightarrow> json" where
  "jint i = JNum (of_int i)"

fun present :: "(string \<times> json option) list \<Rightarrow> (string \<times> json) list" where
  "present [] = []"
| "present ((k, None) # fs) = present fs"
| "present ((k, Some v) # fs) = (k, v) # present fs"

definition jobj :: "(string \<times> json option) list \<Rightarrow> json" where
  "jobj fs = JObj (present fs)"

definition json_body :: "json \<Rightarrow> req_body" where
  "json_body v = TextBody (JSON_stringify v)"

fun event_type_name :: "NotificationEventType \<Rightarrow> string" where
  "event_type_name AGENT_OFFLINE = ''AGENT_OFFLINE''"
| "event_type_name AGENT_ONLINE = ''AGENT_ONLINE''"
| "event_type_name SERVER_ALERT = ''SERVER_ALERT''"
| "event_type_name SERVER_ALERT_RESOLVED = ''SERVER_ALERT_RESOLVED''"

fun channel_name :: "NotificationChannel \<Rightarrow> string" where
  "channel_name EMAIL = ''EMAIL''"
| "channel_name TELEGRAM = ''TELEGRAM''"
| "channel_name IN_APP = ''IN_APP''"

fun digest_name :: "DigestMode \<Rightarrow> string" where
  "digest_name Digest_immediate = ''immediate''"
| "digest_name Digest_digest = ''digest''"

section \<open>Body encoders\<close>

definition dbTarget_json :: "DbTarget \<Rightarrow> json" where
  [body_defs]: "dbTarget_json b = jobj [
     (''engine'', Some (JStr (dbTarget_engine b))),
     (''source'', Some (JStr (dbTarget_source b))),
     (''host'', Some (JStr (dbTarget_host b))),
     (''port'', Some (jint (dbTarget_port b))),
     (''container'', Some (JStr (dbTarget_container b))),
     (''username'', map_option JStr (dbTarget_username b)),
     (''password'', map_option JStr (dbTarget_password b))]"

definition notificationRuleCreate_json :: "NotificationRuleCreate \<Rightarrow> json" where
  [body_defs]: "notificationRuleCreate_json b = jobj [
     (''name'', Some (JStr (notificationRuleCreate_name b))),
     (''description'', map_option JStr (notificationRuleCreate_description b)),
     (''enabled'', map_option JBool (notificationRuleCreate_enabled b)),
     (''eventType'', Some ((\<lambda>e. JStr (event_type_name e)) (notificationRuleCreate_eventType b))),
     (''severity'', map_option JStr (notificationRuleCreate_severity b)),
     (''conditionJson'', map_option JStr (notificationRuleCreate_conditionJson b)),
     (''notificationGroupId'', Some (jint (notificationRuleCreate_notificationGroupId b))),
     (''channels'', map_option (\<lambda>cs. JArr (map (\<lambda>c. JStr (channel_name c)) cs)) (notificationRuleCreate_channels b)),
     (''cooldownSeconds'', map_option jint (notificationRuleCreate_cooldownSeconds b)),
     (''notifyOnRecovery'', map_option JBool (notificationRuleCreate_notifyOnRecovery b)),
     (''repeatIntervalSec'', map_option jint (notificationRuleCreate_repeatIntervalSec b)),
     (''maxRepeats'', map_option jint (notificationRuleCreate_maxRepeats b)),
     (''digestMode'', map_option (\<lambda>m. JStr (digest_name m)) (notificationRuleCreate_digestMode b)),
     (''digestIntervalMin'', map_option jint (notificationRuleCreate_digestIntervalMin b)),
     (''groupBy'', map_option (\<lambda>xs. JArr (map JStr xs)) (notificationRuleCreate_groupBy b))]"

definition notificationRuleUpdate_json :: "NotificationRuleUpdate \<Rightarrow> json" where
  [body_defs]: "notificationRuleUpdate_json b = jobj [
     (''name'', map_option JStr (notificationRuleUpdate_name b)),
     (''description'', map_option JStr (notificationRuleUpdate_description b)),
     (''enabled'', map_option JBool (notificationRuleUpdate_enabled b)),
     (''eventType'', map_option (\<lambda>e. JStr (event_type_name e)) (notificationRuleUpdate_eventType b)),
     (''severity'', map_option JStr (notificationRuleUpdate_severity b)),
     (''conditionJson'', map_option JStr (notificationRuleUpdate_conditionJson b)),
     (''notificationGroupId'', map_option jint (notificationRuleUpdate_notificationGroupId b)),
     (''channels'', map_option (\<lambda>cs. JArr (map (\<lambda>c. JStr (channel_name c)) cs)) (notificationRuleUpdate_channels b)),
     (''cooldownSeconds'', map_option jint (notificationRuleUpdate_cooldownSeconds b)),
     (''notifyOnRecovery'', map_option JBool (notificationRuleUpdate_notifyOnRecovery b)),
     (''repeatIntervalSec'', map_option jint (notificationRuleUpdate_repeatIntervalSec b)),
     (''maxRepeats'', map_option jint (notificationRuleUpdate_maxRepeats b)),
     (''digestMode'', map_option (\<lambda>m. JStr (digest_name m)) (notificationRuleUpdate_digestMode b)),
     (''digestIntervalMin'', map_option jint (notificationRuleUpdate_digestIntervalMin b)),
     (''groupBy'', map_option (\<lambda>xs. JArr (map JStr xs)) (notificationRuleUpdate_groupBy b))]"

definition vgJobInput_json :: "VgJobInput \<Rightarrow> json" where
  [body_defs]: "vgJobInput_json b = jobj [
     (''name'', Some (JStr (vgJobInput_name b))),
     (''agent_id'', Some (JStr (vgJobInput_agent_id b))),
     (''storage_target_id'', Some (JStr (vgJobInput_storage_target_id b))),
     (''source_type'', Some (JStr (vgJobInput_source_type b))),
     (''connection_id'', map_option JStr (vgJobInput_connection_id b)),
     (''source_path'', map_option JStr (vgJobInput_source_path b)),
     (''source_database'', map_option JStr (vgJobInput_source_database b)),
     (''include_patterns'', map_option JStr (vgJobInput_include_patterns b)),
     (''exclude_patterns'', map_option JStr (vgJobInput_exclude_patterns b)),
     (''mode'', map_option JStr (vgJobInput_mode b)),
     (''encrypted'', map_option JBool (vgJobInput_encrypted b)),
     (''retention_days'', map_option jint (vgJobInput_retention_days b)),
     (''export_format'', map_option JStr (vgJobInput_export_format b)),
     (''cron_expr'', map_option JStr (vgJobInput_cron_expr b)),
     (''timezone'', map_option JStr (vgJobInput_timezone b)),
     (''policy_id'', map_option JStr (vgJobInput_policy_id b)),
     (''sla_target_minutes'', map_option jint (vgJobInput_sla_target_minutes b)),
     (''rpo_target_minutes'', map_option jint (vgJobInput_rpo_target_minutes b)),
     (''rto_target_minutes'', map_option jint (vgJobInput_rto_target_minutes b))]"

definition vgPolicyInput_json :: "VgPolicyInput \<Rightarrow> json" where
  [body_defs]: "vgPolicyInput_json b = jobj [
     (''name'', Some (JStr (vgPolicyInput_name b))),
     (''strategy'', map_option JStr (vgPolicyInput_strategy b)),
     (''cron_expr'', map_option JStr (vgPolicyInput_cron_expr b)),
     (''timezone'', map_option JStr (vgPolicyInput_timezone b)),
     (''enabled'', map_option JBool (vgPolicyInput_enabled b)),
     (''mode'', map_option JStr (vgPolicyInput_mode b)),
     (''encrypted'', map_option JBool (vgPolicyInput_encrypted b)),
     (''retention_days'', map_option jint (vgPolicyInput_retention_days b)),
     (''verification_enabled'', map_option JBool (vgPolicyInput_verification_enabled b)),
     (''max_retries'', map_option jint (vgPolicyInput_max_retries b)),
     (''retry_delay_seconds'', map_option jint (vgPolicyInput_retry_delay_seconds b)),
     (''sla_target_minutes'', map_option jint (vgPolicyInput_sla_target_minutes b)),
     (''rpo_target_minutes'', map_option jint (vgPolicyInput_rpo_target_minutes b)),
     (''rto_target_minutes'', map_option jint (vgPolicyInput_rto_target_minutes b))]"

definition vgConnectionInput_json :: "VgConnectionInput \<Rightarrow> json" where
  [body_defs]: "vgConnectionInput_json b = jobj [
     (''name'', Some (JStr (vgConnectionInput_name b))),
     (''type'', Some (JStr (vgConnectionInput_type b))),
     (''agent_id'', Some (JStr (vgConnectionInput_agent_id b))),
     (''host'', Some (JStr (vgConnectionInput_host b))),
     (''port'', map_option jint (vgConnectionInput_port b)),
     (''username'', map_option JStr (vgConnectionInput_username b)),
     (''password'', map_option JStr (vgConnectionInput_password b)),
     (''databases'', map_option (\<lambda>xs. JArr (map JStr xs)) (vgConnectionInput_databases b))]"

definition vgStorageInput_json :: "VgStorageInput \<Rightarrow> json" where
  [body_defs]: "vgStorageInput_json b = jobj [
     (''name'', Some (JStr (vgStorageInput_name b))),
     (''type'', Some (JStr (vgStorageInput_type b))),
     (''path'', map_option JStr (vgStorageInput_path b))]"

definition vgRestoreInput_json :: "VgRestoreInput \<Rightarrow> json" where
  [body_defs]: "vgRestoreInput_json b = jobj [
     (''backup_run_id'', Some (JStr (vgRestoreInput_backup_run_id b))),
     (''agent_id'', Some (JStr (vgRestoreInput_agent_id b))),
     (''destination_path'', map_option JStr (vgRestoreInput_destination_path b)),
     (''target_database'', map_option JStr (vgRestoreInput_target_database b)),
     (''confirmed'', Some (JBool (vgRestoreInput_confirmed b)))]"

section \<open>Inline response types\<close>

record OkReply =
  okReply_ok :: bool

record LoginReply =
  loginReply_username :: string
  loginReply_role :: string
  loginReply_token :: string

record DeployReply =
  deployReply_deployment :: Deployment
  deployReply_operationId :: string

record OperationReply =
  operationReply_ok :: bool
  operationReply_operationId :: string
  operationReply_subject :: int

record RevealReply =
  revealReply_name :: string
  revealReply_value :: string

record ExecReply =
  execReply_token :: string
  execReply_operationId :: string
  execReply_id :: string

record ServerPromPoint =
  serverPromPoint_timestamp :: rat
  serverPromPoint_value :: "rat option"

record ServerPromSeries =
  serverPromSeries_name :: string
  serverPromSeries_values :: "ServerPromPoint list"

record ServerPromMetrics =
  serverPromMetrics_serverId :: string
  serverPromMetrics_metric :: string
  serverPromMetrics_range :: string
  serverPromMetrics_step :: string
  serverPromMetrics_series :: "ServerPromSeries list"

definition range_seconds :: "string \<Rightarrow> int" where
  "range_seconds r =
     (case map_of [(''1h'', 3600), (''6h'', 21600), (''24h'', 86400), (''7d'', 604800)] r of
        Some d \<Rightarrow> d
      | None \<Rightarrow> 3600)"

section \<open>The \<open>api\<close> object\<close>

definition api_login :: "string \<Rightarrow> string \<Rightarrow> LoginReply call" where
  [api_defs]: "api_login username password =
     Call ep_authLogin POST (json_body (jobj [(''username'', Some (JStr username)), (''password'', Some (JStr password))]))"

definition api_logout :: "OkReply call" where
  [api_defs]: "api_logout =
     Call ep_authLogout POST NoBody"

definition api_me :: "User call" where
  [api_defs]: "api_me =
     Call ep_authMe GET NoBody"

definition api_changePassword :: "string \<Rightarrow> string \<Rightarrow> OkReply call" where
  [api_defs]: "api_changePassword currentPassword newPassword =
     Call ep_authPassword PUT (json_body (jobj [(''currentPassword'', Some (JStr currentPassword)), (''newPassword'', Some (JStr newPassword))]))"

definition api_dashboard :: "DashboardData call" where
  [api_defs]: "api_dashboard =
     Call ep_dashboard GET NoBody"

definition api_server :: "ServerInfo call" where
  [api_defs]: "api_server =
     Call ep_server GET NoBody"

definition api_audit :: "int option \<Rightarrow> (AuditLog list) call" where
  [api_defs]: "api_audit limit =
     Call (ep_audit (Some (or_else limit 8))) GET NoBody"

definition api_projects :: "(Project list) call" where
  [api_defs]: "api_projects =
     Call ep_projects GET NoBody"

definition api_project :: "int \<Rightarrow> Project call" where
  [api_defs]: "api_project i =
     Call (ep_project i) GET NoBody"

definition api_createProject :: "json \<Rightarrow> Project call" where
  [api_defs]: "api_createProject p =
     Call ep_projects POST (json_body (p))"

definition api_projectAction :: "int \<Rightarrow> lifecycle_action \<Rightarrow> bool option \<Rightarrow> (bool \<times> string option) call" where
  [api_defs]: "api_projectAction i action confirm =
     Call (ep_projectAction i action (Some (or_else confirm False))) POST NoBody"

definition api_bulkLifecycle :: "int list \<Rightarrow> lifecycle_action \<Rightarrow> bool option \<Rightarrow> BulkLifecycleResult call" where
  [api_defs]: "api_bulkLifecycle ids action confirm =
     Call ep_bulkLifecycle POST (json_body (jobj [(''ids'', Some (JArr (map jint ids))), (''action'', Some (JStr (action_name action))), (''confirm'', Some (JBool (or_else confirm False)))]))"

definition api_notifySettings :: "NotifySettings call" where
  [api_defs]: "api_notifySettings =
     Call ep_notifySettings GET NoBody"

definition api_saveNotifySettings :: "json \<Rightarrow> OkReply call" where
  [api_defs]: "api_saveNotifySettings b =
     Call ep_notifySettings PUT (json_body (b))"

definition api_testNotify :: "(string \<times> string) call" where
  [api_defs]: "api_testNotify =
     Call ep_notifyTest POST NoBody"

definition api_notificationGroups :: "(NotificationGroup list) call" where
  [api_defs]: "api_notificationGroups =
     Call ep_notificationGroups GET NoBody"

definition api_notificationGroup :: "int \<Rightarrow> NotificationGroupDetail call" where
  [api_defs]: "api_notificationGroup i =
     Call (ep_notificationGroup i) GET NoBody"

definition api_createNotificationGroup :: "string \<Rightarrow> string option \<Rightarrow> (int \<times> string) call" where
  [api_defs]: "api_createNotificationGroup nm descr =
     Call ep_notificationGroups POST (json_body (jobj [(''name'', Some (JStr nm)), (''description'', Some (JStr (or_else descr [])))]))"

definition api_updateNotificationGroup :: "int \<Rightarrow> string option \<Rightarrow> string option \<Rightarrow> OkReply call" where
  [api_defs]: "api_updateNotificationGroup i nm descr =
     Call (ep_notificationGroup i) PATCH (json_body (jobj [(''name'', map_option JStr nm), (''description'', map_option JStr descr)]))"

definition api_deleteNotificationGroup :: "int \<Rightarrow> OkReply call" where
  [api_defs]: "api_deleteNotificationGroup i =
     Call (ep_notificationGroup i) DELETE NoBody"

definition api_addGroupMember :: "int \<Rightarrow> string \<Rightarrow> (int \<times> string) call" where
  [api_defs]: "api_addGroupMember i email =
     Call (ep_notificationGroupMembers i) POST (json_body (jobj [(''email'', Some (JStr email))]))"

definition api_removeGroupMember :: "int \<Rightarrow> int \<Rightarrow> OkReply call" where
  [api_defs]: "api_removeGroupMember i memberId =
     Call (ep_notificationGroupMember i memberId) DELETE NoBody"

definition api_notificationRules :: "(NotificationRule list) call" where
  [api_defs]: "api_notificationRules =
     Call ep_notificationRules GET NoBody"

definition api_notificationRule :: "int \<Rightarrow> NotificationRule call" where
  [api_defs]: "api_notificationRule i =
     Call (ep_notificationRule i) GET NoBody"

definition api_createNotificationRule :: "NotificationRuleCreate \<Rightarrow> (int \<times> string) call" where
  [api_defs]: "api_createNotificationRule b =
     Call ep_notificationRules POST (json_body (notificationRuleCreate_json b))"

definition api_updateNotificationRule :: "int \<Rightarrow> NotificationRuleUpdate \<Rightarrow> OkReply call" where
  [api_defs]: "api_updateNotificationRule i b =
     Call (ep_notificationRule i) PATCH (json_body (notificationRuleUpdate_json b))"

definition api_deleteNotificationRule :: "int \<Rightarrow> OkReply call" where
  [api_defs]: "api_deleteNotificationRule i =
     Call (ep_notificationRule i) DELETE NoBody"

definition api_services :: "int \<Rightarrow> (Service list) call" where
  [api_defs]: "api_services projectId =
     Call (ep_projectServices projectId) GET NoBody"

definition api_deployments :: "int \<Rightarrow> (Deployment list) call" where
  [api_defs]: "api_deployments projectId =
     Call (ep_projectDeployments projectId) GET NoBody"

definition api_deploy :: "int \<Rightarrow> string option \<Rightarrow> DeployReply call" where
  [api_defs]: "api_deploy projectId commitSha =
     Call (ep_projectDeploy projectId) POST (json_body (jobj [(''commitSha'', Some (JStr (or_else commitSha [])))]))"

definition api_wipeDeployments :: "(bool \<times> int) call" where
  [api_defs]: "api_wipeDeployments =
     Call ep_deploymentsAll DELETE NoBody"

definition api_rollback :: "int \<Rightarrow> int \<Rightarrow> DeployReply call" where
  [api_defs]: "api_rollback projectId depId =
     Call (ep_deploymentRollback projectId depId) POST NoBody"

definition api_discovery :: "DiscoveryResult call" where
  [api_defs]: "api_discovery =
     Call ep_discovery GET NoBody"

definition api_importDiscovered :: "string \<Rightarrow> (Project \<times> int) call" where
  [api_defs]: "api_importDiscovered nm =
     Call ep_discoveryImport POST (json_body (jobj [(''name'', Some (JStr nm))]))"

definition api_importAllDiscovered :: "ImportAllResult call" where
  [api_defs]: "api_importAllDiscovered =
     Call ep_discoveryImportAll POST NoBody"

definition api_secrets :: "int \<Rightarrow> (SecretMeta list) call" where
  [api_defs]: "api_secrets projectId =
     Call (ep_secrets projectId) GET NoBody"

definition api_upsertSecret :: "int \<Rightarrow> string \<Rightarrow> string \<Rightarrow> string option \<Rightarrow> (string \<times> bool) call" where
  [api_defs]: "api_upsertSecret projectId nm v environment =
     Call (ep_secrets projectId) POST (json_body (jobj [(''name'', Some (JStr nm)), (''value'', Some (JStr v)), (''environment'', Some (JStr (or_else environment ''production'')))]))"

definition api_revealSecret :: "int \<Rightarrow> RevealReply call" where
  [api_defs]: "api_revealSecret i =
     Call (ep_secretReveal i) POST NoBody"

definition api_telemetry :: "string option \<Rightarrow> TelemetryHistory call" where
  [api_defs]: "api_telemetry r =
     Call (ep_telemetry (Some (or_else r ''1h''))) GET NoBody"

definition api_serverDetail :: "ServerDetail call" where
  [api_defs]: "api_serverDetail =
     Call ep_serverDetail GET NoBody"

definition api_storage :: "StorageInfo call" where
  [api_defs]: "api_storage =
     Call ep_storage GET NoBody"

definition api_containerStats :: "(ContainerStat list) call" where
  [api_defs]: "api_containerStats =
     Call ep_containersStats GET NoBody"

definition api_operation :: "string \<Rightarrow> Operation call" where
  [api_defs]: "api_operation i =
     Call (ep_operation i) GET NoBody"

definition api_operations :: "int option \<Rightarrow> (Operation list) call" where
  [api_defs]: "api_operations limit =
     Call (ep_operations (Some (or_else limit 20))) GET NoBody"

definition api_execToken :: "string \<Rightarrow> string option \<Rightarrow> bool option \<Rightarrow> ExecReply call" where
  [api_defs]: "api_execToken c shell confirm =
     Call (ep_containerExec c (Some (or_else confirm True))) POST (json_body (jobj [(''shell'', Some (JStr (or_else shell ''/bin/sh'')))]))"

definition api_backups :: "int \<Rightarrow> (Backup list) call" where
  [api_defs]: "api_backups projectId =
     Call (ep_backups projectId) GET NoBody"

definition api_createBackup :: "int \<Rightarrow> OperationReply call" where
  [api_defs]: "api_createBackup projectId =
     Call (ep_backups projectId) POST NoBody"

definition api_deleteBackup :: "int \<Rightarrow> OkReply call" where
  [api_defs]: "api_deleteBackup i =
     Call (ep_backup i) DELETE NoBody"

definition api_restoreBackup :: "int \<Rightarrow> OperationReply call" where
  [api_defs]: "api_restoreBackup i =
     Call (ep_backupRestore i) POST NoBody"

definition api_dbServers :: "(DbServerInfo list \<times> bool) call" where
  [api_defs]: "api_dbServers =
     Call ep_dbServers GET NoBody"

definition api_browseDatabases :: "DbTarget \<Rightarrow> (DbItem list \<times> bool) call" where
  [api_defs]: "api_browseDatabases t =
     Call ep_dbBrowse POST (json_body (dbTarget_json t))"

definition api_connectDatabase :: "DbTarget \<Rightarrow> (bool \<times> string \<times> bool \<times> int) call" where
  [api_defs]: "api_connectDatabase t =
     Call ep_dbConnect POST (json_body (dbTarget_json t))"

definition api_registerDatabases :: "int \<Rightarrow> DbTarget \<Rightarrow> string list \<Rightarrow> string option \<Rightarrow> string option \<Rightarrow> (bool \<times> (string \<times> int) list \<times> string list) call" where
  [api_defs]: "api_registerDatabases projectId server databases username password =
     Call ep_dbRegister POST (json_body (jobj [(''projectId'', Some (jint projectId)), (''server'', Some (dbTarget_json server)), (''databases'', Some (JArr (map JStr databases))), (''username'', map_option JStr username), (''password'', map_option JStr password)]))"

definition api_logs :: "LogsParams option \<Rightarrow> (AppLog list) call" where
  [api_defs]: "api_logs ps =
     Call (ep_logs ps) GET NoBody"

definition api_users :: "((string \<times> string \<times> string) list) call" where
  [api_defs]: "api_users =
     Call ep_users GET NoBody"

definition api_createUser :: "string \<Rightarrow> string \<Rightarrow> string \<Rightarrow> User call" where
  [api_defs]: "api_createUser username password role =
     Call ep_users POST (json_body (jobj [(''username'', Some (JStr username)), (''password'', Some (JStr password)), (''role'', Some (JStr role))]))"

definition api_setUserRole :: "string \<Rightarrow> string \<Rightarrow> User call" where
  [api_defs]: "api_setUserRole username role =
     Call (ep_userRole username) PUT (json_body (jobj [(''role'', Some (JStr role))]))"

definition api_deleteUser :: "string \<Rightarrow> OkReply call" where
  [api_defs]: "api_deleteUser username =
     Call (ep_user username) DELETE NoBody"

definition api_logoutAll :: "OkReply call" where
  [api_defs]: "api_logoutAll =
     Call ep_authLogoutAll POST NoBody"

definition api_servers :: "(ManagedServer list) call" where
  [api_defs]: "api_servers =
     Call ep_servers GET NoBody"

definition api_managedServer :: "int \<Rightarrow> ManagedServer call" where
  [api_defs]: "api_managedServer i =
     Call (ep_serverById i) GET NoBody"

definition api_createServer :: "string \<Rightarrow> string option \<Rightarrow> string option \<Rightarrow> int option \<Rightarrow> (int \<times> string) call" where
  [api_defs]: "api_createServer nm hostname ipAddress groupId =
     Call ep_servers POST (json_body (jobj [(''name'', Some (JStr nm)), (''hostname'', map_option JStr hostname), (''ipAddress'', map_option JStr ipAddress), (''groupId'', map_option jint groupId)]))"

definition api_updateServer :: "int \<Rightarrow> string option \<Rightarrow> string option \<Rightarrow> string option \<Rightarrow> int option \<Rightarrow> OkReply call" where
  [api_defs]: "api_updateServer i nm hostname ipAddress groupId =
     Call (ep_serverById i) PATCH (json_body (jobj [(''name'', map_option JStr nm), (''hostname'', map_option JStr hostname), (''ipAddress'', map_option JStr ipAddress), (''groupId'', map_option jint groupId)]))"

definition api_deleteServer :: "int \<Rightarrow> OkReply call" where
  [api_defs]: "api_deleteServer i =
     Call (ep_serverById i) DELETE NoBody"

definition api_serverMetrics :: "int \<Rightarrow> string option \<Rightarrow> (string \<times> ServerMetricPoint list) call" where
  [api_defs]: "api_serverMetrics i r =
     Call (ep_serverMetrics i (Some (or_else r ''1h''))) GET NoBody"

definition api_serverMetricsLatest :: "int \<Rightarrow> ServerMetricPoint call" where
  [api_defs]: "api_serverMetricsLatest i =
     Call (ep_serverMetricsLatest i) GET NoBody"

definition api_serverPrometheusMetrics :: "int \<Rightarrow> string \<Rightarrow> string \<Rightarrow> string \<Rightarrow> ServerPromMetrics call" where
  [api_defs]: "api_serverPrometheusMetrics i metric r st =
     Call (''/server-hub/api/servers/'' @ int_str i @ ''/prometheus/metrics?metric='' @ encodeURIComponent metric
       @ ''&range='' @ encodeURIComponent r @ ''&step='' @ encodeURIComponent st) GET NoBody"

definition api_agentTokens :: "int \<Rightarrow> (AgentToken list) call" where
  [api_defs]: "api_agentTokens serverId =
     Call (ep_serverTokens serverId) GET NoBody"

definition api_createAgentToken :: "int \<Rightarrow> string option \<Rightarrow> (int \<times> string \<times> string) call" where
  [api_defs]: "api_createAgentToken serverId lbl =
     Call (ep_serverTokens serverId) POST (json_body (jobj [(''label'', Some (JStr (or_else lbl [])))]))"

definition api_revokeAgentToken :: "int \<Rightarrow> int \<Rightarrow> OkReply call" where
  [api_defs]: "api_revokeAgentToken serverId tokenId =
     Call (ep_serverToken serverId tokenId) DELETE NoBody"

definition api_serverGroups :: "(ServerGroup list) call" where
  [api_defs]: "api_serverGroups =
     Call ep_serverGroups GET NoBody"

definition api_createServerGroup :: "string \<Rightarrow> string option \<Rightarrow> (int \<times> string) call" where
  [api_defs]: "api_createServerGroup nm descr =
     Call ep_serverGroups POST (json_body (jobj [(''name'', Some (JStr nm)), (''description'', Some (JStr (or_else descr [])))]))"

definition api_deleteServerGroup :: "int \<Rightarrow> OkReply call" where
  [api_defs]: "api_deleteServerGroup i =
     Call (ep_serverGroup i) DELETE NoBody"

definition api_alerts :: "string option \<Rightarrow> (Alert list) call" where
  [api_defs]: "api_alerts st =
     Call (ep_alerts st) GET NoBody"

definition api_resolveAlert :: "int \<Rightarrow> OkReply call" where
  [api_defs]: "api_resolveAlert i =
     Call (ep_alertResolve i) PATCH NoBody"

definition api_notifications :: "(InAppNotification list) call" where
  [api_defs]: "api_notifications =
     Call ep_notifications GET NoBody"

definition api_markNotificationRead :: "int \<Rightarrow> OkReply call" where
  [api_defs]: "api_markNotificationRead i =
     Call (ep_notificationRead i) PATCH NoBody"

definition api_markAllNotificationsRead :: "OkReply call" where
  [api_defs]: "api_markAllNotificationsRead =
     Call ep_notificationsReadAll POST NoBody"

definition api_healthChecks :: "(HealthCheck list) call" where
  [api_defs]: "api_healthChecks =
     Call ep_healthChecks GET NoBody"

definition api_createHealthCheck :: "json \<Rightarrow> (int \<times> string) call" where
  [api_defs]: "api_createHealthCheck b =
     Call ep_healthChecks POST (json_body (b))"

definition api_updateHealthCheck :: "int \<Rightarrow> json \<Rightarrow> OkReply call" where
  [api_defs]: "api_updateHealthCheck i b =
     Call (ep_healthCheck i) PATCH (json_body (b))"

definition api_deleteHealthCheck :: "int \<Rightarrow> OkReply call" where
  [api_defs]: "api_deleteHealthCheck i =
     Call (ep_healthCheck i) DELETE NoBody"

definition api_healthCheckResults :: "int \<Rightarrow> (HealthCheckResult list) call" where
  [api_defs]: "api_healthCheckResults i =
     Call (ep_healthCheckResults i) GET NoBody"

definition api_monitoringOverview :: "MonitoringOverview call" where
  [api_defs]: "api_monitoringOverview =
     Call ep_monitoringOverview GET NoBody"

definition api_prometheusStatus :: "PrometheusStatus call" where
  [api_defs]: "api_prometheusStatus =
     Call ep_prometheusStatus GET NoBody"

definition api_prometheusTargets :: "PromTargetsData call" where
  [api_defs]: "api_prometheusTargets =
     Call ep_prometheusTargets GET NoBody"

definition api_prometheusRules :: "json call" where
  [api_defs]: "api_prometheusRules =
     Call ep_prometheusRules GET NoBody"

definition api_prometheusQuery :: "string \<Rightarrow> json call" where
  [api_defs]: "api_prometheusQuery q =
     Call (ep_prometheusQuery q) GET NoBody"

definition api_prometheusQueryRange :: "rat \<Rightarrow> string \<Rightarrow> string \<Rightarrow> string option \<Rightarrow> PromRangeResult call" where
  [api_defs]: "api_prometheusQueryRange nowMs q rangeStr st =
     Call ((let now = \<lfloor>nowMs / 1000\<rfloor>; dur = range_seconds rangeStr
      in ep_prometheusQueryRange q (int_str (now - dur)) (int_str now) (Some (or_else st ''60'')))) GET NoBody"

definition api_monitoringMetrics :: "string \<Rightarrow> string option \<Rightarrow> string option \<Rightarrow> (string \<times> string \<times> PromRangeResult) call" where
  [api_defs]: "api_monitoringMetrics metric r st =
     Call (ep_monitoringMetrics metric (Some (or_else r ''1h'')) (Some (or_else st ''60''))) GET NoBody"

definition api_alertmanagerStatus :: "AlertmanagerStatus call" where
  [api_defs]: "api_alertmanagerStatus =
     Call ep_alertmanagerStatus GET NoBody"

definition api_monitoringAlerts :: "(AmAlert list) call" where
  [api_defs]: "api_monitoringAlerts =
     Call ep_monitoringAlerts GET NoBody"

definition api_monitoringSilences :: "(AmSilence list) call" where
  [api_defs]: "api_monitoringSilences =
     Call ep_monitoringSilences GET NoBody"

definition api_createSilence :: "json \<Rightarrow> string call" where
  [api_defs]: "api_createSilence b =
     Call ep_monitoringSilences POST (json_body (b))"

definition api_deleteSilence :: "string \<Rightarrow> OkReply call" where
  [api_defs]: "api_deleteSilence i =
     Call (ep_monitoringSilence i) DELETE NoBody"

section \<open>The \<open>transfersApi\<close> object\<close>

definition transfersApi_list :: "string option \<Rightarrow> TransferListResponse call" where
  [api_defs]: "transfersApi_list p =
     Call (ep_transfersFiles (Some (or_else p ''/''))) GET NoBody"

definition transfersApi_metadata :: "string \<Rightarrow> TransferFileItem call" where
  [api_defs]: "transfersApi_metadata p =
     Call (ep_transfersFileMetadata p) GET NoBody"

definition transfersApi_folderSize :: "string \<Rightarrow> TransferFolderSize call" where
  [api_defs]: "transfersApi_folderSize p =
     Call (ep_transfersFolderSize p) GET NoBody"

definition transfersApi_search :: "string \<Rightarrow> string option \<Rightarrow> (string \<times> TransferFileItem list) call" where
  [api_defs]: "transfersApi_search q p =
     Call (ep_transfersSearch q (Some (or_else p ''/''))) GET NoBody"

definition transfersApi_storage :: "TransferStorageInfo call" where
  [api_defs]: "transfersApi_storage =
     Call ep_transfersStorage GET NoBody"

definition transfersApi_breakdown :: "TransferStorageBreakdown call" where
  [api_defs]: "transfersApi_breakdown =
     Call ep_transfersStorageBreakdown GET NoBody"

definition transfersApi_trash :: "(TransferTrashItem list) call" where
  [api_defs]: "transfersApi_trash =
     Call ep_transfersTrash GET NoBody"

definition transfersApi_activity :: "int option \<Rightarrow> (TransferActivity list) call" where
  [api_defs]: "transfersApi_activity limit =
     Call (ep_transfersActivity (Some (or_else limit 100))) GET NoBody"

definition transfersApi_mkdir :: "string \<Rightarrow> (string \<times> string) call" where
  [api_defs]: "transfersApi_mkdir p =
     Call ep_transfersMkdir POST (json_body (jobj [(''path'', Some (JStr p))]))"

definition transfersApi_rename :: "string \<Rightarrow> string \<Rightarrow> string call" where
  [api_defs]: "transfersApi_rename p newName =
     Call ep_transfersRename PATCH (json_body (jobj [(''path'', Some (JStr p)), (''new_name'', Some (JStr newName))]))"

definition transfersApi_move :: "string \<Rightarrow> string \<Rightarrow> string call" where
  [api_defs]: "transfersApi_move source destination =
     Call ep_transfersMove POST (json_body (jobj [(''source'', Some (JStr source)), (''destination'', Some (JStr destination))]))"

definition transfersApi_copy :: "string \<Rightarrow> string \<Rightarrow> string call" where
  [api_defs]: "transfersApi_copy source destination =
     Call ep_transfersCopy POST (json_body (jobj [(''source'', Some (JStr source)), (''destination'', Some (JStr destination))]))"

definition transfersApi_remove :: "string \<Rightarrow> bool option \<Rightarrow> string call" where
  [api_defs]: "transfersApi_remove p recursive =
     Call ep_transfersDelete DELETE (json_body (jobj [(''path'', Some (JStr p)), (''recursive'', Some (JBool (or_else recursive False)))]))"

definition transfersApi_trashMove :: "string \<Rightarrow> string call" where
  [api_defs]: "transfersApi_trashMove p =
     Call ep_transfersTrash POST (json_body (jobj [(''path'', Some (JStr p))]))"

definition transfersApi_trashRestore :: "string \<Rightarrow> string call" where
  [api_defs]: "transfersApi_trashRestore i =
     Call ep_transfersTrashRestore POST (json_body (jobj [(''id'', Some (JStr i))]))"

definition transfersApi_trashPurge :: "string call" where
  [api_defs]: "transfersApi_trashPurge =
     Call ep_transfersTrash DELETE NoBody"

section \<open>The \<open>fmApi\<close> alias\<close>

definition fmApi_activity :: "int option \<Rightarrow> (TransferActivity list) call" where
  [api_defs]: "fmApi_activity limit =
     Call (ep_transfersActivity (Some (or_else limit 20))) GET NoBody"

section \<open>The \<open>dbBackupsApi\<close> object\<close>

definition dbBackupsApi_dashboard :: "VgDashboard call" where
  [api_defs]: "dbBackupsApi_dashboard =
     Call ep_dbBackupsDashboard GET NoBody"

definition dbBackupsApi_targets :: "(VgStorageTarget list) call" where
  [api_defs]: "dbBackupsApi_targets =
     Call ep_dbBackupsTargets GET NoBody"

definition dbBackupsApi_target :: "string \<Rightarrow> VgStorageTarget call" where
  [api_defs]: "dbBackupsApi_target i =
     Call (ep_dbBackupsTarget i) GET NoBody"

definition dbBackupsApi_createTarget :: "VgStorageInput \<Rightarrow> VgStorageTarget call" where
  [api_defs]: "dbBackupsApi_createTarget b =
     Call ep_dbBackupsTargets POST (json_body (vgStorageInput_json b))"

definition dbBackupsApi_updateTarget :: "string \<Rightarrow> json \<Rightarrow> VgStorageTarget call" where
  [api_defs]: "dbBackupsApi_updateTarget i b =
     Call (ep_dbBackupsTarget i) PUT (json_body (b))"

definition dbBackupsApi_testTarget :: "string \<Rightarrow> VgStorageTest call" where
  [api_defs]: "dbBackupsApi_testTarget i =
     Call ep_dbBackupsTargetTest POST (json_body (jobj [(''id'', Some (JStr i))]))"

definition dbBackupsApi_deleteTarget :: "string \<Rightarrow> unit call" where
  [api_defs]: "dbBackupsApi_deleteTarget i =
     Call (ep_dbBackupsTarget i) DELETE NoBody"

definition dbBackupsApi_connections :: "(VgConnection list) call" where
  [api_defs]: "dbBackupsApi_connections =
     Call ep_dbBackupsConnections GET NoBody"

definition dbBackupsApi_connection :: "string \<Rightarrow> VgConnection call" where
  [api_defs]: "dbBackupsApi_connection i =
     Call (ep_dbBackupsConnection i) GET NoBody"

definition dbBackupsApi_createConnection :: "VgConnectionInput \<Rightarrow> VgConnection call" where
  [api_defs]: "dbBackupsApi_createConnection b =
     Call ep_dbBackupsConnections POST (json_body (vgConnectionInput_json b))"

definition dbBackupsApi_updateConnection :: "string \<Rightarrow> json \<Rightarrow> VgConnection call" where
  [api_defs]: "dbBackupsApi_updateConnection i b =
     Call (ep_dbBackupsConnection i) PUT (json_body (b))"

definition dbBackupsApi_testConnection :: "string \<Rightarrow> VgConnectionTest call" where
  [api_defs]: "dbBackupsApi_testConnection i =
     Call ep_dbBackupsConnectionTest POST (json_body (jobj [(''id'', Some (JStr i))]))"

definition dbBackupsApi_deleteConnection :: "string \<Rightarrow> unit call" where
  [api_defs]: "dbBackupsApi_deleteConnection i =
     Call (ep_dbBackupsConnection i) DELETE NoBody"

definition dbBackupsApi_policies :: "(VgBackupPolicy list) call" where
  [api_defs]: "dbBackupsApi_policies =
     Call ep_dbBackupsPolicies GET NoBody"

definition dbBackupsApi_policy :: "string \<Rightarrow> VgPolicyDetail call" where
  [api_defs]: "dbBackupsApi_policy i =
     Call (ep_dbBackupsPolicy i) GET NoBody"

definition dbBackupsApi_createPolicy :: "VgPolicyInput \<Rightarrow> VgBackupPolicy call" where
  [api_defs]: "dbBackupsApi_createPolicy b =
     Call ep_dbBackupsPolicies POST (json_body (vgPolicyInput_json b))"

definition dbBackupsApi_updatePolicy :: "string \<Rightarrow> VgPolicyInput \<Rightarrow> VgBackupPolicy call" where
  [api_defs]: "dbBackupsApi_updatePolicy i b =
     Call (ep_dbBackupsPolicy i) PUT (json_body (vgPolicyInput_json b))"

definition dbBackupsApi_deletePolicy :: "string \<Rightarrow> unit call" where
  [api_defs]: "dbBackupsApi_deletePolicy i =
     Call (ep_dbBackupsPolicy i) DELETE NoBody"

definition dbBackupsApi_jobs :: "(VgBackupJob list) call" where
  [api_defs]: "dbBackupsApi_jobs =
     Call ep_dbBackupsJobs GET NoBody"

definition dbBackupsApi_job :: "string \<Rightarrow> VgBackupJob call" where
  [api_defs]: "dbBackupsApi_job i =
     Call (ep_dbBackupsJob i) GET NoBody"

definition dbBackupsApi_createJob :: "VgJobInput \<Rightarrow> VgBackupJob call" where
  [api_defs]: "dbBackupsApi_createJob b =
     Call ep_dbBackupsJobs POST (json_body (vgJobInput_json b))"

definition dbBackupsApi_updateJob :: "string \<Rightarrow> json \<Rightarrow> VgBackupJob call" where
  [api_defs]: "dbBackupsApi_updateJob i b =
     Call (ep_dbBackupsJob i) PUT (json_body (b))"

definition dbBackupsApi_deleteJob :: "string \<Rightarrow> unit call" where
  [api_defs]: "dbBackupsApi_deleteJob i =
     Call (ep_dbBackupsJob i) DELETE NoBody"

definition dbBackupsApi_enableJob :: "string \<Rightarrow> bool call" where
  [api_defs]: "dbBackupsApi_enableJob i =
     Call (ep_dbBackupsJobEnable i) POST NoBody"

definition dbBackupsApi_disableJob :: "string \<Rightarrow> bool call" where
  [api_defs]: "dbBackupsApi_disableJob i =
     Call (ep_dbBackupsJobDisable i) POST NoBody"

definition dbBackupsApi_runJob :: "string \<Rightarrow> VgBackupRun call" where
  [api_defs]: "dbBackupsApi_runJob i =
     Call (ep_dbBackupsJobRun i) POST NoBody"

definition dbBackupsApi_preflight :: "string \<Rightarrow> VgPreflight call" where
  [api_defs]: "dbBackupsApi_preflight i =
     Call (ep_dbBackupsJobPreflight i) POST NoBody"

definition dbBackupsApi_runs :: "RunsParams option \<Rightarrow> VgRunsPage call" where
  [api_defs]: "dbBackupsApi_runs ps =
     Call (ep_dbBackupsRuns ps) GET NoBody"

definition dbBackupsApi_run :: "string \<Rightarrow> VgBackupRun call" where
  [api_defs]: "dbBackupsApi_run i =
     Call (ep_dbBackupsRun i) GET NoBody"

definition dbBackupsApi_runArtifacts :: "string \<Rightarrow> (VgBackupArtifact list) call" where
  [api_defs]: "dbBackupsApi_runArtifacts i =
     Call (ep_dbBackupsRunArtifacts i) GET NoBody"

definition dbBackupsApi_cancelRun :: "string \<Rightarrow> string call" where
  [api_defs]: "dbBackupsApi_cancelRun i =
     Call (ep_dbBackupsRunCancel i) POST NoBody"

definition dbBackupsApi_verifyRun :: "string \<Rightarrow> (bool \<times> string option \<times> string option \<times> string option) call" where
  [api_defs]: "dbBackupsApi_verifyRun i =
     Call (ep_dbBackupsRunVerify i) POST NoBody"

definition dbBackupsApi_restores :: "(VgRestoreJob list) call" where
  [api_defs]: "dbBackupsApi_restores =
     Call ep_dbBackupsRestores GET NoBody"

definition dbBackupsApi_restore :: "string \<Rightarrow> VgRestoreJob call" where
  [api_defs]: "dbBackupsApi_restore i =
     Call (ep_dbBackupsRestore i) GET NoBody"

definition dbBackupsApi_createRestore :: "VgRestoreInput \<Rightarrow> VgRestoreJob call" where
  [api_defs]: "dbBackupsApi_createRestore b =
     Call ep_dbBackupsRestores POST (json_body (vgRestoreInput_json b))"

definition dbBackupsApi_agents :: "(VgAgent list) call" where
  [api_defs]: "dbBackupsApi_agents =
     Call ep_dbBackupsAgents GET NoBody"

definition dbBackupsApi_agent :: "string \<Rightarrow> VgAgent call" where
  [api_defs]: "dbBackupsApi_agent i =
     Call (ep_dbBackupsAgent i) GET NoBody"

definition dbBackupsApi_mintRegistrationToken :: "(string \<times> string) call" where
  [api_defs]: "dbBackupsApi_mintRegistrationToken =
     Call ep_dbBackupsAgentToken POST NoBody"

definition dbBackupsApi_rotateAgentToken :: "string \<Rightarrow> (string \<times> string) call" where
  [api_defs]: "dbBackupsApi_rotateAgentToken i =
     Call (ep_dbBackupsAgentRotate i) POST NoBody"

definition dbBackupsApi_revokeAgent :: "string \<Rightarrow> bool call" where
  [api_defs]: "dbBackupsApi_revokeAgent i =
     Call (ep_dbBackupsAgentRevoke i) POST NoBody"

definition dbBackupsApi_enrollTokens :: "(VgEnrollTokenRow list) call" where
  [api_defs]: "dbBackupsApi_enrollTokens =
     Call ep_dbBackupsEnrollTokens GET NoBody"

definition dbBackupsApi_mintEnrollToken :: "string option \<Rightarrow> int option \<Rightarrow> VgEnrollMint call" where
  [api_defs]: "dbBackupsApi_mintEnrollToken nm expires_minutes =
     Call ep_dbBackupsEnrollTokens POST (json_body (jobj [(''name'', map_option JStr nm), (''expires_minutes'', map_option jint expires_minutes)]))"

definition dbBackupsApi_revokeEnrollToken :: "string \<Rightarrow> unit call" where
  [api_defs]: "dbBackupsApi_revokeEnrollToken i =
     Call (ep_dbBackupsEnrollToken i) DELETE NoBody"

definition dbBackupsApi_machines :: "(VgMachine list) call" where
  [api_defs]: "dbBackupsApi_machines =
     Call ep_dbBackupsMachines GET NoBody"

definition dbBackupsApi_machine :: "string \<Rightarrow> VgMachine call" where
  [api_defs]: "dbBackupsApi_machine i =
     Call (ep_dbBackupsMachine i) GET NoBody"

section \<open>Methods that do not go through \<open>req\<close>\<close>

definition api_downloadBackupUrl :: "string \<Rightarrow> int \<Rightarrow> string" where
  "api_downloadBackupUrl base i = base @ ep_backupDownload i"

definition transfersApi_downloadUrl :: "string \<Rightarrow> string \<Rightarrow> string" where
  "transfersApi_downloadUrl base p = base @ ep_transfersDownload p"

text \<open>An upload sends one file part named \<open>file\<close> with the file's own name and content.\<close>

definition transfersApi_upload ::
  "'w net \<Rightarrow> string \<Rightarrow> string \<Rightarrow> string \<Rightarrow> string \<Rightarrow> 'w \<Rightarrow> (js_error + json option) \<times> 'w" where
  "transfersApi_upload net base destDir fileName content w =
     uploadReq net base (ep_transfersUpload (Some destDir)) (FormFile fileName content) w"

definition fmApi_storage :: "TransferStorageInfo call" where
  [api_defs]: "fmApi_storage = transfersApi_storage"

section \<open>Properties\<close>

lemma json_exact_jint [simp]: "json_exact (jint i)"
  by (simp add: jint_def)

lemma json_exact_jobj: "json_exact (jobj fs) \<longleftrightarrow> list_all (\<lambda>f. pred_option json_exact (snd f)) fs"
  unfolding jobj_def by (induction fs rule: present.induct) auto

lemmas json_exact_simps = json_exact_jobj option.pred_map comp_def option.pred_True

lemma json_exact_encoders [simp]:
  "json_exact (dbTarget_json t)" "json_exact (notificationRuleCreate_json c)"
  "json_exact (notificationRuleUpdate_json u)" "json_exact (vgJobInput_json j)"
  "json_exact (vgPolicyInput_json p)" "json_exact (vgConnectionInput_json n)"
  "json_exact (vgStorageInput_json s)" "json_exact (vgRestoreInput_json r)"
  unfolding body_defs by (simp_all add: json_exact_simps)

text \<open>A call the browser can send and the server can parse: under the API prefix, no body
  on a GET (\<open>fetch\<close> refuses one), and any text body valid JSON.\<close>

definition well_formed_call :: "'a call \<Rightarrow> bool" where
  "well_formed_call c \<longleftrightarrow>
     js_startsWith (call_path c) (API @ ''/'') \<and> (call_method c = GET \<longrightarrow> call_body c = NoBody)
     \<and> (case call_body c of TextBody t \<Rightarrow> JSON_parse t \<noteq> None | _ \<Rightarrow> True)"

lemma well_formed_no_body:
  "well_formed_call (Call p m NoBody) \<longleftrightarrow> js_startsWith p (API @ ''/'')"
  by (simp add: well_formed_call_def)

lemma well_formed_json_body:
  "json_exact v \<Longrightarrow> m \<noteq> GET \<Longrightarrow>
     well_formed_call (Call p m (json_body v)) \<longleftrightarrow> js_startsWith p (API @ ''/'')"
  by (simp add: well_formed_call_def json_body_def JSON_parse_stringify)

lemmas path_prefix_defs = endpoint_defs ep_logs_def ep_dbBackupsRuns_def API_def



definition refresh_exempt :: "'a call \<Rightarrow> bool" where
  "refresh_exempt c \<longleftrightarrow> is_auth_path (call_path c)"

text \<open>Exactly the five session methods (login, logout, session check, password change
  and logout everywhere) are exempt from the transparent refresh; every other method of
  the API renews an expired session and retries once.\<close>

lemma refresh_exempt_calls:
  "refresh_exempt (api_login s s2) \<and> refresh_exempt api_logout \<and> refresh_exempt api_me
   \<and> refresh_exempt (api_changePassword s s2) \<and> \<not> refresh_exempt api_dashboard
   \<and> \<not> refresh_exempt api_server \<and> \<not> refresh_exempt (api_audit ko) \<and>
   \<not> refresh_exempt api_projects \<and> \<not> refresh_exempt (api_project k) \<and> \<not>
   refresh_exempt (api_createProject v) \<and> \<not> refresh_exempt (api_projectAction k act bo)
   \<and> \<not> refresh_exempt (api_bulkLifecycle ks act bo) \<and> \<not> refresh_exempt
   api_notifySettings \<and> \<not> refresh_exempt (api_saveNotifySettings v) \<and> \<not>
   refresh_exempt api_testNotify \<and> \<not> refresh_exempt api_notificationGroups \<and> \<not>
   refresh_exempt (api_notificationGroup k) \<and> \<not> refresh_exempt
   (api_createNotificationGroup s so) \<and> \<not> refresh_exempt (api_updateNotificationGroup k
   so so2) \<and> \<not> refresh_exempt (api_deleteNotificationGroup k) \<and> \<not>
   refresh_exempt (api_addGroupMember k s) \<and> \<not> refresh_exempt (api_removeGroupMember k
   k2) \<and> \<not> refresh_exempt api_notificationRules \<and> \<not> refresh_exempt
   (api_notificationRule k) \<and> \<not> refresh_exempt (api_createNotificationRule rc) \<and>
   \<not> refresh_exempt (api_updateNotificationRule k ru) \<and> \<not> refresh_exempt
   (api_deleteNotificationRule k) \<and> \<not> refresh_exempt (api_services k) \<and> \<not>
   refresh_exempt (api_deployments k) \<and> \<not> refresh_exempt (api_deploy k so) \<and> \<not>
   refresh_exempt api_wipeDeployments \<and> \<not> refresh_exempt (api_rollback k k2) \<and>
   \<not> refresh_exempt api_discovery \<and> \<not> refresh_exempt (api_importDiscovered s) \<and>
   \<not> refresh_exempt api_importAllDiscovered \<and> \<not> refresh_exempt (api_secrets k)
   \<and> \<not> refresh_exempt (api_upsertSecret k s s2 so) \<and> \<not> refresh_exempt
   (api_revealSecret k) \<and> \<not> refresh_exempt (api_telemetry so) \<and> \<not>
   refresh_exempt api_serverDetail \<and> \<not> refresh_exempt api_storage \<and> \<not>
   refresh_exempt api_containerStats \<and> \<not> refresh_exempt (api_operation s) \<and> \<not>
   refresh_exempt (api_operations ko) \<and> \<not> refresh_exempt (api_execToken s so bo) \<and>
   \<not> refresh_exempt (api_backups k) \<and> \<not> refresh_exempt (api_createBackup k) \<and>
   \<not> refresh_exempt (api_deleteBackup k) \<and> \<not> refresh_exempt (api_restoreBackup k)
   \<and> \<not> refresh_exempt api_dbServers \<and> \<not> refresh_exempt (api_browseDatabases
   tgt) \<and> \<not> refresh_exempt (api_connectDatabase tgt) \<and> \<not> refresh_exempt
   (api_registerDatabases k tgt ss so so2) \<and> \<not> refresh_exempt (api_logs lp) \<and> \<not>
   refresh_exempt api_users \<and> \<not> refresh_exempt (api_createUser s s2 s3) \<and> \<not>
   refresh_exempt (api_setUserRole s s2) \<and> \<not> refresh_exempt (api_deleteUser s) \<and>
   refresh_exempt api_logoutAll \<and> \<not> refresh_exempt api_servers \<and> \<not>
   refresh_exempt (api_managedServer k) \<and> \<not> refresh_exempt (api_createServer s so so2 ko)
   \<and> \<not> refresh_exempt (api_updateServer k so so2 so3 ko) \<and> \<not> refresh_exempt
   (api_deleteServer k) \<and> \<not> refresh_exempt (api_serverMetrics k so) \<and> \<not>
   refresh_exempt (api_serverMetricsLatest k) \<and> \<not> refresh_exempt
   (api_serverPrometheusMetrics k s s2 s3) \<and> \<not> refresh_exempt (api_agentTokens k) \<and>
   \<not> refresh_exempt (api_createAgentToken k so) \<and> \<not> refresh_exempt
   (api_revokeAgentToken k k2) \<and> \<not> refresh_exempt api_serverGroups \<and> \<not>
   refresh_exempt (api_createServerGroup s so) \<and> \<not> refresh_exempt (api_deleteServerGroup
   k) \<and> \<not> refresh_exempt (api_alerts so) \<and> \<not> refresh_exempt (api_resolveAlert
   k) \<and> \<not> refresh_exempt api_notifications \<and> \<not> refresh_exempt
   (api_markNotificationRead k) \<and> \<not> refresh_exempt api_markAllNotificationsRead \<and>
   \<not> refresh_exempt api_healthChecks \<and> \<not> refresh_exempt (api_createHealthCheck v)
   \<and> \<not> refresh_exempt (api_updateHealthCheck k v) \<and> \<not> refresh_exempt
   (api_deleteHealthCheck k) \<and> \<not> refresh_exempt (api_healthCheckResults k) \<and> \<not>
   refresh_exempt api_monitoringOverview \<and> \<not> refresh_exempt api_prometheusStatus \<and>
   \<not> refresh_exempt api_prometheusTargets \<and> \<not> refresh_exempt api_prometheusRules
   \<and> \<not> refresh_exempt (api_prometheusQuery s) \<and> \<not> refresh_exempt
   (api_prometheusQueryRange ms s s2 so) \<and> \<not> refresh_exempt (api_monitoringMetrics s so
   so2) \<and> \<not> refresh_exempt api_alertmanagerStatus \<and> \<not> refresh_exempt
   api_monitoringAlerts \<and> \<not> refresh_exempt api_monitoringSilences \<and> \<not>
   refresh_exempt (api_createSilence v) \<and> \<not> refresh_exempt (api_deleteSilence s) \<and>
   \<not> refresh_exempt (transfersApi_list so) \<and> \<not> refresh_exempt (transfersApi_metadata
   s) \<and> \<not> refresh_exempt (transfersApi_folderSize s) \<and> \<not> refresh_exempt
   (transfersApi_search s so) \<and> \<not> refresh_exempt transfersApi_storage \<and> \<not>
   refresh_exempt transfersApi_breakdown \<and> \<not> refresh_exempt transfersApi_trash \<and>
   \<not> refresh_exempt (transfersApi_activity ko) \<and> \<not> refresh_exempt
   (transfersApi_mkdir s) \<and> \<not> refresh_exempt (transfersApi_rename s s2) \<and> \<not>
   refresh_exempt (transfersApi_move s s2) \<and> \<not> refresh_exempt (transfersApi_copy s s2)
   \<and> \<not> refresh_exempt (transfersApi_remove s bo) \<and> \<not> refresh_exempt
   (transfersApi_trashMove s) \<and> \<not> refresh_exempt (transfersApi_trashRestore s) \<and>
   \<not> refresh_exempt transfersApi_trashPurge \<and> \<not> refresh_exempt (fmApi_activity ko)
   \<and> \<not> refresh_exempt dbBackupsApi_dashboard \<and> \<not> refresh_exempt
   dbBackupsApi_targets \<and> \<not> refresh_exempt (dbBackupsApi_target s) \<and> \<not>
   refresh_exempt (dbBackupsApi_createTarget si) \<and> \<not> refresh_exempt
   (dbBackupsApi_updateTarget s v) \<and> \<not> refresh_exempt (dbBackupsApi_testTarget s) \<and>
   \<not> refresh_exempt (dbBackupsApi_deleteTarget s) \<and> \<not> refresh_exempt
   dbBackupsApi_connections \<and> \<not> refresh_exempt (dbBackupsApi_connection s) \<and> \<not>
   refresh_exempt (dbBackupsApi_createConnection ci) \<and> \<not> refresh_exempt
   (dbBackupsApi_updateConnection s v) \<and> \<not> refresh_exempt (dbBackupsApi_testConnection s)
   \<and> \<not> refresh_exempt (dbBackupsApi_deleteConnection s) \<and> \<not> refresh_exempt
   dbBackupsApi_policies \<and> \<not> refresh_exempt (dbBackupsApi_policy s) \<and> \<not>
   refresh_exempt (dbBackupsApi_createPolicy pin) \<and> \<not> refresh_exempt
   (dbBackupsApi_updatePolicy s pin) \<and> \<not> refresh_exempt (dbBackupsApi_deletePolicy s)
   \<and> \<not> refresh_exempt dbBackupsApi_jobs \<and> \<not> refresh_exempt (dbBackupsApi_job s)
   \<and> \<not> refresh_exempt (dbBackupsApi_createJob ji) \<and> \<not> refresh_exempt
   (dbBackupsApi_updateJob s v) \<and> \<not> refresh_exempt (dbBackupsApi_deleteJob s) \<and>
   \<not> refresh_exempt (dbBackupsApi_enableJob s) \<and> \<not> refresh_exempt
   (dbBackupsApi_disableJob s) \<and> \<not> refresh_exempt (dbBackupsApi_runJob s) \<and> \<not>
   refresh_exempt (dbBackupsApi_preflight s) \<and> \<not> refresh_exempt (dbBackupsApi_runs rp)
   \<and> \<not> refresh_exempt (dbBackupsApi_run s) \<and> \<not> refresh_exempt
   (dbBackupsApi_runArtifacts s) \<and> \<not> refresh_exempt (dbBackupsApi_cancelRun s) \<and>
   \<not> refresh_exempt (dbBackupsApi_verifyRun s) \<and> \<not> refresh_exempt
   dbBackupsApi_restores \<and> \<not> refresh_exempt (dbBackupsApi_restore s) \<and> \<not>
   refresh_exempt (dbBackupsApi_createRestore ri) \<and> \<not> refresh_exempt dbBackupsApi_agents
   \<and> \<not> refresh_exempt (dbBackupsApi_agent s) \<and> \<not> refresh_exempt
   dbBackupsApi_mintRegistrationToken \<and> \<not> refresh_exempt (dbBackupsApi_rotateAgentToken
   s) \<and> \<not> refresh_exempt (dbBackupsApi_revokeAgent s) \<and> \<not> refresh_exempt
   dbBackupsApi_enrollTokens \<and> \<not> refresh_exempt (dbBackupsApi_mintEnrollToken so ko)
   \<and> \<not> refresh_exempt (dbBackupsApi_revokeEnrollToken s) \<and> \<not> refresh_exempt
   dbBackupsApi_machines \<and> \<not> refresh_exempt (dbBackupsApi_machine s) \<and> \<not>
   refresh_exempt fmApi_storage"
  unfolding api_defs refresh_exempt_def is_auth_path_def
  by (intro conjI; simp add: path_prefix_defs Let_def)

definition body_value :: "'a call \<Rightarrow> json option" where
  "body_value c = (case call_body c of TextBody t \<Rightarrow> JSON_parse t | _ \<Rightarrow> None)"

lemma body_value_json: "json_exact v \<Longrightarrow> body_value (Call p m (json_body v)) = Some v"
  by (simp add: body_value_def json_body_def JSON_parse_stringify)


section \<open>Partial updates\<close>

lemma map_of_present_None: "k \<notin> fst ` set fs \<Longrightarrow> map_of (rev (present fs)) k = None"
  by (induction fs rule: present.induct) (auto simp: map_of_append map_add_def)

lemma map_of_rev_present:
  "distinct (map fst fs) \<Longrightarrow> map_of (rev (present fs)) k = Option.bind (map_of fs k) (\<lambda>x. x)"
proof (induction fs rule: present.induct)
  case (2 k' fs)
  then show ?case using map_of_present_None [of k' fs] by auto
next
  case (3 k' v fs)
  then show ?case using map_of_present_None [of k' fs]
    by (auto simp: map_of_append map_add_def split: option.splits)
qed simp

lemma json_get_jobj:
  "distinct (map fst fs) \<Longrightarrow> json_get k (jobj fs) = Option.bind (map_of fs k) (\<lambda>x. x)"
  by (simp add: jobj_def map_of_rev_present)

text \<open>A rule update sends a field exactly when the caller provides it, so a partial
  update never overwrites a field it does not mention; and a connection input carries the
  write-only password exactly when one is given.\<close>

lemma partial_updates_sparse:
  "json_get ''name'' (notificationRuleUpdate_json u) = map_option JStr (notificationRuleUpdate_name u)
   \<and> json_get ''enabled'' (notificationRuleUpdate_json u) = map_option JBool (notificationRuleUpdate_enabled u)
   \<and> json_get ''severity'' (notificationRuleUpdate_json u) = map_option JStr (notificationRuleUpdate_severity u)
   \<and> json_get ''conditionJson'' (notificationRuleUpdate_json u) = map_option JStr (notificationRuleUpdate_conditionJson u)
   \<and> json_get ''notificationGroupId'' (notificationRuleUpdate_json u) = map_option jint (notificationRuleUpdate_notificationGroupId u)
   \<and> json_get ''cooldownSeconds'' (notificationRuleUpdate_json u) = map_option jint (notificationRuleUpdate_cooldownSeconds u)
   \<and> json_get ''notifyOnRecovery'' (notificationRuleUpdate_json u) = map_option JBool (notificationRuleUpdate_notifyOnRecovery u)
   \<and> json_get ''maxRepeats'' (notificationRuleUpdate_json u) = map_option jint (notificationRuleUpdate_maxRepeats u)
   \<and> json_get ''digestIntervalMin'' (notificationRuleUpdate_json u) = map_option jint (notificationRuleUpdate_digestIntervalMin u)
   \<and> json_get ''password'' (vgConnectionInput_json c) = map_option JStr (vgConnectionInput_password c)
   \<and> json_get ''username'' (vgConnectionInput_json c) = map_option JStr (vgConnectionInput_username c)
   \<and> json_get ''host'' (vgConnectionInput_json c) = Some (JStr (vgConnectionInput_host c))"
  unfolding notificationRuleUpdate_json_def vgConnectionInput_json_def
  by (intro conjI; subst json_get_jobj; simp)

end
