(* ===== verification/Hub_Effects.thy ===== *)
theory Hub_Effects
  imports Web_Request
begin

text \<open>
  Effects of the asynchronous code. An \<open>async\<close> function that awaits its calls one
  after the other is a computation on an explicit state that returns or throws; the
  combinators are \<open>await\<close>, \<open>throw\<close>, \<open>try/catch\<close> and \<open>try/finally\<close>. The
  second half is the contract of a key-value store with string keys and values, which
  both clients persist settings and sessions in, and what follows from it for a client.
\<close>

named_theorems io_simps \<open>evaluation of effectful computations\<close>
named_theorems io_ends \<open>conditions effectful computations establish\<close>
named_theorems io_keeps \<open>what effectful computations leave unchanged\<close>

section \<open>Computations that return or throw\<close>

type_synonym ('s, 'a) io = "'s \<Rightarrow> (js_error + 'a) \<times> 's"

definition io_return :: "'a \<Rightarrow> ('s, 'a) io" where
  [io_simps]: "io_return x s = (Inr x, s)"

definition io_throw :: "js_error \<Rightarrow> ('s, 'a) io" where
  [io_simps]: "io_throw e s = (Inl e, s)"

definition io_bind :: "('s, 'a) io \<Rightarrow> ('a \<Rightarrow> ('s, 'b) io) \<Rightarrow> ('s, 'b) io" where
  "io_bind m f s = (case m s of (Inl e, s') \<Rightarrow> (Inl e, s') | (Inr x, s') \<Rightarrow> f x s')"

definition io_seq :: "('s, 'a) io \<Rightarrow> ('s, 'b) io \<Rightarrow> ('s, 'b) io" where
  "io_seq m n = io_bind m (\<lambda>_. n)"

definition io_catch :: "('s, 'a) io \<Rightarrow> (js_error \<Rightarrow> ('s, 'a) io) \<Rightarrow> ('s, 'a) io" where
  "io_catch m h s = (case m s of (Inl e, s') \<Rightarrow> h e s' | (Inr x, s') \<Rightarrow> (Inr x, s'))"

text \<open>\<open>finally\<close>: the final block runs on both paths; when it throws, its error replaces
  the outcome.\<close>

definition io_finally :: "('s, 'a) io \<Rightarrow> ('s, unit) io \<Rightarrow> ('s, 'a) io" where
  "io_finally m n s =
     (case m s of (r, s') \<Rightarrow> (case n s' of (Inl e, s'') \<Rightarrow> (Inl e, s'') | (Inr _, s'') \<Rightarrow> (r, s'')))"

definition io_modify :: "('s \<Rightarrow> 's) \<Rightarrow> ('s, unit) io" where
  [io_simps]: "io_modify f s = (Inr (), f s)"

definition io_reads :: "('s \<Rightarrow> 'a) \<Rightarrow> ('s, 'a) io" where
  [io_simps]: "io_reads f s = (Inr (f s), s)"

definition io_when :: "bool \<Rightarrow> ('s, unit) io \<Rightarrow> ('s, unit) io" where
  [io_simps]: "io_when b m = (if b then m else io_return ())"

lemma io_bind_simps [io_simps]:
  "m s = (Inr x, s') \<Longrightarrow> io_bind m f s = f x s'"
  "m s = (Inl e, s') \<Longrightarrow> io_bind m f s = (Inl e, s')"
  by (simp_all add: io_bind_def)

lemma io_seq_simps [io_simps]:
  "m s = (Inr x, s') \<Longrightarrow> io_seq m n s = n s'"
  "m s = (Inl e, s') \<Longrightarrow> io_seq m n s = (Inl e, s')"
  by (simp_all add: io_bind_def io_seq_def)

lemma io_catch_simps [io_simps]:
  "m s = (Inr x, s') \<Longrightarrow> io_catch m h s = (Inr x, s')"
  "m s = (Inl e, s') \<Longrightarrow> io_catch m h s = h e s'"
  by (simp_all add: io_catch_def)

lemma io_finally_simps [io_simps]:
  "m s = (r, s') \<Longrightarrow> n s' = (Inr u, s'') \<Longrightarrow> io_finally m n s = (r, s'')"
  by (simp add: io_finally_def)

lemma io_bind_return: "io_bind (io_return x) f = f x"
  by (rule ext) (simp add: io_bind_def io_return_def)

lemma io_bind_assoc: "io_bind (io_bind m f) g = io_bind m (\<lambda>x. io_bind (f x) g)"
  by (rule ext) (simp add: io_bind_def split: prod.splits sum.splits)

text \<open>A handler that cannot throw makes the whole block unable to throw.\<close>

lemma io_catch_total:
  assumes "\<And>e s. \<exists>x s'. h e s = (Inr x, s')"
  shows "\<exists>x s'. io_catch m h s = (Inr x, s')"
  using assms by (cases "m s") (auto simp: io_catch_def split: sum.splits)

text \<open>A part of the state that a computation keeps, on every path.\<close>

definition keeps :: "('s \<Rightarrow> 'x) \<Rightarrow> ('s, 'a) io \<Rightarrow> bool" where
  "keeps f m \<longleftrightarrow> (\<forall>s. f (snd (m s)) = f s)"

lemma keepsD: "keeps f m \<Longrightarrow> m s = (r, s') \<Longrightarrow> f s' = f s"
  by (metis keeps_def snd_conv)

lemma keeps_basic [io_keeps]:
  "keeps f (io_return x)" "keeps f (io_throw e)" "keeps f (io_reads g)"
  by (simp_all add: keeps_def io_return_def io_throw_def io_reads_def)

lemma keeps_bind [io_keeps]:
  assumes "keeps f m" and "\<And>x. keeps f (n x)"
  shows "keeps f (io_bind m n)"
  using assms unfolding keeps_def io_bind_def
  by (auto split: prod.splits sum.splits) (metis snd_conv)+

lemma keeps_seq [io_keeps]: "keeps f m \<Longrightarrow> keeps f n \<Longrightarrow> keeps f (io_seq m n)"
  unfolding io_seq_def by (rule keeps_bind)

lemma keeps_when [io_keeps]: "keeps f m \<Longrightarrow> keeps f (io_when b m)"
  by (simp add: io_when_def keeps_basic)

lemma keeps_catch [io_keeps]:
  assumes "keeps f m" and "\<And>e. keeps f (h e)"
  shows "keeps f (io_catch m h)"
  using assms unfolding keeps_def io_catch_def
  by (auto split: prod.splits sum.splits) (metis snd_conv)+

lemma keeps_finally [io_keeps]:
  assumes "keeps f m" and "keeps f n"
  shows "keeps f (io_finally m n)"
  using assms unfolding keeps_def io_finally_def
  by (auto split: prod.splits sum.splits) (metis snd_conv)+

lemma keeps_if [io_keeps]: "keeps f m \<Longrightarrow> keeps f n \<Longrightarrow> keeps f (if b then m else n)"
  by simp

text \<open>A condition that holds whenever a computation returns.\<close>

definition ends_in :: "('s \<Rightarrow> bool) \<Rightarrow> ('s, 'a) io \<Rightarrow> bool" where
  "ends_in Q m \<longleftrightarrow> (\<forall>s x s'. m s = (Inr x, s') \<longrightarrow> Q s')"

lemma ends_in_throw [io_ends]: "ends_in Q (io_throw e)"
  by (simp add: ends_in_def io_throw_def)

lemma ends_in_modify [io_ends]: "(\<And>s. Q (f s)) \<Longrightarrow> ends_in Q (io_modify f)"
  by (simp add: ends_in_def io_modify_def)

lemma ends_in_bind [io_ends]: "(\<And>x. ends_in Q (n x)) \<Longrightarrow> ends_in Q (io_bind m n)"
  unfolding ends_in_def io_bind_def by (auto split: prod.splits sum.splits)

lemma ends_in_seq [io_ends]: "ends_in Q n \<Longrightarrow> ends_in Q (io_seq m n)"
  unfolding io_seq_def by (rule ends_in_bind)

lemma ends_in_catch [io_ends]: "ends_in Q m \<Longrightarrow> (\<And>e. ends_in Q (h e)) \<Longrightarrow> ends_in Q (io_catch m h)"
  unfolding ends_in_def io_catch_def by (auto split: prod.splits sum.splits)

lemma ends_in_if [io_ends]: "ends_in Q m \<Longrightarrow> ends_in Q n \<Longrightarrow> ends_in Q (if b then m else n)"
  by simp

text \<open>A computation on one component of a pair of states.\<close>

definition on_fst :: "('s, 'a) io \<Rightarrow> ('s \<times> 't, 'a) io" where
  "on_fst m = (\<lambda>(s, t). case m s of (r, s') \<Rightarrow> (r, s', t))"

definition modify_snd :: "('t \<Rightarrow> 't) \<Rightarrow> ('s \<times> 't, unit) io" where
  "modify_snd f = io_modify (\<lambda>(s, t). (s, f t))"

lemma on_fst_simp [io_simps]: "on_fst m (s, t) = (fst (m s), snd (m s), t)"
  by (simp add: on_fst_def split: prod.splits)

lemma modify_snd_simp [io_simps]: "modify_snd f (s, t) = (Inr (), s, f t)"
  by (simp add: modify_snd_def io_modify_def)

section \<open>Values of unknown shape\<close>

text \<open>Truth of a JSON value or of \<open>undefined\<close>.\<close>

fun json_truthy :: "json option \<Rightarrow> bool" where
  "json_truthy None = False"
| "json_truthy (Some JNull) = False"
| "json_truthy (Some (JBool b)) = b"
| "json_truthy (Some (JNum q)) = (q \<noteq> 0)"
| "json_truthy (Some (JStr s)) = (s \<noteq> [])"
| "json_truthy (Some (JArr vs)) = True"
| "json_truthy (Some (JObj ms)) = True"

text \<open>Reading a field of \<open>null\<close> or \<open>undefined\<close> throws; \<open>tmsg\<close> is the engine's
  message.\<close>

fun field_of :: "string \<Rightarrow> string \<Rightarrow> json option \<Rightarrow> js_error + json option" where
  "field_of tmsg k None = Inl (JsError tmsg)"
| "field_of tmsg k (Some JNull) = Inl (JsError tmsg)"
| "field_of tmsg k (Some v) = Inr (json_get k v)"

text \<open>A JSON value in a template string.\<close>

fun template_text :: "json option \<Rightarrow> string" where
  "template_text None = ''undefined''"
| "template_text (Some JNull) = ''null''"
| "template_text (Some (JBool b)) = (if b then ''true'' else ''false'')"
| "template_text (Some (JNum q)) = num_str q"
| "template_text (Some (JStr s)) = s"
| "template_text (Some (JArr [])) = []"
| "template_text (Some (JArr [v])) = (if v = JNull then [] else template_text (Some v))"
| "template_text (Some (JArr (v # w # vs))) =
     (if v = JNull then [] else template_text (Some v)) @ CHR '','' # template_text (Some (JArr (w # vs)))"
| "template_text (Some (JObj ms)) = ''[object Object]''"

section \<open>Key-value stores\<close>

record 's kv_ops =
  getItem :: "'s \<Rightarrow> string \<Rightarrow> js_error + string option"
  setItem :: "'s \<Rightarrow> string \<Rightarrow> string \<Rightarrow> js_error + 's"
  deleteItem :: "'s \<Rightarrow> string \<Rightarrow> js_error + 's"

text \<open>What a store promises: a write that succeeds is read back, and neither a write nor a
  deletion touches another key. Any operation may fail.\<close>

locale kv_store =
  fixes ops :: "'s kv_ops"
  assumes get_set: "setItem ops s k v = Inr s' \<Longrightarrow>
      getItem ops s' k' = (if k' = k then Inr (Some v) else getItem ops s k')"
    and get_delete: "deleteItem ops s k = Inr s' \<Longrightarrow>
      getItem ops s' k' = (if k' = k then Inr None else getItem ops s k')"
begin

lemma get_set_same: "setItem ops s k v = Inr s' \<Longrightarrow> getItem ops s' k = Inr (Some v)"
  by (simp add: get_set)

lemma get_set_other: "setItem ops s k v = Inr s' \<Longrightarrow> k' \<noteq> k \<Longrightarrow> getItem ops s' k' = getItem ops s k'"
  by (simp add: get_set)

lemma set_set_get:
  "setItem ops s k v = Inr s' \<Longrightarrow> setItem ops s' k v' = Inr s'' \<Longrightarrow> getItem ops s'' k = Inr (Some v')"
  by (simp add: get_set)

end

text \<open>A store that does not fail: the documented behaviour on a working device.\<close>

locale working_store = kv_store ops
  for ops :: "'s kv_ops" +
  assumes get_works: "\<exists>v. getItem ops s k = Inr v"
    and set_works: "\<exists>s'. setItem ops s k v = Inr s'"
    and delete_works: "\<exists>s'. deleteItem ops s k = Inr s'"
begin

definition wput :: "string \<Rightarrow> string \<Rightarrow> 's \<Rightarrow> 's" where
  "wput k v s = (case setItem ops s k v of Inr s' \<Rightarrow> s' | Inl e \<Rightarrow> s)"

definition wdel :: "string \<Rightarrow> 's \<Rightarrow> 's" where
  "wdel k s = (case deleteItem ops s k of Inr s' \<Rightarrow> s' | Inl e \<Rightarrow> s)"

definition wget :: "'s \<Rightarrow> string \<Rightarrow> string option" where
  "wget s k = (case getItem ops s k of Inr v \<Rightarrow> v | Inl e \<Rightarrow> None)"

lemma setItem_wput: "setItem ops s k v = Inr (wput k v s)"
  using set_works [of s k v] by (auto simp: wput_def)

lemma deleteItem_wdel: "deleteItem ops s k = Inr (wdel k s)"
  using delete_works [of s k] by (auto simp: wdel_def)

lemma getItem_wget: "getItem ops s k = Inr (wget s k)"
  using get_works [of s k] by (auto simp: wget_def)

lemma wget_wput: "wget (wput k v s) k' = (if k' = k then Some v else wget s k')"
  using get_set [OF setItem_wput [of s k v], of k'] by (auto simp: getItem_wget)

lemma wget_wdel: "wget (wdel k s) k' = (if k' = k then None else wget s k')"
  using get_delete [OF deleteItem_wdel [of s k], of k'] by (auto simp: getItem_wget)

end

section \<open>Browser and device stores\<close>

text \<open>\<open>localStorage\<close>: a map, or unavailable (private mode, blocked), where every access
  throws.\<close>

type_synonym local_storage = "(string \<rightharpoonup> string) option"

definition storage_error :: js_error where
  "storage_error = JsError ''SecurityError''"

definition localStorage :: "local_storage kv_ops" where
  "localStorage =
     \<lparr>getItem = \<lambda>s k. (case s of None \<Rightarrow> Inl storage_error | Some m \<Rightarrow> Inr (m k)),
      setItem = \<lambda>s k v. (case s of None \<Rightarrow> Inl storage_error | Some m \<Rightarrow> Inr (Some (m(k \<mapsto> v)))),
      deleteItem = \<lambda>s k. (case s of None \<Rightarrow> Inl storage_error | Some m \<Rightarrow> Inr (Some (m(k := None))))\<rparr>"

interpretation ls: kv_store localStorage
  by unfold_locales (auto simp: localStorage_def split: option.splits)

text \<open>A device store on a working phone, the instance the hypotheses on
  \<open>expo-secure-store\<close> are shown to hold for.\<close>

definition map_store :: "(string \<rightharpoonup> string) kv_ops" where
  "map_store =
     \<lparr>getItem = \<lambda>s k. Inr (s k), setItem = \<lambda>s k v. Inr (s(k \<mapsto> v)), deleteItem = \<lambda>s k. Inr (s(k := None))\<rparr>"

interpretation ms: working_store map_store
  by unfold_locales (auto simp: map_store_def)

end
