(* ===== verification/Web_Stores.thy ===== *)
theory Web_Stores
  imports Web_Api Hub_Steps Hub_Effects
begin

text \<open>
  The stores of the web client, \<open>client/src/stores/store.ts\<close>: the session store
  (\<open>useAuth\<close>) and the toast store (\<open>useUi\<close>). Every \<open>async\<close> action is split at
  its \<open>await\<close>: one event starts it, one event delivers the answer, and any number of
  actions may be outstanding. Toast timers carry their deadline in milliseconds.
\<close>

section \<open>The session store\<close>

text \<open>\<open>user\<close> holds whatever the server sent: \<open>Some JNull\<close> is \<open>null\<close>, \<open>None\<close>
  is \<open>undefined\<close>.\<close>

record AuthState =
  auth_user :: "json option"
  auth_checked :: bool
  auth_busy :: bool
  auth_error :: "string option"

definition useAuth_init :: AuthState where
  "useAuth_init = \<lparr>auth_user = Some JNull, auth_checked = False, auth_busy = False, auth_error = None\<rparr>"

definition signed_in :: "'a AuthState_scheme \<Rightarrow> bool" where
  "signed_in s \<longleftrightarrow> auth_user s \<noteq> None \<and> auth_user s \<noteq> Some JNull"

definition check_answer :: "js_error + json option \<Rightarrow> 'a AuthState_scheme \<Rightarrow> 'a AuthState_scheme" where
  "check_answer r s =
     (case r of
        Inr me \<Rightarrow> s\<lparr>auth_user := me, auth_checked := True\<rparr>
      | Inl e \<Rightarrow> s\<lparr>auth_user := Some JNull, auth_checked := True\<rparr>)"

definition login_begin :: "'a AuthState_scheme \<Rightarrow> 'a AuthState_scheme" where
  "login_begin s = s\<lparr>auth_busy := True, auth_error := None\<rparr>"

definition login_user :: "json \<Rightarrow> json" where
  "login_user res = jobj [(''username'', json_get ''username'' res), (''role'', json_get ''role'' res)]"

text \<open>Reading a field of an empty answer throws inside the \<open>try\<close> block; \<open>tmsg\<close> is the
  engine's message. The second component is what the action throws.\<close>

definition login_answer ::
  "string \<Rightarrow> js_error + json option \<Rightarrow> 'a AuthState_scheme \<Rightarrow> (js_error + unit) \<times> 'a AuthState_scheme" where
  "login_answer tmsg r s =
     (let failed = \<lambda>e. (Inl e, s\<lparr>auth_busy := False, auth_error := Some (error_message e)\<rparr>) in
      case r of
        Inl e \<Rightarrow> failed e
      | Inr None \<Rightarrow> failed (JsError tmsg)
      | Inr (Some JNull) \<Rightarrow> failed (JsError tmsg)
      | Inr (Some res) \<Rightarrow> (Inr (), s\<lparr>auth_user := Some (login_user res), auth_busy := False\<rparr>))"

definition logout_answer ::
  "js_error + json option \<Rightarrow> 'a AuthState_scheme \<Rightarrow> (js_error + unit) \<times> 'a AuthState_scheme" where
  "logout_answer r s = (map_sum id (\<lambda>_. ()) r, s\<lparr>auth_user := Some JNull\<rparr>)"

text \<open>The actions run alone, on the network.\<close>

definition auth_check :: "'w net \<Rightarrow> string \<Rightarrow> ('w \<times> AuthState, unit) io" where
  "auth_check net base = (\<lambda>(w, s).
     case perform net base api_me w of (r, w') \<Rightarrow> (Inr (), w', check_answer r s))"

definition auth_login :: "'w net \<Rightarrow> string \<Rightarrow> string \<Rightarrow> string \<Rightarrow> string \<Rightarrow> ('w \<times> AuthState, unit) io" where
  "auth_login net base tmsg u p = (\<lambda>(w, s).
     case perform net base (api_login u p) w of
       (r, w') \<Rightarrow> (case login_answer tmsg r (login_begin s) of (out, s') \<Rightarrow> (out, w', s')))"

definition auth_logout :: "'w net \<Rightarrow> string \<Rightarrow> ('w \<times> AuthState, unit) io" where
  "auth_logout net base = (\<lambda>(w, s).
     case perform net base api_logout w of
       (r, w') \<Rightarrow> (case logout_answer r s of (out, s') \<Rightarrow> (out, w', s')))"

subsection \<open>Interleaved actions\<close>

record auth_sys = AuthState +
  open_checks :: nat
  open_logins :: nat
  open_logouts :: nat

datatype auth_event =
    CheckStart
  | CheckAnswer "js_error + json option"
  | LoginStart
  | LoginAnswer "js_error + json option"
  | LogoutStart
  | LogoutAnswer "js_error + json option"

definition auth_init :: auth_sys where
  "auth_init = AuthState.extend useAuth_init \<lparr>open_checks = 0, open_logins = 0, open_logouts = 0\<rparr>"

fun auth_step :: "string \<Rightarrow> auth_sys \<Rightarrow> auth_event \<Rightarrow> auth_sys option" where
  "auth_step tmsg s CheckStart = Some (s\<lparr>open_checks := Suc (open_checks s)\<rparr>)"
| "auth_step tmsg s (CheckAnswer r) =
     (case open_checks s of 0 \<Rightarrow> None | Suc n \<Rightarrow> Some ((check_answer r s)\<lparr>open_checks := n\<rparr>))"
| "auth_step tmsg s LoginStart = Some ((login_begin s)\<lparr>open_logins := Suc (open_logins s)\<rparr>)"
| "auth_step tmsg s (LoginAnswer r) =
     (case open_logins s of 0 \<Rightarrow> None | Suc n \<Rightarrow> Some ((snd (login_answer tmsg r s))\<lparr>open_logins := n\<rparr>))"
| "auth_step tmsg s LogoutStart = Some (s\<lparr>open_logouts := Suc (open_logouts s)\<rparr>)"
| "auth_step tmsg s (LogoutAnswer r) =
     (case open_logouts s of 0 \<Rightarrow> None | Suc n \<Rightarrow> Some ((snd (logout_answer r s))\<lparr>open_logouts := n\<rparr>))"

text \<open>The event is a server answer that signs the user in as \<open>u\<close>.\<close>

fun grants :: "json option \<Rightarrow> auth_event \<Rightarrow> bool" where
  "grants u (CheckAnswer (Inr me)) = (u = me)"
| "grants u (LoginAnswer (Inr (Some res))) = (res \<noteq> JNull \<and> u = Some (login_user res))"
| "grants u _ = False"

fun decides_user :: "auth_event \<Rightarrow> bool" where
  "decides_user (CheckAnswer r) = True"
| "decides_user (LogoutAnswer r) = True"
| "decides_user (LoginAnswer r) = (\<exists>res. r = Inr (Some res) \<and> res \<noteq> JNull)"
| "decides_user _ = False"

lemmas auth_defs = check_answer_def login_begin_def login_answer_def logout_answer_def signed_in_def

lemma auth_step_user:
  assumes "auth_step tmsg s e = Some s'"
  shows "(\<not> decides_user e \<and> auth_user s' = auth_user s)
       \<or> (decides_user e \<and> (grants (auth_user s') e \<or> \<not> signed_in s'))"
proof (cases e)
  case (CheckAnswer r)
  with assms show ?thesis by (cases r) (auto simp: auth_defs split: nat.splits)
next
  case (LoginAnswer r)
  with assms show ?thesis
    by (auto simp: auth_defs Let_def split: nat.splits sum.splits option.splits json.splits)
next
  case (LogoutAnswer r)
  with assms show ?thesis by (auto simp: auth_defs split: nat.splits)
qed (use assms in \<open>auto simp: auth_defs\<close>)

lemma signed_in_traced:
  "run (auth_step tmsg) auth_init es = Some s \<Longrightarrow> signed_in s \<Longrightarrow>
     \<exists>pre e post. es = pre @ e # post \<and> grants (auth_user s) e \<and> (\<forall>x \<in> set post. \<not> decides_user x)"
proof (induction es arbitrary: s rule: rev_induct)
  case Nil
  then show ?case by (auto simp: auth_init_def useAuth_init_def signed_in_def AuthState.defs)
next
  case (snoc e es)
  then obtain t where t: "run (auth_step tmsg) auth_init es = Some t" and step: "auth_step tmsg t e = Some s"
    by (auto simp: run_snoc split: option.splits)
  show ?case
  proof (cases "decides_user e")
    case True
    with auth_step_user [OF step] snoc.prems show ?thesis by (intro exI [of _ es]) auto
  next
    case False
    with auth_step_user [OF step] have same: "auth_user s = auth_user t" by auto
    with snoc.prems have "signed_in t" by (simp add: signed_in_def)
    from snoc.IH [OF t this] obtain pre d post where
      "es = pre @ d # post" "grants (auth_user t) d" "\<forall>x \<in> set post. \<not> decides_user x" by blast
    with False same show ?thesis by (intro exI [of _ pre] exI [of _ d] exI [of _ "post @ [e]"]) auto
  qed
qed

text \<open>A login that has not been answered is the only reason for the busy flag.\<close>

definition auth_inv :: "auth_sys \<Rightarrow> bool" where
  "auth_inv s \<longleftrightarrow> (auth_busy s \<longrightarrow> 0 < open_logins s)"

lemma auth_step_inv: "auth_inv s \<Longrightarrow> auth_step tmsg s e = Some s' \<Longrightarrow> auth_inv s'"
  by (cases e) (auto simp: auth_inv_def auth_defs Let_def
      split: nat.splits sum.splits option.splits json.splits)

interpretation auth: started_system "auth_step tmsg" auth_inv auth_init for tmsg
proof unfold_locales
  show "auth_inv auth_init" by (simp add: auth_inv_def auth_init_def useAuth_init_def AuthState.defs)
qed (rule auth_step_inv)

text \<open>C13: in every interleaving of session checks, logins and logouts, a user is shown as
  signed in only when the last answer that decided the user was a successful check or
  login answered by the server with exactly that user: nothing signs a user in without the
  server, and a logout answer signs out even when the logout request failed. The busy flag
  is never left set when no login is outstanding.\<close>

theorem session_store_sound:
  assumes "run (auth_step tmsg) auth_init es = Some s"
  shows "(signed_in s \<longrightarrow> (\<exists>pre e post. es = pre @ e # post \<and> grants (auth_user s) e
            \<and> (\<forall>x \<in> set post. \<not> decides_user x)))
       \<and> (auth_busy s \<longrightarrow> 0 < open_logins s)"
  using signed_in_traced [OF assms] auth.reachable_inv [OF assms] by (auto simp: auth_inv_def)

theorem session_store_sound_witness:
  "\<exists>s. run (auth_step []) auth_init
        [CheckStart, CheckAnswer (Inl (ApiError 401 ''x'')), LoginStart,
         LoginAnswer (Inr (Some (JObj [(''username'', JStr ''ann''), (''role'', JStr ''admin'')])))] = Some s
     \<and> signed_in s \<and> \<not> auth_busy s"
proof -
  obtain s where s: "run (auth_step []) auth_init
        [CheckStart, CheckAnswer (Inl (ApiError 401 ''x'')), LoginStart,
         LoginAnswer (Inr (Some (JObj [(''username'', JStr ''ann''), (''role'', JStr ''admin'')])))] = Some s"
    and "signed_in s" "open_logins s = 0"
    by (simp add: auth_init_def useAuth_init_def AuthState.defs auth_defs login_user_def jobj_def)
  with session_store_sound [OF s] show ?thesis by auto
qed

section \<open>The toast store\<close>

record Toast =
  toast_id :: nat
  toast_text :: string
  toast_bad :: "bool option"

record UiState =
  ui_toasts :: "Toast list"
  ui_paletteOpen :: bool

text \<open>The store with the module counter, the pending timers (toast and deadline) and the
  clock.\<close>

record ui_sys = UiState +
  ui_toastId :: nat
  ui_timers :: "(nat \<times> nat) list"
  ui_now :: nat

definition ui_init :: ui_sys where
  "ui_init = \<lparr>ui_toasts = [], ui_paletteOpen = False, ui_toastId = 0, ui_timers = [], ui_now = 0\<rparr>"

definition TOAST_MS :: nat where
  "TOAST_MS = 4200"

definition pushToast :: "string \<Rightarrow> bool option \<Rightarrow> ui_sys \<Rightarrow> ui_sys" where
  "pushToast text bad s =
     (let tid = Suc (ui_toastId s) in
      s\<lparr>ui_toastId := tid,
        ui_toasts := ui_toasts s @ [\<lparr>toast_id = tid, toast_text = text, toast_bad = bad\<rparr>],
        ui_timers := ui_timers s @ [(tid, ui_now s + TOAST_MS)]\<rparr>)"

definition dismissToast :: "nat \<Rightarrow> ui_sys \<Rightarrow> ui_sys" where
  "dismissToast tid s = s\<lparr>ui_toasts := filter (\<lambda>t. toast_id t \<noteq> tid) (ui_toasts s)\<rparr>"

definition setPaletteOpen :: "bool \<Rightarrow> ui_sys \<Rightarrow> ui_sys" where
  "setPaletteOpen b s = s\<lparr>ui_paletteOpen := b\<rparr>"

datatype ui_event =
    PushToast string "bool option"
  | DismissToast nat
  | SetPaletteOpen bool
  | Elapse nat
  | TimerFires nat

text \<open>A timer fires once, at its deadline or later; its callback removes its toast.\<close>

fun ui_step :: "ui_sys \<Rightarrow> ui_event \<Rightarrow> ui_sys option" where
  "ui_step s (PushToast text bad) = Some (pushToast text bad s)"
| "ui_step s (DismissToast tid) = Some (dismissToast tid s)"
| "ui_step s (SetPaletteOpen b) = Some (setPaletteOpen b s)"
| "ui_step s (Elapse n) = Some (s\<lparr>ui_now := ui_now s + n\<rparr>)"
| "ui_step s (TimerFires tid) =
     (case map_of (ui_timers s) tid of
        None \<Rightarrow> None
      | Some d \<Rightarrow>
          if d \<le> ui_now s
          then Some ((dismissToast tid s)\<lparr>ui_timers := filter (\<lambda>t. fst t \<noteq> tid) (ui_timers s)\<rparr>)
          else None)"

definition ui_inv :: "ui_sys \<Rightarrow> bool" where
  "ui_inv s \<longleftrightarrow>
     sorted_wrt (<) (map toast_id (ui_toasts s))
     \<and> sorted_wrt (<) (map fst (ui_timers s))
     \<and> (\<forall>t \<in> set (ui_timers s). fst t \<le> ui_toastId s \<and> snd t \<le> ui_now s + TOAST_MS)
     \<and> toast_id ` set (ui_toasts s) \<subseteq> fst ` set (ui_timers s)"

lemma sorted_wrt_map_filter: "sorted_wrt R (map f xs) \<Longrightarrow> sorted_wrt R (map f (filter P xs))"
  by (induction xs) auto

lemma image_without: "f ` {x \<in> X. f x \<noteq> i} = f ` X - {i}"
  by auto

lemma pushToast_inv: "ui_inv s \<Longrightarrow> ui_inv (pushToast text bad s)"
proof -
  assume inv: "ui_inv s"
  have "\<forall>t \<in> set (ui_toasts s). toast_id t \<le> ui_toastId s" using inv by (fastforce simp: ui_inv_def)
  with inv show ?thesis
    by (fastforce simp: ui_inv_def pushToast_def Let_def sorted_wrt_append less_Suc_eq_le)
qed

lemma ui_step_inv:
  assumes "ui_inv s" and "ui_step s e = Some s'"
  shows "ui_inv s'"
proof (cases e)
  case (PushToast tx bad)
  with assms pushToast_inv show ?thesis by auto
next
  case (TimerFires i)
  with assms(2) have s': "s' = (dismissToast i s)\<lparr>ui_timers := filter (\<lambda>t. fst t \<noteq> i) (ui_timers s)\<rparr>"
    by (auto split: option.splits if_splits)
  have "toast_id ` set (ui_toasts s) - {i} \<subseteq> fst ` set (ui_timers s) - {i}"
    using assms(1) by (auto simp: ui_inv_def)
  then show ?thesis using assms(1)
    unfolding s' by (simp add: ui_inv_def dismissToast_def sorted_wrt_map_filter image_without)
next
  case (Elapse n)
  with assms show ?thesis by (fastforce simp: ui_inv_def)
next
  case (DismissToast i)
  with assms show ?thesis by (fastforce simp: ui_inv_def dismissToast_def sorted_wrt_map_filter)
next
  case (SetPaletteOpen b)
  with assms(2) have "s' = setPaletteOpen b s" by simp
  with assms(1) show ?thesis by (simp add: ui_inv_def setPaletteOpen_def)
qed

interpretation ui: started_system ui_step ui_inv ui_init
proof unfold_locales
  show "ui_inv ui_init" by (simp add: ui_inv_def ui_init_def)
qed (rule ui_step_inv)

lemma strict_sorted_distinct: "sorted_wrt (<) (xs :: nat list) \<Longrightarrow> distinct xs"
  using strict_sorted_iff by blast

lemma ui_inv_timer:
  assumes "ui_inv s" and "t \<in> set (ui_toasts s)"
  shows "\<exists>d. map_of (ui_timers s) (toast_id t) = Some d \<and> d \<le> ui_now s + TOAST_MS"
proof -
  obtain d where d: "(toast_id t, d) \<in> set (ui_timers s)"
    using assms by (fastforce simp: ui_inv_def)
  have "distinct (map fst (ui_timers s))"
    using assms strict_sorted_distinct by (simp add: ui_inv_def)
  with d assms show ?thesis by (fastforce simp: ui_inv_def)
qed

lemma filter_key_remove1:
  "distinct (map f xs) \<Longrightarrow> x \<in> set xs \<Longrightarrow> filter (\<lambda>y. f y \<noteq> f x) xs = remove1 x xs"
proof (induction xs)
  case (Cons y ys)
  show ?case
  proof (cases "y = x")
    case True
    with Cons.prems have "\<forall>z \<in> set ys. f z \<noteq> f x" by (auto simp: image_iff)
    with True show ?thesis by (simp add: filter_id_conv)
  next
    case False
    with Cons show ?thesis by force
  qed
qed simp

text \<open>Whatever is pushed, dismissed and timed out, the toasts on screen have distinct
  ids in the order they were pushed, none stays for ever, and none disappears with another:
  4.2 seconds after any moment the timer of every toast shown at that moment can fire, and
  firing it removes that toast and leaves every other toast in place.\<close>

lemma toasts_expire:
  assumes "run ui_step ui_init es = Some s" and "t \<in> set (ui_toasts s)"
  shows "sorted_wrt (<) (map toast_id (ui_toasts s))
       \<and> (\<exists>s'. run ui_step s [Elapse 4200, TimerFires (toast_id t)] = Some s'
            \<and> ui_toasts s' = remove1 t (ui_toasts s) \<and> t \<notin> set (ui_toasts s'))"
proof -
  have inv: "ui_inv s" using assms(1) by (rule ui.reachable_inv)
  then have sorted: "sorted_wrt (<) (map toast_id (ui_toasts s))" by (simp add: ui_inv_def)
  then have "distinct (map toast_id (ui_toasts s))" by (rule strict_sorted_distinct)
  then have "filter (\<lambda>u. toast_id u \<noteq> toast_id t) (ui_toasts s) = remove1 t (ui_toasts s)"
    using assms(2) by (rule filter_key_remove1)
  moreover from this have "t \<notin> set (remove1 t (ui_toasts s))"
    by (metis (mono_tags, lifting) mem_Collect_eq set_filter)
  ultimately show ?thesis using ui_inv_timer [OF inv assms(2)] sorted
    by (auto simp: dismissToast_def TOAST_MS_def intro!: exI)
qed

end
