(* ===== verification/Web_Events.thy ===== *)
theory Web_Events
  imports Web_Request Hub_Steps
begin

text \<open>
  The live event subscription, \<open>client/src/lib/useEvents.ts\<close>. The effect's local
  variables (\<open>es\<close>, \<open>closed\<close>, \<open>timer\<close>), the handler reference, the browser's
  open event sources and its pending timers are the state; mounting, rendering, timers,
  source errors, frames and unmounting are the events.
\<close>

definition TYPES :: "string list" where
  "TYPES =
     [''deployment.started'', ''deployment.completed'', ''deployment.failed'', ''container.start'',
      ''container.stop'', ''container.restart'', ''container.exec'', ''project.start'',
      ''project.stop'', ''project.restart'', ''gateway.reloaded'', ''discovery.completed'',
      ''backup.created'', ''backup.failed'', ''backup.restored'', ''backup.restoreFailed'',
      ''backup.deleted'', ''telemetry.threshold'', ''server.heartbeat'', ''server.metrics'',
      ''alert.triggered'', ''alert.resolved'', ''monitoring.alert.firing'',
      ''monitoring.alert.resolved'']"

definition events_url :: "string option \<Rightarrow> string" where
  "events_url env = API_BASE env @ ep_events"

text \<open>What the handler is called with; the timestamp is whatever the frame holds.\<close>

record bus_event =
  be_type :: string
  be_data :: "json option"
  be_timestamp :: json

record 'h ev_sys =
  ev_es :: "nat option"
  ev_closed :: bool
  ev_timer :: nat
  ev_current :: 'h
  ev_mounted :: bool
  ev_live :: "nat list"
  ev_made :: nat
  ev_pending :: "nat list"
  ev_timers :: nat
  ev_calls :: "('h \<times> bus_event) list"

definition ev_init :: "'h \<Rightarrow> 'h ev_sys" where
  "ev_init h =
     \<lparr>ev_es = None, ev_closed = False, ev_timer = 0, ev_current = h, ev_mounted = False,
      ev_live = [], ev_made = 0, ev_pending = [], ev_timers = 0, ev_calls = []\<rparr>"

text \<open>\<open>timer = window.setTimeout(connect, 5000)\<close>.\<close>

definition ev_retry_later :: "'h ev_sys \<Rightarrow> 'h ev_sys" where
  "ev_retry_later s =
     s\<lparr>ev_timers := Suc (ev_timers s), ev_timer := Suc (ev_timers s),
       ev_pending := ev_pending s @ [Suc (ev_timers s)]\<rparr>"

text \<open>\<open>ok\<close> tells whether the constructor of \<open>EventSource\<close> returns.\<close>

definition ev_connect :: "bool \<Rightarrow> 'h ev_sys \<Rightarrow> 'h ev_sys" where
  "ev_connect ok s =
     (if ev_closed s then s
      else if \<not> ok then ev_retry_later s
      else s\<lparr>ev_es := Some (ev_made s), ev_live := ev_made s # ev_live s, ev_made := Suc (ev_made s)\<rparr>)"

definition ev_close_es :: "'h ev_sys \<Rightarrow> 'h ev_sys" where
  "ev_close_es s = (case ev_es s of None \<Rightarrow> s | Some i \<Rightarrow> s\<lparr>ev_live := removeAll i (ev_live s)\<rparr>)"

definition ev_onerror :: "'h ev_sys \<Rightarrow> 'h ev_sys" where
  "ev_onerror s = (let s' = ev_close_es s in if ev_closed s' then s' else ev_retry_later s')"

definition ev_cleanup :: "'h ev_sys \<Rightarrow> 'h ev_sys" where
  "ev_cleanup s = ev_close_es (s\<lparr>ev_closed := True, ev_pending := removeAll (ev_timer s) (ev_pending s)\<rparr>)"

text \<open>The listener of type \<open>t\<close>: a frame that does not parse, or that is \<open>null\<close> (reading
  a field of it throws), is ignored.\<close>

definition frame_event :: "string \<Rightarrow> string \<Rightarrow> bus_event option" where
  "frame_event t d =
     (case JSON_parse d of
        None \<Rightarrow> None
      | Some JNull \<Rightarrow> None
      | Some body \<Rightarrow>
          Some \<lparr>be_type = t, be_data = json_get ''data'' body,
                be_timestamp = (case json_get ''timestamp'' body of
                  None \<Rightarrow> JStr [] | Some JNull \<Rightarrow> JStr [] | Some v \<Rightarrow> v)\<rparr>)"

definition ev_frame :: "string \<Rightarrow> string \<Rightarrow> 'h ev_sys \<Rightarrow> 'h ev_sys" where
  "ev_frame t d s =
     (if t \<in> set TYPES then
        (case frame_event t d of
           None \<Rightarrow> s
         | Some b \<Rightarrow> s\<lparr>ev_calls := ev_calls s @ [(ev_current s, b)]\<rparr>)
      else s)"

datatype 'h ev_event =
    Render 'h
  | Mount bool
  | TimerDue nat bool
  | SourceError nat
  | Frame nat string string
  | Unmount

text \<open>The browser fires errors and frames on open sources only, and a timer once unless it
  was cleared.\<close>

fun ev_step :: "'h ev_sys \<Rightarrow> 'h ev_event \<Rightarrow> 'h ev_sys option" where
  "ev_step s (Render h) = Some (s\<lparr>ev_current := h\<rparr>)"
| "ev_step s (Mount ok) =
     (if ev_mounted s then None else Some (ev_connect ok (s\<lparr>ev_mounted := True\<rparr>)))"
| "ev_step s (TimerDue i ok) =
     (if i \<in> set (ev_pending s)
      then Some (ev_connect ok (s\<lparr>ev_pending := removeAll i (ev_pending s)\<rparr>)) else None)"
| "ev_step s (SourceError i) = (if i \<in> set (ev_live s) then Some (ev_onerror s) else None)"
| "ev_step s (Frame i t d) = (if i \<in> set (ev_live s) then Some (ev_frame t d s) else None)"
| "ev_step s Unmount = (if ev_mounted s \<and> \<not> ev_closed s then Some (ev_cleanup s) else None)"

lemmas ev_defs = ev_connect_def ev_retry_later_def ev_close_es_def ev_onerror_def ev_cleanup_def
  ev_frame_def

section \<open>Invariant\<close>

text \<open>While mounted there is either one open source, the one in \<open>es\<close>, or one pending
  retry, the one in \<open>timer\<close>; before mounting and after unmounting there is neither.\<close>

definition ev_inv :: "'h ev_sys \<Rightarrow> bool" where
  "ev_inv s \<longleftrightarrow>
     (if ev_mounted s \<and> \<not> ev_closed s
      then (\<exists>i. ev_live s = [i] \<and> ev_es s = Some i \<and> ev_pending s = [])
           \<or> (ev_live s = [] \<and> ev_pending s = [ev_timer s])
      else ev_live s = [] \<and> ev_pending s = [] \<and> (ev_closed s \<longrightarrow> ev_mounted s))"

lemma ev_step_inv:
  assumes "ev_inv s" and "ev_step s e = Some s'"
  shows "ev_inv s'"
proof (cases e)
  case (Frame i t d)
  with assms have "s' = ev_frame t d s" by (auto split: if_splits)
  then have "\<exists>c. s' = s\<lparr>ev_calls := c\<rparr>"
    by (auto simp: ev_frame_def split: option.splits intro: exI [of _ "ev_calls s"])
  then show ?thesis using assms(1) by (auto simp: ev_inv_def)
qed (use assms in \<open>auto simp: ev_inv_def ev_defs Let_def split: if_splits option.splits\<close>)

interpretation ev: started_system ev_step ev_inv "ev_init h" for h
proof unfold_locales
  show "ev_inv (ev_init h)" by (simp add: ev_inv_def ev_init_def)
qed (rule ev_step_inv)

text \<open>C32: the subscription never has two connections and never silently stops. In every
  sequence of renders, errors, retries and frames, a mounted subscription has exactly one
  open source or one scheduled retry, and never both; once unmounted it has neither, so no
  frame, error or timer can happen any more and no handler is called again.\<close>

theorem events_one_connection:
  assumes "run ev_step (ev_init h) es = Some s"
  shows "(ev_mounted s \<and> \<not> ev_closed s \<longrightarrow> length (ev_live s) + length (ev_pending s) = 1)
       \<and> (ev_closed s \<longrightarrow> ev_live s = [] \<and> ev_pending s = []
            \<and> (\<forall>fs s'. run ev_step s fs = Some s' \<longrightarrow>
                 ev_calls s' = ev_calls s \<and> ev_live s' = [] \<and> ev_made s' = ev_made s))"
proof -
  have inv: "ev_inv s" using assms by (rule ev.reachable_inv)
  have after: "ev_inv s \<Longrightarrow> ev_closed s \<Longrightarrow> run ev_step s fs = Some s' \<Longrightarrow>
      ev_calls s' = ev_calls s \<and> ev_live s' = [] \<and> ev_made s' = ev_made s" for fs s s'
  proof (induction fs arbitrary: s)
    case Nil
    then show ?case by (simp add: ev_inv_def)
  next
    case (Cons e fs)
    then obtain t where t: "ev_step s e = Some t" "run ev_step t fs = Some s'"
      by (auto split: option.splits)
    with Cons.prems have "ev_closed t \<and> ev_calls t = ev_calls s \<and> ev_made t = ev_made s"
      by (cases e) (auto simp: ev_inv_def)
    with Cons.IH [OF ev_step_inv [OF Cons.prems(1) t(1)] _ t(2)] show ?case by simp
  qed
  show ?thesis using inv after [OF inv] by (auto simp: ev_inv_def split: if_splits)
qed

theorem events_one_connection_witness:
  "\<exists>s. run ev_step (ev_init ()) [Mount False, TimerDue 1 True, SourceError 0, Unmount] = Some s
     \<and> ev_closed s \<and> ev_live s = [] \<and> ev_pending s = []"
proof -
  obtain s where s: "run ev_step (ev_init ()) [Mount False, TimerDue 1 True, SourceError 0, Unmount] = Some s"
    and "ev_closed s"
    by (simp add: ev_init_def ev_defs Let_def)
  with events_one_connection [OF s] show ?thesis by auto
qed

lemma frame_event_object:
  assumes "json_exact (JObj ms)"
  shows "frame_event t (JSON_stringify (JObj ms)) =
    Some \<lparr>be_type = t, be_data = json_get ''data'' (JObj ms),
          be_timestamp = (case json_get ''timestamp'' (JObj ms) of
             None \<Rightarrow> JStr [] | Some JNull \<Rightarrow> JStr [] | Some v \<Rightarrow> v)\<rparr>"
  using JSON_parse_stringify [OF assms] by (simp add: frame_event_def)

text \<open>A frame the server prints on an open source reaches the handler of the latest
  render with its type, payload and timestamp unchanged when its type is subscribed, and
  reaches nobody when it is not subscribed; a frame that is not JSON changes nothing.
  Health events are not among the subscribed types.\<close>

lemma events_delivery:
  assumes "i \<in> set (ev_live s)" and "json_exact v"
  shows "map_option ev_calls
           (run ev_step s [Render h, Frame i t (JSON_stringify (JObj [(''data'', v), (''timestamp'', JStr ts)]))]) =
         Some (ev_calls s @
           (if t \<in> set TYPES then [(h, \<lparr>be_type = t, be_data = Some v, be_timestamp = JStr ts\<rparr>)] else []))
       \<and> (JSON_parse d = None \<longrightarrow> ev_step s (Frame i t d) = Some s)
       \<and> ''health.changed'' \<notin> set TYPES \<and> ''healthcheck.result'' \<notin> set TYPES"
proof -
  have "frame_event t (JSON_stringify (JObj [(''data'', v), (''timestamp'', JStr ts)])) =
      Some \<lparr>be_type = t, be_data = Some v, be_timestamp = JStr ts\<rparr>"
    using assms(2) by (subst frame_event_object) auto
  then have "map_option ev_calls
           (run ev_step s [Render h, Frame i t (JSON_stringify (JObj [(''data'', v), (''timestamp'', JStr ts)]))]) =
         Some (ev_calls s @
           (if t \<in> set TYPES then [(h, \<lparr>be_type = t, be_data = Some v, be_timestamp = JStr ts\<rparr>)] else []))"
    using assms(1) by (simp add: ev_frame_def del: JSON_stringify.simps)
  moreover have "JSON_parse d = None \<longrightarrow> ev_step s (Frame i t d) = Some s"
    using assms(1) by (simp add: ev_frame_def frame_event_def)
  moreover have "''health.changed'' \<notin> set TYPES \<and> ''healthcheck.result'' \<notin> set TYPES"
    by (simp add: TYPES_def)
  ultimately show ?thesis by blast
qed

end
