(* ===== verification/Web_Settings.thy ===== *)
theory Web_Settings
  imports Web_Stores Api_Status "HOL-Library.AList"
begin

text \<open>
  Settings the web client keeps in the browser, and the helpers of the backup pages:
  \<open>client/src/lib/useTheme.ts\<close>, \<open>client/src/features/settings/hooks/useAlerts.ts\<close> and
  \<open>client/src/features/dbbackups/helpers.ts\<close>. Both settings go through
  \<open>localStorage\<close>, whose laws come from the store contract.
\<close>

section \<open>Theme\<close>

datatype ThemeKey = Workbench | Cyberdeck

fun theme_name :: "ThemeKey \<Rightarrow> string" where
  "theme_name Workbench = ''workbench''"
| "theme_name Cyberdeck = ''cyberdeck''"

definition THEME_STORAGE_KEY :: string where
  "THEME_STORAGE_KEY = ''serverhub.theme''"

definition theme_initial :: "local_storage \<Rightarrow> ThemeKey" where
  "theme_initial ls =
     (case getItem localStorage ls THEME_STORAGE_KEY of
        Inl e \<Rightarrow> Workbench
      | Inr v \<Rightarrow> if v = Some ''cyberdeck'' then Cyberdeck else Workbench)"

record document_element =
  doc_dark_class :: bool
  doc_colorScheme :: string

definition isDark :: "ThemeKey \<Rightarrow> bool" where
  "isDark t \<longleftrightarrow> t = Cyberdeck"

definition theme_effect :: "ThemeKey \<Rightarrow> document_element \<times> local_storage \<Rightarrow> document_element \<times> local_storage" where
  "theme_effect t = (\<lambda>(doc, ls).
     (doc\<lparr>doc_dark_class := isDark t, doc_colorScheme := (if isDark t then ''dark'' else ''light'')\<rparr>,
      case setItem localStorage ls THEME_STORAGE_KEY (theme_name t) of Inl e \<Rightarrow> ls | Inr ls' \<Rightarrow> ls'))"

section \<open>Alert preferences\<close>

text \<open>A JavaScript object is the list of its own properties in insertion order.\<close>

type_synonym js_object = "(string \<times> json) list"

datatype alert_key = DeployFinished | HealthChanged | HighUsage

fun alert_key_name :: "alert_key \<Rightarrow> string" where
  "alert_key_name DeployFinished = ''deployFinished''"
| "alert_key_name HealthChanged = ''healthChanged''"
| "alert_key_name HighUsage = ''highUsage''"

definition LS_KEY :: string where
  "LS_KEY = ''serverhub.alerts''"

definition Alerts_default :: js_object where
  "Alerts_default =
     [(''deployFinished'', JBool True), (''healthChanged'', JBool True), (''highUsage'', JBool False)]"

text \<open>The own properties a spread copies: members of an object, indexed elements of an array
  or of a string, nothing of the other values.\<close>

definition indexed :: "json list \<Rightarrow> js_object" where
  "indexed vs = zip (map nat_str [0..<length vs]) vs"

fun spread_members :: "json \<Rightarrow> js_object" where
  "spread_members (JObj ms) = ms"
| "spread_members (JArr vs) = indexed vs"
| "spread_members (JStr s) = indexed (map (\<lambda>c. JStr [c]) s)"
| "spread_members _ = []"

definition obj_spread :: "js_object \<Rightarrow> js_object \<Rightarrow> js_object" where
  "obj_spread o1 o2 = fold (\<lambda>(k, v). AList.update k v) o2 o1"

definition loadAlerts :: "local_storage \<Rightarrow> js_object" where
  "loadAlerts ls =
     (case getItem localStorage ls LS_KEY of
        Inl e \<Rightarrow> Alerts_default
      | Inr raw \<Rightarrow>
          if js_truthy raw then
            (case JSON_parse (or_else raw []) of
               None \<Rightarrow> Alerts_default
             | Some v \<Rightarrow> obj_spread Alerts_default (spread_members v))
          else Alerts_default)"

text \<open>The state updater writes before it returns and does not catch a failing write.\<close>

definition flip :: "alert_key \<Rightarrow> js_object \<times> local_storage \<Rightarrow> js_error + js_object \<times> local_storage" where
  "flip key = (\<lambda>(a, ls).
     let k = alert_key_name key;
         nextAlerts = AList.update k (JBool (\<not> json_truthy (map_of a k))) a in
     case setItem localStorage ls LS_KEY (JSON_stringify (JObj nextAlerts)) of
       Inl e \<Rightarrow> Inl e
     | Inr ls' \<Rightarrow> Inr (nextAlerts, ls'))"

definition flip_step :: "js_object \<times> local_storage \<Rightarrow> alert_key \<Rightarrow> (js_object \<times> local_storage) option" where
  "flip_step s key = (case flip key s of Inl e \<Rightarrow> None | Inr s' \<Rightarrow> Some s')"

section \<open>Backup page helpers\<close>

definition useDbBackupsRole :: "json option \<Rightarrow> bool \<times> bool" where
  "useDbBackupsRole user =
     (let role = (case user of None \<Rightarrow> None | Some u \<Rightarrow> json_get ''role'' u);
          isAdmin = (role = Some (JStr ''admin''));
          canMutate = (role = Some (JStr ''operator'') \<or> isAdmin)
      in (canMutate, isAdmin))"

text \<open>\<open>dp\<close> is the engine's date parser, \<open>loc\<close> its local date printer.\<close>

definition timeStr :: "(string \<Rightarrow> rat option) \<Rightarrow> (rat \<Rightarrow> string) \<Rightarrow> string option \<Rightarrow> string" where
  "timeStr dp loc s =
     (if \<not> js_truthy s then em_dash
      else case dp (or_else s []) of None \<Rightarrow> em_dash | Some t \<Rightarrow> loc t)"

definition DOT :: "(string \<times> string) list" where
  "DOT =
     [(''PENDING'', ''bg-outline''), (''RUNNING'', ''bg-primary''), (''UPLOADING'', ''bg-primary''),
      (''VERIFYING'', ''bg-tertiary''), (''COMPLETED'', ''bg-primary''), (''FAILED'', ''bg-error''),
      (''CANCELLED'', ''bg-outline''), (''ONLINE'', ''bg-primary''), (''OFFLINE'', ''bg-error''),
      (''UP'', ''bg-primary''), (''DOWN'', ''bg-error''), (''UNKNOWN'', ''bg-outline''),
      (''CONNECTED'', ''bg-primary''), (''DISCONNECTED'', ''bg-error''), (''ERROR'', ''bg-error'')]"

definition statusDot :: "string option \<Rightarrow> string" where
  "statusDot status = or_else (map_of DOT (js_toUpperCase (or_else status []))) ''bg-outline''"

section \<open>Properties\<close>

text \<open>After the theme effect the page is dark exactly for the dark theme, and the next
  page load starts with the same theme when the browser allows storage; when it does not,
  the effect still applies the theme, leaves storage alone, and the next load falls back
  to the light theme.\<close>

lemma theme_persists:
  "(case theme_effect t (doc, ls) of (doc', ls') \<Rightarrow>
      doc_dark_class doc' = (t = Cyberdeck)
      \<and> doc_colorScheme doc' = (if t = Cyberdeck then ''dark'' else ''light'')
      \<and> theme_initial ls' = (if ls = None then Workbench else t)
      \<and> (\<forall>k. k \<noteq> THEME_STORAGE_KEY \<longrightarrow> getItem localStorage ls' k = getItem localStorage ls k))"
proof (cases "setItem localStorage ls THEME_STORAGE_KEY (theme_name t)")
  case (Inl e)
  then have "ls = None" by (auto simp: localStorage_def split: option.splits)
  with Inl show ?thesis by (simp add: theme_effect_def theme_initial_def isDark_def localStorage_def)
next
  case (Inr ls')
  then have "ls \<noteq> None" by (auto simp: localStorage_def split: option.splits)
  with Inr ls.get_set_same [OF Inr] ls.get_set_other [OF Inr] show ?thesis
    by (cases t) (auto simp: theme_effect_def theme_initial_def isDark_def)
qed

subsection \<open>Alert preferences\<close>

text \<open>The object after the flips of \<open>es\<close>: every preference is its default, flipped as often
  as its switch was used.\<close>

definition flipped :: "bool \<Rightarrow> alert_key \<Rightarrow> alert_key list \<Rightarrow> bool" where
  "flipped d k es \<longleftrightarrow> (d \<noteq> odd (count_list es k))"

definition alerts_after :: "alert_key list \<Rightarrow> js_object" where
  "alerts_after es =
     [(''deployFinished'', JBool (flipped True DeployFinished es)),
      (''healthChanged'', JBool (flipped True HealthChanged es)),
      (''highUsage'', JBool (flipped False HighUsage es))]"

lemma flip_alerts_after:
  "flip key (alerts_after es, Some m) =
     Inr (alerts_after (es @ [key]), Some (m(LS_KEY \<mapsto> JSON_stringify (JObj (alerts_after (es @ [key]))))))"
  by (cases key) (simp_all add: flip_def alerts_after_def flipped_def localStorage_def Let_def)

lemma loadAlerts_stored:
  "m LS_KEY = Some (JSON_stringify (JObj (alerts_after es))) \<Longrightarrow> loadAlerts (Some m) = alerts_after es"
  using JSON_parse_stringify [of "JObj (alerts_after es)"]
  by (simp add: loadAlerts_def localStorage_def obj_spread_def Alerts_default_def alerts_after_def)

lemma run_flips:
  "run flip_step (Alerts_default, Some m) es =
     Some (alerts_after es,
       if es = [] then Some m else Some (m(LS_KEY \<mapsto> JSON_stringify (JObj (alerts_after es)))))"
proof (induction es rule: rev_induct)
  case Nil
  show ?case by (simp add: alerts_after_def Alerts_default_def flipped_def)
next
  case (snoc k es)
  have "flip_step (alerts_after es, Some m') k = Some (alerts_after (es @ [k]),
      Some (m'(LS_KEY \<mapsto> JSON_stringify (JObj (alerts_after (es @ [k]))))))" for m'
    by (simp add: flip_step_def flip_alerts_after del: JSON_stringify.simps)
  with snoc show ?case by (auto simp: run_snoc simp del: JSON_stringify.simps)
qed

text \<open>On a browser with no saved preferences, after any sequence of switch flips every
  preference is its default inverted once per flip of that switch, no flip fails or touches
  another preference, and a page reload restores exactly the preferences on screen.\<close>

lemma alerts_persist:
  assumes "m LS_KEY = None"
  shows "\<exists>a ls. run flip_step (loadAlerts (Some m), Some m) es = Some (a, ls)
       \<and> loadAlerts ls = a
       \<and> map_of a ''deployFinished'' = Some (JBool (even (count_list es DeployFinished)))
       \<and> map_of a ''healthChanged'' = Some (JBool (even (count_list es HealthChanged)))
       \<and> map_of a ''highUsage'' = Some (JBool (odd (count_list es HighUsage)))"
proof -
  have load: "loadAlerts (Some m) = Alerts_default"
    using assms by (simp add: loadAlerts_def localStorage_def)
  have start: "alerts_after [] = Alerts_default"
    by (simp add: alerts_after_def Alerts_default_def flipped_def)
  have "loadAlerts (if es = [] then Some m else Some (m(LS_KEY \<mapsto> JSON_stringify (JObj (alerts_after es)))))
      = alerts_after es"
    using load start by (simp add: loadAlerts_stored)
  then show ?thesis unfolding load run_flips by (auto simp: alerts_after_def flipped_def)
qed

text \<open>The backup pages offer mutating controls exactly to signed-in operators and
  administrators, and destructive ones exactly to administrators; nobody signed out, and no
  other role, gets either. The role is the one the login answer carried.\<close>

lemma backup_roles:
  "useDbBackupsRole (Some (login_user res)) =
     (json_get ''role'' res \<in> {Some (JStr ''operator''), Some (JStr ''admin'')},
      json_get ''role'' res = Some (JStr ''admin''))
   \<and> useDbBackupsRole None = (False, False) \<and> useDbBackupsRole (Some JNull) = (False, False)
   \<and> (snd (useDbBackupsRole u) \<longrightarrow> fst (useDbBackupsRole u))"
proof -
  have "json_get ''role'' (login_user res) = json_get ''role'' res"
    unfolding login_user_def by (subst json_get_jobj) auto
  then show ?thesis by (auto simp: useDbBackupsRole_def Let_def)
qed

lemma statusDot_upper: "statusDot (Some (js_toUpperCase s)) = statusDot (Some s)"
  by (simp add: statusDot_def)

end
