(* ===== verification/Web_Dashboard.thy ===== *)
theory Web_Dashboard
  imports Web_Request Types_Core Types_Fleet
begin

text \<open>
  The dashboard query, \<open>client/src/lib/useDashboard.ts\<close>: what the page's data is for
  every combination of answers of the four kinds of request it makes. The answers are
  arguments, a failed request being the error it rejects with. \<open>Promise.all\<close> rejects
  with the error that arrives first: \<open>auditFirst\<close> tells whether that of the audit
  request comes before that of the dashboard request. The services answer is a function of
  the project id the request names.
\<close>

record FullDashboardState =
  fd_dash :: DashboardData
  fd_servers :: "ManagedServer list"
  fd_serversOk :: bool
  fd_serversError :: "string option"
  fd_servicesByProject :: "int \<rightharpoonup> Service list"
  fd_servicesFailedIds :: "int list"
  fd_feed :: "string list"
  fd_fetchedAt :: rat

fun errMessage :: "js_error \<Rightarrow> string" where
  "errMessage (ApiError s m) = m"
| "errMessage (JsError m) = m"

abbreviation arrow :: string where
  "arrow \<equiv> [CHR 0xE2, CHR 0x86, CHR 0x92]"

definition feed_line :: "AuditLog \<Rightarrow> string" where
  "feed_line a =
     (let t = js_slice 11 19 (auditLog_timestamp a) in
      ''['' @ (if t = [] then ''--:--:--'' else t) @ ''] '' @ auditLog_actor a @ '' '' @ auditLog_action a
      @ '' '' @ auditLog_resource a
      @ (if js_truthy (auditLog_resourceId a) then '' #'' @ or_else (auditLog_resourceId a) [] else [])
      @ '' '' @ arrow @ '' '' @ auditLog_result a)"

record service_entry =
  se_id :: int
  se_services :: "Service list"
  se_failed :: bool

definition service_entry_of :: "(int \<Rightarrow> js_error + Service list) \<Rightarrow> Project \<Rightarrow> service_entry" where
  "service_entry_of services p =
     (case services (project_id p) of
        Inr s \<Rightarrow> \<lparr>se_id = project_id p, se_services = s, se_failed = False\<rparr>
      | Inl e \<Rightarrow> \<lparr>se_id = project_id p, se_services = [], se_failed = True\<rparr>)"

definition dashboard_core ::
  "bool \<Rightarrow> js_error + DashboardData \<Rightarrow> js_error + AuditLog list \<Rightarrow> js_error + DashboardData \<times> AuditLog list" where
  "dashboard_core auditFirst dash audit =
     (case (dash, audit) of
        (Inr d, Inr a) \<Rightarrow> Inr (d, a)
      | (Inl e, Inr a) \<Rightarrow> Inl e
      | (Inr d, Inl e) \<Rightarrow> Inl e
      | (Inl e, Inl f) \<Rightarrow> Inl (if auditFirst then f else e))"

definition dashboard_state ::
  "DashboardData \<Rightarrow> AuditLog list \<Rightarrow> js_error + ManagedServer list \<Rightarrow> (int \<Rightarrow> js_error + Service list) \<Rightarrow> rat
    \<Rightarrow> FullDashboardState" where
  "dashboard_state dash audit srvs services now =
     (let entries = map (service_entry_of services) (dashboardData_projects dash) in
      \<lparr>fd_dash = dash,
       fd_servers = (case srvs of Inr s \<Rightarrow> s | Inl e \<Rightarrow> []),
       fd_serversOk = (case srvs of Inr s \<Rightarrow> True | Inl e \<Rightarrow> False),
       fd_serversError = (case srvs of Inr s \<Rightarrow> None | Inl e \<Rightarrow> Some (errMessage e)),
       fd_servicesByProject = map_of (rev (map (\<lambda>e. (se_id e, se_services e)) entries)),
       fd_servicesFailedIds = map se_id (filter se_failed entries),
       fd_feed = map feed_line audit,
       fd_fetchedAt = now\<rparr>)"

text \<open>The second component is the value passed to \<open>setOnline\<close>.\<close>

definition dashboard_query ::
  "bool \<Rightarrow> js_error + DashboardData \<Rightarrow> js_error + AuditLog list \<Rightarrow> js_error + ManagedServer list
    \<Rightarrow> (int \<Rightarrow> js_error + Service list) \<Rightarrow> rat \<Rightarrow> (js_error + FullDashboardState) \<times> bool" where
  "dashboard_query auditFirst dash audit srvs services now =
     (case dashboard_core auditFirst dash audit of
        Inr (d, a) \<Rightarrow> (Inr (dashboard_state d a srvs services now), True)
      | Inl e \<Rightarrow> (Inl e, case e of ApiError status m \<Rightarrow> status = 401 | JsError m \<Rightarrow> False))"

section \<open>Properties\<close>

lemma map_of_rev_const:
  "(\<And>x. x \<in> set xs \<Longrightarrow> f x = k \<Longrightarrow> g x = v) \<Longrightarrow> x \<in> set xs \<Longrightarrow> f x = k \<Longrightarrow>
     map_of (rev (map (\<lambda>x. (f x, g x)) xs)) k = Some v"
  by (induction xs rule: rev_induct) auto

lemma services_lookup:
  assumes "p \<in> set (dashboardData_projects dash)"
  shows "fd_servicesByProject (dashboard_state dash audit srvs services now) (project_id p) =
    Some (case services (project_id p) of Inr s \<Rightarrow> s | Inl e \<Rightarrow> [])"
proof -
  let ?entries = "map (service_entry_of services) (dashboardData_projects dash)"
  have "map_of (rev (map (\<lambda>e. (se_id e, se_services e)) ?entries)) (project_id p) =
      Some (case services (project_id p) of Inr s \<Rightarrow> s | Inl e \<Rightarrow> [])"
    by (rule map_of_rev_const [where x = "service_entry_of services p"])
       (use assms in \<open>auto simp: service_entry_of_def split: sum.splits\<close>)
  then show ?thesis by (simp add: dashboard_state_def Let_def)
qed

lemma failed_ids:
  "k \<in> set (fd_servicesFailedIds (dashboard_state dash audit srvs services now)) \<longleftrightarrow>
     (\<exists>p \<in> set (dashboardData_projects dash). project_id p = k \<and> (\<exists>e. services k = Inl e))"
  by (force simp: dashboard_state_def Let_def service_entry_of_def split: sum.splits)



end
