(* ===== verification/Project_Details.thy ===== *)
theory Project_Details
  imports Web_Api Hub_Steps Hub_Effects Api_Status
begin

text \<open>
  The project details hook, \<open>client/src/features/dashboard/useProjectDetails.ts\<close>, shared by
  the summary drawer and the details page. The state holds every \<open>useState\<close> of the hook,
  the requests in flight, and what the hook did outside itself: the toasts pushed and how
  often \<open>onChanged\<close> was called. Each \<open>async\<close> action is split at its \<open>await\<close>; answers
  arrive in any order. Values taken from an answer are the JSON the server sent.
\<close>

section \<open>State\<close>

abbreviation lquote :: string where
  "lquote \<equiv> [CHR 0xE2, CHR 0x80, CHR 0x9C]"

abbreviation rquote :: string where
  "rquote \<equiv> [CHR 0xE2, CHR 0x80, CHR 0x9D]"

text \<open>A request in flight, with what the action's closure captured. \<open>OpLoad\<close> carries the
  generation of the effect that started it: its \<open>alive\<close> flag is set exactly while that
  generation is current.\<close>

datatype pd_op =
    OpLoad nat int
  | OpRefresh int
  | OpLifecycle Project lifecycle_action
  | OpShip Project
  | OpRollback Project Deployment
  | OpBackup Project
  | OpDeleteBackup Project int
  | OpRestore Project Backup
  | OpReveal int
  | OpSeal Project string string

record pd_state =
  pd_project :: Project
  pd_services :: "json option"
  pd_deployments :: "json option"
  pd_secrets :: "json option"
  pd_backups :: "json option"
  pd_revealed :: "int \<Rightarrow> json option"
  pd_pending :: "lifecycle_action option"
  pd_pendingRollback :: "Deployment option"
  pd_pendingRestore :: "Backup option"
  pd_logService :: "string option"
  pd_showTerminal :: bool
  pd_progress :: "(json option \<times> string) option"
  pd_busy :: bool
  pd_newName :: string
  pd_newValue :: string
  pd_generation :: nat
  pd_mounted :: bool
  pd_open :: "pd_op list"
  pd_toasts :: "(string \<times> bool) list"
  pd_changed :: nat

definition pd_init :: "Project \<Rightarrow> pd_state" where
  "pd_init p =
     \<lparr>pd_project = p, pd_services = Some (JArr []), pd_deployments = Some (JArr []),
      pd_secrets = Some (JArr []), pd_backups = Some (JArr []), pd_revealed = (\<lambda>_. None),
      pd_pending = None, pd_pendingRollback = None, pd_pendingRestore = None, pd_logService = None,
      pd_showTerminal = False, pd_progress = None, pd_busy = False, pd_newName = [], pd_newValue = [],
      pd_generation = 0, pd_mounted = True, pd_open = [OpLoad 0 (project_id p)], pd_toasts = [],
      pd_changed = 0\<rparr>"

section \<open>Requests\<close>

definition request_of :: "'a call \<Rightarrow> string \<times> RequestInit" where
  "request_of c = (call_path c, call_init c)"

definition list_requests :: "int \<Rightarrow> (string \<times> RequestInit) list" where
  "list_requests i =
     [request_of (api_services i), request_of (api_deployments i), request_of (api_secrets i),
      request_of (api_backups i)]"

fun op_requests :: "pd_op \<Rightarrow> (string \<times> RequestInit) list" where
  "op_requests (OpLoad g i) = list_requests i"
| "op_requests (OpRefresh i) = list_requests i"
| "op_requests (OpLifecycle p a) = [request_of (api_projectAction (project_id p) a (Some (a \<noteq> Start)))]"
| "op_requests (OpShip p) = [request_of (api_deploy (project_id p) None)]"
| "op_requests (OpRollback p d) = [request_of (api_rollback (project_id p) (deployment_id d))]"
| "op_requests (OpBackup p) = [request_of (api_createBackup (project_id p))]"
| "op_requests (OpDeleteBackup p i) = [request_of (api_deleteBackup i)]"
| "op_requests (OpRestore p b) = [request_of (api_restoreBackup (backup_id b))]"
| "op_requests (OpReveal i) = [request_of (api_revealSecret i)]"
| "op_requests (OpSeal p n v) = [request_of (api_upsertSecret (project_id p) n v None)]"

section \<open>Actions up to the await\<close>

definition open_op :: "pd_op \<Rightarrow> pd_state \<Rightarrow> pd_state" where
  "open_op q s = s\<lparr>pd_open := pd_open s @ [q]\<rparr>"

definition toast :: "string \<Rightarrow> bool \<Rightarrow> pd_state \<Rightarrow> pd_state" where
  "toast t bad s = s\<lparr>pd_toasts := pd_toasts s @ [(t, bad)]\<rparr>"

definition call_onChanged :: "pd_state \<Rightarrow> pd_state" where
  "call_onChanged s = s\<lparr>pd_changed := Suc (pd_changed s)\<rparr>"

definition refreshLists :: "Project \<Rightarrow> pd_state \<Rightarrow> pd_state" where
  "refreshLists p = open_op (OpRefresh (project_id p))"

definition runLifecycle :: "lifecycle_action \<Rightarrow> pd_state \<Rightarrow> pd_state" where
  "runLifecycle a s = open_op (OpLifecycle (pd_project s) a) (s\<lparr>pd_busy := True\<rparr>)"

definition shipIt :: "pd_state \<Rightarrow> pd_state" where
  "shipIt s = open_op (OpShip (pd_project s)) (s\<lparr>pd_busy := True\<rparr>)"

definition rollbackTo :: "Deployment \<Rightarrow> pd_state \<Rightarrow> pd_state" where
  "rollbackTo d s = open_op (OpRollback (pd_project s) d) (s\<lparr>pd_busy := True\<rparr>)"

definition createBackup :: "pd_state \<Rightarrow> pd_state" where
  "createBackup s = open_op (OpBackup (pd_project s)) (s\<lparr>pd_busy := True\<rparr>)"

definition deleteBackup :: "int \<Rightarrow> pd_state \<Rightarrow> pd_state" where
  "deleteBackup i s = open_op (OpDeleteBackup (pd_project s) i) s"

definition restoreBackup :: "Backup \<Rightarrow> pd_state \<Rightarrow> pd_state" where
  "restoreBackup b s = open_op (OpRestore (pd_project s) b) (s\<lparr>pd_busy := True\<rparr>)"

definition peek :: "int \<Rightarrow> pd_state \<Rightarrow> pd_state" where
  "peek i s =
     (if json_truthy (pd_revealed s i) then s\<lparr>pd_revealed := (pd_revealed s)(i := None)\<rparr>
      else open_op (OpReveal i) s)"

definition addSecret :: "pd_state \<Rightarrow> pd_state" where
  "addSecret s =
     (if js_trim (pd_newName s) = [] \<or> pd_newValue s = [] then s
      else open_op (OpSeal (pd_project s) (js_trim (pd_newName s)) (pd_newValue s)) s)"

section \<open>Answers\<close>

text \<open>\<open>tmsg\<close> is the engine's message for reading a field of an empty answer.
  \<open>Promise.all\<close> over the four list requests, with the backups request's failure
  replaced by an empty list.\<close>

type_synonym reply = "js_error + json option"

definition lists_of :: "reply \<Rightarrow> reply \<Rightarrow> reply \<Rightarrow> reply \<Rightarrow> (json option \<times> json option \<times> json option \<times> json option) option" where
  "lists_of rs rd rsec rb =
     (case (rs, rd, rsec) of
        (Inr s, Inr d, Inr sec) \<Rightarrow> Some (s, d, sec, case rb of Inr b \<Rightarrow> b | Inl e \<Rightarrow> Some (JArr []))
      | _ \<Rightarrow> None)"

definition set_lists :: "json option \<times> json option \<times> json option \<times> json option \<Rightarrow> pd_state \<Rightarrow> pd_state" where
  "set_lists = (\<lambda>(s, d, sec, b) st.
     st\<lparr>pd_services := s, pd_deployments := d, pd_secrets := sec, pd_backups := b\<rparr>)"

definition load_answer :: "nat \<Rightarrow> reply \<Rightarrow> reply \<Rightarrow> reply \<Rightarrow> reply \<Rightarrow> pd_state \<Rightarrow> pd_state" where
  "load_answer g rs rd rsec rb st =
     (let alive = (pd_mounted st \<and> g = pd_generation st) in
      case lists_of rs rd rsec rb of
        Some ls \<Rightarrow> if alive then set_lists ls st else st
      | None \<Rightarrow> if alive then toast ''Could not load ship details'' True st else st)"

definition refresh_answer :: "reply \<Rightarrow> reply \<Rightarrow> reply \<Rightarrow> reply \<Rightarrow> pd_state \<Rightarrow> pd_state" where
  "refresh_answer rs rd rsec rb st =
     (case lists_of rs rd rsec rb of Some ls \<Rightarrow> set_lists ls st | None \<Rightarrow> st)"

definition setBusy :: "bool \<Rightarrow> pd_state \<Rightarrow> pd_state" where
  "setBusy b s = s\<lparr>pd_busy := b\<rparr>"

fun lifecycle_message :: "Project \<Rightarrow> lifecycle_action \<Rightarrow> string" where
  "lifecycle_message p Start = lquote @ project_name p @ rquote @ '' waking up.''"
| "lifecycle_message p Stop = lquote @ project_name p @ rquote @ '' taking a nap.''"
| "lifecycle_message p Restart = lquote @ project_name p @ rquote @ '' fresh-started.''"

definition lifecycle_answer :: "Project \<Rightarrow> lifecycle_action \<Rightarrow> reply \<Rightarrow> pd_state \<Rightarrow> pd_state" where
  "lifecycle_answer p a r s =
     setBusy False
       (case r of
          Inr res \<Rightarrow> call_onChanged ((toast (lifecycle_message p a) False s)\<lparr>pd_pending := None\<rparr>)
        | Inl e \<Rightarrow> toast (error_message e) True s)"

definition start_progress :: "string \<Rightarrow> string \<Rightarrow> json option \<Rightarrow> (pd_state \<Rightarrow> pd_state) \<Rightarrow> pd_state \<Rightarrow> pd_state" where
  "start_progress tmsg title res continue s =
     (case field_of tmsg ''operationId'' res of
        Inl e \<Rightarrow> toast (error_message e) True s
      | Inr v \<Rightarrow> continue (s\<lparr>pd_progress := Some (v, title)\<rparr>))"

definition ship_answer :: "string \<Rightarrow> Project \<Rightarrow> reply \<Rightarrow> pd_state \<Rightarrow> pd_state" where
  "ship_answer tmsg p r s =
     setBusy False
       (case r of
          Inr res \<Rightarrow>
            start_progress tmsg (''Dispatching '' @ project_name p) res
              (\<lambda>t. refreshLists p (call_onChanged t))
              (toast (''Dispatch launched for '' @ lquote @ project_name p @ rquote @ ''.'') False s)
        | Inl e \<Rightarrow> toast (error_message e) True s)"

definition rollback_answer :: "string \<Rightarrow> Project \<Rightarrow> Deployment \<Rightarrow> reply \<Rightarrow> pd_state \<Rightarrow> pd_state" where
  "rollback_answer tmsg p d r s =
     setBusy False
       (case r of
          Inr res \<Rightarrow>
            start_progress tmsg (''Rolling back '' @ project_name p) res
              (\<lambda>t. refreshLists p (call_onChanged t))
              ((toast (''Rolling back to '' @ js_slice 0 7 (or_else (deployment_commitSha d) []) @ '' ''
                  @ em_dash @ '' dispatch running.'') False s)\<lparr>pd_pendingRollback := None\<rparr>)
        | Inl e \<Rightarrow> toast (error_message e) True s)"

definition backup_answer :: "string \<Rightarrow> Project \<Rightarrow> reply \<Rightarrow> pd_state \<Rightarrow> pd_state" where
  "backup_answer tmsg p r s =
     setBusy False
       (case r of
          Inr res \<Rightarrow>
            start_progress tmsg (''Snapshotting '' @ project_name p) res (refreshLists p)
              (toast (''Snapshot started for '' @ lquote @ project_name p @ rquote @ ''.'') False s)
        | Inl e \<Rightarrow> toast (error_message e) True s)"

definition deleteBackup_answer :: "Project \<Rightarrow> reply \<Rightarrow> pd_state \<Rightarrow> pd_state" where
  "deleteBackup_answer p r s =
     (case r of
        Inr res \<Rightarrow> refreshLists p (toast ''Snapshot deleted.'' False s)
      | Inl e \<Rightarrow> toast (error_message e) True s)"

definition restore_answer :: "string \<Rightarrow> Project \<Rightarrow> reply \<Rightarrow> pd_state \<Rightarrow> pd_state" where
  "restore_answer tmsg p r s =
     setBusy False
       (case r of
          Inr res \<Rightarrow>
            start_progress tmsg (''Restoring '' @ project_name p) res (refreshLists p)
              ((toast (''Restore running '' @ em_dash @ '' live files are being replaced.'') False s)
                 \<lparr>pd_pendingRestore := None\<rparr>)
        | Inl e \<Rightarrow> toast (error_message e) True s)"

definition reveal_answer :: "string \<Rightarrow> int \<Rightarrow> reply \<Rightarrow> pd_state \<Rightarrow> pd_state" where
  "reveal_answer tmsg i r s =
     (case r of
        Inl e \<Rightarrow> toast (error_message e) True s
      | Inr res \<Rightarrow>
          (case field_of tmsg ''value'' res of
             Inl e \<Rightarrow> toast (error_message e) True s
           | Inr v \<Rightarrow>
               toast (''Secret revealed '' @ em_dash @ '' eyes only.'') False
                 (s\<lparr>pd_revealed := (pd_revealed s)(i := v)\<rparr>)))"

definition seal_answer :: "Project \<Rightarrow> string \<Rightarrow> reply \<Rightarrow> pd_state \<Rightarrow> pd_state" where
  "seal_answer p n r s =
     (case r of
        Inr res \<Rightarrow>
          refreshLists p
            ((toast (''Sealed '' @ lquote @ n @ rquote @ '' into the vault.'') False s)
               \<lparr>pd_newName := [], pd_newValue := []\<rparr>)
      | Inl e \<Rightarrow> toast (error_message e) True s)"

fun op_answer :: "string \<Rightarrow> pd_op \<Rightarrow> reply \<Rightarrow> pd_state \<Rightarrow> pd_state option" where
  "op_answer tmsg (OpLifecycle p a) r s = Some (lifecycle_answer p a r s)"
| "op_answer tmsg (OpShip p) r s = Some (ship_answer tmsg p r s)"
| "op_answer tmsg (OpRollback p d) r s = Some (rollback_answer tmsg p d r s)"
| "op_answer tmsg (OpBackup p) r s = Some (backup_answer tmsg p r s)"
| "op_answer tmsg (OpDeleteBackup p i) r s = Some (deleteBackup_answer p r s)"
| "op_answer tmsg (OpRestore p b) r s = Some (restore_answer tmsg p r s)"
| "op_answer tmsg (OpReveal i) r s = Some (reveal_answer tmsg i r s)"
| "op_answer tmsg (OpSeal p n v) r s = Some (seal_answer p n r s)"
| "op_answer tmsg (OpLoad g i) r s = None"
| "op_answer tmsg (OpRefresh i) r s = None"

section \<open>Executions\<close>

datatype pd_event =
    RunLifecycle lifecycle_action
  | ShipIt
  | RollbackTo Deployment
  | CreateBackup
  | DeleteBackup int
  | RestoreBackup Backup
  | Peek int
  | AddSecret
  | RefreshLists
  | SetPending "lifecycle_action option"
  | SetPendingRollback "Deployment option"
  | SetPendingRestore "Backup option"
  | SetLogService "string option"
  | SetShowTerminal bool
  | SetProgress "(json option \<times> string) option"
  | SetNewName string
  | SetNewValue string
  | SetProject Project
  | Leave
  | Lists pd_op reply reply reply reply
  | Reply pd_op reply

text \<open>New props: a new project id ends the running effect and starts a load of its own.\<close>

definition set_project :: "Project \<Rightarrow> pd_state \<Rightarrow> pd_state" where
  "set_project p s =
     (if project_id p = project_id (pd_project s) then s\<lparr>pd_project := p\<rparr>
      else open_op (OpLoad (Suc (pd_generation s)) (project_id p))
             (s\<lparr>pd_project := p, pd_generation := Suc (pd_generation s)\<rparr>))"

fun user_action :: "pd_event \<Rightarrow> pd_state \<Rightarrow> pd_state option" where
  "user_action (RunLifecycle a) s = Some (runLifecycle a s)"
| "user_action ShipIt s = Some (shipIt s)"
| "user_action (RollbackTo d) s = Some (rollbackTo d s)"
| "user_action CreateBackup s = Some (createBackup s)"
| "user_action (DeleteBackup i) s = Some (deleteBackup i s)"
| "user_action (RestoreBackup b) s = Some (restoreBackup b s)"
| "user_action (Peek i) s = Some (peek i s)"
| "user_action AddSecret s = Some (addSecret s)"
| "user_action RefreshLists s = Some (refreshLists (pd_project s) s)"
| "user_action (SetPending x) s = Some (s\<lparr>pd_pending := x\<rparr>)"
| "user_action (SetPendingRollback x) s = Some (s\<lparr>pd_pendingRollback := x\<rparr>)"
| "user_action (SetPendingRestore x) s = Some (s\<lparr>pd_pendingRestore := x\<rparr>)"
| "user_action (SetLogService x) s = Some (s\<lparr>pd_logService := x\<rparr>)"
| "user_action (SetShowTerminal x) s = Some (s\<lparr>pd_showTerminal := x\<rparr>)"
| "user_action (SetProgress x) s = Some (s\<lparr>pd_progress := x\<rparr>)"
| "user_action (SetNewName x) s = Some (s\<lparr>pd_newName := x\<rparr>)"
| "user_action (SetNewValue x) s = Some (s\<lparr>pd_newValue := x\<rparr>)"
| "user_action (SetProject p) s = Some (set_project p s)"
| "user_action Leave s = Some (s\<lparr>pd_mounted := False\<rparr>)"
| "user_action (Lists q rs rd rsec rb) s = None"
| "user_action (Reply q r) s = None"

definition close_op :: "pd_op \<Rightarrow> pd_state \<Rightarrow> pd_state" where
  "close_op q s = s\<lparr>pd_open := remove1 q (pd_open s)\<rparr>"

fun pd_step :: "string \<Rightarrow> pd_state \<Rightarrow> pd_event \<Rightarrow> pd_state option" where
  "pd_step tmsg s (Lists q rs rd rsec rb) =
     (if q \<notin> set (pd_open s) then None
      else case q of
        OpLoad g i \<Rightarrow> Some (load_answer g rs rd rsec rb (close_op q s))
      | OpRefresh i \<Rightarrow> Some (refresh_answer rs rd rsec rb (close_op q s))
      | _ \<Rightarrow> None)"
| "pd_step tmsg s (Reply q r) =
     (if q \<in> set (pd_open s) then op_answer tmsg q r (close_op q s) else None)"
| "pd_step tmsg s e = (if pd_mounted s then user_action e s else None)"

section \<open>Properties\<close>

lemmas pd_action_defs = open_op_def refreshLists_def runLifecycle_def shipIt_def rollbackTo_def
  createBackup_def deleteBackup_def restoreBackup_def peek_def addSecret_def set_project_def

lemmas pd_answer_defs = toast_def call_onChanged_def setBusy_def start_progress_def
  lifecycle_answer_def ship_answer_def rollback_answer_def backup_answer_def deleteBackup_answer_def
  restore_answer_def reveal_answer_def seal_answer_def

definition pd_lists :: "pd_state \<Rightarrow> json option \<times> json option \<times> json option \<times> json option" where
  "pd_lists s = (pd_services s, pd_deployments s, pd_secrets s, pd_backups s)"

definition empty_lists :: "json option \<times> json option \<times> json option \<times> json option" where
  "empty_lists = (Some (JArr []), Some (JArr []), Some (JArr []), Some (JArr []))"

subsection \<open>What a step can change\<close>

lemma user_action_frame:
  "user_action e s = Some s' \<Longrightarrow>
     pd_lists s' = pd_lists s \<and> (\<forall>i. pd_revealed s' i \<in> {pd_revealed s i, None})
     \<and> pd_toasts s' = pd_toasts s"
  by (cases e) (auto simp: pd_action_defs pd_lists_def split: if_splits)

lemma op_answer_frame:
  "op_answer tmsg q r s = Some s' \<Longrightarrow>
     pd_lists s' = pd_lists s
     \<and> (\<forall>i. pd_revealed s' i = pd_revealed s i
          \<or> (\<exists>res. q = OpReveal i \<and> r = Inr res \<and> field_of tmsg ''value'' res = Inr (pd_revealed s' i)))"
  by (cases q) (auto simp: pd_answer_defs pd_action_defs pd_lists_def split: sum.splits if_splits)

lemma load_answer_lists:
  "pd_lists (load_answer g rs rd rsec rb s) =
     (if pd_mounted s \<and> g = pd_generation s then or_else (lists_of rs rd rsec rb) (pd_lists s) else pd_lists s)"
  by (auto simp: load_answer_def Let_def pd_lists_def set_lists_def toast_def split: option.splits)

lemma refresh_answer_lists:
  "pd_lists (refresh_answer rs rd rsec rb s) = or_else (lists_of rs rd rsec rb) (pd_lists s)"
  by (auto simp: refresh_answer_def pd_lists_def set_lists_def split: option.splits)

lemma list_answers_frame:
  "pd_revealed (load_answer g rs rd rsec rb s) = pd_revealed s"
  "pd_revealed (refresh_answer rs rd rsec rb s) = pd_revealed s"
  "pd_busy (load_answer g rs rd rsec rb s) = pd_busy s"
  "pd_busy (refresh_answer rs rd rsec rb s) = pd_busy s"
  "pd_open (load_answer g rs rd rsec rb s) = pd_open s"
  "pd_open (refresh_answer rs rd rsec rb s) = pd_open s"
  by (auto simp: load_answer_def refresh_answer_def Let_def set_lists_def toast_def
      split: option.splits prod.splits)

lemma close_op_frame [simp]:
  "pd_lists (close_op q s) = pd_lists s" "pd_revealed (close_op q s) = pd_revealed s"
  "pd_busy (close_op q s) = pd_busy s" "pd_open (close_op q s) = remove1 q (pd_open s)"
  "pd_mounted (close_op q s) = pd_mounted s" "pd_generation (close_op q s) = pd_generation s"
  by (simp_all add: close_op_def pd_lists_def)

text \<open>A step is a user action, the answer to a list request, or the answer to an action.\<close>

lemma pd_step_cases:
  assumes "pd_step tmsg s e = Some s'"
  obtains (user) "user_action e s = Some s'"
    | (load) g i rs rd rsec rb where "e = Lists (OpLoad g i) rs rd rsec rb" "OpLoad g i \<in> set (pd_open s)"
        "s' = load_answer g rs rd rsec rb (close_op (OpLoad g i) s)"
    | (refresh) i rs rd rsec rb where "e = Lists (OpRefresh i) rs rd rsec rb" "OpRefresh i \<in> set (pd_open s)"
        "s' = refresh_answer rs rd rsec rb (close_op (OpRefresh i) s)"
    | (reply) q r where "e = Reply q r" "q \<in> set (pd_open s)" "op_answer tmsg q r (close_op q s) = Some s'"
  using assms by (cases e) (auto split: if_splits pd_op.splits)

subsection \<open>Provenance\<close>

definition lists_source :: "json option \<times> json option \<times> json option \<times> json option \<Rightarrow> pd_event \<Rightarrow> bool" where
  "lists_source ls e \<longleftrightarrow> (\<exists>q rs rd rsec rb. e = Lists q rs rd rsec rb \<and> lists_of rs rd rsec rb = Some ls)"

definition secret_source :: "string \<Rightarrow> int \<times> json \<Rightarrow> pd_event \<Rightarrow> bool" where
  "secret_source tmsg x e \<longleftrightarrow>
     (\<exists>res. e = Reply (OpReveal (fst x)) (Inr res) \<and> field_of tmsg ''value'' res = Inr (Some (snd x)))"

interpretation pd_lists: traced_system "pd_step tmsg" "pd_init p" "\<lambda>ls s. pd_lists s = ls \<and> ls \<noteq> empty_lists"
  lists_source for tmsg p
proof unfold_locales
  fix s e s' ls
  assume step: "pd_step tmsg s e = Some s'" and ls: "pd_lists s' = ls \<and> ls \<noteq> empty_lists"
  from step show "(pd_lists s = ls \<and> ls \<noteq> empty_lists) \<or> lists_source ls e"
  proof (cases rule: pd_step_cases)
    case user
    with ls user_action_frame show ?thesis by metis
  next
    case (load g i rs rd rsec rb)
    with ls show ?thesis
      by (auto simp: load_answer_lists lists_source_def split: if_splits option.splits)
  next
    case (refresh i rs rd rsec rb)
    with ls show ?thesis by (auto simp: refresh_answer_lists lists_source_def split: option.splits)
  next
    case (reply q r)
    with ls op_answer_frame show ?thesis by (metis close_op_frame(1))
  qed
qed (simp add: pd_init_def pd_lists_def empty_lists_def)

interpretation pd_secret: traced_system "pd_step tmsg" "pd_init p" "\<lambda>x s. pd_revealed s (fst x) = Some (snd x)"
  "secret_source tmsg" for tmsg p
proof unfold_locales
  fix s e s' x
  assume step: "pd_step tmsg s e = Some s'" and x: "pd_revealed s' (fst x) = Some (snd x)"
  from step show "pd_revealed s (fst x) = Some (snd x) \<or> secret_source tmsg x e"
  proof (cases rule: pd_step_cases)
    case user
    with x user_action_frame [OF user] show ?thesis by (metis insertE option.distinct(1) singletonD)
  next
    case (reply q r)
    with op_answer_frame [OF reply(3)] have "pd_revealed s' (fst x) = pd_revealed s (fst x)
        \<or> (\<exists>res. q = OpReveal (fst x) \<and> r = Inr res \<and> field_of tmsg ''value'' res = Inr (pd_revealed s' (fst x)))"
      by simp
    with x reply(1) show ?thesis by (auto simp: secret_source_def)
  qed (use x in \<open>simp_all add: list_answers_frame\<close>)
qed (simp add: pd_init_def)

text \<open>C12: in every interleaving, the four lists on screen are the initial empty ones or all
  come from one and the same successful load, so services, deployments, secrets and backups
  of different loads are never mixed; and a secret value on screen is one the server
  returned to a reveal request for that very secret.\<close>

theorem details_provenance:
  assumes "run (pd_step tmsg) (pd_init p) es = Some s"
  shows "(pd_lists s = empty_lists \<or>
           (\<exists>q rs rd rsec rb. Lists q rs rd rsec rb \<in> set es \<and> lists_of rs rd rsec rb = Some (pd_lists s)))
       \<and> (\<forall>i v. pd_revealed s i = Some v \<longrightarrow>
            (\<exists>res. Reply (OpReveal i) (Inr (Some res)) \<in> set es \<and> json_get ''value'' res = Some v))"
proof -
  have "field_of tmsg ''value'' r = Inr (Some v) \<Longrightarrow> \<exists>res. r = Some res \<and> json_get ''value'' res = Some v"
    for r v by (cases "(tmsg, ''value'', r)" rule: field_of.cases) auto
  with pd_secret.traced [OF assms] have "pd_revealed s i = Some v \<Longrightarrow>
      \<exists>res. Reply (OpReveal i) (Inr (Some res)) \<in> set es \<and> json_get ''value'' res = Some v" for i v
    unfolding secret_source_def by (metis fst_conv snd_conv)
  with pd_lists.traced [OF assms] show ?thesis unfolding lists_source_def by blast
qed

definition sample_project :: "int \<Rightarrow> Project" where
  "sample_project i =
     \<lparr>project_id = i, project_name = ''web'', project_description = None, project_repository = None,
      project_branch = None, project_environment = None, project_deploymentPath = None,
      project_composeFile = None, project_gatewayPrefix = None, project_healthUrl = None,
      project_status = ''RUNNING'', project_autoDeploy = False, project_createdAt = [],
      project_updatedAt = []\<rparr>"

theorem details_provenance_witness:
  "\<exists>s. run (pd_step []) (pd_init (sample_project 1))
        [Peek 3, Reply (OpReveal 3) (Inr (Some (JObj [(''value'', JStr ''k'')])))] = Some s
     \<and> pd_revealed s 3 = Some (JStr ''k'')
     \<and> (\<exists>res. Reply (OpReveal 3) (Inr (Some res)) \<in>
           set [Peek 3, Reply (OpReveal 3) (Inr (Some (JObj [(''value'', JStr ''k'')])))]
          \<and> json_get ''value'' res = Some (JStr ''k''))"
proof -
  obtain s where s: "run (pd_step []) (pd_init (sample_project 1))
        [Peek 3, Reply (OpReveal 3) (Inr (Some (JObj [(''value'', JStr ''k'')])))] = Some s"
    and v: "pd_revealed s 3 = Some (JStr ''k'')"
    by (simp add: pd_init_def pd_action_defs pd_answer_defs close_op_def)
  from details_provenance [OF s] s v show ?thesis by blast
qed

subsection \<open>Busy flag and confirmation\<close>

fun busy_op :: "pd_op \<Rightarrow> bool" where
  "busy_op (OpLifecycle p a) = True"
| "busy_op (OpShip p) = True"
| "busy_op (OpRollback p d) = True"
| "busy_op (OpBackup p) = True"
| "busy_op (OpRestore p b) = True"
| "busy_op _ = False"

definition pd_inv :: "pd_state \<Rightarrow> bool" where
  "pd_inv s \<longleftrightarrow> (pd_busy s \<longrightarrow> (\<exists>q \<in> set (pd_open s). busy_op q))"

lemma user_action_busy: "pd_inv s \<Longrightarrow> user_action e s = Some s' \<Longrightarrow> pd_inv s'"
  by (cases e) (auto simp: pd_inv_def pd_action_defs split: if_splits)

lemma op_answer_busy:
  "op_answer tmsg q r s = Some s' \<Longrightarrow>
     (if busy_op q then \<not> pd_busy s' else pd_busy s' = pd_busy s) \<and> set (pd_open s) \<subseteq> set (pd_open s')"
  by (cases q) (auto simp: pd_answer_defs pd_action_defs split: sum.splits)

lemma remove_idle_op: "\<not> busy_op q \<Longrightarrow> b \<in> set qs \<Longrightarrow> busy_op b \<Longrightarrow> b \<in> set (remove1 q qs)"
  by (metis in_set_remove1)

lemma pd_step_inv:
  assumes "pd_inv s" and "pd_step tmsg s e = Some s'"
  shows "pd_inv s'"
  using assms(2)
proof (cases rule: pd_step_cases)
  case user
  with assms(1) show ?thesis by (rule user_action_busy)
next
  case (load g i rs rd rsec rb)
  with assms(1) show ?thesis
    using remove_idle_op [of "OpLoad g i"] by (auto simp: pd_inv_def list_answers_frame)
next
  case (refresh i rs rd rsec rb)
  with assms(1) show ?thesis
    using remove_idle_op [of "OpRefresh i"] by (auto simp: pd_inv_def list_answers_frame)
next
  case (reply q r)
  with op_answer_busy [OF reply(3)] assms(1) show ?thesis
    using remove_idle_op [of q] by (cases "busy_op q") (auto simp: pd_inv_def)
qed

interpretation pd: started_system "pd_step tmsg" pd_inv "pd_init p" for tmsg p
proof unfold_locales
  show "pd_inv (pd_init p)" by (simp add: pd_inv_def pd_init_def)
qed (rule pd_step_inv)

text \<open>The controls are never left disabled: whenever the busy flag is set, a lifecycle,
  deploy, rollback, backup or restore request is in flight whose answer, successful or
  not, clears it. Stop and restart are sent with the confirmation flag, start without.\<close>

lemma details_never_stuck:
  assumes "run (pd_step tmsg) (pd_init p) es = Some s"
  shows "(pd_busy s \<longrightarrow> (\<exists>q \<in> set (pd_open s). \<forall>r. \<exists>s'. pd_step tmsg s (Reply q r) = Some s' \<and> \<not> pd_busy s'))
       \<and> (\<forall>pr a. map (read_target \<circ> fst) (op_requests (OpLifecycle pr a)) =
            [Some ([[], ''server-hub'', ''api'', ''projects'', int_str (project_id pr), action_name a],
               if a = Start then [] else [(''confirm'', ''true'')])])"
proof -
  have clears: "\<exists>s'. pd_step tmsg s (Reply q r) = Some s' \<and> \<not> pd_busy s'"
    if "q \<in> set (pd_open s)" "busy_op q" for q r
  proof -
    have "\<exists>s'. op_answer tmsg q r (close_op q s) = Some s'" using that(2) by (cases q) auto
    with that op_answer_busy [of tmsg q r "close_op q s"] show ?thesis by auto
  qed
  have "map (read_target \<circ> fst) (op_requests (OpLifecycle pr a)) =
      [Some ([[], ''server-hub'', ''api'', ''projects'', int_str (project_id pr), action_name a],
         if a = Start then [] else [(''confirm'', ''true'')])]" for pr a
    by (cases a) (simp_all add: request_of_def api_projectAction_def endpoint_read)
  with pd.reachable_inv [OF assms] clears show ?thesis by (auto simp: pd_inv_def)
qed

subsection \<open>Changing the project\<close>

text \<open>The initial load is guarded and the refresh is not. The answer of a load whose
  effect has ended is dropped without a trace, whatever it is; but the answer of a refresh
  started for the previous project replaces the lists of the current one.\<close>

lemma details_project_switch:
  "(OpLoad g i \<in> set (pd_open s) \<and> (g \<noteq> pd_generation s \<or> \<not> pd_mounted s) \<longrightarrow>
      pd_step tmsg s (Lists (OpLoad g i) rs rd rsec rb) = Some (close_op (OpLoad g i) s))
   \<and> (OpRefresh j \<in> set (pd_open s) \<and> lists_of rs rd rsec rb = Some ls \<longrightarrow>
        (\<exists>s'. pd_step tmsg s (Lists (OpRefresh j) rs rd rsec rb) = Some s' \<and> pd_lists s' = ls
          \<and> pd_project s' = pd_project s))"
proof -
  have "pd_project (refresh_answer rs rd rsec rb (close_op (OpRefresh j) s)) = pd_project s"
    by (auto simp: refresh_answer_def set_lists_def close_op_def split: option.splits prod.splits)
  then show ?thesis
    by (auto simp: load_answer_def Let_def refresh_answer_lists split: option.splits)
qed

end
