(* ===== verification/Page_Transfers.thy ===== *)
theory Page_Transfers
  imports Web_Stores Format
begin

text \<open>
  The logic of the file transfers page,
  \<open>client/src/features/transfers/FileTransfersPage.tsx\<close>: sizes and paths, the prompt
  dialog, and the wrapper that runs a request with busy flag, toast and refresh. Handlers
  carry the guards of the buttons that call them; answers arrive in any order.
\<close>

section \<open>Sizes and paths\<close>

function scale_units :: "rat \<Rightarrow> nat \<Rightarrow> rat \<times> nat" where
  "scale_units v i = (if 1024 \<le> v \<and> i < 4 then scale_units (v / 1024) (Suc i) else (v, i))"
  by pat_completeness auto
termination by (relation "measure (\<lambda>(v, i). 4 - i)") auto

declare scale_units.simps [simp del]

definition SIZE_UNITS :: "string list" where
  "SIZE_UNITS = [''B'', ''KB'', ''MB'', ''GB'', ''TB'']"

definition formatBytes :: "jsnum \<Rightarrow> string" where
  "formatBytes n =
     (case n of
        Fin q \<Rightarrow>
          if q < 0 then em_dash
          else case scale_units q 0 of
            (v, i) \<Rightarrow> js_toFixed (if i = 0 then 0 else 1) (Fin v) @ '' '' @ SIZE_UNITS ! i
      | _ \<Rightarrow> em_dash)"

definition joinPath :: "string \<Rightarrow> string \<Rightarrow> string" where
  "joinPath dir name = (if dir = ''/'' then ''/'' @ name else strip_end is_slash dir @ ''/'' @ name)"

definition parentPath :: "string \<Rightarrow> string option" where
  "parentPath p =
     (if p = ''/'' \<or> \<not> js_includes p ''/'' then None
      else case js_lastIndexOf (CHR ''/'') (strip_end is_slash p) of
        None \<Rightarrow> Some ''/''
      | Some k \<Rightarrow> if k = 0 then Some ''/'' else Some (take k p))"

definition js_endsWith :: "string \<Rightarrow> string \<Rightarrow> bool" where
  "js_endsWith s e \<longleftrightarrow> js_startsWith (rev s) (rev e)"

text \<open>The breadcrumbs and the path each of them leads to.\<close>

definition crumbs :: "string \<Rightarrow> string list" where
  "crumbs p = (if p = ''/'' then [] else filter (\<lambda>c. c \<noteq> []) (js_split (CHR ''/'') p))"

definition crumb_path :: "string \<Rightarrow> nat \<Rightarrow> string" where
  "crumb_path p i = ''/'' @ join_with (CHR ''/'') (take (Suc i) (crumbs p))"

section \<open>State\<close>

datatype tr_tab = TabFiles | TabSearch | TabTrash | TabActivity

datatype PromptKind = Mkdir | Rename | Move | CopyTo

record PromptState =
  pr_kind :: PromptKind
  pr_item :: "TransferFileItem option"
  pr_value :: string
  pr_destValue :: "string option"

datatype tr_request = TrCall string RequestInit | TrUpload string string

text \<open>A running request, its success message, and whether the prompt closes when it ends.\<close>

datatype tr_op = TrOp (op_req: tr_request) (op_ok: string) (op_closes: bool)

record tr_state =
  tr_tab :: tr_tab
  tr_path :: string
  tr_query :: string
  tr_prompt :: "PromptState option"
  tr_busy :: bool
  tr_picking :: bool
  tr_open :: "tr_op list"
  tr_sent :: "tr_request list"
  tr_toasts :: "(string \<times> bool) list"
  tr_refreshes :: nat

definition tr_init :: tr_state where
  "tr_init =
     \<lparr>tr_tab = TabFiles, tr_path = ''/'', tr_query = [], tr_prompt = None, tr_busy = False,
      tr_picking = False, tr_open = [], tr_sent = [], tr_toasts = [], tr_refreshes = 0\<rparr>"

definition tr_canMutate :: "json option \<Rightarrow> bool" where
  "tr_canMutate user =
     (let role = (case user of None \<Rightarrow> None | Some u \<Rightarrow> json_get ''role'' u) in
      role = Some (JStr ''operator'') \<or> role = Some (JStr ''admin''))"

section \<open>Running requests\<close>

definition call_request :: "'a call \<Rightarrow> tr_request" where
  "call_request c = TrCall (call_path c) (call_init c)"

definition tr_run :: "tr_request \<Rightarrow> string \<Rightarrow> bool \<Rightarrow> tr_state \<Rightarrow> tr_state" where
  "tr_run r ok closes s =
     s\<lparr>tr_busy := True, tr_open := tr_open s @ [TrOp r ok closes], tr_sent := tr_sent s @ [r]\<rparr>"

text \<open>The rest of \<open>run\<close> after its await, and of the caller that closes the prompt.\<close>

definition tr_answer :: "tr_op \<Rightarrow> js_error + json option \<Rightarrow> tr_state \<Rightarrow> tr_state" where
  "tr_answer q r s =
     (let s1 = (case r of
                  Inr out \<Rightarrow> s\<lparr>tr_refreshes := Suc (tr_refreshes s), tr_toasts := tr_toasts s @ [(op_ok q, False)]\<rparr>
                | Inl e \<Rightarrow> s\<lparr>tr_toasts := tr_toasts s @ [(error_message e, True)]\<rparr>)
      in s1\<lparr>tr_busy := False, tr_open := remove1 q (tr_open s),
            tr_prompt := (if op_closes q then None else tr_prompt s)\<rparr>)"

definition move_target :: "string \<Rightarrow> PromptState \<Rightarrow> TransferFileItem \<Rightarrow> string" where
  "move_target path pr it =
     (let d = js_trim (or_else (pr_destValue pr) path);
          dest = (if d = [] then path else d)
      in if js_endsWith dest (transferFileItem_name it) then dest
         else joinPath dest (transferFileItem_name it))"

text \<open>The request a prompt stands for; \<open>None\<close> when the prompt lacks its item.\<close>

definition prompt_request :: "string \<Rightarrow> PromptState \<Rightarrow> (tr_request \<times> string) option" where
  "prompt_request path pr =
     (let v = js_trim (pr_value pr) in
      case (pr_kind pr, pr_item pr) of
        (Mkdir, _) \<Rightarrow> Some (call_request (transfersApi_mkdir (joinPath path v)), ''Created '' @ v)
      | (Rename, Some it) \<Rightarrow>
          Some (call_request (transfersApi_rename (transferFileItem_path it) v), ''Renamed to '' @ v)
      | (Move, Some it) \<Rightarrow>
          let target = move_target path pr it in
          Some (call_request (transfersApi_move (transferFileItem_path it) target), ''Moved to '' @ target)
      | (CopyTo, Some it) \<Rightarrow>
          let target = move_target path pr it in
          Some (call_request (transfersApi_copy (transferFileItem_path it) target), ''Copied to '' @ target)
      | _ \<Rightarrow> None)"

definition submitPrompt :: "bool \<Rightarrow> tr_state \<Rightarrow> tr_state" where
  "submitPrompt canMutate s =
     (case tr_prompt s of
        None \<Rightarrow> s
      | Some pr \<Rightarrow>
          if \<not> canMutate then s
          else if js_trim (pr_value pr) = [] then s\<lparr>tr_toasts := tr_toasts s @ [(''Name is required'', True)]\<rparr>
          else case prompt_request (tr_path s) pr of
            None \<Rightarrow> s\<lparr>tr_prompt := None\<rparr>
          | Some (r, ok) \<Rightarrow> tr_run r ok True s)"

datatype tr_event =
    SetTab tr_tab
  | SetPath string
  | SetQuery string
  | GoUp
  | OpenFolder string
  | OpenMkdir
  | OpenRename TransferFileItem
  | OpenMove TransferFileItem
  | OpenCopy TransferFileItem
  | EditValue string
  | EditDest string
  | CancelPrompt
  | PressEnter
  | ClickConfirm
  | ClickUpload
  | PickFile string
  | TrashMove TransferFileItem
  | TrashRestore string string
  | TrashPurge nat
  | RefreshAll
  | Answered tr_op "js_error + json option"

definition item_prompt :: "PromptKind \<Rightarrow> TransferFileItem \<Rightarrow> PromptState" where
  "item_prompt k it =
     \<lparr>pr_kind = k, pr_item = Some it, pr_value = transferFileItem_name it,
      pr_destValue = (if k = Rename then None else Some (or_else (parentPath (transferFileItem_path it)) ''/''))\<rparr>"

text \<open>The prompt has one input: the destination folder for a move or a copy, the name otherwise.
  Only the name input submits on the enter key.\<close>

definition asks_folder :: "PromptState \<Rightarrow> bool" where
  "asks_folder pr \<longleftrightarrow> pr_kind pr = Move \<or> pr_kind pr = CopyTo"

text \<open>A disabled button produces no event. The file input opens only through the upload
  button, and the prompt only through its buttons.\<close>

fun tr_step :: "bool \<Rightarrow> tr_state \<Rightarrow> tr_event \<Rightarrow> tr_state option" where
  "tr_step can s (SetTab t) = Some (s\<lparr>tr_tab := t\<rparr>)"
| "tr_step can s (SetPath p) = Some (s\<lparr>tr_path := p\<rparr>)"
| "tr_step can s (SetQuery q) = Some (s\<lparr>tr_query := q\<rparr>)"
| "tr_step can s GoUp = (case parentPath (tr_path s) of None \<Rightarrow> None | Some p \<Rightarrow> Some (s\<lparr>tr_path := p\<rparr>))"
| "tr_step can s (OpenFolder p) = Some (s\<lparr>tr_path := or_else (parentPath p) ''/'', tr_tab := TabFiles\<rparr>)"
| "tr_step can s OpenMkdir =
     (if can \<and> \<not> tr_busy s
      then Some (s\<lparr>tr_prompt := Some \<lparr>pr_kind = Mkdir, pr_item = None, pr_value = [], pr_destValue = None\<rparr>\<rparr>)
      else None)"
| "tr_step can s (OpenRename it) = (if can then Some (s\<lparr>tr_prompt := Some (item_prompt Rename it)\<rparr>) else None)"
| "tr_step can s (OpenMove it) = (if can then Some (s\<lparr>tr_prompt := Some (item_prompt Move it)\<rparr>) else None)"
| "tr_step can s (OpenCopy it) = (if can then Some (s\<lparr>tr_prompt := Some (item_prompt CopyTo it)\<rparr>) else None)"
| "tr_step can s (EditValue v) =
     (case tr_prompt s of
        None \<Rightarrow> None
      | Some pr \<Rightarrow> if asks_folder pr then None else Some (s\<lparr>tr_prompt := Some (pr\<lparr>pr_value := v\<rparr>)\<rparr>))"
| "tr_step can s (EditDest v) =
     (case tr_prompt s of
        None \<Rightarrow> None
      | Some pr \<Rightarrow> if asks_folder pr then Some (s\<lparr>tr_prompt := Some (pr\<lparr>pr_destValue := Some v\<rparr>)\<rparr>) else None)"
| "tr_step can s CancelPrompt = (if tr_prompt s = None then None else Some (s\<lparr>tr_prompt := None\<rparr>))"
| "tr_step can s PressEnter =
     (case tr_prompt s of
        None \<Rightarrow> None
      | Some pr \<Rightarrow> if asks_folder pr then None else Some (submitPrompt can s))"
| "tr_step can s ClickConfirm = (if tr_prompt s = None \<or> tr_busy s then None else Some (submitPrompt can s))"
| "tr_step can s ClickUpload = (if can \<and> \<not> tr_busy s then Some (s\<lparr>tr_picking := True\<rparr>) else None)"
| "tr_step can s (PickFile name) =
     (if tr_picking s
      then Some (tr_run (TrUpload (tr_path s) name) (''Uploaded '' @ name) False (s\<lparr>tr_picking := False\<rparr>)) else None)"
| "tr_step can s (TrashMove it) =
     (if can then Some (tr_run (call_request (transfersApi_trashMove (transferFileItem_path it)))
        (''Moved '' @ transferFileItem_name it @ '' to trash'') False s) else None)"
| "tr_step can s (TrashRestore i name) =
     (if can then Some (tr_run (call_request (transfersApi_trashRestore i)) (''Restored '' @ name) False s) else None)"
| "tr_step can s (TrashPurge n) =
     (if can \<and> 0 < n then Some (tr_run (call_request transfersApi_trashPurge) ''Trash purged'' False s) else None)"
| "tr_step can s RefreshAll = Some (s\<lparr>tr_refreshes := Suc (tr_refreshes s)\<rparr>)"
| "tr_step can s (Answered q r) = (if q \<in> set (tr_open s) then Some (tr_answer q r s) else None)"

section \<open>Paths\<close>

text \<open>A folder path as the page holds it: the root, or an absolute path without a slash at the
  end.\<close>

definition folder_path :: "string \<Rightarrow> bool" where
  "folder_path d \<longleftrightarrow> d = ''/'' \<or> (d \<noteq> [] \<and> hd d = CHR ''/'' \<and> last d \<noteq> CHR ''/'')"

definition plain_name :: "string \<Rightarrow> bool" where
  "plain_name n \<longleftrightarrow> n \<noteq> [] \<and> CHR ''/'' \<notin> set n"

lemma js_lastIndexOf_less: "js_lastIndexOf c s = Some k \<Longrightarrow> k < length s"
  by (induction s arbitrary: k) (auto split: option.splits if_splits)

lemma includes_slash: "js_includes p ''/'' \<longleftrightarrow> CHR ''/'' \<in> set p"
  by (induction p) auto

lemma folder_path_stripped: "folder_path d \<Longrightarrow> d \<noteq> ''/'' \<Longrightarrow> strip_end is_slash d = d"
  by (rule strip_end_id) (auto simp: folder_path_def is_slash_def)

lemma parentPath_shortens:
  assumes "folder_path d" "d \<noteq> ''/''"
  shows "\<exists>q. parentPath d = Some q \<and> (length q < length d \<or> q = ''/'')"
proof -
  have "CHR ''/'' \<in> set d" using assms by (auto simp: folder_path_def) (metis hd_in_set)
  with assms folder_path_stripped [OF assms] obtain k where
    "js_lastIndexOf (CHR ''/'') (strip_end is_slash d) = Some k" "k < length d"
    by (metis js_lastIndexOf_None js_lastIndexOf_less not_None_eq)
  with assms(2) \<open>CHR ''/'' \<in> set d\<close> show ?thesis by (simp add: parentPath_def includes_slash)
qed

text \<open>Going into a folder and up again leads back: the parent of a name joined to a folder is
  that folder, the joined path is again a folder path, and from every folder path but the
  root going up leads to the root or strictly shortens the path.\<close>

lemma path_up_after_join:
  assumes "folder_path d" and "plain_name n"
  shows "parentPath (joinPath d n) = Some d \<and> folder_path (joinPath d n)
       \<and> (d \<noteq> ''/'' \<longrightarrow> (\<exists>q. parentPath d = Some q \<and> (length q < length d \<or> q = ''/'')))"
proof -
  have n: "n \<noteq> []" "CHR ''/'' \<notin> set n" "last n \<noteq> CHR ''/''"
    using assms(2) by (auto simp: plain_name_def) (metis last_in_set)
  have strip: "strip_end is_slash (e @ CHR ''/'' # n) = e @ CHR ''/'' # n" for e
    using strip_slash_append_name [OF n(1,2), of "e @ [CHR ''/'']"] by simp
  have "parentPath (joinPath d n) = Some d \<and> folder_path (joinPath d n)"
  proof (cases "d = ''/''")
    case True
    then have "joinPath d n = [] @ CHR ''/'' # n" by (simp add: joinPath_def)
    with True n strip [of "[]"] js_lastIndexOf_append [OF n(2), of "[]"] show ?thesis
      by (simp add: parentPath_def includes_slash folder_path_def)
  next
    case False
    with assms(1) have d: "d \<noteq> []" "hd d = CHR ''/''" by (auto simp: folder_path_def)
    have "joinPath d n = d @ CHR ''/'' # n"
      using False folder_path_stripped [OF assms(1) False] by (simp add: joinPath_def)
    with d n strip [of d] js_lastIndexOf_append [OF n(2), of d] show ?thesis
      by (auto simp: parentPath_def includes_slash folder_path_def append_eq_Cons_conv)
  qed
  with parentPath_shortens [OF assms(1)] show ?thesis by blast
qed

lemma endsWith_append: "js_endsWith (d @ n) n"
  by (simp add: js_endsWith_def)

lemma joinPath_longer: "d \<noteq> [] \<Longrightarrow> last d \<noteq> CHR ''/'' \<Longrightarrow> joinPath d n \<noteq> d"
  by (auto simp: joinPath_def strip_end_id is_slash_def)

text \<open>Moving or copying an item into a folder whose name merely ends with the item's name does
  not put it into the folder: the destination's text is taken as the complete target path, so
  the request names the folder itself as the target.\<close>

lemma move_into_suffix_folder:
  assumes "plain_name (transferFileItem_name it)"
    and "pr_destValue pr = Some (d @ transferFileItem_name it)"
    and "js_trim (d @ transferFileItem_name it) = d @ transferFileItem_name it"
  shows "move_target path pr it = d @ transferFileItem_name it
       \<and> move_target path pr it \<noteq> joinPath (d @ transferFileItem_name it) (transferFileItem_name it)"
proof -
  let ?n = "transferFileItem_name it"
  have "?n \<noteq> []" "last ?n \<noteq> CHR ''/''" using assms(1) by (auto simp: plain_name_def) (metis last_in_set)
  moreover have "move_target path pr it = d @ ?n"
    using assms(2,3) calculation by (simp add: move_target_def Let_def endsWith_append)
  ultimately show ?thesis using joinPath_longer [of "d @ ?n" ?n] by simp
qed

section \<open>Requests\<close>

text \<open>Nothing was sent without the right to change files, and the busy flag belongs to a
  running request.\<close>

definition tr_inv :: "bool \<Rightarrow> tr_state \<Rightarrow> bool" where
  "tr_inv can s \<longleftrightarrow>
     (\<not> can \<longrightarrow> tr_sent s = [] \<and> tr_open s = [] \<and> \<not> tr_picking s) \<and> (tr_busy s \<longrightarrow> tr_open s \<noteq> [])
     \<and> (\<forall>q \<in> set (tr_open s). op_req q \<in> set (tr_sent s))"

lemma tr_run_inv: "can \<Longrightarrow> tr_inv can s \<Longrightarrow> tr_inv can (tr_run r ok c s)"
  by (auto simp: tr_inv_def tr_run_def)

lemma submitPrompt_inv: "tr_inv can s \<Longrightarrow> tr_inv can (submitPrompt can s)"
  using tr_run_inv by (auto simp: submitPrompt_def tr_inv_def split: option.splits prod.splits)

lemma tr_answer_inv: "tr_inv can s \<Longrightarrow> q \<in> set (tr_open s) \<Longrightarrow> tr_inv can (tr_answer q r s)"
  by (auto simp: tr_inv_def tr_answer_def Let_def split: sum.splits dest: notin_set_remove1)

lemma tr_step_cases:
  "tr_step can s e = Some s' \<Longrightarrow>
     (tr_sent s' = tr_sent s \<and> tr_open s' = tr_open s \<and> tr_busy s' = tr_busy s \<and> (tr_picking s' \<longrightarrow> tr_picking s \<or> can))
     \<or> (can \<and> (\<exists>r ok. s' = tr_run r ok False s))
     \<or> (tr_picking s \<and> (\<exists>r ok. s' = tr_run r ok False (s\<lparr>tr_picking := False\<rparr>))) \<or> s' = submitPrompt can s
     \<or> (\<exists>q r. q \<in> set (tr_open s) \<and> s' = tr_answer q r s)"
  by (cases e) (auto split: option.splits if_splits)

lemma tr_step_inv:
  assumes "tr_inv can s" "tr_step can s e = Some s'"
  shows "tr_inv can s'"
  using tr_step_cases [OF assms(2)]
proof (elim disjE exE conjE)
  assume "tr_sent s' = tr_sent s" "tr_open s' = tr_open s" "tr_busy s' = tr_busy s" "tr_picking s' \<longrightarrow> tr_picking s \<or> can"
  with assms(1) show ?thesis by (auto simp: tr_inv_def)
next
  fix r ok assume "tr_picking s" and s': "s' = tr_run r ok False (s\<lparr>tr_picking := False\<rparr>)"
  moreover have can using assms(1) \<open>tr_picking s\<close> by (auto simp: tr_inv_def)
  moreover have "tr_inv can (s\<lparr>tr_picking := False\<rparr>)" using assms(1) by (simp add: tr_inv_def)
  ultimately show ?thesis by (simp add: tr_run_inv)
qed (use assms(1) tr_run_inv submitPrompt_inv tr_answer_inv in blast)+

interpretation tr: started_system "tr_step can" "tr_inv can" tr_init for can
proof unfold_locales
  show "tr_inv can tr_init" by (simp add: tr_inv_def tr_init_def)
qed (rule tr_step_inv)



end
