(* ===== verification/Page_Progress.thy ===== *)
theory Page_Progress
  imports Web_Api Hub_Steps Hub_Effects
begin

text \<open>
  The progress dialog of a running operation,
  \<open>client/src/features/dashboard/DeployProgress.tsx\<close>. The effect polls the operation until
  it is in a final state; every poll in flight and every timer carries the generation of the
  effect that started it. The \<open>done\<close> the effect sees is the value captured when it
  started.
\<close>

section \<open>Model\<close>

record dp_sys =
  dp_op :: "json option"
  dp_done :: bool
  dp_capturedDone :: bool
  dp_generation :: nat
  dp_mounted :: bool
  dp_operationId :: string
  dp_polls :: "nat list"
  dp_timers :: "nat list"
  dp_onDone :: nat
  dp_closed :: nat
  dp_toasts :: "string list"

text \<open>\<open>null\<close> is the value before the first answer.\<close>

definition dp_init :: "string \<Rightarrow> dp_sys" where
  "dp_init i =
     \<lparr>dp_op = Some JNull, dp_done = False, dp_capturedDone = False, dp_generation = 0, dp_mounted = True,
      dp_operationId = i, dp_polls = [0], dp_timers = [], dp_onDone = 0, dp_closed = 0, dp_toasts = []\<rparr>"

definition op_status :: "json option \<Rightarrow> json option" where
  "op_status p = Option.bind p (json_get ''status'')"

definition final_status :: "json option \<Rightarrow> bool" where
  "final_status p \<longleftrightarrow>
     op_status p \<in> {Some (JStr ''SUCCESS''), Some (JStr ''FAILED''), Some (JStr ''CANCELLED'')}"

definition op_terminal :: "json option \<Rightarrow> bool" where
  "op_terminal p \<longleftrightarrow>
     json_truthy p \<and> op_status p \<noteq> Some (JStr ''QUEUED'') \<and> op_status p \<noteq> Some (JStr ''RUNNING'')"

definition op_failed :: "json option \<Rightarrow> bool" where
  "op_failed p \<longleftrightarrow> op_status p = Some (JStr ''FAILED'')"

text \<open>The green banner of the dialog.\<close>

definition complete_banner :: "json option \<Rightarrow> bool" where
  "complete_banner p \<longleftrightarrow> op_terminal p \<and> \<not> op_failed p"

definition dp_schedule :: "nat \<Rightarrow> dp_sys \<Rightarrow> dp_sys" where
  "dp_schedule g s = s\<lparr>dp_timers := dp_timers s @ [g]\<rparr>"

definition dp_alive :: "nat \<Rightarrow> dp_sys \<Rightarrow> bool" where
  "dp_alive g s \<longleftrightarrow> dp_mounted s \<and> g = dp_generation s"

text \<open>The poll after its await. An answer that is \<open>null\<close> throws when its status is read, after
  it was shown.\<close>

definition dp_answer :: "nat \<Rightarrow> js_error + json option \<Rightarrow> dp_sys \<Rightarrow> dp_sys" where
  "dp_answer g r s =
     (if \<not> dp_alive g s then s
      else case r of
        Inl e \<Rightarrow> dp_schedule g s
      | Inr cur \<Rightarrow>
          let s1 = s\<lparr>dp_op := cur\<rparr> in
          if final_status cur then
            (if dp_capturedDone s then s1 else s1\<lparr>dp_done := True, dp_onDone := Suc (dp_onDone s)\<rparr>)
          else dp_schedule g s1)"

definition dp_close :: "dp_sys \<Rightarrow> dp_sys" where
  "dp_close s =
     s\<lparr>dp_toasts := (if op_terminal (dp_op s) then dp_toasts s
                      else dp_toasts s @ [''Dispatch continues in the background.'']),
       dp_closed := Suc (dp_closed s)\<rparr>"

definition dp_setOperation :: "string \<Rightarrow> dp_sys \<Rightarrow> dp_sys" where
  "dp_setOperation i s =
     (if i = dp_operationId s then s
      else s\<lparr>dp_operationId := i, dp_generation := Suc (dp_generation s), dp_capturedDone := dp_done s,
             dp_timers := [], dp_polls := dp_polls s @ [Suc (dp_generation s)]\<rparr>)"

datatype dp_event =
    PollAnswer nat "js_error + json option"
  | PollTimer nat
  | PressClose
  | SetOperation string
  | UnmountDialog

fun dp_step :: "dp_sys \<Rightarrow> dp_event \<Rightarrow> dp_sys option" where
  "dp_step s (PollAnswer g r) =
     (if g \<in> set (dp_polls s) then Some (dp_answer g r (s\<lparr>dp_polls := remove1 g (dp_polls s)\<rparr>)) else None)"
| "dp_step s (PollTimer g) =
     (if g \<in> set (dp_timers s)
      then Some (s\<lparr>dp_timers := remove1 g (dp_timers s), dp_polls := dp_polls s @ [g]\<rparr>) else None)"
| "dp_step s PressClose = (if dp_mounted s then Some (dp_close s) else None)"
| "dp_step s (SetOperation i) = (if dp_mounted s then Some (dp_setOperation i s) else None)"
| "dp_step s UnmountDialog = (if dp_mounted s then Some (s\<lparr>dp_mounted := False, dp_timers := []\<rparr>) else None)"

lemmas dp_defs = dp_answer_def dp_schedule_def dp_alive_def dp_close_def dp_setOperation_def

section \<open>Invariant\<close>

text \<open>The current effect has one poll in flight, or one timer, or has seen a final state; timers
  belong to the current effect; polls of ended effects may still be in flight.\<close>

definition dp_activity :: "dp_sys \<Rightarrow> nat" where
  "dp_activity s = count_list (dp_polls s) (dp_generation s) + length (dp_timers s)"

definition dp_inv :: "dp_sys \<Rightarrow> bool" where
  "dp_inv s \<longleftrightarrow>
     (\<forall>g \<in> set (dp_polls s). g \<le> dp_generation s)
     \<and> (\<forall>g \<in> set (dp_timers s). g = dp_generation s)
     \<and> dp_activity s \<le> 1
     \<and> (dp_mounted s \<and> dp_activity s = 0 \<longrightarrow> final_status (dp_op s))
     \<and> dp_onDone s = (if dp_done s then 1 else 0)
     \<and> (dp_done s \<and> dp_activity s = 1 \<longrightarrow> dp_capturedDone s)
     \<and> (dp_capturedDone s \<longrightarrow> dp_done s)
     \<and> (\<not> dp_mounted s \<longrightarrow> dp_timers s = [])"

lemma count_list_remove1:
  "x \<in> set xs \<Longrightarrow> count_list (remove1 x xs) y = (if y = x then count_list xs y - 1 else count_list xs y)"
  by (induction xs) auto

lemma count_list_pos: "x \<in> set xs \<Longrightarrow> 0 < count_list xs x"
  by (induction xs) auto

lemma dp_answer_inv:
  assumes inv: "dp_inv s" and g: "g \<in> set (dp_polls s)"
  shows "dp_inv (dp_answer g r (s\<lparr>dp_polls := remove1 g (dp_polls s)\<rparr>))"
proof (cases "dp_alive g s")
  case False
  then have dead: "dp_mounted s \<longrightarrow> g \<noteq> dp_generation s" by (auto simp: dp_alive_def)
  have "dp_activity (s\<lparr>dp_polls := remove1 g (dp_polls s)\<rparr>) \<le> dp_activity s"
    and "dp_mounted s \<longrightarrow> dp_activity (s\<lparr>dp_polls := remove1 g (dp_polls s)\<rparr>) = dp_activity s"
    using g dead by (auto simp: dp_activity_def count_list_remove1)
  with inv False show ?thesis
    by (auto simp: dp_inv_def dp_answer_def dp_alive_def dest: notin_set_remove1)
next
  case True
  then have gen: "g = dp_generation s" and mounted: "dp_mounted s" by (auto simp: dp_alive_def)
  have "count_list (dp_polls s) g + length (dp_timers s) \<le> 1"
    using inv gen by (simp add: dp_inv_def dp_activity_def)
  with count_list_pos [OF g] have "count_list (dp_polls s) g = 1" "length (dp_timers s) = 0" by linarith+
  then have one: "count_list (dp_polls s) g = 1" "dp_timers s = []" by simp_all
  then have act: "count_list (remove1 g (dp_polls s)) g = 0" using g by (simp add: count_list_remove1)
  have cap: "dp_done s \<longrightarrow> dp_capturedDone s" "dp_capturedDone s \<longrightarrow> dp_done s"
    using inv one gen by (auto simp: dp_inv_def dp_activity_def)
  have le: "\<forall>x \<in> set (remove1 g (dp_polls s)). x \<le> dp_generation s"
    using inv by (auto simp: dp_inv_def dest: notin_set_remove1)
  show ?thesis
    using True inv gen mounted one act cap le
    by (auto simp: dp_inv_def dp_activity_def dp_answer_def dp_alive_def dp_schedule_def Let_def split: sum.splits)
qed

lemma dp_step_inv:
  assumes "dp_inv s" and "dp_step s e = Some s'"
  shows "dp_inv s'"
proof (cases e)
  case (PollAnswer g r)
  with assms dp_answer_inv show ?thesis by (auto split: if_splits)
next
  case (PollTimer g)
  with assms have mem: "g \<in> set (dp_timers s)"
    and step: "s' = s\<lparr>dp_timers := remove1 g (dp_timers s), dp_polls := dp_polls s @ [g]\<rparr>"
    by (auto split: if_splits)
  have "length (dp_timers s) \<le> 1" "g = dp_generation s"
    using assms(1) mem by (auto simp: dp_inv_def dp_activity_def)
  with mem have g: "g = dp_generation s" "dp_timers s = [g]" by (cases "dp_timers s"; auto)+
  with step have s': "s' = s\<lparr>dp_timers := [], dp_polls := dp_polls s @ [g]\<rparr>" by simp
  have "dp_activity s' = dp_activity s" using g s' by (simp add: dp_activity_def)
  with assms(1) g show ?thesis by (auto simp: dp_inv_def s')
next
  case (SetOperation i)
  with assms have s': "s' = dp_setOperation i s" by (auto split: if_splits)
  have "count_list (dp_polls s) (Suc (dp_generation s)) = 0"
    using assms(1) by (auto simp: dp_inv_def count_list_0_iff)
  with assms SetOperation show ?thesis
    by (fastforce simp: s' dp_inv_def dp_activity_def dp_setOperation_def split: if_splits)
next
  case PressClose
  with assms have "s' = dp_close s" by (auto split: if_splits)
  with assms(1) show ?thesis by (simp add: dp_inv_def dp_activity_def dp_close_def)
next
  case UnmountDialog
  with assms have "s' = s\<lparr>dp_mounted := False, dp_timers := []\<rparr>" by (auto split: if_splits)
  with assms(1) show ?thesis by (auto simp: dp_inv_def dp_activity_def)
qed

interpretation dp: started_system dp_step dp_inv "dp_init i" for i
proof unfold_locales
  show "dp_inv (dp_init i)" by (simp add: dp_inv_def dp_init_def dp_activity_def)
qed (rule dp_step_inv)

definition done_source :: "unit \<Rightarrow> dp_event \<Rightarrow> bool" where
  "done_source x e \<longleftrightarrow> (\<exists>g cur. e = PollAnswer g (Inr cur) \<and> final_status cur)"

interpretation dp_trace: traced_system dp_step "dp_init i" "\<lambda>_ s. 0 < dp_onDone s" done_source for i
proof unfold_locales
  fix s e s' x assume "dp_step s e = Some s'" "0 < dp_onDone s'"
  then show "0 < dp_onDone s \<or> done_source x e"
    by (cases e) (auto simp: done_source_def dp_defs Let_def split: if_splits sum.splits)
qed (simp add: dp_init_def)

text \<open>C35: the progress dialog polls until the operation is over and reports it once. While it is
  open there is never more than one poll or timer of the current operation, and there is
  exactly one until an answer shows a final state, whatever errors come in between; the
  completion callback runs at most once, and only after an answer with a final state; after
  closing no timer is left.\<close>

theorem progress_polls_until_done:
  assumes "run dp_step (dp_init i) es = Some s"
  shows "dp_activity s \<le> 1
       \<and> (dp_mounted s \<longrightarrow> dp_activity s = 1 \<or> final_status (dp_op s))
       \<and> dp_onDone s \<le> 1
       \<and> (0 < dp_onDone s \<longrightarrow> (\<exists>g cur. PollAnswer g (Inr cur) \<in> set es \<and> final_status cur))
       \<and> (\<not> dp_mounted s \<longrightarrow> dp_timers s = [])"
proof -
  have inv: "dp_inv s" using assms by (rule dp.reachable_inv)
  have "0 < dp_onDone s \<Longrightarrow> \<exists>g cur. PollAnswer g (Inr cur) \<in> set es \<and> final_status cur"
    using dp_trace.traced [OF assms, of "()"] unfolding done_source_def by blast
  moreover have "dp_activity s = 1 \<or> dp_activity s = 0" using inv by (auto simp: dp_inv_def)
  ultimately show ?thesis using inv unfolding dp_inv_def by auto
qed

theorem progress_polls_until_done_witness:
  "\<exists>s. run dp_step (dp_init ''op'') [PollAnswer 0 (Inl (JsError ''offline'')), PollTimer 0,
        PollAnswer 0 (Inr (Some (JObj [(''status'', JStr ''SUCCESS'')])))] = Some s
     \<and> dp_onDone s = 1 \<and> dp_activity s \<le> 1"
proof -
  obtain s where s: "run dp_step (dp_init ''op'') [PollAnswer 0 (Inl (JsError ''offline'')), PollTimer 0,
        PollAnswer 0 (Inr (Some (JObj [(''status'', JStr ''SUCCESS'')])))] = Some s" and "dp_onDone s = 1"
    by (simp add: dp_init_def dp_defs Let_def final_status_def op_status_def)
  with progress_polls_until_done [OF s] show ?thesis by blast
qed

text \<open>The dialog tells a failed operation from the others, and no other two final states
  apart: the green completion banner is shown for a successful and just as well for a
  cancelled operation.\<close>

lemma progress_banner:
  assumes "final_status (Some cur)" and "cur \<noteq> JNull"
  shows "complete_banner (Some cur) \<longleftrightarrow> json_get ''status'' cur \<in> {Some (JStr ''SUCCESS''), Some (JStr ''CANCELLED'')}"
proof -
  have "json_truthy (Some cur)" using assms by (cases cur) (auto simp: final_status_def op_status_def)
  with assms(1) show ?thesis
    by (auto simp: complete_banner_def op_terminal_def op_failed_def final_status_def op_status_def)
qed

end
