(* ===== verification/Page_Logs.thy ===== *)
theory Page_Logs
  imports Web_Api Hub_Steps Hub_Effects
begin

text \<open>
  The log viewer of the dashboard (\<open>client/src/features/dashboard/LogsViewer.tsx\<close>): container
  logs over an event source, in a window of the newest lines, with a level filter, a search
  text and a pause button. Each run of the effect opens a source of its own, numbered in order.
\<close>

section \<open>Log viewer\<close>

datatype log_level = LInfo | LWarn | LError | LDebug

definition is_word_char :: "char \<Rightarrow> bool" where
  "is_word_char c \<longleftrightarrow> is_alnum_char c \<or> c = CHR ''_''"

text \<open>The alternative \<open>err\b\<close>: the three letters, not followed by a word character.\<close>

fun has_err_word :: "string \<Rightarrow> bool" where
  "has_err_word [] = False"
| "has_err_word (c # s) =
     ((js_startsWith (c # s) ''err'' \<and> (case drop 3 (c # s) of [] \<Rightarrow> True | d # ds \<Rightarrow> \<not> is_word_char d))
      \<or> has_err_word s)"

definition levelOf :: "string \<Rightarrow> log_level" where
  "levelOf line =
     (let l = js_toLowerCase line in
      if js_includes l ''error'' \<or> has_err_word l \<or> js_includes l ''fail'' \<or> js_includes l ''exception''
         \<or> js_includes l ''fatal'' \<or> js_includes l ''panic'' then LError
      else if js_includes l ''warn'' then LWarn
      else if js_includes l ''debug'' \<or> js_includes l ''trace'' then LDebug
      else LInfo)"

definition MAX_LINES :: nat where
  "MAX_LINES = 800"

record lv_sys =
  lv_lines :: "string list"
  lv_live :: bool
  lv_query :: string
  lv_level :: "log_level option"
  lv_tail :: string
  lv_error :: "string option"
  lv_container :: string
  lv_source :: "nat option"
  lv_open :: "nat list"
  lv_made :: nat
  lv_mounted :: bool

definition logs_url :: "string option \<Rightarrow> lv_sys \<Rightarrow> string" where
  "logs_url env s = API_BASE env @ ep_containerLogsStream (lv_container s) (lv_tail s) None"

text \<open>The effect of \<open>[container, tail, live]\<close> and its cleanup.\<close>

definition lv_subscribe :: "lv_sys \<Rightarrow> lv_sys" where
  "lv_subscribe s =
     (let s1 = s\<lparr>lv_lines := [], lv_error := None\<rparr> in
      if \<not> lv_live s \<or> lv_container s = [] then s1
      else s1\<lparr>lv_source := Some (lv_made s), lv_open := lv_made s # lv_open s, lv_made := Suc (lv_made s)\<rparr>)"

definition lv_cleanup :: "lv_sys \<Rightarrow> lv_sys" where
  "lv_cleanup s =
     (case lv_source s of
        None \<Rightarrow> s
      | Some i \<Rightarrow> s\<lparr>lv_open := removeAll i (lv_open s), lv_source := None\<rparr>)"

definition lv_restart :: "lv_sys \<Rightarrow> lv_sys" where
  "lv_restart s = lv_subscribe (lv_cleanup s)"

definition lv_init :: "string \<Rightarrow> lv_sys" where
  "lv_init c =
     lv_subscribe
       \<lparr>lv_lines = [], lv_live = True, lv_query = [], lv_level = None, lv_tail = ''200'', lv_error = None,
        lv_container = c, lv_source = None, lv_open = [], lv_made = 0, lv_mounted = True\<rparr>"

definition log_chunk :: "string \<Rightarrow> string list" where
  "log_chunk d = filter (\<lambda>l. l \<noteq> []) (js_split (CHR 0x0A) d)"

definition lv_message :: "string \<Rightarrow> lv_sys \<Rightarrow> lv_sys" where
  "lv_message d s =
     (if log_chunk d = [] then s
      else s\<lparr>lv_lines := take_last MAX_LINES (take_last MAX_LINES (lv_lines s) @ log_chunk d)\<rparr>)"

definition interrupted_message :: string where
  "interrupted_message =
     ''Stream interrupted '' @ [CHR 0xE2, CHR 0x80, CHR 0x94] @ '' the shipyard may be unreachable. Resume to retry.''"

definition lv_streamError :: "nat \<Rightarrow> lv_sys \<Rightarrow> lv_sys" where
  "lv_streamError i s = s\<lparr>lv_error := Some interrupted_message, lv_open := removeAll i (lv_open s)\<rparr>"

definition lv_visible :: "lv_sys \<Rightarrow> string list" where
  "lv_visible s =
     (let q = js_toLowerCase (js_trim (lv_query s)) in
      filter (\<lambda>l. (lv_level s = None \<or> lv_level s = Some (levelOf l)) \<and> (q = [] \<or> js_includes (js_toLowerCase l) q))
        (lv_lines s))"

datatype lv_event =
    LogMessage nat string
  | LogError nat
  | ToggleLive
  | SetTail string
  | SetLogContainer string
  | SetLogQuery string
  | SetLogLevel "log_level option"
  | ClearLog
  | LeaveLog

fun lv_step :: "lv_sys \<Rightarrow> lv_event \<Rightarrow> lv_sys option" where
  "lv_step s (LogMessage i d) = (if i \<in> set (lv_open s) then Some (lv_message d s) else None)"
| "lv_step s (LogError i) = (if i \<in> set (lv_open s) then Some (lv_streamError i s) else None)"
| "lv_step s ToggleLive = (if lv_mounted s then Some (lv_restart (s\<lparr>lv_live := \<not> lv_live s\<rparr>)) else None)"
| "lv_step s (SetTail t) =
     (if \<not> lv_mounted s then None
      else if t = lv_tail s then Some s else Some (lv_restart (s\<lparr>lv_tail := t\<rparr>)))"
| "lv_step s (SetLogContainer c) =
     (if \<not> lv_mounted s then None
      else if c = lv_container s then Some s else Some (lv_restart (s\<lparr>lv_container := c\<rparr>)))"
| "lv_step s (SetLogQuery q) = (if lv_mounted s then Some (s\<lparr>lv_query := q\<rparr>) else None)"
| "lv_step s (SetLogLevel l) = (if lv_mounted s then Some (s\<lparr>lv_level := l\<rparr>) else None)"
| "lv_step s ClearLog = (if lv_mounted s then Some (s\<lparr>lv_lines := []\<rparr>) else None)"
| "lv_step s LeaveLog = (if lv_mounted s then Some ((lv_cleanup s)\<lparr>lv_mounted := False\<rparr>) else None)"

lemmas lv_defs = lv_subscribe_def lv_cleanup_def lv_restart_def lv_message_def lv_streamError_def

text \<open>The window is bounded, and the open stream is the current effect's; it is open exactly while
  the viewer is live on a container and has not been interrupted.\<close>

definition lv_inv :: "lv_sys \<Rightarrow> bool" where
  "lv_inv s \<longleftrightarrow>
     length (lv_lines s) \<le> MAX_LINES
     \<and> lv_open s = (if lv_mounted s \<and> lv_live s \<and> lv_container s \<noteq> [] \<and> lv_error s = None
                     then (case lv_source s of None \<Rightarrow> [] | Some i \<Rightarrow> [i]) else [])
     \<and> (lv_mounted s \<longrightarrow> (lv_source s \<noteq> None \<longleftrightarrow> lv_live s \<and> lv_container s \<noteq> []))
     \<and> (\<not> lv_mounted s \<longrightarrow> lv_source s = None)"

lemma removeAll_only: "set xs \<subseteq> {a} \<Longrightarrow> removeAll a xs = []"
  by (induction xs) auto

lemma lv_restart_inv:
  "set (lv_open s) \<subseteq> set_option (lv_source s) \<Longrightarrow> lv_mounted s \<Longrightarrow> lv_inv (lv_restart s)"
  by (cases "lv_source s") (auto simp: lv_inv_def lv_defs Let_def MAX_LINES_def removeAll_only)

lemma lv_inv_open: "lv_inv s \<Longrightarrow> set (lv_open s) \<subseteq> set_option (lv_source s)"
proof -
  assume "lv_inv s"
  then have "lv_open s = [] \<or> lv_open s = (case lv_source s of None \<Rightarrow> [] | Some i \<Rightarrow> [i])"
    unfolding lv_inv_def by (metis (full_types))
  then show ?thesis by (cases "lv_source s") auto
qed

lemma lv_inv_cases:
  assumes "lv_inv s"
  obtains "lv_open s = []" | i where "lv_open s = [i]" "lv_source s = Some i" "lv_error s = None"
proof (cases "lv_mounted s \<and> lv_live s \<and> lv_container s \<noteq> [] \<and> lv_error s = None")
  case True
  with assms that show ?thesis unfolding lv_inv_def by (cases "lv_source s") auto
next
  case False
  with assms that(1) show ?thesis unfolding lv_inv_def by (metis (full_types))
qed

lemma lv_inv_frame:
  "lv_inv (s\<lparr>lv_query := q\<rparr>) \<longleftrightarrow> lv_inv s" "lv_inv (s\<lparr>lv_level := l\<rparr>) \<longleftrightarrow> lv_inv s"
  "lv_inv s \<Longrightarrow> lv_inv (s\<lparr>lv_lines := []\<rparr>)"
  by (simp_all add: lv_inv_def)

lemma lv_step_inv:
  assumes "lv_inv s" and "lv_step s e = Some s'"
  shows "lv_inv s'"
proof -
  have restart: "lv_inv (lv_restart (s\<lparr>lv_live := x\<rparr>))" "lv_inv (lv_restart (s\<lparr>lv_tail := t\<rparr>))"
    "lv_inv (lv_restart (s\<lparr>lv_container := c\<rparr>))" if "lv_mounted s" for x t c
    using that lv_inv_open [OF assms(1)] by (auto intro!: lv_restart_inv)
  have parts: "length (lv_lines s) \<le> MAX_LINES"
    "lv_mounted s \<longrightarrow> (lv_source s \<noteq> None \<longleftrightarrow> lv_live s \<and> lv_container s \<noteq> [])"
    "\<not> lv_mounted s \<longrightarrow> lv_source s = None"
    using assms(1) unfolding lv_inv_def by blast+
  show ?thesis
  proof (cases e)
    case (LogMessage i d)
    then have "s' = lv_message d s" using assms(2) by (auto split: if_splits)
    then show ?thesis using assms(1) by (simp add: lv_inv_def lv_message_def)
  next
    case (LogError i)
    then have "s' = lv_streamError i s" "i \<in> set (lv_open s)" using assms(2) by (auto split: if_splits)
    moreover have "removeAll i (lv_open s) = []"
      using \<open>i \<in> set (lv_open s)\<close> by (cases rule: lv_inv_cases [OF assms(1)]) auto
    ultimately show ?thesis using parts by (simp add: lv_inv_def lv_streamError_def)
  next
    case LeaveLog
    then have "s' = (lv_cleanup s)\<lparr>lv_mounted := False\<rparr>" using assms(2) by (auto split: if_splits)
    then show ?thesis using parts lv_inv_open [OF assms(1)]
      by (cases "lv_source s") (simp_all add: lv_inv_def lv_cleanup_def removeAll_only)
  qed (use assms restart lv_inv_frame in \<open>auto split: if_splits\<close>)
qed

interpretation lv: started_system lv_step lv_inv "lv_init c" for c
proof unfold_locales
  show "lv_inv (lv_init c)"
    by (simp add: lv_init_def lv_inv_def lv_subscribe_def Let_def)
qed (rule lv_step_inv)

lemma lv_message_lines:
  "length (lv_lines s) \<le> MAX_LINES \<Longrightarrow> lv_lines (lv_message d s) = take_last MAX_LINES (lv_lines s @ log_chunk d)"
  by (simp add: lv_message_def take_last_append take_last_all)

lemma lv_messages:
  "length (lv_lines s) \<le> MAX_LINES \<Longrightarrow> i \<in> set (lv_open s) \<Longrightarrow>
     \<exists>s'. run lv_step s (map (LogMessage i) ds) = Some s'
       \<and> lv_lines s' = take_last MAX_LINES (lv_lines s @ concat (map log_chunk ds))"
proof (induction ds arbitrary: s)
  case Nil
  then show ?case by (simp add: take_last_all)
next
  case (Cons d ds)
  let ?t = "lv_message d s"
  have "lv_open ?t = lv_open s" by (simp add: lv_message_def)
  with Cons.IH [of ?t] Cons.prems lv_message_lines [OF Cons.prems(1), of d] show ?case
    by (auto simp: take_last_append)
qed

text \<open>The log view is exactly the newest lines. In every state the view holds at most 800
  lines and at most one stream is open, which is the case exactly while the viewer is live
  on a container and not interrupted; the messages of the open stream append their non-empty
  lines in order, and only the oldest lines beyond 800 are dropped, never one in the middle
  or a new one. The lines shown are those that match level and search text.\<close>

lemma logs_newest_lines:
  assumes "run lv_step (lv_init c) es = Some s"
  shows "length (lv_lines s) \<le> 800 \<and> length (lv_open s) \<le> 1
       \<and> (lv_mounted s \<longrightarrow> (lv_open s \<noteq> [] \<longleftrightarrow> lv_live s \<and> lv_container s \<noteq> [] \<and> lv_error s = None))
       \<and> (\<forall>i \<in> set (lv_open s). \<exists>s'. run lv_step s (map (LogMessage i) ds) = Some s'
            \<and> lv_lines s' = take_last 800 (lv_lines s @ concat (map log_chunk ds)))
       \<and> (\<forall>l \<in> set (lv_visible s). l \<in> set (lv_lines s) \<and> (lv_level s \<noteq> None \<longrightarrow> lv_level s = Some (levelOf l)))"
proof -
  have inv: "lv_inv s" using assms by (rule lv.reachable_inv)
  have len: "length (lv_lines s) \<le> MAX_LINES" using inv by (simp add: lv_inv_def)
  have "length (lv_open s) \<le> 1" by (cases rule: lv_inv_cases [OF inv]) auto
  moreover have "lv_mounted s \<longrightarrow> (lv_open s \<noteq> [] \<longleftrightarrow> lv_live s \<and> lv_container s \<noteq> [] \<and> lv_error s = None)"
    using inv unfolding lv_inv_def by (cases "lv_source s") simp_all
  moreover have "\<forall>l \<in> set (lv_visible s). l \<in> set (lv_lines s) \<and> (lv_level s \<noteq> None \<longrightarrow> lv_level s = Some (levelOf l))"
    by (auto simp: lv_visible_def Let_def)
  ultimately show ?thesis using len lv_messages [OF len] by (simp add: MAX_LINES_def)
qed

text \<open>Pausing the viewer does not freeze the log, it empties it: whatever was on screen, the
  view after the pause button has no line, and resuming starts a new stream from nothing.\<close>

lemma logs_pause_empties:
  assumes "run lv_step (lv_init c) es = Some s" and "lv_mounted s" and "lv_live s"
  shows "\<exists>s'. lv_step s ToggleLive = Some s' \<and> \<not> lv_live s' \<and> lv_lines s' = [] \<and> lv_open s' = []"
proof -
  have inv: "lv_inv s" using assms(1) by (rule lv.reachable_inv)
  have "lv_inv (lv_restart (s\<lparr>lv_live := False\<rparr>))"
    using lv_inv_open [OF inv] assms(2) by (auto intro!: lv_restart_inv)
  moreover have "\<not> lv_live (lv_restart (s\<lparr>lv_live := False\<rparr>))" "lv_lines (lv_restart (s\<lparr>lv_live := False\<rparr>)) = []"
    by (simp_all add: lv_defs Let_def split: option.splits)
  ultimately show ?thesis using assms(2,3) by (simp add: lv_inv_def)
qed

end
