(* ===== verification/Page_Terminal.thy ===== *)
theory Page_Terminal
  imports Web_Api Hub_Steps Hub_Effects
begin

text \<open>
  The terminal dialog, \<open>client/src/features/dashboard/TerminalModal.tsx\<close>: after a
  confirmation, each run of its effect asks for an exec token and opens a web socket with it;
  changing the container or the shell ends the run and starts another. Runs are numbered; the
  \<open>alive\<close> flag of a run is set exactly while it is the current one. Requests and sockets
  of ended runs stay in the model, since their callbacks can still fire. The size of the
  terminal (\<open>FitAddon\<close>, a library) comes with the events that read it.
\<close>

section \<open>Frames as text\<close>

text \<open>\<open>Blob.text()\<close> is the UTF-8 decoding of the web platform: an ill-formed sequence is
  replaced by U+FFFD, the byte that broke it is read again, and a leading byte order mark is
  dropped. \<open>utf8_go buf n lo hi\<close> has read the bytes \<open>buf\<close> of a character that needs
  \<open>n\<close> more, the next one between \<open>lo\<close> and \<open>hi\<close>.\<close>

definition replacement_char :: string where
  "replacement_char = [CHR 0xEF, CHR 0xBF, CHR 0xBD]"

function utf8_go :: "string \<Rightarrow> nat \<Rightarrow> nat \<Rightarrow> nat \<Rightarrow> string \<Rightarrow> string" where
  "utf8_go buf 0 lo hi [] = []"
| "utf8_go buf 0 lo hi (c # s) =
     (let b = (of_char c :: nat) in
      if b \<le> 0x7F then c # utf8_go [] 0 0x80 0xBF s
      else if 0xC2 \<le> b \<and> b \<le> 0xDF then utf8_go [c] 1 0x80 0xBF s
      else if 0xE0 \<le> b \<and> b \<le> 0xEF then
        utf8_go [c] 2 (if b = 0xE0 then 0xA0 else 0x80) (if b = 0xED then 0x9F else 0xBF) s
      else if 0xF0 \<le> b \<and> b \<le> 0xF4 then
        utf8_go [c] 3 (if b = 0xF0 then 0x90 else 0x80) (if b = 0xF4 then 0x8F else 0xBF) s
      else replacement_char @ utf8_go [] 0 0x80 0xBF s)"
| "utf8_go buf (Suc n) lo hi [] = replacement_char"
| "utf8_go buf (Suc n) lo hi (c # s) =
     (let b = (of_char c :: nat) in
      if b < lo \<or> hi < b then replacement_char @ utf8_go [] 0 0x80 0xBF (c # s)
      else if n = 0 then buf @ c # utf8_go [] 0 0x80 0xBF s
      else utf8_go (buf @ [c]) n 0x80 0xBF s)"
  by pat_completeness auto

termination
  by (relation "measure (\<lambda>(buf, n, lo, hi, s). 2 * length s + (if n = 0 then 0 else 1))") auto

definition blob_text :: "string \<Rightarrow> string" where
  "blob_text s =
     utf8_go [] 0 0x80 0xBF
       (if js_startsWith s [CHR 0xEF, CHR 0xBB, CHR 0xBF] then drop 3 s else s)"

section \<open>Model\<close>

definition wsBase :: "string \<Rightarrow> string" where
  "wsBase base = (if js_startsWith base ''http'' then ''ws'' @ drop 4 base else base)"

datatype ws_state = WsConnecting | WsOpen | WsClosing | WsClosed

record tm_socket =
  ws_run :: nat
  ws_target :: "string \<times> string"
  ws_url :: string
  ws_dims :: "(int \<times> int) option"
  ws_ready :: ws_state

definition ws_live :: "tm_socket \<Rightarrow> bool" where
  "ws_live w \<longleftrightarrow> ws_ready w = WsConnecting \<or> ws_ready w = WsOpen"

definition ws_close :: "tm_socket \<Rightarrow> tm_socket" where
  "ws_close w = (if ws_live w then w\<lparr>ws_ready := WsClosing\<rparr> else w)"

datatype tm_status = TmConnecting | TmConnected | TmEnded

record tm_sys =
  tm_options :: "string list"
  tm_container :: string
  tm_shell :: string
  tm_confirmed :: bool
  tm_status :: tm_status
  tm_error :: "string option"
  tm_run :: "nat option"
  tm_made :: nat
  tm_grants :: "(nat \<times> string \<times> string) list"
  tm_asked :: "ExecReply call list"
  tm_sockets :: "tm_socket list"
  tm_screen :: "string list"
  tm_decoding :: "(nat \<times> string) list"
  tm_sent :: "(nat \<times> string) list"
  tm_mounted :: bool
  tm_closes :: nat

definition terminal_candidates :: "Service list \<Rightarrow> string list" where
  "terminal_candidates services = filter (\<lambda>c. c \<noteq> []) (List.map_filter service_containerName services)"

definition tm_init :: "Service list \<Rightarrow> string option \<Rightarrow> tm_sys" where
  "tm_init services initial =
     \<lparr>tm_options = terminal_candidates services,
      tm_container = or_else initial (case terminal_candidates services of [] \<Rightarrow> [] | c # cs \<Rightarrow> c),
      tm_shell = ''/bin/sh'', tm_confirmed = False, tm_status = TmConnecting, tm_error = None,
      tm_run = None, tm_made = 0, tm_grants = [], tm_asked = [], tm_sockets = [], tm_screen = [],
      tm_decoding = [], tm_sent = [], tm_mounted = True, tm_closes = 0\<rparr>"

text \<open>The effect of \<open>[confirmed, container, shell]\<close> up to its first await, and its cleanup. The
  box it draws into is on the page whenever the dialog is confirmed.\<close>

definition tm_effect :: "tm_sys \<Rightarrow> tm_sys" where
  "tm_effect s =
     (if \<not> tm_confirmed s \<or> tm_container s = [] then s
      else s\<lparr>tm_run := Some (tm_made s), tm_made := Suc (tm_made s), tm_screen := [],
             tm_status := TmConnecting, tm_error := None,
             tm_grants := (tm_made s, tm_container s, tm_shell s) # tm_grants s,
             tm_asked := api_execToken (tm_container s) (Some (tm_shell s)) None # tm_asked s\<rparr>)"

definition close_run :: "nat \<Rightarrow> tm_socket list \<Rightarrow> tm_socket list" where
  "close_run g ws = map (\<lambda>w. if ws_run w = g then ws_close w else w) ws"

definition tm_cleanup :: "tm_sys \<Rightarrow> tm_sys" where
  "tm_cleanup s =
     (case tm_run s of
        None \<Rightarrow> s
      | Some g \<Rightarrow> s\<lparr>tm_sockets := close_run g (tm_sockets s), tm_run := None, tm_screen := []\<rparr>)"

definition tm_fail :: "string \<Rightarrow> tm_sys \<Rightarrow> tm_sys" where
  "tm_fail m s = s\<lparr>tm_error := Some m, tm_status := TmEnded\<rparr>"

text \<open>The rest of the effect once the token request of run \<open>g\<close> has answered. \<open>refused\<close> is the
  message with which the \<open>WebSocket\<close> constructor throws, if it does; \<open>tmsg\<close> the one of
  reading a field of nothing.\<close>

definition tm_granted ::
  "string \<Rightarrow> string \<Rightarrow> nat \<times> string \<times> string \<Rightarrow> js_error + json option \<Rightarrow> string option \<Rightarrow> (int \<times> int) option \<Rightarrow> tm_sys \<Rightarrow> tm_sys"
where
  "tm_granted base tmsg r answer refused dims s =
     (if tm_run s \<noteq> Some (fst r) then s
      else case answer of
        Inl e \<Rightarrow> tm_fail (error_message e) s
      | Inr grant \<Rightarrow>
          (case field_of tmsg ''token'' grant of
             Inl e \<Rightarrow> tm_fail (error_message e) s
           | Inr tok \<Rightarrow>
               (case refused of
                  Some m \<Rightarrow> tm_fail m s
                | None \<Rightarrow> s\<lparr>tm_sockets :=
                      \<lparr>ws_run = fst r, ws_target = snd r, ws_url = wsBase base @ ep_execSession (template_text tok),
                       ws_dims = dims, ws_ready = WsConnecting\<rparr> # tm_sockets s\<rparr>)))"

definition session_ended :: string where
  "session_ended =
     [CHR 0x0D, CHR 0x0A, CHR 0x1B] @ ''[33m[session ended]'' @ [CHR 0x1B] @ ''[0m'' @ [CHR 0x0D, CHR 0x0A]"

definition socket_error :: string where
  "socket_error = ''Socket error '' @ [CHR 0xE2, CHR 0x80, CHR 0x94] @ '' the session dropped.''"

definition dims_message :: "int \<times> int \<Rightarrow> string" where
  "dims_message d = JSON_stringify (JObj [(''cols'', jint (fst d)), (''rows'', jint (snd d))])"

definition set_ready :: "nat \<Rightarrow> ws_state \<Rightarrow> tm_sys \<Rightarrow> tm_sys" where
  "set_ready g r s =
     s\<lparr>tm_sockets := map (\<lambda>w. if ws_run w = g then w\<lparr>ws_ready := r\<rparr> else w) (tm_sockets s)\<rparr>"

definition tm_socket_of :: "nat \<Rightarrow> tm_sys \<Rightarrow> tm_socket option" where
  "tm_socket_of g s = List.find (\<lambda>w. ws_run w = g) (tm_sockets s)"

definition tm_write :: "string \<Rightarrow> tm_sys \<Rightarrow> tm_sys" where
  "tm_write t s = s\<lparr>tm_screen := tm_screen s @ [t]\<rparr>"

text \<open>\<open>ws.send\<close> on the current run's socket, when that is open.\<close>

definition tm_send :: "string \<Rightarrow> tm_sys \<Rightarrow> tm_sys" where
  "tm_send d s =
     (case tm_run s of
        None \<Rightarrow> s
      | Some g \<Rightarrow> (case tm_socket_of g s of
            None \<Rightarrow> s
          | Some w \<Rightarrow> if ws_ready w = WsOpen then s\<lparr>tm_sent := tm_sent s @ [(g, d)]\<rparr> else s))"

definition tm_onopen :: "tm_socket \<Rightarrow> tm_sys \<Rightarrow> tm_sys" where
  "tm_onopen w s =
     (let s1 = set_ready (ws_run w) WsOpen s in
      if tm_run s \<noteq> Some (ws_run w) then s1
      else case ws_dims w of
             None \<Rightarrow> s1\<lparr>tm_status := TmConnected\<rparr>
           | Some d \<Rightarrow> tm_send (dims_message d) (s1\<lparr>tm_status := TmConnected\<rparr>))"

definition tm_onclose :: "nat \<Rightarrow> tm_sys \<Rightarrow> tm_sys" where
  "tm_onclose g s =
     (let s1 = set_ready g WsClosed s in
      if tm_run s \<noteq> Some g then s1 else tm_write session_ended (s1\<lparr>tm_status := TmEnded\<rparr>))"

text \<open>A failed connection leaves the open state before its error handler runs.\<close>

definition tm_onerror :: "nat \<Rightarrow> tm_sys \<Rightarrow> tm_sys" where
  "tm_onerror g s =
     (let s1 = set_ready g WsClosing s in
      if tm_run s \<noteq> Some g then s1 else s1\<lparr>tm_error := Some socket_error\<rparr>)"

datatype tm_event =
    ConfirmTerminal
  | PickContainer string
  | PickShell string
  | TokenAnswer nat "js_error + json option" "string option" "(int \<times> int) option"
  | SocketOpened nat
  | SocketText nat string
  | SocketBinary nat string
  | FrameDecoded nat
  | SocketClosed nat
  | SocketFailed nat
  | TypeData string
  | ResizeWindow "(int \<times> int) option"
  | CloseTerminal
  | UnmountTerminal

fun tm_step :: "string \<Rightarrow> string \<Rightarrow> tm_sys \<Rightarrow> tm_event \<Rightarrow> tm_sys option" where
  "tm_step base tmsg s ConfirmTerminal =
     (if tm_mounted s \<and> \<not> tm_confirmed s then Some (tm_effect (s\<lparr>tm_confirmed := True\<rparr>)) else None)"
| "tm_step base tmsg s (PickContainer c) =
     (if \<not> (tm_mounted s \<and> tm_confirmed s \<and> 1 < length (tm_options s) \<and> c \<in> set (tm_options s)) then None
      else if c = tm_container s then Some s
      else Some (tm_effect ((tm_cleanup s)\<lparr>tm_container := c\<rparr>)))"
| "tm_step base tmsg s (PickShell sh) =
     (if \<not> (tm_mounted s \<and> tm_confirmed s \<and> sh \<in> {''/bin/sh'', ''/bin/bash''}) then None
      else if sh = tm_shell s then Some s
      else Some (tm_effect ((tm_cleanup s)\<lparr>tm_shell := sh\<rparr>)))"
| "tm_step base tmsg s (TokenAnswer g answer refused dims) =
     (case List.find (\<lambda>r. fst r = g) (tm_grants s) of
        None \<Rightarrow> None
      | Some r \<Rightarrow> Some (tm_granted base tmsg r answer refused dims
                          (s\<lparr>tm_grants := filter (\<lambda>q. fst q \<noteq> g) (tm_grants s)\<rparr>)))"
| "tm_step base tmsg s (SocketOpened g) =
     (case tm_socket_of g s of
        Some w \<Rightarrow> if ws_ready w = WsConnecting then Some (tm_onopen w s) else None
      | None \<Rightarrow> None)"
| "tm_step base tmsg s (SocketText g t) =
     (case tm_socket_of g s of
        Some w \<Rightarrow> if ws_ready w \<noteq> WsOpen then None
                  else Some (if tm_run s = Some g then tm_write t s else s)
      | None \<Rightarrow> None)"
| "tm_step base tmsg s (SocketBinary g bs) =
     (case tm_socket_of g s of
        Some w \<Rightarrow> if ws_ready w \<noteq> WsOpen then None
                  else Some (if tm_run s = Some g then s\<lparr>tm_decoding := tm_decoding s @ [(g, bs)]\<rparr> else s)
      | None \<Rightarrow> None)"
| "tm_step base tmsg s (FrameDecoded k) =
     (if k < length (tm_decoding s) then
        let (g, bs) = tm_decoding s ! k;
            s1 = s\<lparr>tm_decoding := take k (tm_decoding s) @ drop (Suc k) (tm_decoding s)\<rparr>
        in Some (if tm_run s = Some g then tm_write (blob_text bs) s1 else s1)
      else None)"
| "tm_step base tmsg s (SocketClosed g) =
     (case tm_socket_of g s of
        Some w \<Rightarrow> if ws_ready w \<noteq> WsClosed then Some (tm_onclose g s) else None
      | None \<Rightarrow> None)"
| "tm_step base tmsg s (SocketFailed g) =
     (case tm_socket_of g s of
        Some w \<Rightarrow> if ws_ready w \<noteq> WsClosed then Some (tm_onerror g s) else None
      | None \<Rightarrow> None)"
| "tm_step base tmsg s (TypeData d) = (if tm_mounted s then Some (tm_send d s) else None)"
| "tm_step base tmsg s (ResizeWindow dims) =
     (case dims of None \<Rightarrow> Some s | Some d \<Rightarrow> Some (tm_send (dims_message d) s))"
| "tm_step base tmsg s CloseTerminal = (if tm_mounted s then Some (s\<lparr>tm_closes := Suc (tm_closes s)\<rparr>) else None)"
| "tm_step base tmsg s UnmountTerminal =
     (if tm_mounted s then Some ((tm_cleanup s)\<lparr>tm_mounted := False\<rparr>) else None)"

lemmas tm_defs = tm_effect_def tm_cleanup_def tm_fail_def tm_granted_def tm_onopen_def tm_onclose_def
  tm_onerror_def tm_send_def tm_write_def set_ready_def close_run_def

section \<open>One session, for the container shown\<close>

definition tm_inv :: "tm_sys \<Rightarrow> bool" where
  "tm_inv s \<longleftrightarrow>
     distinct (map ws_run (tm_sockets s) @ map fst (tm_grants s))
     \<and> (\<forall>w \<in> set (tm_sockets s). ws_run w < tm_made s)
     \<and> (\<forall>r \<in> set (tm_grants s). fst r < tm_made s)
     \<and> (\<forall>g. tm_run s = Some g \<longrightarrow> g < tm_made s)
     \<and> (\<forall>w \<in> set (tm_sockets s). ws_live w \<longrightarrow> tm_run s = Some (ws_run w))
     \<and> (\<forall>w \<in> set (tm_sockets s). tm_run s = Some (ws_run w) \<longrightarrow> ws_target w = (tm_container s, tm_shell s))
     \<and> (\<forall>r \<in> set (tm_grants s). tm_run s = Some (fst r) \<longrightarrow> snd r = (tm_container s, tm_shell s))
     \<and> (\<not> tm_confirmed s \<longrightarrow> tm_made s = 0 \<and> tm_asked s = [])
     \<and> (\<not> tm_mounted s \<longrightarrow> tm_run s = None)"

lemma ws_live_close [simp]: "\<not> ws_live (ws_close w)"
  by (auto simp: ws_close_def ws_live_def)

lemma ws_close_keeps [simp]:
  "ws_run (ws_close w) = ws_run w" "ws_target (ws_close w) = ws_target w"
  by (simp_all add: ws_close_def)

lemma tm_inv_live: "tm_inv s \<Longrightarrow> w \<in> set (tm_sockets s) \<Longrightarrow> ws_live w \<Longrightarrow> tm_run s = Some (ws_run w)"
  by (simp add: tm_inv_def)

text \<open>Replacing sockets one by one, each by one of the same run and target that is live only in
  the current run, keeps the invariant.\<close>

lemma tm_inv_sockets:
  assumes "tm_inv s" and "\<And>w. ws_run (f w) = ws_run w" "\<And>w. ws_target (f w) = ws_target w"
    and "\<And>w. w \<in> set (tm_sockets s) \<Longrightarrow> ws_live (f w) \<Longrightarrow> tm_run s = Some (ws_run w)"
  shows "tm_inv (s\<lparr>tm_sockets := map f (tm_sockets s)\<rparr>)"
  using assms by (auto simp: tm_inv_def o_def)

lemma tm_inv_stop:
  "tm_inv s \<Longrightarrow> \<forall>w \<in> set (tm_sockets s). \<not> ws_live w \<Longrightarrow> tm_inv (s\<lparr>tm_run := None, tm_screen := []\<rparr>)"
  by (simp add: tm_inv_def)

lemma tm_cleanup_inv:
  assumes "tm_inv s"
  shows "tm_inv (tm_cleanup s) \<and> tm_run (tm_cleanup s) = None"
proof (cases "tm_run s")
  case None
  with assms show ?thesis by (simp add: tm_cleanup_def)
next
  case (Some g)
  let ?t = "s\<lparr>tm_sockets := close_run g (tm_sockets s)\<rparr>"
  have "tm_inv ?t" unfolding close_run_def by (rule tm_inv_sockets) (auto simp: assms dest: tm_inv_live [OF assms] split: if_splits)
  moreover have "\<forall>w \<in> set (tm_sockets ?t). \<not> ws_live w"
    using Some by (auto simp: close_run_def dest: tm_inv_live [OF assms])
  ultimately have "tm_inv (?t\<lparr>tm_run := None, tm_screen := []\<rparr>)" by (rule tm_inv_stop)
  with Some show ?thesis by (simp add: tm_cleanup_def)
qed

lemma tm_effect_inv:
  "tm_inv s \<Longrightarrow> tm_run s = None \<Longrightarrow> tm_mounted s \<Longrightarrow> tm_inv (tm_effect s)"
  by (auto simp: tm_inv_def tm_effect_def)

lemma tm_socket_of_Some:
  "tm_socket_of g s = Some w \<Longrightarrow> w \<in> set (tm_sockets s) \<and> ws_run w = g"
  by (auto simp: tm_socket_of_def find_Some_iff)

lemma set_ready_inv:
  assumes "tm_inv s" and "r = WsOpen \<Longrightarrow> tm_run s = Some g" and "r \<noteq> WsConnecting"
  shows "tm_inv (set_ready g r s)"
  unfolding set_ready_def
proof (rule tm_inv_sockets)
  fix w assume "w \<in> set (tm_sockets s)" "ws_live (if ws_run w = g then w\<lparr>ws_ready := r\<rparr> else w)"
  with assms(2,3) tm_inv_live [OF assms(1)] show "tm_run s = Some (ws_run w)"
    by (auto simp: ws_live_def split: if_splits)
qed (simp_all add: assms(1))

text \<open>The parts of the state that the invariant does not read.\<close>

lemma tm_inv_frame [simp]:
  "tm_inv (s\<lparr>tm_status := st\<rparr>) = tm_inv s" "tm_inv (s\<lparr>tm_error := er\<rparr>) = tm_inv s"
  "tm_inv (s\<lparr>tm_screen := sc\<rparr>) = tm_inv s" "tm_inv (s\<lparr>tm_decoding := ds\<rparr>) = tm_inv s"
  "tm_inv (s\<lparr>tm_sent := fs\<rparr>) = tm_inv s" "tm_inv (s\<lparr>tm_closes := n\<rparr>) = tm_inv s"
  by (simp_all add: tm_inv_def)

lemma tm_send_inv [simp]: "tm_inv (tm_send d s) = tm_inv s"
  by (simp add: tm_send_def split: option.splits)

lemma tm_granted_inv:
  assumes "tm_inv s" and "r \<in> set (tm_grants s)"
  shows "tm_inv (tm_granted base tmsg r a refused dims
           (s\<lparr>tm_grants := filter (\<lambda>q. fst q \<noteq> fst r) (tm_grants s)\<rparr>))"
proof -
  let ?t = "s\<lparr>tm_grants := filter (\<lambda>q. fst q \<noteq> fst r) (tm_grants s)\<rparr>"
  have t: "tm_inv ?t" using assms(1) by (auto simp: tm_inv_def distinct_map_filter)
  have "tm_inv (?t\<lparr>tm_sockets := w # tm_sockets s\<rparr>)"
    if "tm_run s = Some (fst r)" "ws_run w = fst r" "ws_target w = snd r" for w
    using t assms that by (auto simp: tm_inv_def)
  with t show ?thesis by (auto simp: tm_granted_def tm_fail_def split: sum.splits option.splits)
qed

lemma tm_inv_retarget:
  "tm_inv s \<Longrightarrow> tm_run s = None \<Longrightarrow> tm_inv (s\<lparr>tm_container := c\<rparr>)"
  "tm_inv s \<Longrightarrow> tm_run s = None \<Longrightarrow> tm_inv (s\<lparr>tm_shell := sh\<rparr>)"
  "tm_inv s \<Longrightarrow> tm_inv (s\<lparr>tm_confirmed := True\<rparr>)"
  "tm_inv s \<Longrightarrow> tm_run s = None \<Longrightarrow> tm_inv (s\<lparr>tm_mounted := False\<rparr>)"
  by (simp_all add: tm_inv_def)

lemma tm_inv_unconfirmed: "tm_inv s \<Longrightarrow> \<not> tm_confirmed s \<Longrightarrow> tm_run s = None"
  by (cases "tm_run s") (auto simp: tm_inv_def)

lemma tm_cleanup_mounted [simp]: "tm_mounted (tm_cleanup s) = tm_mounted s"
  by (simp add: tm_cleanup_def split: option.splits)

lemma tm_step_inv:
  assumes "tm_inv s" and "tm_step base tmsg s e = Some s'"
  shows "tm_inv s'"
proof (cases e)
  case ConfirmTerminal
  with assms show ?thesis
    by (auto intro!: tm_effect_inv tm_inv_retarget simp: tm_inv_unconfirmed split: if_splits)
next
  case (PickContainer c)
  with assms tm_cleanup_inv [OF assms(1)] show ?thesis
    by (auto intro!: tm_effect_inv tm_inv_retarget split: if_splits)
next
  case (PickShell sh)
  with assms tm_cleanup_inv [OF assms(1)] show ?thesis
    by (auto intro!: tm_effect_inv tm_inv_retarget simp del: insert_iff split: if_splits)
next
  case (TokenAnswer g a refused dims)
  with assms(2) obtain r where r: "List.find (\<lambda>q. fst q = g) (tm_grants s) = Some r"
    and s': "s' = tm_granted base tmsg r a refused dims (s\<lparr>tm_grants := filter (\<lambda>q. fst q \<noteq> g) (tm_grants s)\<rparr>)"
    by (auto split: option.splits)
  from r have "r \<in> set (tm_grants s)" "fst r = g" by (auto simp: find_Some_iff)
  with tm_granted_inv [OF assms(1), of r base tmsg a refused dims] s' show ?thesis by simp
next
  case (SocketOpened g)
  with assms(2) obtain w where w: "tm_socket_of g s = Some w" "ws_ready w = WsConnecting"
    and s': "s' = tm_onopen w s" by (auto split: option.splits if_splits)
  then have "tm_inv (set_ready (ws_run w) WsOpen s)"
    using tm_inv_live [OF assms(1)] tm_socket_of_Some [OF w(1)]
    by (intro set_ready_inv) (auto simp: assms(1) ws_live_def)
  with s' show ?thesis by (simp add: tm_onopen_def Let_def split: option.splits)
next
  case UnmountTerminal
  with assms tm_cleanup_inv [OF assms(1)] show ?thesis by (auto intro!: tm_inv_retarget split: if_splits)
qed (use assms set_ready_inv [OF assms(1)] in
  \<open>auto simp: tm_onclose_def tm_onerror_def tm_write_def Let_def split: option.splits if_splits prod.splits\<close>)

interpretation tm: started_system "tm_step base tmsg" tm_inv "tm_init services initial" for base tmsg services initial
proof unfold_locales
  show "tm_inv (tm_init services initial)" by (simp add: tm_inv_def tm_init_def)
qed (rule tm_step_inv)

lemma at_most_one:
  assumes "distinct (map f xs)" and "\<And>x y. x \<in> set xs \<Longrightarrow> y \<in> set xs \<Longrightarrow> f x = f y"
  shows "length xs \<le> 1"
proof (cases xs rule: remdups_adj.cases)
  case (3 x y zs)
  with assms(1) assms(2) [of x y] show ?thesis by simp
qed simp_all

lemma tm_inv_one_live:
  assumes "tm_inv s" shows "length (filter ws_live (tm_sockets s)) \<le> 1"
proof (rule at_most_one [of ws_run])
  show "distinct (map ws_run (filter ws_live (tm_sockets s)))"
    using assms unfolding tm_inv_def by (simp only: distinct_append distinct_map_filter)
next
  fix v w
  assume "v \<in> set (filter ws_live (tm_sockets s))" "w \<in> set (filter ws_live (tm_sockets s))"
  with tm_inv_live [OF assms, of v] tm_inv_live [OF assms, of w] show "ws_run v = ws_run w" by simp
qed

lemma tm_live_target:
  assumes "tm_inv s" and "w \<in> set (tm_sockets s)" and "ws_live w"
  shows "tm_mounted s \<and> tm_confirmed s \<and> ws_target w = (tm_container s, tm_shell s)"
proof -
  have run: "tm_run s = Some (ws_run w)" using assms by (rule tm_inv_live)
  then have "tm_confirmed s" using tm_inv_unconfirmed [OF assms(1)] by auto
  moreover have "tm_mounted s" using run assms(1) by (cases "tm_mounted s") (simp_all add: tm_inv_def)
  moreover have "ws_target w = (tm_container s, tm_shell s)"
    using run assms(1,2) unfolding tm_inv_def by blast
  ultimately show ?thesis by simp
qed

lemma tm_send_cases:
  "tm_sent (tm_send d s) = tm_sent s
   \<or> (\<exists>w \<in> set (tm_sockets s). ws_ready w = WsOpen \<and> tm_sent (tm_send d s) = tm_sent s @ [(ws_run w, d)])"
  by (auto simp: tm_send_def split: option.splits dest!: tm_socket_of_Some)

text \<open>C33: the terminal talks to one shell, the one on screen. In every state of the dialog no
  token was asked for and no socket was opened before the confirmation; at most one socket is
  connecting or open, and then the dialog is still shown and confirmed, and the socket's token
  was asked for the container and the shell that are selected now: a token that arrives after
  a change of container opens nothing. What the user types is sent to that socket only when it
  is open, and otherwise to none. When the dialog is gone no socket stays open.\<close>

theorem terminal_one_session:
  assumes "run (tm_step base tmsg) (tm_init services initial) es = Some s"
  shows "(\<not> tm_confirmed s \<longrightarrow> tm_asked s = [] \<and> tm_sockets s = [])
       \<and> length (filter ws_live (tm_sockets s)) \<le> 1
       \<and> (\<forall>w \<in> set (tm_sockets s). ws_live w \<longrightarrow>
            tm_mounted s \<and> tm_confirmed s \<and> tm_run s = Some (ws_run w) \<and> ws_target w = (tm_container s, tm_shell s))
       \<and> (tm_mounted s \<longrightarrow> (\<exists>s'. tm_step base tmsg s (TypeData d) = Some s' \<and>
            (tm_sent s' = tm_sent s
             \<or> (\<exists>w \<in> set (tm_sockets s). ws_ready w = WsOpen \<and> ws_target w = (tm_container s, tm_shell s)
                  \<and> tm_sent s' = tm_sent s @ [(ws_run w, d)]))))
       \<and> (\<not> tm_mounted s \<longrightarrow> filter ws_live (tm_sockets s) = [])"
proof -
  have inv: "tm_inv s" using assms by (rule tm.reachable_inv)
  note target = tm_live_target [OF inv]
  have "\<not> tm_confirmed s \<longrightarrow> tm_asked s = [] \<and> tm_sockets s = []"
    using inv by (cases "tm_sockets s") (auto simp: tm_inv_def)
  moreover have "\<forall>w \<in> set (tm_sockets s). ws_live w \<longrightarrow>
      tm_mounted s \<and> tm_confirmed s \<and> tm_run s = Some (ws_run w) \<and> ws_target w = (tm_container s, tm_shell s)"
    using target tm_inv_live [OF inv] by blast
  moreover have "tm_sent (tm_send d s) = tm_sent s
      \<or> (\<exists>w \<in> set (tm_sockets s). ws_ready w = WsOpen \<and> ws_target w = (tm_container s, tm_shell s)
            \<and> tm_sent (tm_send d s) = tm_sent s @ [(ws_run w, d)])"
    using tm_send_cases [of d s] target by (metis ws_live_def)
  moreover have "\<not> tm_mounted s \<longrightarrow> filter ws_live (tm_sockets s) = []"
    using target by (auto simp: filter_empty_conv)
  ultimately show ?thesis using tm_inv_one_live [OF inv] by simp
qed

theorem terminal_one_session_witness:
  "\<exists>s s'. run (tm_step ''http://h'' [] ) (tm_init [] (Some ''web''))
        [ConfirmTerminal, PickShell ''/bin/bash'', TokenAnswer 0 (Inr (Some (JObj [(''token'', JStr ''a'')]))) None None,
         TokenAnswer 1 (Inr (Some (JObj [(''token'', JStr ''b'')]))) None None, SocketOpened 1] = Some s
     \<and> map ws_url (tm_sockets s) = [''ws://h/server-hub/api/exec/b'']
     \<and> length (filter ws_live (tm_sockets s)) \<le> 1
     \<and> tm_step ''http://h'' [] s (TypeData ''ls'') = Some s' \<and> tm_sent s' = [(1, ''ls'')]"
proof -
  let ?es = "[ConfirmTerminal, PickShell ''/bin/bash'', TokenAnswer 0 (Inr (Some (JObj [(''token'', JStr ''a'')]))) None None,
     TokenAnswer 1 (Inr (Some (JObj [(''token'', JStr ''b'')]))) None None, SocketOpened 1]"
  obtain s where s: "run (tm_step ''http://h'' []) (tm_init [] (Some ''web'')) ?es = Some s"
    and url: "map ws_url (tm_sockets s) = [''ws://h/server-hub/api/exec/b'']"
    and typed: "\<exists>s'. tm_step ''http://h'' [] s (TypeData ''ls'') = Some s' \<and> tm_sent s' = [(1, ''ls'')]"
    by (simp add: tm_init_def tm_defs tm_socket_of_def Let_def wsBase_def ep_execSession_def API_def)
  from typed obtain s' where "tm_step ''http://h'' [] s (TypeData ''ls'') = Some s'" "tm_sent s' = [(1, ''ls'')]"
    by (elim exE conjE)
  moreover have "length (filter ws_live (tm_sockets s)) \<le> 1"
    using terminal_one_session [OF s, of "''ls''"] by (elim conjE)
  ultimately show ?thesis using s url by (intro exI conjI)
qed

section \<open>Text of frames\<close>

lemma of_char_of_small: "n < 256 \<Longrightarrow> (of_char (char_of n) :: nat) = n"
  by simp

text \<open>The bytes of a scalar value are read back as they are.\<close>

lemma utf8_go_utf8:
  assumes "n < 55296 \<or> 57344 \<le> n" and "n < 1114112"
  shows "utf8_go [] 0 0x80 0xBF (utf8 n @ s) = utf8 n @ utf8_go [] 0 0x80 0xBF s"
proof -
  have low: "n mod 64 \<le> 63" "n div 64 mod 64 \<le> 63" "n div 4096 mod 64 \<le> 63" by simp_all
  have high: "n div 64 = 64 * (n div 4096) + n div 64 mod 64" "n div 4096 = 64 * (n div 262144) + n div 4096 mod 64"
    using div_mult2_eq [of n 64 64] div_mult2_eq [of n 4096 64] by simp_all
  consider "n < 128" | "128 \<le> n" "n < 2048" | "2048 \<le> n" "n < 65536" | "65536 \<le> n" by linarith
  then show ?thesis
  proof cases
    case 1
    then show ?thesis by (simp add: utf8_def)
  next
    case 2
    then have "n div 64 < 32" "2 \<le> n div 64" by linarith+
    with 2 low show ?thesis by (simp add: utf8_def of_char_of_small Let_def not_less)
  next
    case 3
    then have "n div 4096 < 16" by linarith
    moreover have "n div 4096 = 0 \<Longrightarrow> 32 \<le> n div 64 mod 64" using 3 high(1) by linarith
    moreover have "n div 4096 = 13 \<Longrightarrow> n div 64 mod 64 < 32" using 3 assms high(1) by linarith
    ultimately show ?thesis using 3 low
      by (auto simp: utf8_def of_char_of_small Let_def not_less numeral_2_eq_2)
  next
    case 4
    then have "n div 262144 \<le> 4" using assms by linarith
    moreover have "n div 262144 = 0 \<Longrightarrow> 16 \<le> n div 4096 mod 64" using 4 high(2) by linarith
    moreover have "n div 262144 = 4 \<Longrightarrow> n div 4096 mod 64 < 16" using 4 assms high(2) by linarith
    ultimately show ?thesis using 4 low
      by (auto simp: utf8_def of_char_of_small Let_def not_less numeral_3_eq_3)
  qed
qed

definition scalar_value :: "nat \<Rightarrow> bool" where
  "scalar_value n \<longleftrightarrow> n < 1114112 \<and> (n < 55296 \<or> 57344 \<le> n)"

lemma utf8_go_text:
  "list_all scalar_value ns \<Longrightarrow>
     utf8_go [] 0 0x80 0xBF (concat (map utf8 ns)) = concat (map utf8 ns)"
  by (induction ns) (simp_all add: utf8_go_utf8 scalar_value_def)

lemma js_startsWith3:
  "js_startsWith s [a, b, c] \<longleftrightarrow> (\<exists>r. s = a # b # c # r)"
  by (cases s rule: remdups_adj.cases; cases "tl (tl s)") auto

lemma utf8_mark:
  assumes "scalar_value n" and "js_startsWith (utf8 n @ s) [CHR 0xEF, CHR 0xBB, CHR 0xBF]"
  shows "n = 65279"
proof -
  have eq: "char_of (m :: nat) = c \<Longrightarrow> m mod 256 = of_char c" for m c by auto
  consider "n < 128" | "128 \<le> n" "n < 2048" | "2048 \<le> n" "n < 65536" | "65536 \<le> n" by linarith
  then show ?thesis
  proof cases
    case 1
    then show ?thesis using assms(2) by (auto simp: utf8_def js_startsWith3 dest!: eq)
  next
    case 2
    then have "n div 64 < 32" by linarith
    with 2 show ?thesis using assms(2) by (auto simp: utf8_def js_startsWith3 dest!: eq)
  next
    case 3
    then have "n div 4096 < 16" by linarith
    moreover have "n div 64 mod 64 < 64" "n mod 64 < 64" by simp_all
    ultimately have "n div 4096 = 15" "n div 64 mod 64 = 59" "n mod 64 = 63"
      using 3 assms(2) by (auto simp: utf8_def js_startsWith3 dest!: eq)
    then show ?thesis
      using div_mult_mod_eq [of n 64] div_mult_mod_eq [of "n div 64" 64] div_mult2_eq [of n 64 64] by simp
  next
    case 4
    then have "n div 262144 < 5" using assms(1) by (simp add: scalar_value_def)
    with 4 show ?thesis using assms(2) by (auto simp: utf8_def js_startsWith3 dest!: eq)
  qed
qed

lemma blob_text_whole:
  assumes "list_all scalar_value ns" and "take 1 ns \<noteq> [65279]"
  shows "blob_text (concat (map utf8 ns)) = concat (map utf8 ns)"
proof (cases ns)
  case (Cons n ms)
  then have "\<not> js_startsWith (concat (map utf8 ns)) [CHR 0xEF, CHR 0xBB, CHR 0xBF]"
    using assms utf8_mark [of n "concat (map utf8 ms)"] by auto
  with assms(1) show ?thesis by (simp add: blob_text_def utf8_go_text)
qed (simp add: blob_text_def)

lemma blob_text_part:
  "(194 :: nat) \<le> of_char b \<Longrightarrow> of_char b \<le> (223 :: nat) \<Longrightarrow> blob_text [b] = replacement_char"
  "(128 :: nat) \<le> of_char b \<Longrightarrow> of_char b \<le> (191 :: nat) \<Longrightarrow> blob_text [b] = replacement_char"
  by (simp_all add: blob_text_def)

lemma frame_shown:
  assumes "tm_run s = Some g" and "tm_socket_of g s = Some w" and "ws_ready w = WsOpen" and "tm_decoding s = []"
  shows "run (tm_step base tmsg) s [SocketBinary g bs, FrameDecoded 0] =
      Some (s\<lparr>tm_screen := tm_screen s @ [blob_text bs]\<rparr>)"
  using assms by (simp add: tm_write_def)

text \<open>A binary frame that holds whole characters (and does not start with a byte order mark)
  is written to the terminal as it came. But every frame is decoded on its own: a two-byte
  character whose bytes arrive in two frames shows as two replacement characters and is lost.\<close>

lemma frames_lose_split_characters:
  assumes "tm_run s = Some g" and "tm_socket_of g s = Some w" and "ws_ready w = WsOpen" and "tm_decoding s = []"
    and "list_all scalar_value ns" and "take 1 ns \<noteq> [65279]"
    and "128 \<le> n" and "n < 2048" and "utf8 n = [b1, b2]"
  shows "map_option tm_screen (run (tm_step base tmsg) s [SocketBinary g (concat (map utf8 ns)), FrameDecoded 0]) =
           Some (tm_screen s @ [concat (map utf8 ns)])
       \<and> map_option tm_screen (run (tm_step base tmsg) s
             ([SocketBinary g [b1], FrameDecoded 0] @ [SocketBinary g [b2], FrameDecoded 0])) =
           Some (tm_screen s @ [replacement_char, replacement_char])"
proof -
  have "b1 = char_of (192 + n div 64)" "b2 = char_of (128 + n mod 64)"
    using assms(7-9) by (simp_all add: utf8_def)
  moreover have "n div 64 < 32" "2 \<le> n div 64" "n mod 64 \<le> 63" using assms(7,8) by auto
  ultimately have parts: "blob_text [b1] = replacement_char" "blob_text [b2] = replacement_char"
    by (simp_all add: blob_text_part of_char_of_small)
  have later: "tm_run (s\<lparr>tm_screen := x\<rparr>) = Some g" "tm_socket_of g (s\<lparr>tm_screen := x\<rparr>) = Some w"
    "tm_decoding (s\<lparr>tm_screen := x\<rparr>) = []" for x
    using assms(1,2,4) by (simp_all add: tm_socket_of_def)
  show ?thesis
    using frame_shown [OF assms(1-4), of base tmsg] frame_shown [OF later(1,2) assms(3) later(3), of base tmsg]
      blob_text_whole [OF assms(5,6)] parts
    unfolding run_append by (simp del: run.simps)
qed

end
