(* ===== verification/Access_Policy.thy ===== *)
theory Access_Policy
  imports Web_Api "HOL-Library.Multiset" Hub_Steps
begin

text \<open>
  Who may do what. The backend groups its routes by the role they require
  (\<open>server/cmd/server/main.go\<close>: viewers read, operators make routine changes, admins destroy
  and mint credentials). That table is the specification the pages are held to: a page whose
  controls follow the role never sends a request the backend would refuse for it. The table
  is transcribed route by route; a request is looked up by what the server's router reads of
  its target.
\<close>

named_theorems route_defs \<open>routes by their first segment\<close>

section \<open>Roles\<close>

datatype role = Viewer | Operator | Admin

instantiation role :: linorder
begin

fun role_rank :: "role \<Rightarrow> nat" where
  "role_rank Viewer = 0"
| "role_rank Operator = 1"
| "role_rank Admin = 2"

definition less_eq_role :: "role \<Rightarrow> role \<Rightarrow> bool" where
  "less_eq_role r q \<longleftrightarrow> role_rank r \<le> role_rank q"

definition less_role :: "role \<Rightarrow> role \<Rightarrow> bool" where
  "less_role r q \<longleftrightarrow> role_rank r < role_rank q"

instance
proof
  fix r q :: role
  show "r \<le> q \<Longrightarrow> q \<le> r \<Longrightarrow> r = q" by (cases r; cases q) (simp_all add: less_eq_role_def)
qed (auto simp: less_eq_role_def less_role_def)

end

lemma role_le [simp]:
  "Viewer \<le> r" "r \<le> Admin" "Admin \<le> r \<longleftrightarrow> r = Admin" "Operator \<le> r \<longleftrightarrow> r \<noteq> Viewer" "r \<le> Viewer \<longleftrightarrow> r = Viewer"
  by (cases r; simp add: less_eq_role_def)+

text \<open>The role of the signed-in user, as the pages read it; any other text has no rights beyond
  reading.\<close>

definition session_role :: "json option \<Rightarrow> role" where
  "session_role user =
     (let r = (case user of None \<Rightarrow> None | Some u \<Rightarrow> json_get ''role'' u) in
      if r = Some (JStr ''admin'') then Admin else if r = Some (JStr ''operator'') then Operator else Viewer)"

section \<open>Routes\<close>

datatype seg = Is string | Any

fun seg_match :: "seg list \<Rightarrow> string list \<Rightarrow> bool" where
  "seg_match [] [] = True"
| "seg_match (Is t # ps) (s # ss) = (t = s \<and> seg_match ps ss)"
| "seg_match (Any # ps) (s # ss) = seg_match ps ss"
| "seg_match _ _ = False"

type_synonym route = "http_method \<times> seg list \<times> role"

definition routes_projects :: "route list" where
  [route_defs]: "routes_projects = [
      (GET, [], Viewer),
      (POST, [], Operator),
      (GET, [Any], Viewer),
      (PUT, [Any], Operator),
      (DELETE, [Any], Operator),
      (GET, [Any, Is ''services''], Viewer),
      (POST, [Any, Is ''services''], Operator),
      (GET, [Any, Is ''health''], Viewer),
      (GET, [Any, Is ''deployments''], Viewer),
      (POST, [Any, Is ''deployments''], Operator),
      (POST, [Any, Is ''deploy''], Operator),
      (POST, [Any, Is ''deployments'', Any, Is ''rollback''], Operator),
      (POST, [Any, Is ''start''], Operator),
      (POST, [Any, Is ''stop''], Admin),
      (POST, [Any, Is ''restart''], Admin),
      (POST, [Is ''bulk-lifecycle''], Admin),
      (GET, [Any, Is ''secrets''], Viewer),
      (POST, [Any, Is ''secrets''], Operator),
      (GET, [Any, Is ''backups''], Viewer),
      (POST, [Any, Is ''backups''], Operator)]"

definition routes_services :: "route list" where
  [route_defs]: "routes_services = [
      (PUT, [Any], Operator),
      (DELETE, [Any], Operator)]"

definition routes_containers :: "route list" where
  [route_defs]: "routes_containers = [
      (GET, [], Viewer),
      (GET, [Any], Viewer),
      (GET, [Any, Is ''logs''], Viewer),
      (GET, [Any, Is ''stats''], Viewer),
      (POST, [Any, Is ''start''], Operator),
      (POST, [Any, Is ''stop''], Admin),
      (POST, [Any, Is ''restart''], Admin),
      (GET, [Is ''stats''], Viewer),
      (POST, [Any, Is ''exec''], Admin)]"

definition routes_images :: "route list" where
  [route_defs]: "routes_images = [
      (GET, [], Viewer)]"

definition routes_volumes :: "route list" where
  [route_defs]: "routes_volumes = [
      (GET, [], Viewer)]"

definition routes_discovery :: "route list" where
  [route_defs]: "routes_discovery = [
      (GET, [], Viewer),
      (POST, [Is ''import''], Operator),
      (POST, [Is ''import-all''], Operator)]"

definition routes_health :: "route list" where
  [route_defs]: "routes_health = [
      (GET, [], Viewer)]"

definition routes_server :: "route list" where
  [route_defs]: "routes_server = [
      (GET, [], Viewer),
      (GET, [Is ''detail''], Viewer),
      (GET, [Is ''storage''], Viewer)]"

definition routes_dashboard :: "route list" where
  [route_defs]: "routes_dashboard = [
      (GET, [], Viewer)]"

definition routes_audit :: "route list" where
  [route_defs]: "routes_audit = [
      (GET, [], Viewer)]"

definition routes_deployments :: "route list" where
  [route_defs]: "routes_deployments = [
      (GET, [], Viewer),
      (DELETE, [], Admin)]"

definition routes_telemetry :: "route list" where
  [route_defs]: "routes_telemetry = [
      (GET, [], Viewer),
      (GET, [Is ''latest''], Viewer)]"

definition routes_secrets :: "route list" where
  [route_defs]: "routes_secrets = [
      (PUT, [Any], Admin),
      (DELETE, [Any], Admin),
      (POST, [Any, Is ''reveal''], Admin)]"

definition routes_events :: "route list" where
  [route_defs]: "routes_events = [
      (GET, [], Viewer)]"

definition routes_operations :: "route list" where
  [route_defs]: "routes_operations = [
      (GET, [], Viewer),
      (GET, [Any], Viewer)]"

definition routes_backups :: "route list" where
  [route_defs]: "routes_backups = [
      (GET, [Any], Viewer),
      (GET, [Any, Is ''download''], Viewer),
      (DELETE, [Any], Operator),
      (POST, [Any, Is ''restore''], Admin)]"

definition routes_logs :: "route list" where
  [route_defs]: "routes_logs = [
      (GET, [], Viewer)]"

definition routes_transfers :: "route list" where
  [route_defs]: "routes_transfers = [
      (GET, [Is ''files''], Viewer),
      (GET, [Is ''files'', Is ''metadata''], Viewer),
      (GET, [Is ''files'', Is ''download''], Viewer),
      (GET, [Is ''files'', Is ''size''], Viewer),
      (GET, [Is ''search''], Viewer),
      (GET, [Is ''storage''], Viewer),
      (GET, [Is ''storage'', Is ''breakdown''], Viewer),
      (GET, [Is ''trash''], Viewer),
      (GET, [Is ''activity''], Viewer),
      (POST, [Is ''files'', Is ''upload''], Operator),
      (POST, [Is ''files'', Is ''move''], Operator),
      (POST, [Is ''files'', Is ''copy''], Operator),
      (POST, [Is ''files'', Is ''zip''], Operator),
      (POST, [Is ''files'', Is ''chunk''], Operator),
      (POST, [Is ''files'', Is ''chunk'', Is ''finalize''], Operator),
      (POST, [Is ''files'', Is ''bulk-rename''], Operator),
      (PATCH, [Is ''files''], Operator),
      (DELETE, [Is ''files''], Operator),
      (POST, [Is ''directories''], Operator),
      (POST, [Is ''trash''], Operator),
      (POST, [Is ''trash'', Is ''restore''], Operator),
      (DELETE, [Is ''trash''], Operator)]"

definition routes_db_backups :: "route list" where
  [route_defs]: "routes_db_backups = [
      (GET, [Is ''dashboard''], Viewer),
      (GET, [Is ''storage-targets''], Viewer),
      (GET, [Is ''storage-targets'', Any], Viewer),
      (POST, [Is ''storage-targets''], Operator),
      (PUT, [Is ''storage-targets'', Any], Operator),
      (POST, [Is ''storage-targets'', Is ''test''], Operator),
      (DELETE, [Is ''storage-targets'', Any], Admin),
      (GET, [Is ''connections''], Viewer),
      (GET, [Is ''connections'', Any], Viewer),
      (POST, [Is ''connections''], Operator),
      (PUT, [Is ''connections'', Any], Operator),
      (POST, [Is ''connections'', Is ''test''], Operator),
      (DELETE, [Is ''connections'', Any], Admin),
      (GET, [Is ''policies''], Viewer),
      (GET, [Is ''policies'', Any], Viewer),
      (POST, [Is ''policies''], Operator),
      (PUT, [Is ''policies'', Any], Operator),
      (DELETE, [Is ''policies'', Any], Admin),
      (GET, [Is ''jobs''], Viewer),
      (GET, [Is ''jobs'', Any], Viewer),
      (POST, [Is ''jobs''], Operator),
      (PUT, [Is ''jobs'', Any], Operator),
      (POST, [Is ''jobs'', Any, Is ''enable''], Operator),
      (POST, [Is ''jobs'', Any, Is ''disable''], Operator),
      (POST, [Is ''jobs'', Any, Is ''run''], Operator),
      (POST, [Is ''jobs'', Any, Is ''preflight''], Operator),
      (DELETE, [Is ''jobs'', Any], Admin),
      (GET, [Is ''runs''], Viewer),
      (GET, [Is ''runs'', Any], Viewer),
      (GET, [Is ''runs'', Any, Is ''artifacts''], Viewer),
      (POST, [Is ''runs'', Any, Is ''cancel''], Operator),
      (POST, [Is ''runs'', Any, Is ''verify''], Operator),
      (GET, [Is ''restores''], Viewer),
      (GET, [Is ''restores'', Any], Viewer),
      (POST, [Is ''restores''], Operator),
      (GET, [Is ''agents''], Viewer),
      (GET, [Is ''agents'', Any], Viewer),
      (POST, [Is ''agents'', Is ''token''], Admin),
      (POST, [Is ''agents'', Any, Is ''rotate-token''], Admin),
      (POST, [Is ''agents'', Any, Is ''revoke''], Admin),
      (GET, [Is ''enrollment-tokens''], Viewer),
      (POST, [Is ''enrollment-tokens''], Admin),
      (DELETE, [Is ''enrollment-tokens'', Any], Admin),
      (GET, [Is ''machines''], Viewer),
      (GET, [Is ''machines'', Any], Viewer)]"

definition routes_databases :: "route list" where
  [route_defs]: "routes_databases = [
      (GET, [Is ''servers''], Viewer),
      (POST, [Is ''browse''], Operator),
      (POST, [Is ''connect''], Operator),
      (POST, [Is ''register''], Operator)]"

definition routes_settings :: "route list" where
  [route_defs]: "routes_settings = [
      (GET, [Is ''notifications''], Viewer),
      (PUT, [Is ''notifications''], Admin),
      (POST, [Is ''notifications'', Is ''test''], Admin)]"

definition routes_users :: "route list" where
  [route_defs]: "routes_users = [
      (GET, [], Admin),
      (POST, [], Admin),
      (PUT, [Any, Is ''role''], Admin),
      (DELETE, [Any], Admin)]"

definition routes_servers :: "route list" where
  [route_defs]: "routes_servers = [
      (GET, [], Viewer),
      (POST, [], Operator),
      (GET, [Any], Viewer),
      (PATCH, [Any], Operator),
      (DELETE, [Any], Admin),
      (GET, [Any, Is ''metrics''], Viewer),
      (GET, [Any, Is ''metrics'', Is ''latest''], Viewer),
      (GET, [Any, Is ''tokens''], Admin),
      (POST, [Any, Is ''tokens''], Admin),
      (DELETE, [Any, Is ''tokens'', Any], Admin),
      (GET, [Any, Is ''prometheus'', Is ''metrics''], Viewer),
      (GET, [Any, Is ''prometheus'', Is ''metrics'', Is ''latest''], Viewer)]"

definition routes_server_groups :: "route list" where
  [route_defs]: "routes_server_groups = [
      (GET, [], Viewer),
      (POST, [], Operator),
      (DELETE, [Any], Admin)]"

definition routes_notification_groups :: "route list" where
  [route_defs]: "routes_notification_groups = [
      (GET, [], Viewer),
      (GET, [Any], Viewer),
      (POST, [], Operator),
      (PATCH, [Any], Operator),
      (POST, [Any, Is ''members''], Operator),
      (DELETE, [Any, Is ''members'', Any], Operator),
      (DELETE, [Any], Admin)]"

definition routes_notification_rules :: "route list" where
  [route_defs]: "routes_notification_rules = [
      (GET, [], Viewer),
      (GET, [Any], Viewer),
      (POST, [], Operator),
      (PATCH, [Any], Operator),
      (DELETE, [Any], Admin)]"

definition routes_notification_policy :: "route list" where
  [route_defs]: "routes_notification_policy = [
      (GET, [], Viewer),
      (PUT, [], Admin)]"

definition routes_notification_deliveries :: "route list" where
  [route_defs]: "routes_notification_deliveries = [
      (GET, [], Viewer)]"

definition routes_maintenance_windows :: "route list" where
  [route_defs]: "routes_maintenance_windows = [
      (GET, [], Viewer),
      (POST, [], Operator),
      (PATCH, [Any], Operator),
      (DELETE, [Any], Admin)]"

definition routes_alerts :: "route list" where
  [route_defs]: "routes_alerts = [
      (GET, [], Viewer),
      (PATCH, [Any, Is ''resolve''], Operator)]"

definition routes_notifications :: "route list" where
  [route_defs]: "routes_notifications = [
      (GET, [], Viewer),
      (PATCH, [Any, Is ''read''], Viewer),
      (POST, [Is ''read-all''], Viewer)]"

definition routes_health_checks :: "route list" where
  [route_defs]: "routes_health_checks = [
      (GET, [], Viewer),
      (POST, [], Operator),
      (PATCH, [Any], Operator),
      (DELETE, [Any], Admin),
      (GET, [Any, Is ''results''], Viewer)]"

definition routes_monitoring :: "route list" where
  [route_defs]: "routes_monitoring = [
      (GET, [Is ''prometheus'', Is ''status''], Viewer),
      (GET, [Is ''prometheus'', Is ''targets''], Viewer),
      (GET, [Is ''prometheus'', Is ''rules''], Viewer),
      (GET, [Is ''prometheus'', Is ''query''], Admin),
      (GET, [Is ''prometheus'', Is ''query-range''], Admin),
      (GET, [Is ''overview''], Viewer),
      (GET, [Is ''metrics''], Viewer),
      (GET, [Is ''alertmanager'', Is ''status''], Viewer),
      (GET, [Is ''alerts''], Viewer),
      (GET, [Is ''silences''], Viewer),
      (POST, [Is ''silences''], Operator),
      (DELETE, [Is ''silences'', Any], Operator)]"

definition route_table :: "(string \<times> route list) list" where
  "route_table = [
    (''projects'', routes_projects),
    (''services'', routes_services),
    (''containers'', routes_containers),
    (''images'', routes_images),
    (''volumes'', routes_volumes),
    (''discovery'', routes_discovery),
    (''health'', routes_health),
    (''server'', routes_server),
    (''dashboard'', routes_dashboard),
    (''audit'', routes_audit),
    (''deployments'', routes_deployments),
    (''telemetry'', routes_telemetry),
    (''secrets'', routes_secrets),
    (''events'', routes_events),
    (''operations'', routes_operations),
    (''backups'', routes_backups),
    (''logs'', routes_logs),
    (''transfers'', routes_transfers),
    (''db-backups'', routes_db_backups),
    (''databases'', routes_databases),
    (''settings'', routes_settings),
    (''users'', routes_users),
    (''servers'', routes_servers),
    (''server-groups'', routes_server_groups),
    (''notification-groups'', routes_notification_groups),
    (''notification-rules'', routes_notification_rules),
    (''notification-policy'', routes_notification_policy),
    (''notification-deliveries'', routes_notification_deliveries),
    (''maintenance-windows'', routes_maintenance_windows),
    (''alerts'', routes_alerts),
    (''notifications'', routes_notifications),
    (''health-checks'', routes_health_checks),
    (''monitoring'', routes_monitoring)]"

lemma route_groups:
  "map_of route_table ''projects'' = Some routes_projects"
  "map_of route_table ''services'' = Some routes_services"
  "map_of route_table ''containers'' = Some routes_containers"
  "map_of route_table ''images'' = Some routes_images"
  "map_of route_table ''volumes'' = Some routes_volumes"
  "map_of route_table ''discovery'' = Some routes_discovery"
  "map_of route_table ''health'' = Some routes_health"
  "map_of route_table ''server'' = Some routes_server"
  "map_of route_table ''dashboard'' = Some routes_dashboard"
  "map_of route_table ''audit'' = Some routes_audit"
  "map_of route_table ''deployments'' = Some routes_deployments"
  "map_of route_table ''telemetry'' = Some routes_telemetry"
  "map_of route_table ''secrets'' = Some routes_secrets"
  "map_of route_table ''events'' = Some routes_events"
  "map_of route_table ''operations'' = Some routes_operations"
  "map_of route_table ''backups'' = Some routes_backups"
  "map_of route_table ''logs'' = Some routes_logs"
  "map_of route_table ''transfers'' = Some routes_transfers"
  "map_of route_table ''db-backups'' = Some routes_db_backups"
  "map_of route_table ''databases'' = Some routes_databases"
  "map_of route_table ''settings'' = Some routes_settings"
  "map_of route_table ''users'' = Some routes_users"
  "map_of route_table ''servers'' = Some routes_servers"
  "map_of route_table ''server-groups'' = Some routes_server_groups"
  "map_of route_table ''notification-groups'' = Some routes_notification_groups"
  "map_of route_table ''notification-rules'' = Some routes_notification_rules"
  "map_of route_table ''notification-policy'' = Some routes_notification_policy"
  "map_of route_table ''notification-deliveries'' = Some routes_notification_deliveries"
  "map_of route_table ''maintenance-windows'' = Some routes_maintenance_windows"
  "map_of route_table ''alerts'' = Some routes_alerts"
  "map_of route_table ''notifications'' = Some routes_notifications"
  "map_of route_table ''health-checks'' = Some routes_health_checks"
  "map_of route_table ''monitoring'' = Some routes_monitoring"
  by (simp_all add: route_table_def)

definition route_for :: "http_method \<Rightarrow> string list \<Rightarrow> route list \<Rightarrow> role option" where
  "route_for m segs rs = map_option (\<lambda>(m, p, r). r) (List.find (\<lambda>(m', p, r). m' = m \<and> seg_match p segs) rs)"

fun required_role :: "http_method \<Rightarrow> string list \<Rightarrow> role option" where
  "required_role m (a # b # c # g # segs) =
     (if a = [] \<and> b = ''server-hub'' \<and> c = ''api'' then
        (case map_of route_table g of None \<Rightarrow> None | Some rs \<Rightarrow> route_for m segs rs)
      else None)"
| "required_role m _ = None"

section \<open>Requests of a page\<close>

datatype wire = Wire (wire_path: string) (wire_init: RequestInit)

definition wire_of :: "'a call \<Rightarrow> wire" where
  "wire_of c = Wire (call_path c) (call_init c)"

definition call_role :: "'a call \<Rightarrow> role option" where
  "call_role c = (case read_target (call_path c) of None \<Rightarrow> None | Some (segs, q) \<Rightarrow> required_role (call_method c) segs)"

definition wire_role :: "wire \<Rightarrow> role option" where
  "wire_role w =
     (case read_target (wire_path w) of None \<Rightarrow> None | Some (segs, q) \<Rightarrow> required_role (ri_method (wire_init w)) segs)"

text \<open>A request the backend accepts from a user of the role.\<close>

definition permitted :: "role \<Rightarrow> wire \<Rightarrow> bool" where
  "permitted r w \<longleftrightarrow> (\<exists>q. wire_role w = Some q \<and> q \<le> r)"

lemma wire_role_of [simp]: "wire_role (wire_of c) = call_role c"
  by (simp add: wire_role_def wire_of_def call_role_def call_init_def split: option.split)

lemma permitted_call [simp]: "permitted r (wire_of c) \<longleftrightarrow> (\<exists>q. call_role c = Some q \<and> q \<le> r)"
  by (simp add: permitted_def)

section \<open>Specification of a page\<close>

text \<open>What a page may do, whatever its controls: issue a request its user may make, and see an
  issued request completed. Requests in flight are a multiset, since two alike may run.\<close>

record guard_state =
  gd_open :: "wire multiset"
  gd_sent :: "wire list"

datatype guard_event = Issue wire | Complete wire

fun guard_step :: "(wire \<Rightarrow> bool) \<Rightarrow> guard_state \<Rightarrow> guard_event \<Rightarrow> guard_state option" where
  "guard_step ok g (Issue w) =
     (if ok w then Some (g\<lparr>gd_open := add_mset w (gd_open g), gd_sent := gd_sent g @ [w]\<rparr>) else None)"
| "guard_step ok g (Complete w) =
     (if w \<in># gd_open g then Some (g\<lparr>gd_open := gd_open g - {#w#}\<rparr>) else None)"

definition guard_init :: guard_state where
  "guard_init = \<lparr>gd_open = {#}, gd_sent = []\<rparr>"

definition guard_inv :: "(wire \<Rightarrow> bool) \<Rightarrow> guard_state \<Rightarrow> bool" where
  "guard_inv ok g \<longleftrightarrow> (\<forall>w \<in> set (gd_sent g). ok w) \<and> gd_open g \<subseteq># mset (gd_sent g)"

lemma guard_step_inv: "guard_inv ok g \<Longrightarrow> guard_step ok g e = Some g' \<Longrightarrow> guard_inv ok g'"
  by (cases e) (auto simp: guard_inv_def split: if_splits intro: subset_mset.order_trans [OF diff_subset_eq_self])

interpretation guard: started_system "guard_step ok" "guard_inv ok" guard_init for ok
proof unfold_locales
  show "guard_inv ok guard_init" by (simp add: guard_inv_def guard_init_def)
qed (rule guard_step_inv)

text \<open>The role each method of the API objects needs.\<close>

lemmas role_eval = call_role_def api_defs read_target_simps uri_simps endpoint_defs API_def route_groups route_defs route_for_def


lemma operator_calls:
  "call_role (api_createProject j) = Some Operator"
  "call_role (api_createNotificationGroup i so) = Some Operator"
  "call_role (api_updateNotificationGroup k so so') = Some Operator"
  "call_role (api_addGroupMember k i) = Some Operator"
  "call_role (api_removeGroupMember k k') = Some Operator"
  "call_role (api_createNotificationRule v2) = Some Operator"
  "call_role (api_updateNotificationRule k v3) = Some Operator"
  "call_role (api_deploy k so) = Some Operator"
  "call_role (api_rollback k k') = Some Operator"
  "call_role (api_importDiscovered i) = Some Operator"
  "call_role api_importAllDiscovered = Some Operator"
  "call_role (api_upsertSecret k i i' so) = Some Operator"
  "call_role (api_createBackup k) = Some Operator"
  "call_role (api_deleteBackup k) = Some Operator"
  "call_role (api_browseDatabases v4) = Some Operator"
  "call_role (api_connectDatabase v4) = Some Operator"
  "call_role (api_registerDatabases k v4 ss so so') = Some Operator"
  "call_role (api_createServer i so so' ko) = Some Operator"
  "call_role (api_updateServer k so so' so'' ko) = Some Operator"
  "call_role (api_createServerGroup i so) = Some Operator"
  "call_role (api_resolveAlert k) = Some Operator"
  "call_role (api_createHealthCheck j) = Some Operator"
  "call_role (api_updateHealthCheck k j) = Some Operator"
  "call_role (api_createSilence j) = Some Operator"
  "call_role (api_deleteSilence i) = Some Operator"
  "call_role (transfersApi_mkdir i) = Some Operator"
  "call_role (transfersApi_rename i i') = Some Operator"
  "call_role (transfersApi_move i i') = Some Operator"
  "call_role (transfersApi_copy i i') = Some Operator"
  "call_role (transfersApi_remove i bo) = Some Operator"
  "call_role (transfersApi_trashMove i) = Some Operator"
  "call_role (transfersApi_trashRestore i) = Some Operator"
  "call_role transfersApi_trashPurge = Some Operator"
  "call_role (dbBackupsApi_createTarget v5) = Some Operator"
  "call_role (dbBackupsApi_updateTarget i j) = Some Operator"
  "call_role (dbBackupsApi_testTarget i) = Some Operator"
  "call_role (dbBackupsApi_createConnection v6) = Some Operator"
  "call_role (dbBackupsApi_updateConnection i j) = Some Operator"
  "call_role (dbBackupsApi_testConnection i) = Some Operator"
  "call_role (dbBackupsApi_createPolicy v7) = Some Operator"
  "call_role (dbBackupsApi_updatePolicy i v7) = Some Operator"
  "call_role (dbBackupsApi_createJob v8) = Some Operator"
  "call_role (dbBackupsApi_updateJob i j) = Some Operator"
  "call_role (dbBackupsApi_enableJob i) = Some Operator"
  "call_role (dbBackupsApi_disableJob i) = Some Operator"
  "call_role (dbBackupsApi_runJob i) = Some Operator"
  "call_role (dbBackupsApi_preflight i) = Some Operator"
  "call_role (dbBackupsApi_cancelRun i) = Some Operator"
  "call_role (dbBackupsApi_verifyRun i) = Some Operator"
  "call_role (dbBackupsApi_createRestore v9) = Some Operator"
  "call_role (api_projectAction k Start bo) = Some Operator"
  by (simp_all add: role_eval)

lemma admin_calls:
  "call_role (api_bulkLifecycle v0 v1 bo) = Some Admin"
  "call_role (api_saveNotifySettings j) = Some Admin"
  "call_role api_testNotify = Some Admin"
  "call_role (api_deleteNotificationGroup k) = Some Admin"
  "call_role (api_deleteNotificationRule k) = Some Admin"
  "call_role api_wipeDeployments = Some Admin"
  "call_role (api_revealSecret k) = Some Admin"
  "call_role (api_execToken i so bo) = Some Admin"
  "call_role (api_restoreBackup k) = Some Admin"
  "call_role api_users = Some Admin"
  "call_role (api_createUser i i' i'') = Some Admin"
  "call_role (api_setUserRole i i') = Some Admin"
  "call_role (api_deleteUser i) = Some Admin"
  "call_role (api_deleteServer k) = Some Admin"
  "call_role (api_agentTokens k) = Some Admin"
  "call_role (api_createAgentToken k so) = Some Admin"
  "call_role (api_revokeAgentToken k k') = Some Admin"
  "call_role (api_deleteServerGroup k) = Some Admin"
  "call_role (api_deleteHealthCheck k) = Some Admin"
  "call_role (api_prometheusQuery i) = Some Admin"
  "call_role (dbBackupsApi_deleteTarget i) = Some Admin"
  "call_role (dbBackupsApi_deleteConnection i) = Some Admin"
  "call_role (dbBackupsApi_deletePolicy i) = Some Admin"
  "call_role (dbBackupsApi_deleteJob i) = Some Admin"
  "call_role dbBackupsApi_mintRegistrationToken = Some Admin"
  "call_role (dbBackupsApi_rotateAgentToken i) = Some Admin"
  "call_role (dbBackupsApi_revokeAgent i) = Some Admin"
  "call_role (dbBackupsApi_mintEnrollToken so ko) = Some Admin"
  "call_role (dbBackupsApi_revokeEnrollToken i) = Some Admin"
  "call_role (api_projectAction k Stop bo) = Some Admin"
  "call_role (api_projectAction k Restart bo) = Some Admin"
  by (simp_all add: role_eval)

lemma filter_calls:
  "call_role (api_logs l) = Some Viewer" "call_role (dbBackupsApi_runs rp) = Some Viewer"
  by (simp_all add: call_role_def api_logs_def dbBackupsApi_runs_def read_filters route_groups route_defs route_for_def)

lemmas call_roles = operator_calls admin_calls

lemma viewer_calls1:
  "call_role api_dashboard = Some Viewer"
  "call_role api_server = Some Viewer"
  "call_role (api_audit ko) = Some Viewer"
  "call_role api_projects = Some Viewer"
  "call_role (api_project k) = Some Viewer"
  "call_role api_notifySettings = Some Viewer"
  "call_role api_notificationGroups = Some Viewer"
  "call_role (api_notificationGroup k) = Some Viewer"
  "call_role api_notificationRules = Some Viewer"
  "call_role (api_notificationRule k) = Some Viewer"
  "call_role (api_services k) = Some Viewer"
  "call_role (api_deployments k) = Some Viewer"
  "call_role api_discovery = Some Viewer"
  "call_role (api_secrets k) = Some Viewer"
  "call_role api_serverDetail = Some Viewer"
  "call_role api_storage = Some Viewer"
  "call_role api_containerStats = Some Viewer"
  "call_role (api_operations ko) = Some Viewer"
  "call_role (api_backups k) = Some Viewer"
  "call_role api_dbServers = Some Viewer"
  "call_role api_servers = Some Viewer"
  "call_role (api_managedServer k) = Some Viewer"
  by (simp_all add: role_eval)

lemma viewer_calls2:
  "call_role (api_serverMetricsLatest k) = Some Viewer"
  "call_role api_serverGroups = Some Viewer"
  "call_role api_notifications = Some Viewer"
  "call_role (api_markNotificationRead k) = Some Viewer"
  "call_role api_markAllNotificationsRead = Some Viewer"
  "call_role api_healthChecks = Some Viewer"
  "call_role (api_healthCheckResults k) = Some Viewer"
  "call_role api_monitoringOverview = Some Viewer"
  "call_role api_prometheusStatus = Some Viewer"
  "call_role api_prometheusTargets = Some Viewer"
  "call_role api_prometheusRules = Some Viewer"
  "call_role api_alertmanagerStatus = Some Viewer"
  "call_role api_monitoringAlerts = Some Viewer"
  "call_role api_monitoringSilences = Some Viewer"
  "call_role (transfersApi_list so) = Some Viewer"
  "call_role (transfersApi_metadata i) = Some Viewer"
  "call_role (transfersApi_folderSize i) = Some Viewer"
  "call_role (transfersApi_search i so) = Some Viewer"
  "call_role transfersApi_storage = Some Viewer"
  "call_role transfersApi_breakdown = Some Viewer"
  "call_role transfersApi_trash = Some Viewer"
  "call_role (transfersApi_activity ko) = Some Viewer"
  by (simp_all add: role_eval)

lemma viewer_calls3:
  "call_role (fmApi_activity ko) = Some Viewer"
  "call_role dbBackupsApi_dashboard = Some Viewer"
  "call_role dbBackupsApi_targets = Some Viewer"
  "call_role (dbBackupsApi_target i) = Some Viewer"
  "call_role dbBackupsApi_connections = Some Viewer"
  "call_role (dbBackupsApi_connection i) = Some Viewer"
  "call_role dbBackupsApi_policies = Some Viewer"
  "call_role (dbBackupsApi_policy i) = Some Viewer"
  "call_role dbBackupsApi_jobs = Some Viewer"
  "call_role (dbBackupsApi_job i) = Some Viewer"
  "call_role (dbBackupsApi_run i) = Some Viewer"
  "call_role (dbBackupsApi_runArtifacts i) = Some Viewer"
  "call_role dbBackupsApi_restores = Some Viewer"
  "call_role (dbBackupsApi_restore i) = Some Viewer"
  "call_role dbBackupsApi_agents = Some Viewer"
  "call_role (dbBackupsApi_agent i) = Some Viewer"
  "call_role dbBackupsApi_enrollTokens = Some Viewer"
  "call_role dbBackupsApi_machines = Some Viewer"
  "call_role (dbBackupsApi_machine i) = Some Viewer"
  by (simp_all add: role_eval)

lemma plain_calls:
  assumes "plain_text p" and "plain_text q" and "plain_text r"
  shows
    "call_role (api_telemetry (Some p)) = Some Viewer"
    "call_role (api_operation p) = Some Viewer"
    "call_role (api_serverMetrics k (Some p)) = Some Viewer"
    "call_role (api_monitoringMetrics p (Some q) (Some r)) = Some Viewer"
    "call_role (api_alerts (Some p)) = Some Viewer"
  using assms by (simp_all add: role_eval)

lemmas viewer_calls = viewer_calls1 viewer_calls2 viewer_calls3 filter_calls



end
