(* ===== verification/Ui_Panel.thy ===== *)
theory Ui_Panel
  imports Access_Policy Web_Settings
begin

text \<open>
  What the administration pages of the web client have in common. A component that sends
  requests keeps a busy flag, shows a toast when a request ends and tells its parent to load
  again; several requests of one component can be in flight. A page of items adds dialogs: a
  form for a new item, a form for an existing one, a confirmation before deleting. The pages
  are instances of the machines here, each with the source's own guards, forms and requests;
  the locale \<open>panel_page\<close> says when such a component keeps to the access policy.
\<close>

section \<open>Components that send requests\<close>

text \<open>A running request is kept with what its continuation needs; \<open>pn_changed\<close> counts the calls
  of \<open>onChanged\<close>, \<open>onSaved\<close> or \<open>refresh\<close>.\<close>

record 'o panel =
  pn_busy :: bool
  pn_open :: "('o \<times> wire) list"
  pn_sent :: "wire list"
  pn_toasts :: "(string \<times> bool) list"
  pn_changed :: nat

definition pn_request :: "'o \<Rightarrow> wire \<Rightarrow> ('o, 'z) panel_scheme \<Rightarrow> ('o, 'z) panel_scheme" where
  "pn_request k w s = s\<lparr>pn_open := pn_open s @ [(k, w)], pn_sent := pn_sent s @ [w]\<rparr>"

definition pn_start :: "'o \<Rightarrow> wire \<Rightarrow> ('o, 'z) panel_scheme \<Rightarrow> ('o, 'z) panel_scheme" where
  "pn_start k w s = (pn_request k w s)\<lparr>pn_busy := True\<rparr>"

definition pn_toast :: "string \<Rightarrow> bool \<Rightarrow> ('o, 'z) panel_scheme \<Rightarrow> ('o, 'z) panel_scheme" where
  "pn_toast t err s = s\<lparr>pn_toasts := pn_toasts s @ [(t, err)]\<rparr>"

definition pn_change :: "('o, 'z) panel_scheme \<Rightarrow> ('o, 'z) panel_scheme" where
  "pn_change s = s\<lparr>pn_changed := Suc (pn_changed s)\<rparr>"

definition pn_done :: "'o \<times> wire \<Rightarrow> ('o, 'z) panel_scheme \<Rightarrow> ('o, 'z) panel_scheme" where
  "pn_done q s = s\<lparr>pn_open := remove1 q (pn_open s)\<rparr>"

definition pn_free :: "('o, 'z) panel_scheme \<Rightarrow> ('o, 'z) panel_scheme" where
  "pn_free s = s\<lparr>pn_busy := False\<rparr>"

text \<open>The \<open>act\<close> wrapper after its await: the part of the wrapped function after its own await,
  the success toast and \<open>onChanged\<close>, or the error toast; then the busy flag.\<close>

definition pn_act ::
  "(('o, 'z) panel_scheme \<Rightarrow> ('o, 'z) panel_scheme) \<Rightarrow> string \<Rightarrow> js_error + json option
    \<Rightarrow> ('o, 'z) panel_scheme \<Rightarrow> ('o, 'z) panel_scheme"
where
  "pn_act after msg r s =
     pn_free (case r of
       Inr v \<Rightarrow> pn_change (pn_toast msg False (after s))
     | Inl e \<Rightarrow> pn_toast (error_message e) True s)"

lemmas pn_defs = pn_request_def pn_start_def pn_toast_def pn_change_def pn_done_def pn_free_def pn_act_def

text \<open>\<open>text || undefined\<close>: an optional member of a request.\<close>

definition some_text :: "string \<Rightarrow> string option" where
  "some_text t = (if t = [] then None else Some t)"

text \<open>What a server reads from the body of a request.\<close>

definition wire_body :: "wire \<Rightarrow> json option" where
  "wire_body w = (case ri_body (wire_init w) of TextBody t \<Rightarrow> JSON_parse t | _ \<Rightarrow> None)"

definition wire_member :: "string \<Rightarrow> wire \<Rightarrow> json option" where
  "wire_member k w = Option.bind (wire_body w) (json_get k)"

lemma wire_body_json: "json_exact v \<Longrightarrow> wire_body (wire_of (Call p m (json_body v))) = Some v"
  by (simp add: wire_body_def wire_of_def call_init_def json_body_def JSON_parse_stringify)

lemma wire_body_none [simp]: "wire_body (wire_of (Call p m NoBody)) = None"
  by (simp add: wire_body_def wire_of_def call_init_def)

lemma wire_member_json: "json_exact v \<Longrightarrow> wire_member k (wire_of (Call p m (json_body v))) = json_get k v"
  by (simp add: wire_member_def wire_body_json)

lemma wire_member_none [simp]: "wire_member k (wire_of (Call p m NoBody)) = None"
  by (simp add: wire_member_def)

section \<open>Keeping to the access policy\<close>

text \<open>The moves a component may make: none that concerns requests, starting a request its user may
  make, ending one that runs. \<open>holds k\<close>: requests of kind \<open>k\<close> hold the busy flag.\<close>

definition panel_move ::
  "(wire \<Rightarrow> bool) \<Rightarrow> ('o \<Rightarrow> bool) \<Rightarrow> ('o, 'z) panel_scheme \<Rightarrow> ('o, 'z) panel_scheme \<Rightarrow> bool"
where
  "panel_move ok holds s s' \<longleftrightarrow>
     (pn_open s' = pn_open s \<and> pn_sent s' = pn_sent s \<and> pn_busy s' = pn_busy s)
     \<or> (\<exists>k w. ok w \<and> pn_open s' = pn_open s @ [(k, w)] \<and> pn_sent s' = pn_sent s @ [w]
          \<and> (pn_busy s' \<longrightarrow> pn_busy s \<or> holds k))
     \<or> (\<exists>q \<in> set (pn_open s). pn_open s' = remove1 q (pn_open s) \<and> pn_sent s' = pn_sent s
          \<and> (pn_busy s' \<longrightarrow> pn_busy s \<and> \<not> holds (fst q)))"

lemma panel_move_none:
  "pn_open s' = pn_open s \<Longrightarrow> pn_sent s' = pn_sent s \<Longrightarrow> pn_busy s' = pn_busy s \<Longrightarrow> panel_move ok holds s s'"
  by (simp add: panel_move_def)

lemma panel_move_start:
  "ok w \<Longrightarrow> pn_open s' = pn_open s @ [(k, w)] \<Longrightarrow> pn_sent s' = pn_sent s @ [w]
    \<Longrightarrow> (pn_busy s' \<longrightarrow> pn_busy s \<or> holds k) \<Longrightarrow> panel_move ok holds s s'"
  by (auto simp: panel_move_def)

lemma panel_move_end:
  "q \<in> set (pn_open s) \<Longrightarrow> pn_open s' = remove1 q (pn_open s) \<Longrightarrow> pn_sent s' = pn_sent s
    \<Longrightarrow> (pn_busy s' \<longrightarrow> pn_busy s \<and> \<not> holds (fst q)) \<Longrightarrow> panel_move ok holds s s'"
  by (auto simp: panel_move_def)

lemma permitted_mono: "permitted r w \<Longrightarrow> r \<le> q \<Longrightarrow> permitted q w"
  unfolding permitted_def by (meson order_trans)

definition panel_abs :: "('o, 'z) panel_scheme \<Rightarrow> guard_state" where
  "panel_abs s = \<lparr>gd_open = mset (map snd (pn_open s)), gd_sent = pn_sent s\<rparr>"

definition panel_idle :: "('o, 'z) panel_scheme \<Rightarrow> bool" where
  "panel_idle s \<longleftrightarrow> pn_open s = [] \<and> pn_sent s = [] \<and> \<not> pn_busy s"

lemma mset_snd_remove1: "q \<in> set xs \<Longrightarrow> mset (map snd (remove1 q xs)) = mset (map snd xs) - {#snd q#}"
  by (simp add: image_mset_Diff)

lemma panel_move_abs:
  assumes "panel_move ok holds s s'"
  shows "\<exists>fs. run (guard_step ok) (panel_abs s) fs = Some (panel_abs s')"
  using assms unfolding panel_move_def
proof (elim disjE exE bexE conjE)
  fix k w assume "ok w" "pn_open s' = pn_open s @ [(k, w)]" "pn_sent s' = pn_sent s @ [w]"
  then have "run (guard_step ok) (panel_abs s) [Issue w] = Some (panel_abs s')" by (simp add: panel_abs_def)
  then show ?thesis by blast
next
  fix q assume q: "q \<in> set (pn_open s)" "pn_open s' = remove1 q (pn_open s)" "pn_sent s' = pn_sent s"
  then have "run (guard_step ok) (panel_abs s) [Complete (snd q)] = Some (panel_abs s')"
    by (auto simp: panel_abs_def mset_snd_remove1 simp del: mset_map)
  then show ?thesis by blast
qed (auto simp: panel_abs_def intro: exI [of _ "[]"])

text \<open>One event of a component can end a request and start others.\<close>

lemma panel_moves1: "panel_move ok holds s s' \<Longrightarrow> (panel_move ok holds)\<^sup>*\<^sup>* s s'"
  by (rule r_into_rtranclp)

lemma panel_moves_abs:
  "(panel_move ok holds)\<^sup>*\<^sup>* s s' \<Longrightarrow> \<exists>fs. run (guard_step ok) (panel_abs s) fs = Some (panel_abs s')"
proof (induction rule: rtranclp_induct)
  case base
  show ?case by (rule exI [of _ "[]"]) simp
next
  case (step t u)
  then obtain fs gs where "run (guard_step ok) (panel_abs s) fs = Some (panel_abs t)"
    "run (guard_step ok) (panel_abs t) gs = Some (panel_abs u)" using panel_move_abs by blast
  then have "run (guard_step ok) (panel_abs s) (fs @ gs) = Some (panel_abs u)" by (simp add: run_append)
  then show ?case ..
qed

definition holder_inv :: "('o \<Rightarrow> bool) \<Rightarrow> ('o, 'z) panel_scheme \<Rightarrow> bool" where
  "holder_inv holds s \<longleftrightarrow> (pn_busy s \<longrightarrow> (\<exists>q \<in> set (pn_open s). holds (fst q)))"

lemma holder_remains:
  "p \<in> set xs \<Longrightarrow> holds (fst p) \<Longrightarrow> \<not> holds (fst q) \<Longrightarrow> \<exists>r \<in> set (remove1 q xs). holds (fst r)"
  by (metis in_set_remove1)

lemma panel_move_holder: "panel_move ok holds s s' \<Longrightarrow> holder_inv holds s \<Longrightarrow> holder_inv holds s'"
  unfolding panel_move_def holder_inv_def
  by (elim disjE exE bexE conjE) (auto dest: holder_remains)

lemma panel_moves_holder: "(panel_move ok holds)\<^sup>*\<^sup>* s s' \<Longrightarrow> holder_inv holds s \<Longrightarrow> holder_inv holds s'"
  by (induction rule: rtranclp_induct) (auto dest: panel_move_holder)

text \<open>What a component has done is an execution of the specification that issues requests only
  if the backend would serve them to the user's role; in particular no other request was sent.\<close>

definition keeps_to_policy :: "json option \<Rightarrow> ('o, 'z) panel_scheme \<Rightarrow> bool" where
  "keeps_to_policy user s \<longleftrightarrow>
     (\<exists>fs. run (guard_step (permitted (session_role user))) guard_init fs = Some (panel_abs s))
     \<and> (\<forall>w \<in> set (pn_sent s). permitted (session_role user) w)"

locale panel_page = started_system step inv init
  for step :: "('o, 'z) panel_scheme \<Rightarrow> 'e \<Rightarrow> ('o, 'z) panel_scheme option"
    and inv :: "('o, 'z) panel_scheme \<Rightarrow> bool"
    and init :: "('o, 'z) panel_scheme" +
  fixes ok :: "wire \<Rightarrow> bool"
    and holds :: "'o \<Rightarrow> bool"
  assumes init_idle: "panel_idle init"
    and moves: "inv s \<Longrightarrow> step s e = Some s' \<Longrightarrow> (panel_move ok holds)\<^sup>*\<^sup>* s s'"
begin

lemma abs_init: "panel_abs init = guard_init"
  using init_idle by (simp add: panel_abs_def panel_idle_def guard_init_def)

lemma busy_held: "run step init es = Some s \<Longrightarrow> pn_busy s \<Longrightarrow> \<exists>q \<in> set (pn_open s). holds (fst q)"
proof -
  have "run step init es = Some s \<Longrightarrow> holder_inv holds s" for s
  proof (induction es arbitrary: s rule: rev_induct)
    case Nil
    then show ?case using init_idle by (simp add: holder_inv_def panel_idle_def)
  next
    case (snoc e es)
    then obtain t where "run step init es = Some t" "step t e = Some s"
      by (auto simp: run_snoc split: option.splits)
    with snoc.IH moves reachable_inv show ?case by (metis panel_moves_holder)
  qed
  then show "run step init es = Some s \<Longrightarrow> pn_busy s \<Longrightarrow> \<exists>q \<in> set (pn_open s). holds (fst q)"
    by (simp add: holder_inv_def)
qed

end

sublocale panel_page \<subseteq> simulation step inv "guard_step ok" panel_abs
  by unfold_locales (metis moves panel_moves_abs)

context panel_page
begin

lemma refines: "run step init es = Some s \<Longrightarrow> \<exists>fs. run (guard_step ok) guard_init fs = Some (panel_abs s)"
  using run_refines [OF init_inv] abs_init by metis

lemma sent_ok: "run step init es = Some s \<Longrightarrow> w \<in> set (pn_sent s) \<Longrightarrow> ok w"
  using refines guard.reachable_inv unfolding guard_inv_def panel_abs_def by fastforce

lemma keeps_to_policyI:
  "ok = permitted (session_role user) \<Longrightarrow> run step init es = Some s \<Longrightarrow> keeps_to_policy user s"
  unfolding keeps_to_policy_def using refines sent_ok by blast

end

end
