(* ===== verification/Crud_Tab.thy ===== *)
theory Crud_Tab
  imports Ui_Panel
begin

text \<open>
  The tabs that manage a list of items (storage targets, connections, policies) share one
  shape: a dialog with a form for a new item, one for editing, a confirmation before deleting
  and, for some, a test button. Here is that shape as a step machine over a description of the
  page; the tabs give the descriptions. A dialog that is closed and opened again is a new
  instance with a fresh form, which its number tells apart: the answer to a save of an earlier
  instance still closes whatever dialog is open, as the callback in the source does.
\<close>

section \<open>Model\<close>

record 'f dialog =
  dg_run :: nat
  dg_form :: 'f
  dg_busy :: bool

datatype crud_op = OpCreate nat string | OpUpdate nat string | OpDelete | OpTest

record ('i, 'f) crud_tab = "crud_op panel" +
  ct_create :: "'f dialog option"
  ct_edit :: "('i \<times> 'f dialog) option"
  ct_deleting :: "'i option"
  ct_testing :: "string option"
  ct_runs :: nat

text \<open>The description of a page. \<open>cp_tested\<close> is the toast for the answer of a test; reading a
  field of an empty answer throws.\<close>

record ('i, 'f, 'e) crud_page =
  cp_id :: "'i \<Rightarrow> string"
  cp_blank :: 'f
  cp_load :: "'i \<Rightarrow> 'f"
  cp_input :: "bool \<Rightarrow> 'e \<Rightarrow> 'f \<Rightarrow> 'f option"
  cp_valid :: "'f \<Rightarrow> bool"
  cp_create :: "'f \<Rightarrow> wire"
  cp_update :: "('i \<Rightarrow> 'f \<Rightarrow> wire) option"
  cp_delete :: "'i \<Rightarrow> wire"
  cp_test :: "('i \<Rightarrow> wire) option"
  cp_created :: "'f \<Rightarrow> string"
  cp_updated :: "'f \<Rightarrow> string"
  cp_deleted :: string
  cp_tested :: "json option \<Rightarrow> js_error + string \<times> bool"

datatype ('i, 'e) crud_event =
    NewItem
  | EditItem 'i
  | DeleteItem 'i
  | TestItem 'i
  | InputNew 'e
  | InputEdit 'e
  | SaveNew
  | SaveEdit
  | CloseNew
  | CloseEdit
  | CloseDelete
  | ConfirmDelete
  | RefreshTab
  | TabAnswer "crud_op \<times> wire" "js_error + json option"

definition crud_init :: "('i, 'f) crud_tab" where
  "crud_init =
     \<lparr>pn_busy = False, pn_open = [], pn_sent = [], pn_toasts = [], pn_changed = 0,
      ct_create = None, ct_edit = None, ct_deleting = None, ct_testing = None, ct_runs = 0\<rparr>"

definition fresh_dialog :: "'f \<Rightarrow> nat \<Rightarrow> 'f dialog" where
  "fresh_dialog f n = \<lparr>dg_run = n, dg_form = f, dg_busy = False\<rparr>"

text \<open>\<open>setBusy(false)\<close> of the dialog instance \<open>n\<close>, if it is still mounted.\<close>

definition release :: "nat \<Rightarrow> 'f dialog \<Rightarrow> 'f dialog" where
  "release n d = (if dg_run d = n then d\<lparr>dg_busy := False\<rparr> else d)"

definition crud_answer ::
  "('i, 'f, 'e) crud_page \<Rightarrow> crud_op \<Rightarrow> js_error + json option \<Rightarrow> ('i, 'f) crud_tab \<Rightarrow> ('i, 'f) crud_tab"
where
  "crud_answer P k r s =
     (case k of
        OpCreate n msg \<Rightarrow>
          (case r of
             Inr v \<Rightarrow> (pn_change (pn_toast msg False s))\<lparr>ct_create := None\<rparr>
           | Inl e \<Rightarrow> (pn_toast (error_message e) True s)\<lparr>ct_create := map_option (release n) (ct_create s)\<rparr>)
      | OpUpdate n msg \<Rightarrow>
          (case r of
             Inr v \<Rightarrow> (pn_change (pn_toast msg False s))\<lparr>ct_edit := None\<rparr>
           | Inl e \<Rightarrow> (pn_toast (error_message e) True s)\<lparr>ct_edit := map_option (apsnd (release n)) (ct_edit s)\<rparr>)
      | OpDelete \<Rightarrow>
          pn_free (case r of
             Inr v \<Rightarrow> (pn_change (pn_toast (cp_deleted P) False s))\<lparr>ct_deleting := None\<rparr>
           | Inl e \<Rightarrow> pn_toast (error_message e) True s)
      | OpTest \<Rightarrow>
          (case (case r of Inl e \<Rightarrow> Inl e | Inr v \<Rightarrow> cp_tested P v) of
             Inr (t, err) \<Rightarrow> (pn_change (pn_toast t err s))\<lparr>ct_testing := None\<rparr>
           | Inl e \<Rightarrow> (pn_toast (error_message e) True s)\<lparr>ct_testing := None\<rparr>))"

text \<open>A control that is not rendered or is disabled produces no event. Opening the edit dialog
  for another item keeps the mounted form. The confirmation's cancel button is disabled while
  busy, but the escape key and the backdrop close it at any time.\<close>

fun crud_step ::
  "('i, 'f, 'e) crud_page \<Rightarrow> json option \<Rightarrow> ('i, 'f) crud_tab \<Rightarrow> ('i, 'e) crud_event \<Rightarrow> ('i, 'f) crud_tab option"
where
  "crud_step P user s NewItem =
     (if fst (useDbBackupsRole user)
      then Some (case ct_create s of
             None \<Rightarrow> s\<lparr>ct_create := Some (fresh_dialog (cp_blank P) (ct_runs s)), ct_runs := Suc (ct_runs s)\<rparr>
           | Some d \<Rightarrow> s)
      else None)"
| "crud_step P user s (EditItem i) =
     (if fst (useDbBackupsRole user) \<and> cp_update P \<noteq> None
      then Some (case ct_edit s of
             None \<Rightarrow> s\<lparr>ct_edit := Some (i, fresh_dialog (cp_load P i) (ct_runs s)), ct_runs := Suc (ct_runs s)\<rparr>
           | Some (j, d) \<Rightarrow> s\<lparr>ct_edit := Some (i, d)\<rparr>)
      else None)"
| "crud_step P user s (DeleteItem i) =
     (if snd (useDbBackupsRole user) then Some (s\<lparr>ct_deleting := Some i\<rparr>) else None)"
| "crud_step P user s (TestItem i) =
     (case cp_test P of
        None \<Rightarrow> None
      | Some f \<Rightarrow>
          if fst (useDbBackupsRole user) \<and> ct_testing s \<noteq> Some (cp_id P i)
          then Some (pn_request OpTest (f i) (s\<lparr>ct_testing := Some (cp_id P i)\<rparr>)) else None)"
| "crud_step P user s (InputNew e) =
     (case ct_create s of
        None \<Rightarrow> None
      | Some d \<Rightarrow> map_option (\<lambda>f. s\<lparr>ct_create := Some (d\<lparr>dg_form := f\<rparr>)\<rparr>) (cp_input P False e (dg_form d)))"
| "crud_step P user s (InputEdit e) =
     (case ct_edit s of
        None \<Rightarrow> None
      | Some (i, d) \<Rightarrow> map_option (\<lambda>f. s\<lparr>ct_edit := Some (i, d\<lparr>dg_form := f\<rparr>)\<rparr>) (cp_input P True e (dg_form d)))"
| "crud_step P user s SaveNew =
     (case ct_create s of
        None \<Rightarrow> None
      | Some d \<Rightarrow>
          if dg_busy d \<or> \<not> cp_valid P (dg_form d) then None
          else Some (pn_request (OpCreate (dg_run d) (cp_created P (dg_form d))) (cp_create P (dg_form d))
                 (s\<lparr>ct_create := Some (d\<lparr>dg_busy := True\<rparr>)\<rparr>)))"
| "crud_step P user s SaveEdit =
     (case (ct_edit s, cp_update P) of
        (Some (i, d), Some upd) \<Rightarrow>
          if dg_busy d \<or> \<not> cp_valid P (dg_form d) then None
          else Some (pn_request (OpUpdate (dg_run d) (cp_updated P (dg_form d))) (upd i (dg_form d))
                 (s\<lparr>ct_edit := Some (i, d\<lparr>dg_busy := True\<rparr>)\<rparr>))
      | _ \<Rightarrow> None)"
| "crud_step P user s CloseNew = (if ct_create s = None then None else Some (s\<lparr>ct_create := None\<rparr>))"
| "crud_step P user s CloseEdit = (if ct_edit s = None then None else Some (s\<lparr>ct_edit := None\<rparr>))"
| "crud_step P user s CloseDelete = (if ct_deleting s = None then None else Some (s\<lparr>ct_deleting := None\<rparr>))"
| "crud_step P user s ConfirmDelete =
     (case ct_deleting s of
        None \<Rightarrow> None
      | Some i \<Rightarrow> if pn_busy s then None else Some (pn_start OpDelete (cp_delete P i) s))"
| "crud_step P user s RefreshTab = Some (pn_change s)"
| "crud_step P user s (TabAnswer q r) =
     (if q \<in> set (pn_open s) then Some (crud_answer P (fst q) r (pn_done q s)) else None)"

section \<open>Access\<close>

lemma role_flags:
  "fst (useDbBackupsRole user) \<longleftrightarrow> Operator \<le> session_role user"
  "snd (useDbBackupsRole user) \<longleftrightarrow> session_role user = Admin"
  by (auto simp: useDbBackupsRole_def session_role_def Let_def)

definition crud_inv :: "('i, 'f, 'e) crud_page \<Rightarrow> json option \<Rightarrow> ('i, 'f) crud_tab \<Rightarrow> bool" where
  "crud_inv P user s \<longleftrightarrow>
     (ct_create s \<noteq> None \<longrightarrow> Operator \<le> session_role user)
     \<and> (ct_edit s \<noteq> None \<longrightarrow> Operator \<le> session_role user \<and> cp_update P \<noteq> None)
     \<and> (ct_deleting s \<noteq> None \<longrightarrow> session_role user = Admin)"

lemma crud_answer_frame:
  "pn_open (crud_answer P k r s) = pn_open s" "pn_sent (crud_answer P k r s) = pn_sent s"
  "pn_busy (crud_answer P k r s) \<longleftrightarrow> pn_busy s \<and> k \<noteq> OpDelete"
  "ct_create (crud_answer P k r s) \<noteq> None \<Longrightarrow> ct_create s \<noteq> None"
  "ct_edit (crud_answer P k r s) \<noteq> None \<Longrightarrow> ct_edit s \<noteq> None"
  "ct_deleting (crud_answer P k r s) \<noteq> None \<Longrightarrow> ct_deleting s \<noteq> None"
  by (auto simp: crud_answer_def pn_defs split: crud_op.splits sum.splits prod.splits)

lemma crud_step_inv: "crud_inv P user s \<Longrightarrow> crud_step P user s e = Some s' \<Longrightarrow> crud_inv P user s'"
proof (cases e)
  case (TabAnswer q r)
  assume "crud_inv P user s" "crud_step P user s e = Some s'"
  with TabAnswer have "crud_inv P user (pn_done q s)" "s' = crud_answer P (fst q) r (pn_done q s)"
    by (auto simp: crud_inv_def pn_done_def split: if_splits)
  then show ?thesis unfolding crud_inv_def by (metis crud_answer_frame(4-6))
qed (auto simp: crud_inv_def role_flags pn_defs split: if_splits option.splits prod.splits)

locale crud_access =
  fixes P :: "('i, 'f, 'e) crud_page"
  assumes create_op: "permitted Operator (cp_create P f)"
    and update_op: "cp_update P = Some upd \<Longrightarrow> permitted Operator (upd i f)"
    and test_op: "cp_test P = Some tst \<Longrightarrow> permitted Operator (tst i)"
    and delete_op: "permitted Admin (cp_delete P i)"
begin

lemma crud_moves:
  assumes "crud_inv P user s" and "crud_step P user s e = Some s'"
  shows "panel_move (permitted (session_role user)) (\<lambda>k. k = OpDelete) s s'"
proof -
  note up = permitted_mono [of Operator _ "session_role user"]
  show ?thesis
  proof (cases e)
    case (TestItem i)
    with assms(2) obtain tst where "cp_test P = Some tst" and may: "Operator \<le> session_role user"
      and s': "s' = pn_request OpTest (tst i) (s\<lparr>ct_testing := Some (cp_id P i)\<rparr>)"
      by (auto simp: role_flags split: option.splits if_splits)
    with test_op up show ?thesis by (intro panel_move_start [of _ "tst i"]) (auto simp: pn_defs)
  next
    case SaveNew
    with assms obtain d where "Operator \<le> session_role user"
      and s': "s' = pn_request (OpCreate (dg_run d) (cp_created P (dg_form d))) (cp_create P (dg_form d))
        (s\<lparr>ct_create := Some (d\<lparr>dg_busy := True\<rparr>)\<rparr>)"
      by (auto simp: crud_inv_def split: option.splits if_splits)
    with create_op up show ?thesis by (intro panel_move_start [of _ "cp_create P (dg_form d)"]) (auto simp: pn_defs)
  next
    case SaveEdit
    with assms obtain i d upd where "Operator \<le> session_role user" "cp_update P = Some upd"
      and s': "s' = pn_request (OpUpdate (dg_run d) (cp_updated P (dg_form d))) (upd i (dg_form d))
        (s\<lparr>ct_edit := Some (i, d\<lparr>dg_busy := True\<rparr>)\<rparr>)"
      by (auto simp: crud_inv_def split: option.splits if_splits)
    with update_op up show ?thesis by (intro panel_move_start [of _ "upd i (dg_form d)"]) (auto simp: pn_defs)
  next
    case ConfirmDelete
    with assms obtain i where "session_role user = Admin" and s': "s' = pn_start OpDelete (cp_delete P i) s"
      by (auto simp: crud_inv_def split: option.splits if_splits)
    with delete_op show ?thesis by (intro panel_move_start [of _ "cp_delete P i"]) (auto simp: pn_defs)
  next
    case (TabAnswer q r)
    with assms(2) have "q \<in> set (pn_open s)" "s' = crud_answer P (fst q) r (pn_done q s)"
      by (auto split: if_splits)
    then show ?thesis by (intro panel_move_end [of q]) (auto simp: crud_answer_frame pn_done_def)
  qed (use assms(2) in \<open>auto intro!: panel_move_none simp: pn_defs split: option.splits if_splits prod.splits\<close>)
qed

end

text \<open>The page of every user is then a component that keeps to the user's role.\<close>

sublocale crud_access \<subseteq> page: panel_page "crud_step P user" "crud_inv P user" crud_init "permitted (session_role user)"
  "\<lambda>k. k = OpDelete" for user
proof unfold_locales
  show "crud_inv P user crud_init" by (simp add: crud_inv_def crud_init_def)
qed (auto simp: panel_idle_def crud_init_def intro: crud_step_inv panel_moves1 [OF crud_moves])

end
