(* ===== verification/Backup_Tabs.thy ===== *)
theory Backup_Tabs
  imports Crud_Tab
begin

text \<open>
  The storage, connection and policy tabs of the backup page
  (\<open>client/src/features/dbbackups/StorageTab.tsx\<close>, \<open>ConnectionsTab.tsx\<close>,
  \<open>PoliciesTab.tsx\<close>) as descriptions for the common tab machine: forms and their inputs,
  validity, requests and messages. Number inputs carry the whole number that was entered.
\<close>

section \<open>Texts\<close>

definition quoted :: "string \<Rightarrow> string" where
  "quoted s = [CHR 0x22] @ s @ [CHR 0x22]"

text \<open>\<open>v ?? d\<close> printed in a template, and \<open>v != null\<close>.\<close>

definition nullish :: "json option \<Rightarrow> bool" where
  "nullish v \<longleftrightarrow> v = None \<or> v = Some JNull"

definition text_or :: "json option \<Rightarrow> string \<Rightarrow> string" where
  "text_or v d = (if nullish v then d else template_text v)"

definition latency_text :: "json option \<Rightarrow> string" where
  "latency_text v = (if nullish v then [] else '' ('' @ template_text v @ ''ms)'')"

section \<open>Storage targets\<close>

datatype storage_input = StName string | StPath string

fun storage_edit :: "storage_input \<Rightarrow> VgStorageInput \<Rightarrow> VgStorageInput" where
  "storage_edit (StName t) f = f\<lparr>vgStorageInput_name := t\<rparr>"
| "storage_edit (StPath t) f = f\<lparr>vgStorageInput_path := Some t\<rparr>"

definition storage_valid :: "VgStorageInput \<Rightarrow> bool" where
  "storage_valid f \<longleftrightarrow>
     js_trim (vgStorageInput_name f) \<noteq> [] \<and> js_truthy (map_option js_trim (vgStorageInput_path f))"

definition storage_tested :: "string \<Rightarrow> json option \<Rightarrow> js_error + string \<times> bool" where
  "storage_tested tmsg res =
     (case field_of tmsg ''status'' res of
        Inl e \<Rightarrow> Inl e
      | Inr st \<Rightarrow>
          let fld = \<lambda>k. Option.bind res (json_get k) in
          Inr (if st = Some (JStr ''ok'') then (''Folder is writable'' @ latency_text (fld ''latency_ms''), False)
               else (text_or (fld ''error'') ''Test failed'', True)))"

definition storage_page :: "string \<Rightarrow> (VgStorageTarget, VgStorageInput, storage_input) crud_page" where
  "storage_page tmsg =
     \<lparr>cp_id = vgStorageTarget_id,
      cp_blank = \<lparr>vgStorageInput_name = [], vgStorageInput_type = ''LOCAL'', vgStorageInput_path = Some []\<rparr>,
      cp_load = (\<lambda>t. \<lparr>vgStorageInput_name = [], vgStorageInput_type = ''LOCAL'', vgStorageInput_path = Some []\<rparr>),
      cp_input = (\<lambda>editing e f. Some (storage_edit e f)),
      cp_valid = storage_valid,
      cp_create = (\<lambda>f. wire_of (dbBackupsApi_createTarget f)),
      cp_update = None,
      cp_delete = (\<lambda>t. wire_of (dbBackupsApi_deleteTarget (vgStorageTarget_id t))),
      cp_test = Some (\<lambda>t. wire_of (dbBackupsApi_testTarget (vgStorageTarget_id t))),
      cp_created = (\<lambda>f. ''Storage target '' @ quoted (vgStorageInput_name f) @ '' created''),
      cp_updated = (\<lambda>f. []),
      cp_deleted = ''Storage target deleted'',
      cp_tested = storage_tested tmsg\<rparr>"

section \<open>Connections\<close>

definition CONNECTION_TYPES :: "string list" where
  "CONNECTION_TYPES = [''POSTGRES'', ''MONGODB'', ''MSSQL'']"

record conn_form =
  cf_input :: VgConnectionInput
  cf_password :: string

datatype conn_input =
    CnName string
  | CnType string
  | CnAgent string
  | CnHost string
  | CnPort int
  | CnUsername string
  | CnPassword string

fun conn_edit :: "conn_input \<Rightarrow> conn_form \<Rightarrow> conn_form option" where
  "conn_edit (CnName t) f = Some (f\<lparr>cf_input := (cf_input f)\<lparr>vgConnectionInput_name := t\<rparr>\<rparr>)"
| "conn_edit (CnType t) f =
     (if t \<in> set CONNECTION_TYPES then Some (f\<lparr>cf_input := (cf_input f)\<lparr>vgConnectionInput_type := t\<rparr>\<rparr>) else None)"
| "conn_edit (CnAgent t) f = Some (f\<lparr>cf_input := (cf_input f)\<lparr>vgConnectionInput_agent_id := t\<rparr>\<rparr>)"
| "conn_edit (CnHost t) f = Some (f\<lparr>cf_input := (cf_input f)\<lparr>vgConnectionInput_host := t\<rparr>\<rparr>)"
| "conn_edit (CnPort n) f = Some (f\<lparr>cf_input := (cf_input f)\<lparr>vgConnectionInput_port := Some n\<rparr>\<rparr>)"
| "conn_edit (CnUsername t) f = Some (f\<lparr>cf_input := (cf_input f)\<lparr>vgConnectionInput_username := Some t\<rparr>\<rparr>)"
| "conn_edit (CnPassword t) f = Some (f\<lparr>cf_password := t\<rparr>)"

definition conn_valid :: "conn_form \<Rightarrow> bool" where
  "conn_valid f \<longleftrightarrow>
     js_trim (vgConnectionInput_name (cf_input f)) \<noteq> [] \<and> vgConnectionInput_agent_id (cf_input f) \<noteq> []
     \<and> js_trim (vgConnectionInput_host (cf_input f)) \<noteq> []"

text \<open>The password is write-only: it is part of the body only when the field is not empty.\<close>

definition conn_body :: "conn_form \<Rightarrow> VgConnectionInput" where
  "conn_body f =
     (if cf_password f = [] then cf_input f else (cf_input f)\<lparr>vgConnectionInput_password := Some (cf_password f)\<rparr>)"

definition conn_load :: "VgConnection \<Rightarrow> conn_form" where
  "conn_load c =
     \<lparr>cf_input = \<lparr>vgConnectionInput_name = vgConnection_name c, vgConnectionInput_type = vgConnection_type c,
        vgConnectionInput_agent_id = vgConnection_agent_id c, vgConnectionInput_host = vgConnection_host c,
        vgConnectionInput_port = Some (vgConnection_port c),
        vgConnectionInput_username = Some (vgConnection_username c), vgConnectionInput_password = None,
        vgConnectionInput_databases = None\<rparr>,
      cf_password = []\<rparr>"

definition conn_blank :: conn_form where
  "conn_blank =
     \<lparr>cf_input = \<lparr>vgConnectionInput_name = [], vgConnectionInput_type = ''POSTGRES'',
        vgConnectionInput_agent_id = [], vgConnectionInput_host = [], vgConnectionInput_port = Some 5432,
        vgConnectionInput_username = Some [], vgConnectionInput_password = None, vgConnectionInput_databases = None\<rparr>,
      cf_password = []\<rparr>"

fun js_length :: "json option \<Rightarrow> nat" where
  "js_length (Some (JArr vs)) = length vs"
| "js_length (Some (JStr s)) = length s"
| "js_length _ = 0"

definition databases_text :: "json option \<Rightarrow> string" where
  "databases_text v =
     (let n = js_length v in
      if n = 0 then []
      else '' '' @ [CHR 0xC3, CHR 0x82, CHR 0xC2, CHR 0xB7] @ '' '' @ nat_str n @ '' database''
           @ (if n = 1 then [] else ''s'') @ '' found'')"

definition conn_tested :: "string \<Rightarrow> json option \<Rightarrow> js_error + string \<times> bool" where
  "conn_tested tmsg res =
     (case field_of tmsg ''databases'' res of
        Inl e \<Rightarrow> Inl e
      | Inr dbs \<Rightarrow>
          let fld = \<lambda>k. Option.bind res (json_get k) in
          Inr (if fld ''status'' = Some (JStr ''ok'')
               then (''Reachable'' @ latency_text (fld ''latency_ms'') @ databases_text dbs, False)
               else (text_or (fld ''error'') ''Test failed'', True)))"

definition connections_page :: "string \<Rightarrow> (VgConnection, conn_form, conn_input) crud_page" where
  "connections_page tmsg =
     \<lparr>cp_id = vgConnection_id,
      cp_blank = conn_blank,
      cp_load = conn_load,
      cp_input = (\<lambda>editing. conn_edit),
      cp_valid = conn_valid,
      cp_create = (\<lambda>f. wire_of (dbBackupsApi_createConnection (conn_body f))),
      cp_update = Some (\<lambda>c f. wire_of (dbBackupsApi_updateConnection (vgConnection_id c) (vgConnectionInput_json (conn_body f)))),
      cp_delete = (\<lambda>c. wire_of (dbBackupsApi_deleteConnection (vgConnection_id c))),
      cp_test = Some (\<lambda>c. wire_of (dbBackupsApi_testConnection (vgConnection_id c))),
      cp_created = (\<lambda>f. ''Connection '' @ quoted (vgConnectionInput_name (cf_input f)) @ '' created''),
      cp_updated = (\<lambda>f. ''Connection '' @ quoted (vgConnectionInput_name (cf_input f)) @ '' updated''),
      cp_deleted = ''Connection deleted'',
      cp_tested = conn_tested tmsg\<rparr>"

section \<open>Policies\<close>

datatype policy_input =
    PoName string
  | PoStrategy string
  | PoCron string
  | PoTimezone string
  | PoMode string
  | PoRetention int
  | PoRetries int
  | PoRetryDelay int
  | PoSla int
  | PoRpo int
  | PoEnabled bool
  | PoEncrypted bool
  | PoVerify bool

fun policy_edit :: "policy_input \<Rightarrow> VgPolicyInput \<Rightarrow> VgPolicyInput option" where
  "policy_edit (PoName t) f = Some (f\<lparr>vgPolicyInput_name := t\<rparr>)"
| "policy_edit (PoStrategy t) f = (if t = ''FULL'' then Some (f\<lparr>vgPolicyInput_strategy := Some t\<rparr>) else None)"
| "policy_edit (PoCron t) f = Some (f\<lparr>vgPolicyInput_cron_expr := Some t\<rparr>)"
| "policy_edit (PoTimezone t) f = Some (f\<lparr>vgPolicyInput_timezone := Some t\<rparr>)"
| "policy_edit (PoMode t) f =
     (if t \<in> {''NORMAL'', ''COMPRESSED''} then Some (f\<lparr>vgPolicyInput_mode := Some t\<rparr>) else None)"
| "policy_edit (PoRetention n) f = Some (f\<lparr>vgPolicyInput_retention_days := Some n\<rparr>)"
| "policy_edit (PoRetries n) f = Some (f\<lparr>vgPolicyInput_max_retries := Some n\<rparr>)"
| "policy_edit (PoRetryDelay n) f = Some (f\<lparr>vgPolicyInput_retry_delay_seconds := Some n\<rparr>)"
| "policy_edit (PoSla n) f = Some (f\<lparr>vgPolicyInput_sla_target_minutes := Some n\<rparr>)"
| "policy_edit (PoRpo n) f = Some (f\<lparr>vgPolicyInput_rpo_target_minutes := Some n\<rparr>)"
| "policy_edit (PoEnabled b) f = Some (f\<lparr>vgPolicyInput_enabled := Some b\<rparr>)"
| "policy_edit (PoEncrypted b) f = Some (f\<lparr>vgPolicyInput_encrypted := Some b\<rparr>)"
| "policy_edit (PoVerify b) f = Some (f\<lparr>vgPolicyInput_verification_enabled := Some b\<rparr>)"

text \<open>The form of a policy, or of a new one.\<close>

definition policy_form :: "VgBackupPolicy option \<Rightarrow> VgPolicyInput" where
  "policy_form initial =
     (let from = \<lambda>fld d. (case initial of None \<Rightarrow> d | Some p \<Rightarrow> fld p) in
      \<lparr>vgPolicyInput_name = (case initial of None \<Rightarrow> [] | Some p \<Rightarrow> vgBackupPolicy_name p),
       vgPolicyInput_strategy = Some (case initial of None \<Rightarrow> ''FULL'' | Some p \<Rightarrow> vgBackupPolicy_strategy p),
       vgPolicyInput_cron_expr = Some (case initial of None \<Rightarrow> [] | Some p \<Rightarrow> vgBackupPolicy_cron_expr p),
       vgPolicyInput_timezone = Some (case initial of None \<Rightarrow> ''UTC'' | Some p \<Rightarrow> vgBackupPolicy_timezone p),
       vgPolicyInput_enabled = Some (case initial of None \<Rightarrow> True | Some p \<Rightarrow> vgBackupPolicy_enabled p),
       vgPolicyInput_mode = Some (case initial of None \<Rightarrow> ''NORMAL'' | Some p \<Rightarrow> vgBackupPolicy_mode p),
       vgPolicyInput_encrypted = Some (case initial of None \<Rightarrow> False | Some p \<Rightarrow> vgBackupPolicy_encrypted p),
       vgPolicyInput_retention_days = Some (from vgBackupPolicy_retention_days 30),
       vgPolicyInput_verification_enabled =
         Some (case initial of None \<Rightarrow> True | Some p \<Rightarrow> vgBackupPolicy_verification_enabled p),
       vgPolicyInput_max_retries = Some (from vgBackupPolicy_max_retries 0),
       vgPolicyInput_retry_delay_seconds = Some (from vgBackupPolicy_retry_delay_seconds 300),
       vgPolicyInput_sla_target_minutes = Some (from vgBackupPolicy_sla_target_minutes 0),
       vgPolicyInput_rpo_target_minutes = Some (from vgBackupPolicy_rpo_target_minutes 0),
       vgPolicyInput_rto_target_minutes = Some (from vgBackupPolicy_rto_target_minutes 0)\<rparr>)"

definition policy_valid :: "VgPolicyInput \<Rightarrow> bool" where
  "policy_valid f \<longleftrightarrow> js_trim (vgPolicyInput_name f) \<noteq> []"

definition policy_deleted :: string where
  "policy_deleted =
     ''Policy deleted '' @ [CHR 0xC3, CHR 0xA2, CHR 0xE2, CHR 0x82, CHR 0xAC, CHR 0xE2, CHR 0x80, CHR 0x9D]
     @ '' linked jobs fall back to their own settings''"

definition policies_page :: "(VgBackupPolicy, VgPolicyInput, policy_input) crud_page" where
  "policies_page =
     \<lparr>cp_id = vgBackupPolicy_id,
      cp_blank = policy_form None,
      cp_load = (\<lambda>p. policy_form (Some p)),
      cp_input = (\<lambda>editing. policy_edit),
      cp_valid = policy_valid,
      cp_create = (\<lambda>f. wire_of (dbBackupsApi_createPolicy f)),
      cp_update = Some (\<lambda>p f. wire_of (dbBackupsApi_updatePolicy (vgBackupPolicy_id p) f)),
      cp_delete = (\<lambda>p. wire_of (dbBackupsApi_deletePolicy (vgBackupPolicy_id p))),
      cp_test = None,
      cp_created = (\<lambda>f. ''Policy '' @ quoted (vgPolicyInput_name f) @ '' created''),
      cp_updated = (\<lambda>f. ''Policy '' @ quoted (vgPolicyInput_name f) @ '' updated''),
      cp_deleted = policy_deleted,
      cp_tested = (\<lambda>v. Inr ([], False))\<rparr>"

section \<open>The tabs keep to the policy\<close>

interpretation storage: crud_access "storage_page tmsg" for tmsg
  by unfold_locales (auto simp: storage_page_def call_roles)

interpretation connections: crud_access "connections_page tmsg" for tmsg
  by unfold_locales (auto simp: connections_page_def call_roles)

interpretation policies: crud_access policies_page
  by unfold_locales (auto simp: policies_page_def call_roles)

end
