(* ===== verification/Backup_Agents.thy ===== *)
theory Backup_Agents
  imports Backup_Tabs
begin

text \<open>
  Agents and restores of the backup page (\<open>client/src/features/dbbackups/AgentsTab.tsx\<close>,
  \<open>RestoresTab.tsx\<close>): rotating and revoking agent credentials, minting tokens that are shown
  once, and the restore dialog with its explicit acknowledgement.
\<close>

section \<open>Agent card\<close>

datatype agent_op = AgRotate | AgRevoke

record agent_card = "agent_op panel" +
  ac_agent :: VgAgent
  ac_confirmRevoke :: bool
  ac_rotated :: "json option"

datatype agent_event =
    PressRotate
  | PressRevoke
  | CloseRevoke
  | ConfirmRevoke
  | CloseSecret
  | AgentProp VgAgent
  | AgentAnswer "agent_op \<times> wire" "js_error + json option"

definition agent_init :: "VgAgent \<Rightarrow> agent_card" where
  "agent_init a =
     \<lparr>pn_busy = False, pn_open = [], pn_sent = [], pn_toasts = [], pn_changed = 0,
      ac_agent = a, ac_confirmRevoke = False, ac_rotated = Some JNull\<rparr>"

definition agent_revoked :: "VgAgent \<Rightarrow> bool" where
  "agent_revoked a \<longleftrightarrow> js_truthy (vgAgent_revoked_at a)"

definition agent_presence :: "VgAgent \<Rightarrow> string" where
  "agent_presence a = (if vgAgent_lifecycle a = [] then vgAgent_status a else vgAgent_lifecycle a)"

definition agent_status_text :: "VgAgent \<Rightarrow> string" where
  "agent_status_text a = (if agent_revoked a then ''revoked'' else js_toLowerCase (agent_presence a))"

definition agent_answer :: "string \<Rightarrow> agent_op \<Rightarrow> js_error + json option \<Rightarrow> agent_card \<Rightarrow> agent_card" where
  "agent_answer tmsg k r s =
     (case k of
        AgRotate \<Rightarrow>
          pn_free (case (case r of Inl e \<Rightarrow> Inl e | Inr v \<Rightarrow> field_of tmsg ''agent_token'' v) of
             Inr t \<Rightarrow> pn_change (pn_toast ''New token issued; old token invalidated'' False (s\<lparr>ac_rotated := t\<rparr>))
           | Inl e \<Rightarrow> pn_toast (error_message e) True s)
      | AgRevoke \<Rightarrow> pn_act (\<lambda>s. s\<lparr>ac_confirmRevoke := False\<rparr>) ''Agent revoked'' r s)"

fun agent_step :: "string \<Rightarrow> json option \<Rightarrow> agent_card \<Rightarrow> agent_event \<Rightarrow> agent_card option" where
  "agent_step tmsg user s PressRotate =
     (if snd (useDbBackupsRole user) \<and> \<not> agent_revoked (ac_agent s) \<and> \<not> pn_busy s
      then Some (pn_start AgRotate (wire_of (dbBackupsApi_rotateAgentToken (vgAgent_id (ac_agent s)))) s) else None)"
| "agent_step tmsg user s PressRevoke =
     (if snd (useDbBackupsRole user) \<and> \<not> agent_revoked (ac_agent s) then Some (s\<lparr>ac_confirmRevoke := True\<rparr>) else None)"
| "agent_step tmsg user s CloseRevoke = (if ac_confirmRevoke s then Some (s\<lparr>ac_confirmRevoke := False\<rparr>) else None)"
| "agent_step tmsg user s ConfirmRevoke =
     (if ac_confirmRevoke s \<and> \<not> pn_busy s
      then Some (pn_start AgRevoke (wire_of (dbBackupsApi_revokeAgent (vgAgent_id (ac_agent s)))) s) else None)"
| "agent_step tmsg user s CloseSecret =
     (if json_truthy (ac_rotated s) then Some (s\<lparr>ac_rotated := Some JNull\<rparr>) else None)"
| "agent_step tmsg user s (AgentProp a) =
     (if vgAgent_id a = vgAgent_id (ac_agent s) then Some (s\<lparr>ac_agent := a\<rparr>) else None)"
| "agent_step tmsg user s (AgentAnswer q r) =
     (if q \<in> set (pn_open s) then Some (agent_answer tmsg (fst q) r (pn_done q s)) else None)"

definition agent_inv :: "json option \<Rightarrow> agent_card \<Rightarrow> bool" where
  "agent_inv user s \<longleftrightarrow> (ac_confirmRevoke s \<longrightarrow> session_role user = Admin)"

lemma agent_answer_frame:
  "pn_open (agent_answer tmsg k r s) = pn_open s" "pn_sent (agent_answer tmsg k r s) = pn_sent s"
  "\<not> pn_busy (agent_answer tmsg k r s)" "ac_confirmRevoke (agent_answer tmsg k r s) \<Longrightarrow> ac_confirmRevoke s"
  by (auto simp: agent_answer_def pn_defs split: agent_op.splits sum.splits)

lemma agent_moves:
  assumes "agent_inv user s" "agent_step tmsg user s e = Some s'"
  shows "agent_inv user s' \<and> panel_move (permitted (session_role user)) (\<lambda>k. True) s s'"
proof (cases e)
  case PressRotate
  with assms show ?thesis
    by (auto intro!: panel_move_start [where k = AgRotate] simp: agent_inv_def role_flags call_roles pn_defs split: if_splits)
next
  case ConfirmRevoke
  with assms show ?thesis
    by (auto intro!: panel_move_start [where k = AgRevoke] simp: agent_inv_def call_roles pn_defs split: if_splits)
next
  case (AgentAnswer q r)
  with assms have "q \<in> set (pn_open s)" "s' = agent_answer tmsg (fst q) r (pn_done q s)" by (auto split: if_splits)
  with assms(1) show ?thesis
    by (auto intro!: panel_move_end [of q] simp: agent_inv_def agent_answer_frame pn_done_def
        dest!: agent_answer_frame(4))
qed (use assms in \<open>auto intro!: panel_move_none simp: agent_inv_def role_flags split: if_splits\<close>)

interpretation agent: panel_page "agent_step tmsg user" "agent_inv user" "agent_init a"
  "permitted (session_role user)" "\<lambda>k. True" for tmsg user a
proof unfold_locales
  show "agent_inv user (agent_init a)" "panel_idle (agent_init a)"
    by (simp_all add: agent_inv_def agent_init_def panel_idle_def)
qed (blast dest: agent_moves intro: panel_moves1)+

section \<open>Minting tokens\<close>

datatype mint_op = MintKey | MintEnroll | RevokeToken

record agents_tab = "mint_op panel" +
  at_regKey :: "json option"
  at_enrollToken :: "json option"
  at_enrollName :: string

datatype agents_event =
    PressMintKey
  | TypeEnrollName string
  | PressMintEnroll
  | PressRevokeToken VgEnrollTokenRow
  | CloseKey
  | CloseEnroll
  | RefreshAgents
  | AgentsAnswer "mint_op \<times> wire" "js_error + json option"

definition agents_init :: agents_tab where
  "agents_init =
     \<lparr>pn_busy = False, pn_open = [], pn_sent = [], pn_toasts = [], pn_changed = 0,
      at_regKey = Some JNull, at_enrollToken = Some JNull, at_enrollName = []\<rparr>"

text \<open>\<open>res.enrollment_token ?? res.registration_key ?? ""\<close>\<close>

definition coalesce :: "json option \<Rightarrow> json option \<Rightarrow> json option" where
  "coalesce v w = (if nullish v then w else v)"

definition minted_secret :: "string \<Rightarrow> json option \<Rightarrow> js_error + json option" where
  "minted_secret tmsg res =
     map_sum id (\<lambda>t. coalesce (coalesce t (Option.bind res (json_get ''registration_key''))) (Some (JStr [])))
       (field_of tmsg ''enrollment_token'' res)"

definition mint_answer ::
  "string \<Rightarrow> string \<Rightarrow> (json option \<Rightarrow> agents_tab \<Rightarrow> agents_tab) \<Rightarrow> js_error + json option \<Rightarrow> agents_tab \<Rightarrow> agents_tab"
where
  "mint_answer tmsg msg set_secret r s =
     pn_free (case (case r of Inl e \<Rightarrow> Inl e | Inr v \<Rightarrow> minted_secret tmsg v) of
       Inr v \<Rightarrow> pn_change (pn_toast msg False (set_secret v s))
     | Inl e \<Rightarrow> pn_toast (error_message e) True s)"

definition agents_answer :: "string \<Rightarrow> mint_op \<Rightarrow> js_error + json option \<Rightarrow> agents_tab \<Rightarrow> agents_tab" where
  "agents_answer tmsg k r s =
     (case k of
        MintKey \<Rightarrow> mint_answer tmsg ''Registration key created'' (\<lambda>v s. s\<lparr>at_regKey := v\<rparr>) r s
      | MintEnroll \<Rightarrow> mint_answer tmsg ''Enrollment token created'' (\<lambda>v s. s\<lparr>at_enrollToken := v\<rparr>) r s
      | RevokeToken \<Rightarrow> pn_act id ''Token revoked'' r s)"

definition enroll_call :: "string \<Rightarrow> VgEnrollMint call" where
  "enroll_call t =
     dbBackupsApi_mintEnrollToken (if js_trim t = [] then None else Some (js_trim t)) None"

fun agents_step :: "string \<Rightarrow> json option \<Rightarrow> agents_tab \<Rightarrow> agents_event \<Rightarrow> agents_tab option" where
  "agents_step tmsg user s PressMintKey =
     (if snd (useDbBackupsRole user) \<and> \<not> pn_busy s
      then Some (pn_start MintKey (wire_of dbBackupsApi_mintRegistrationToken) s) else None)"
| "agents_step tmsg user s (TypeEnrollName t) =
     (if snd (useDbBackupsRole user) then Some (s\<lparr>at_enrollName := t\<rparr>) else None)"
| "agents_step tmsg user s PressMintEnroll =
     (if snd (useDbBackupsRole user) \<and> \<not> pn_busy s
      then Some (pn_start MintEnroll (wire_of (enroll_call (at_enrollName s))) s) else None)"
| "agents_step tmsg user s (PressRevokeToken t) =
     (if snd (useDbBackupsRole user) \<and> \<not> js_truthy (vgEnrollTokenRow_used_at t)
         \<and> \<not> js_truthy (vgEnrollTokenRow_revoked_at t) \<and> \<not> pn_busy s
      then Some (pn_start RevokeToken (wire_of (dbBackupsApi_revokeEnrollToken (vgEnrollTokenRow_id t))) s) else None)"
| "agents_step tmsg user s CloseKey =
     (if json_truthy (at_regKey s) then Some (s\<lparr>at_regKey := Some JNull\<rparr>) else None)"
| "agents_step tmsg user s CloseEnroll =
     (if json_truthy (at_enrollToken s) then Some (s\<lparr>at_enrollToken := Some JNull\<rparr>) else None)"
| "agents_step tmsg user s RefreshAgents = Some (pn_change s)"
| "agents_step tmsg user s (AgentsAnswer q r) =
     (if q \<in> set (pn_open s) then Some (agents_answer tmsg (fst q) r (pn_done q s)) else None)"

lemma agents_answer_frame:
  "pn_open (agents_answer tmsg k r s) = pn_open s" "pn_sent (agents_answer tmsg k r s) = pn_sent s"
  "\<not> pn_busy (agents_answer tmsg k r s)"
  by (auto simp: agents_answer_def mint_answer_def pn_defs split: mint_op.splits sum.splits)

lemma agents_moves:
  assumes "agents_step tmsg user s e = Some s'"
  shows "panel_move (permitted (session_role user)) (\<lambda>k. True) s s'"
proof (cases e)
  case PressMintKey
  with assms show ?thesis
    by (auto intro!: panel_move_start [where k = MintKey] simp: role_flags call_roles pn_defs split: if_splits)
next
  case PressMintEnroll
  with assms show ?thesis
    by (auto intro!: panel_move_start [where k = MintEnroll]
        simp: role_flags enroll_call_def call_roles pn_defs split: if_splits)
next
  case (PressRevokeToken t)
  with assms show ?thesis
    by (auto intro!: panel_move_start [where k = RevokeToken] simp: role_flags call_roles pn_defs split: if_splits)
next
  case (AgentsAnswer q r)
  with assms have "q \<in> set (pn_open s)" "s' = agents_answer tmsg (fst q) r (pn_done q s)" by (auto split: if_splits)
  then show ?thesis by (auto intro!: panel_move_end [of q] simp: agents_answer_frame pn_done_def)
qed (use assms in \<open>auto intro!: panel_move_none simp: pn_defs split: if_splits\<close>)

interpretation agents: panel_page "agents_step tmsg user" "\<lambda>s. True" agents_init
  "permitted (session_role user)" "\<lambda>k. True" for tmsg user
proof unfold_locales
  show "panel_idle agents_init" by (simp add: agents_init_def panel_idle_def)
qed (blast intro: panel_moves1 [OF agents_moves])+

section \<open>Restores\<close>

record restore_form =
  rf_runId :: string
  rf_agentId :: string
  rf_destination :: string
  rf_targetDb :: string

record restore_details =
  rd_runId :: string
  rd_agentId :: string
  rd_dest :: string
  rd_db :: string

record restores_tab = "unit panel" +
  rs_create :: "restore_form option"
  rs_pending :: "restore_details option"

datatype restore_input = RiRun string | RiAgent string | RiDestination string | RiDatabase string

fun restore_edit :: "restore_input \<Rightarrow> restore_form \<Rightarrow> restore_form" where
  "restore_edit (RiRun t) f = f\<lparr>rf_runId := t\<rparr>"
| "restore_edit (RiAgent t) f = f\<lparr>rf_agentId := t\<rparr>"
| "restore_edit (RiDestination t) f = f\<lparr>rf_destination := t\<rparr>"
| "restore_edit (RiDatabase t) f = f\<lparr>rf_targetDb := t\<rparr>"

datatype restores_event =
    NewRestore
  | RestoreInput restore_input
  | ReviewRestore
  | CloseRestoreForm
  | CloseRestoreConfirm
  | ConfirmStart
  | RefreshRestores
  | RestoreAnswer "unit \<times> wire" "js_error + json option"

definition restores_init :: restores_tab where
  "restores_init =
     \<lparr>pn_busy = False, pn_open = [], pn_sent = [], pn_toasts = [], pn_changed = 0,
      rs_create = None, rs_pending = None\<rparr>"

definition blank_restore :: restore_form where
  "blank_restore = \<lparr>rf_runId = [], rf_agentId = [], rf_destination = [], rf_targetDb = []\<rparr>"

definition restore_request :: "restore_details \<Rightarrow> VgRestoreInput" where
  "restore_request d =
     \<lparr>vgRestoreInput_backup_run_id = rd_runId d, vgRestoreInput_agent_id = rd_agentId d,
      vgRestoreInput_destination_path = some_text (rd_dest d), vgRestoreInput_target_database = some_text (rd_db d),
      vgRestoreInput_confirmed = True\<rparr>"

definition restore_details_of :: "restore_form \<Rightarrow> restore_details" where
  "restore_details_of f =
     \<lparr>rd_runId = rf_runId f, rd_agentId = rf_agentId f, rd_dest = js_trim (rf_destination f),
      rd_db = js_trim (rf_targetDb f)\<rparr>"

fun restores_step :: "json option \<Rightarrow> restores_tab \<Rightarrow> restores_event \<Rightarrow> restores_tab option" where
  "restores_step user s NewRestore =
     (if fst (useDbBackupsRole user)
      then Some (s\<lparr>rs_create := Some (case rs_create s of None \<Rightarrow> blank_restore | Some f \<Rightarrow> f)\<rparr>) else None)"
| "restores_step user s (RestoreInput e) =
     (case rs_create s of None \<Rightarrow> None | Some f \<Rightarrow> Some (s\<lparr>rs_create := Some (restore_edit e f)\<rparr>))"
| "restores_step user s ReviewRestore =
     (case rs_create s of
        None \<Rightarrow> None
      | Some f \<Rightarrow> if rf_runId f = [] \<or> rf_agentId f = [] then None
                  else Some (s\<lparr>rs_create := None, rs_pending := Some (restore_details_of f)\<rparr>))"
| "restores_step user s CloseRestoreForm = (if rs_create s = None then None else Some (s\<lparr>rs_create := None\<rparr>))"
| "restores_step user s CloseRestoreConfirm = (if rs_pending s = None then None else Some (s\<lparr>rs_pending := None\<rparr>))"
| "restores_step user s ConfirmStart =
     (case rs_pending s of
        None \<Rightarrow> None
      | Some d \<Rightarrow> if pn_busy s then None
                  else Some (pn_start () (wire_of (dbBackupsApi_createRestore (restore_request d))) s))"
| "restores_step user s RefreshRestores = Some (pn_change s)"
| "restores_step user s (RestoreAnswer q r) =
     (if q \<in> set (pn_open s) then
        Some (pn_act (\<lambda>s. s\<lparr>rs_pending := None\<rparr>) ''Restore started'' r (pn_done q s)) else None)"

definition restores_inv :: "json option \<Rightarrow> restores_tab \<Rightarrow> bool" where
  "restores_inv user s \<longleftrightarrow> (rs_create s \<noteq> None \<or> rs_pending s \<noteq> None \<longrightarrow> Operator \<le> session_role user)"

lemma restores_moves:
  assumes "restores_inv user s" "restores_step user s e = Some s'"
  shows "restores_inv user s' \<and> panel_move (permitted (session_role user)) (\<lambda>k. True) s s'"
proof (cases e)
  case ConfirmStart
  with assms show ?thesis
    by (auto intro!: panel_move_start [where k = "()"] simp: restores_inv_def call_roles pn_defs
        split: if_splits option.splits)
next
  case (RestoreAnswer q r)
  with assms show ?thesis
    by (auto intro!: panel_move_end [of q] simp: restores_inv_def pn_defs split: if_splits sum.splits)
qed (use assms in \<open>auto intro!: panel_move_none simp: restores_inv_def role_flags pn_defs split: if_splits option.splits\<close>)

interpretation restores: panel_page "restores_step user" "restores_inv user" restores_init
  "permitted (session_role user)" "\<lambda>k. True" for user
proof unfold_locales
  show "restores_inv user restores_init" "panel_idle restores_init"
    by (simp_all add: restores_inv_def restores_init_def panel_idle_def)
qed (blast dest: restores_moves intro: panel_moves1)+

end
