(* ===== verification/Backup_Jobs.thy ===== *)
theory Backup_Jobs
  imports Backup_Agents Format
begin

text \<open>
  Jobs of the backup page (\<open>client/src/features/dbbackups/JobsTab.tsx\<close>): the job
  form, the job card with its schedule switch, preflight and delete confirmation, and the tab
  with its filter and creation dialog.
\<close>

section \<open>Job form\<close>

definition SOURCES :: "string list" where
  "SOURCES = [''FILESYSTEM'', ''POSTGRES'', ''MONGODB'', ''SQL_SERVER'', ''MSSQL_SERVER'', ''DBF'']"

definition DB_SOURCES :: "string list" where
  "DB_SOURCES = [''POSTGRES'', ''MONGODB'', ''SQL_SERVER'', ''MSSQL_SERVER'']"

definition emptyJob :: VgJobInput where
  "emptyJob =
     \<lparr>vgJobInput_name = [], vgJobInput_agent_id = [], vgJobInput_storage_target_id = [],
      vgJobInput_source_type = ''FILESYSTEM'', vgJobInput_connection_id = None, vgJobInput_source_path = None,
      vgJobInput_source_database = None, vgJobInput_include_patterns = None, vgJobInput_exclude_patterns = None,
      vgJobInput_mode = Some ''NORMAL'', vgJobInput_encrypted = None, vgJobInput_retention_days = Some 30,
      vgJobInput_export_format = None, vgJobInput_cron_expr = None, vgJobInput_timezone = Some ''UTC'',
      vgJobInput_policy_id = None, vgJobInput_sla_target_minutes = None, vgJobInput_rpo_target_minutes = None,
      vgJobInput_rto_target_minutes = None\<rparr>"

definition job_form :: "VgBackupJob \<Rightarrow> VgJobInput" where
  "job_form j =
     \<lparr>vgJobInput_name = vgBackupJob_name j, vgJobInput_agent_id = vgBackupJob_agent_id j,
      vgJobInput_storage_target_id = vgBackupJob_storage_target_id j,
      vgJobInput_source_type = vgBackupJob_source_type j,
      vgJobInput_connection_id = Some (or_else (vgBackupJob_connection_id j) []),
      vgJobInput_source_path = Some (vgBackupJob_source_path j),
      vgJobInput_source_database = Some (vgBackupJob_source_database j),
      vgJobInput_include_patterns = Some (vgBackupJob_include_patterns j),
      vgJobInput_exclude_patterns = Some (vgBackupJob_exclude_patterns j),
      vgJobInput_mode = Some (vgBackupJob_mode j), vgJobInput_encrypted = Some (vgBackupJob_encrypted j),
      vgJobInput_retention_days = Some (vgBackupJob_retention_days j),
      vgJobInput_export_format = Some (vgBackupJob_export_format j),
      vgJobInput_cron_expr = Some (case vgBackupJob_schedule j of None \<Rightarrow> [] | Some c \<Rightarrow> vgBackupSchedule_cron_expr c),
      vgJobInput_timezone = Some (case vgBackupJob_schedule j of None \<Rightarrow> ''UTC'' | Some c \<Rightarrow> vgBackupSchedule_timezone c),
      vgJobInput_policy_id = Some (or_else (vgBackupJob_policy_id j) []),
      vgJobInput_sla_target_minutes = Some (vgBackupJob_sla_target_minutes j),
      vgJobInput_rpo_target_minutes = Some (vgBackupJob_rpo_target_minutes j),
      vgJobInput_rto_target_minutes = Some (vgBackupJob_rto_target_minutes j)\<rparr>"

datatype job_input =
    JiName string
  | JiAgent string
  | JiStorage string
  | JiSource string
  | JiPolicy string
  | JiConnection string
  | JiDatabase string
  | JiPath string
  | JiMode string
  | JiRetention int
  | JiEncrypted bool
  | JiCron string
  | JiTimezone string

text \<open>Agent, storage and source cannot be changed on an existing job; connection and database are
  asked for a database source only, the path for the others.\<close>

fun job_edit :: "bool \<Rightarrow> job_input \<Rightarrow> VgJobInput \<Rightarrow> VgJobInput option" where
  "job_edit editing (JiName t) f = Some (f\<lparr>vgJobInput_name := t\<rparr>)"
| "job_edit editing (JiAgent t) f = (if editing then None else Some (f\<lparr>vgJobInput_agent_id := t\<rparr>))"
| "job_edit editing (JiStorage t) f = (if editing then None else Some (f\<lparr>vgJobInput_storage_target_id := t\<rparr>))"
| "job_edit editing (JiSource t) f =
     (if editing \<or> t \<notin> set SOURCES then None else Some (f\<lparr>vgJobInput_source_type := t\<rparr>))"
| "job_edit editing (JiPolicy t) f = Some (f\<lparr>vgJobInput_policy_id := Some t\<rparr>)"
| "job_edit editing (JiConnection t) f =
     (if vgJobInput_source_type f \<in> set DB_SOURCES then Some (f\<lparr>vgJobInput_connection_id := Some t\<rparr>) else None)"
| "job_edit editing (JiDatabase t) f =
     (if vgJobInput_source_type f \<in> set DB_SOURCES then Some (f\<lparr>vgJobInput_source_database := Some t\<rparr>) else None)"
| "job_edit editing (JiPath t) f =
     (if vgJobInput_source_type f \<in> set DB_SOURCES then None else Some (f\<lparr>vgJobInput_source_path := Some t\<rparr>))"
| "job_edit editing (JiMode t) f =
     (if t \<in> {''NORMAL'', ''COMPRESSED''} then Some (f\<lparr>vgJobInput_mode := Some t\<rparr>) else None)"
| "job_edit editing (JiRetention n) f = Some (f\<lparr>vgJobInput_retention_days := Some n\<rparr>)"
| "job_edit editing (JiEncrypted b) f = Some (f\<lparr>vgJobInput_encrypted := Some b\<rparr>)"
| "job_edit editing (JiCron t) f = Some (f\<lparr>vgJobInput_cron_expr := Some t\<rparr>)"
| "job_edit editing (JiTimezone t) f = Some (f\<lparr>vgJobInput_timezone := Some t\<rparr>)"

definition job_valid :: "VgJobInput \<Rightarrow> bool" where
  "job_valid f \<longleftrightarrow>
     js_trim (vgJobInput_name f) \<noteq> [] \<and> vgJobInput_agent_id f \<noteq> [] \<and> vgJobInput_storage_target_id f \<noteq> []"

definition job_saved :: "bool \<Rightarrow> VgJobInput \<Rightarrow> string" where
  "job_saved editing f = ''Job '' @ quoted (vgJobInput_name f) @ (if editing then '' updated'' else '' created'')"

section \<open>Job card\<close>

datatype job_op = JobAct string | JobDelete | JobPreflight | JobSave nat string

record job_card = "job_op panel" +
  jc_job :: VgBackupJob
  jc_expanded :: bool
  jc_edit :: "VgJobInput dialog option"
  jc_confirmDelete :: bool
  jc_preflight :: "json option"
  jc_preflightBusy :: bool
  jc_runs :: nat

definition job_init :: "VgBackupJob \<Rightarrow> job_card" where
  "job_init j =
     \<lparr>pn_busy = False, pn_open = [], pn_sent = [], pn_toasts = [], pn_changed = 0,
      jc_job = j, jc_expanded = False, jc_edit = None, jc_confirmDelete = False, jc_preflight = Some JNull,
      jc_preflightBusy = False, jc_runs = 0\<rparr>"

datatype job_event =
    ToggleSchedule
  | RunNow
  | PressEdit
  | JobInput job_input
  | SaveJob
  | CloseJobForm
  | PressDelete
  | CloseJobDelete
  | ConfirmJobDelete
  | ToggleExpanded
  | RunPreflight
  | JobProp VgBackupJob
  | JobAnswer "job_op \<times> wire" "js_error + json option"

definition job_answer :: "job_op \<Rightarrow> js_error + json option \<Rightarrow> job_card \<Rightarrow> job_card" where
  "job_answer k r s =
     (case k of
        JobAct msg \<Rightarrow> pn_act id msg r s
      | JobDelete \<Rightarrow> pn_act (\<lambda>s. s\<lparr>jc_confirmDelete := False\<rparr>) ''Job deleted'' r s
      | JobPreflight \<Rightarrow>
          (case r of
             Inr v \<Rightarrow> s\<lparr>jc_preflight := v, jc_preflightBusy := False\<rparr>
           | Inl e \<Rightarrow> (pn_toast (error_message e) True s)\<lparr>jc_preflightBusy := False\<rparr>)
      | JobSave n msg \<Rightarrow>
          (case r of
             Inr v \<Rightarrow> (pn_change (pn_toast msg False s))\<lparr>jc_edit := None\<rparr>
           | Inl e \<Rightarrow> (pn_toast (error_message e) True s)\<lparr>jc_edit := map_option (release n) (jc_edit s)\<rparr>))"

definition schedule_call :: "VgBackupJob \<Rightarrow> wire" where
  "schedule_call j =
     (if vgBackupJob_enabled j then wire_of (dbBackupsApi_disableJob (vgBackupJob_id j))
      else wire_of (dbBackupsApi_enableJob (vgBackupJob_id j)))"

fun job_step :: "json option \<Rightarrow> job_card \<Rightarrow> job_event \<Rightarrow> job_card option" where
  "job_step user s ToggleSchedule =
     (if fst (useDbBackupsRole user) \<and> \<not> pn_busy s
      then Some (pn_start (JobAct (if vgBackupJob_enabled (jc_job s) then ''Schedule paused'' else ''Schedule resumed''))
                   (schedule_call (jc_job s)) s) else None)"
| "job_step user s RunNow =
     (if fst (useDbBackupsRole user) \<and> \<not> pn_busy s
      then Some (pn_start (JobAct ''Backup started'') (wire_of (dbBackupsApi_runJob (vgBackupJob_id (jc_job s)))) s) else None)"
| "job_step user s PressEdit =
     (if fst (useDbBackupsRole user)
      then Some (case jc_edit s of
             None \<Rightarrow> s\<lparr>jc_edit := Some (fresh_dialog (job_form (jc_job s)) (jc_runs s)), jc_runs := Suc (jc_runs s)\<rparr>
           | Some d \<Rightarrow> s)
      else None)"
| "job_step user s (JobInput e) =
     (case jc_edit s of
        None \<Rightarrow> None
      | Some d \<Rightarrow> map_option (\<lambda>f. s\<lparr>jc_edit := Some (d\<lparr>dg_form := f\<rparr>)\<rparr>) (job_edit True e (dg_form d)))"
| "job_step user s SaveJob =
     (case jc_edit s of
        None \<Rightarrow> None
      | Some d \<Rightarrow>
          if dg_busy d \<or> \<not> job_valid (dg_form d) then None
          else Some (pn_request (JobSave (dg_run d) (job_saved True (dg_form d)))
                 (wire_of (dbBackupsApi_updateJob (vgBackupJob_id (jc_job s)) (vgJobInput_json (dg_form d))))
                 (s\<lparr>jc_edit := Some (d\<lparr>dg_busy := True\<rparr>)\<rparr>)))"
| "job_step user s CloseJobForm = (if jc_edit s = None then None else Some (s\<lparr>jc_edit := None\<rparr>))"
| "job_step user s PressDelete =
     (if snd (useDbBackupsRole user) then Some (s\<lparr>jc_confirmDelete := True\<rparr>) else None)"
| "job_step user s CloseJobDelete = (if jc_confirmDelete s then Some (s\<lparr>jc_confirmDelete := False\<rparr>) else None)"
| "job_step user s ConfirmJobDelete =
     (if jc_confirmDelete s \<and> \<not> pn_busy s
      then Some (pn_start JobDelete (wire_of (dbBackupsApi_deleteJob (vgBackupJob_id (jc_job s)))) s) else None)"
| "job_step user s ToggleExpanded = Some (s\<lparr>jc_expanded := \<not> jc_expanded s\<rparr>)"
| "job_step user s RunPreflight =
     (if jc_expanded s \<and> fst (useDbBackupsRole user) \<and> \<not> jc_preflightBusy s
      then Some (pn_request JobPreflight (wire_of (dbBackupsApi_preflight (vgBackupJob_id (jc_job s))))
                  (s\<lparr>jc_preflightBusy := True\<rparr>)) else None)"
| "job_step user s (JobProp j) =
     (if vgBackupJob_id j = vgBackupJob_id (jc_job s) then Some (s\<lparr>jc_job := j\<rparr>) else None)"
| "job_step user s (JobAnswer q r) =
     (if q \<in> set (pn_open s) then Some (job_answer (fst q) r (pn_done q s)) else None)"

definition job_inv :: "json option \<Rightarrow> job_card \<Rightarrow> bool" where
  "job_inv user s \<longleftrightarrow>
     (jc_edit s \<noteq> None \<longrightarrow> Operator \<le> session_role user) \<and> (jc_confirmDelete s \<longrightarrow> session_role user = Admin)"

fun job_holds :: "job_op \<Rightarrow> bool" where
  "job_holds (JobAct m) = True"
| "job_holds JobDelete = True"
| "job_holds _ = False"

lemma job_answer_frame:
  "pn_open (job_answer k r s) = pn_open s" "pn_sent (job_answer k r s) = pn_sent s"
  "pn_busy (job_answer k r s) \<longleftrightarrow> pn_busy s \<and> \<not> job_holds k"
  by (auto simp: job_answer_def pn_defs split: job_op.splits sum.splits)

lemma job_answer_inv: "job_inv user s \<Longrightarrow> job_inv user (job_answer k r s)"
  by (auto simp: job_inv_def job_answer_def pn_defs split: job_op.splits sum.splits)

lemma job_step_inv: "job_inv user s \<Longrightarrow> job_step user s e = Some s' \<Longrightarrow> job_inv user s'"
proof (cases e)
  case (JobAnswer q r)
  assume "job_inv user s" "job_step user s e = Some s'"
  with JobAnswer have "job_inv user (pn_done q s)" "s' = job_answer (fst q) r (pn_done q s)"
    by (auto simp: job_inv_def pn_done_def split: if_splits)
  then show ?thesis by (simp add: job_answer_inv)
qed (auto simp: job_inv_def role_flags pn_defs split: if_splits option.splits)

lemma schedule_call_role: "Operator \<le> r \<Longrightarrow> permitted r (schedule_call j)"
  by (simp add: schedule_call_def call_roles)

lemma job_moves:
  assumes "job_inv user s" "job_step user s e = Some s'"
  shows "panel_move (permitted (session_role user)) job_holds s s'"
proof (cases e)
  case ToggleSchedule
  with assms show ?thesis
    by (auto intro!: panel_move_start schedule_call_role simp: role_flags pn_defs split: if_splits)
next
  case RunNow
  with assms show ?thesis
    by (auto intro!: panel_move_start simp: role_flags call_roles pn_defs split: if_splits)
next
  case SaveJob
  with assms show ?thesis
    by (auto intro!: panel_move_start simp: job_inv_def call_roles pn_defs split: if_splits option.splits)
next
  case ConfirmJobDelete
  with assms show ?thesis
    by (auto intro!: panel_move_start simp: job_inv_def call_roles pn_defs split: if_splits)
next
  case RunPreflight
  with assms show ?thesis
    by (auto intro!: panel_move_start simp: role_flags call_roles pn_defs split: if_splits)
next
  case (JobAnswer q r)
  with assms have "q \<in> set (pn_open s)" "s' = job_answer (fst q) r (pn_done q s)" by (auto split: if_splits)
  then show ?thesis by (auto intro!: panel_move_end [of q] simp: job_answer_frame pn_done_def)
qed (use assms in \<open>auto intro!: panel_move_none split: if_splits option.splits\<close>)

interpretation job: panel_page "job_step user" "job_inv user" "job_init j"
  "permitted (session_role user)" job_holds for user j
proof unfold_locales
  show "job_inv user (job_init j)" "panel_idle (job_init j)"
    by (simp_all add: job_inv_def job_init_def panel_idle_def)
qed (blast intro: job_step_inv panel_moves1 [OF job_moves])+

section \<open>Jobs tab\<close>

record jobs_tab = "crud_op panel" +
  jt_q :: string
  jt_create :: "VgJobInput dialog option"
  jt_runs :: nat

definition jobs_init :: jobs_tab where
  "jobs_init =
     \<lparr>pn_busy = False, pn_open = [], pn_sent = [], pn_toasts = [], pn_changed = 0,
      jt_q = [], jt_create = None, jt_runs = 0\<rparr>"

definition shown_jobs :: "string \<Rightarrow> VgBackupJob list \<Rightarrow> VgBackupJob list" where
  "shown_jobs q jobs =
     (let needle = js_toLowerCase (js_trim q) in
      if needle = [] then jobs
      else filter (\<lambda>j. js_includes (js_toLowerCase (vgBackupJob_name j)) needle) jobs)"

datatype jobs_event =
    TypeFilter string
  | NewJob
  | NewJobInput job_input
  | CreateJob
  | CloseNewJob
  | RefreshJobs
  | JobsAnswer "crud_op \<times> wire" "js_error + json option"

definition jobs_answer :: "crud_op \<Rightarrow> js_error + json option \<Rightarrow> jobs_tab \<Rightarrow> jobs_tab" where
  "jobs_answer k r s =
     (case (k, r) of
        (OpCreate n msg, Inr v) \<Rightarrow> (pn_change (pn_toast msg False s))\<lparr>jt_create := None\<rparr>
      | (OpCreate n msg, Inl e) \<Rightarrow>
          (pn_toast (error_message e) True s)\<lparr>jt_create := map_option (release n) (jt_create s)\<rparr>
      | _ \<Rightarrow> s)"

fun jobs_step :: "json option \<Rightarrow> jobs_tab \<Rightarrow> jobs_event \<Rightarrow> jobs_tab option" where
  "jobs_step user s (TypeFilter t) = Some (s\<lparr>jt_q := t\<rparr>)"
| "jobs_step user s NewJob =
     (if fst (useDbBackupsRole user)
      then Some (case jt_create s of
             None \<Rightarrow> s\<lparr>jt_create := Some (fresh_dialog emptyJob (jt_runs s)), jt_runs := Suc (jt_runs s)\<rparr>
           | Some d \<Rightarrow> s)
      else None)"
| "jobs_step user s (NewJobInput e) =
     (case jt_create s of
        None \<Rightarrow> None
      | Some d \<Rightarrow> map_option (\<lambda>f. s\<lparr>jt_create := Some (d\<lparr>dg_form := f\<rparr>)\<rparr>) (job_edit False e (dg_form d)))"
| "jobs_step user s CreateJob =
     (case jt_create s of
        None \<Rightarrow> None
      | Some d \<Rightarrow>
          if dg_busy d \<or> \<not> job_valid (dg_form d) then None
          else Some (pn_request (OpCreate (dg_run d) (job_saved False (dg_form d)))
                 (wire_of (dbBackupsApi_createJob (dg_form d))) (s\<lparr>jt_create := Some (d\<lparr>dg_busy := True\<rparr>)\<rparr>)))"
| "jobs_step user s CloseNewJob = (if jt_create s = None then None else Some (s\<lparr>jt_create := None\<rparr>))"
| "jobs_step user s RefreshJobs = Some (pn_change s)"
| "jobs_step user s (JobsAnswer q r) =
     (if q \<in> set (pn_open s) then Some (jobs_answer (fst q) r (pn_done q s)) else None)"

definition jobs_inv :: "json option \<Rightarrow> jobs_tab \<Rightarrow> bool" where
  "jobs_inv user s \<longleftrightarrow> (jt_create s \<noteq> None \<longrightarrow> Operator \<le> session_role user)"

lemma jobs_answer_frame:
  "pn_open (jobs_answer k r s) = pn_open s" "pn_sent (jobs_answer k r s) = pn_sent s"
  "pn_busy (jobs_answer k r s) = pn_busy s" "jt_create (jobs_answer k r s) \<noteq> None \<Longrightarrow> jt_create s \<noteq> None"
  by (auto simp: jobs_answer_def pn_defs split: crud_op.splits sum.splits)

lemma jobs_moves:
  assumes "jobs_inv user s" "jobs_step user s e = Some s'"
  shows "jobs_inv user s' \<and> panel_move (permitted (session_role user)) (\<lambda>k. False) s s'"
proof (cases e)
  case CreateJob
  with assms show ?thesis
    by (auto intro!: panel_move_start simp: jobs_inv_def call_roles pn_defs split: if_splits option.splits)
next
  case (JobsAnswer q r)
  with assms have q: "q \<in> set (pn_open s)" "s' = jobs_answer (fst q) r (pn_done q s)" by (auto split: if_splits)
  with assms(1) have "jobs_inv user s'"
    using jobs_answer_frame(4) [of "fst q" r "pn_done q s"] by (auto simp: jobs_inv_def pn_done_def)
  with q show ?thesis by (auto intro!: panel_move_end [of q] simp: jobs_answer_frame pn_done_def)
qed (use assms in \<open>auto intro!: panel_move_none simp: jobs_inv_def role_flags pn_defs split: if_splits option.splits\<close>)

interpretation jobs: panel_page "jobs_step user" "jobs_inv user" jobs_init
  "permitted (session_role user)" "\<lambda>k. False" for user
proof unfold_locales
  show "jobs_inv user jobs_init" "panel_idle jobs_init"
    by (simp_all add: jobs_inv_def jobs_init_def panel_idle_def)
qed (blast dest: jobs_moves intro: panel_moves1)+

end
