(* ===== verification/Backup_Runs.thy ===== *)
theory Backup_Runs
  imports Backup_Jobs
begin

text \<open>
  Runs of the backup page and its overview (\<open>client/src/features/dbbackups/RunsTab.tsx\<close>,
  \<open>OverviewTab.tsx\<close>): the run card with its cancel confirmation, the filtered and paged list
  of runs over the query cache, and the numbers of the overview.
\<close>

section \<open>Run card\<close>

datatype run_op = RunVerify | RunCancel

record run_card = "run_op panel" +
  rc_run :: VgBackupRun
  rc_expanded :: bool
  rc_confirmCancel :: bool

datatype run_event =
    PressCancelRun
  | CloseCancelRun
  | ConfirmCancelRun
  | PressVerify
  | ToggleRun
  | RunProp VgBackupRun
  | RunAnswer "run_op \<times> wire" "js_error + json option"

definition runcard_init :: "VgBackupRun \<Rightarrow> run_card" where
  "runcard_init r =
     \<lparr>pn_busy = False, pn_open = [], pn_sent = [], pn_toasts = [], pn_changed = 0,
      rc_run = r, rc_expanded = False, rc_confirmCancel = False\<rparr>"

definition run_active :: "VgBackupRun \<Rightarrow> bool" where
  "run_active r \<longleftrightarrow> vgBackupRun_status r \<in> {''PENDING'', ''RUNNING'', ''UPLOADING'', ''VERIFYING''}"

definition run_answer :: "run_op \<Rightarrow> js_error + json option \<Rightarrow> run_card \<Rightarrow> run_card" where
  "run_answer k r s =
     (case k of
        RunVerify \<Rightarrow> pn_act id ''Verification finished'' r s
      | RunCancel \<Rightarrow> pn_act (\<lambda>s. s\<lparr>rc_confirmCancel := False\<rparr>) ''Run cancelled'' r s)"

text \<open>The confirmation stays open when the run ends meanwhile.\<close>

fun run_step :: "json option \<Rightarrow> run_card \<Rightarrow> run_event \<Rightarrow> run_card option" where
  "run_step user s PressCancelRun =
     (if fst (useDbBackupsRole user) \<and> run_active (rc_run s) then Some (s\<lparr>rc_confirmCancel := True\<rparr>) else None)"
| "run_step user s CloseCancelRun = (if rc_confirmCancel s then Some (s\<lparr>rc_confirmCancel := False\<rparr>) else None)"
| "run_step user s ConfirmCancelRun =
     (if rc_confirmCancel s \<and> \<not> pn_busy s
      then Some (pn_start RunCancel (wire_of (dbBackupsApi_cancelRun (vgBackupRun_id (rc_run s)))) s) else None)"
| "run_step user s PressVerify =
     (if fst (useDbBackupsRole user) \<and> vgBackupRun_status (rc_run s) = ''COMPLETED'' \<and> \<not> pn_busy s
      then Some (pn_start RunVerify (wire_of (dbBackupsApi_verifyRun (vgBackupRun_id (rc_run s)))) s) else None)"
| "run_step user s ToggleRun = Some (s\<lparr>rc_expanded := \<not> rc_expanded s\<rparr>)"
| "run_step user s (RunProp r) =
     (if vgBackupRun_id r = vgBackupRun_id (rc_run s) then Some (s\<lparr>rc_run := r\<rparr>) else None)"
| "run_step user s (RunAnswer q r) =
     (if q \<in> set (pn_open s) then Some (run_answer (fst q) r (pn_done q s)) else None)"

definition run_inv :: "json option \<Rightarrow> run_card \<Rightarrow> bool" where
  "run_inv user s \<longleftrightarrow> (rc_confirmCancel s \<longrightarrow> Operator \<le> session_role user)"

lemma run_answer_frame:
  "pn_open (run_answer k r s) = pn_open s" "pn_sent (run_answer k r s) = pn_sent s"
  "\<not> pn_busy (run_answer k r s)" "rc_confirmCancel (run_answer k r s) \<Longrightarrow> rc_confirmCancel s"
  by (auto simp: run_answer_def pn_defs split: run_op.splits sum.splits)

lemma runcard_moves:
  assumes "run_inv user s" "run_step user s e = Some s'"
  shows "run_inv user s' \<and> panel_move (permitted (session_role user)) (\<lambda>k. True) s s'"
proof (cases e)
  case ConfirmCancelRun
  with assms show ?thesis
    by (auto intro!: panel_move_start [where k = RunCancel] simp: run_inv_def call_roles pn_defs split: if_splits)
next
  case PressVerify
  with assms show ?thesis
    by (auto intro!: panel_move_start [where k = RunVerify] simp: run_inv_def role_flags call_roles pn_defs
        split: if_splits)
next
  case (RunAnswer q r)
  with assms have "q \<in> set (pn_open s)" "s' = run_answer (fst q) r (pn_done q s)" by (auto split: if_splits)
  with assms(1) show ?thesis
    by (auto intro!: panel_move_end [of q] simp: run_inv_def run_answer_frame pn_done_def
        dest!: run_answer_frame(4))
qed (use assms in \<open>auto intro!: panel_move_none simp: run_inv_def role_flags split: if_splits\<close>)

interpretation runcard: panel_page "run_step user" "run_inv user" "runcard_init r"
  "permitted (session_role user)" "\<lambda>k. True" for user r
proof unfold_locales
  show "run_inv user (runcard_init r)" "panel_idle (runcard_init r)"
    by (simp_all add: run_inv_def runcard_init_def panel_idle_def)
qed (blast dest: runcard_moves intro: panel_moves1)+

section \<open>List of runs\<close>

definition RUN_STATUSES :: "string list" where
  "RUN_STATUSES = [[], ''PENDING'', ''RUNNING'', ''UPLOADING'', ''VERIFYING'', ''COMPLETED'', ''FAILED'', ''CANCELLED'']"

definition PAGE_SIZE :: nat where
  "PAGE_SIZE = 20"

text \<open>The query cache keeps the last answer for every filter and page, and the last failure of
  a key that has not succeeded since.\<close>

type_synonym runs_key = "string \<times> string \<times> nat"

record runs_tab =
  rt_status :: string
  rt_search :: string
  rt_page :: nat
  rt_cache :: "runs_key \<rightharpoonup> VgRunsPage"

definition runs_init :: runs_tab where
  "runs_init = \<lparr>rt_status = [], rt_search = [], rt_page = 0, rt_cache = Map.empty\<rparr>"

definition runs_key :: "runs_tab \<Rightarrow> runs_key" where
  "runs_key s = (rt_status s, rt_search s, rt_page s)"

definition runs_data :: "runs_tab \<Rightarrow> VgRunsPage option" where
  "runs_data s = rt_cache s (runs_key s)"

definition runs_params :: "string option \<Rightarrow> runs_key \<Rightarrow> RunsParams" where
  "runs_params jobId k =
     (case k of (status, search, page) \<Rightarrow>
        \<lparr>runsParams_job_id = Option.bind jobId some_text, runsParams_status = some_text status,
         runsParams_search = some_text (js_trim search), runsParams_page = Some (int page + 1),
         runsParams_limit = Some (int PAGE_SIZE), runsParams_sort = None, runsParams_order = None\<rparr>)"

text \<open>\<open>Math.max(1, Math.ceil(total / limit))\<close>, with JavaScript's division by zero.\<close>

definition js_pages :: "int \<Rightarrow> int \<Rightarrow> jsnum" where
  "js_pages tot per =
     (if per = 0 then (if tot = 0 then NaN else if tot > 0 then PosInf else Fin 1)
      else Fin (of_int (max 1 \<lceil>rat_of_int tot / rat_of_int per\<rceil>)))"

definition totalPages :: "VgRunsPage option \<Rightarrow> jsnum" where
  "totalPages d = (case d of None \<Rightarrow> Fin 1 | Some p \<Rightarrow> js_pages (vgRunsPage_total p) (vgRunsPage_limit p))"

definition shown_runs :: "runs_tab \<Rightarrow> VgBackupRun list" where
  "shown_runs s = (case runs_data s of None \<Rightarrow> [] | Some p \<Rightarrow> vgRunsPage_data p)"

datatype runs_event =
    SetStatus string
  | SetSearch string
  | PrevPage
  | NextPage
  | RunsLoaded runs_key VgRunsPage
  | RunsEvicted runs_key

fun runs_step :: "runs_tab \<Rightarrow> runs_event \<Rightarrow> runs_tab option" where
  "runs_step s (SetStatus t) =
     (if t \<in> set RUN_STATUSES then Some (s\<lparr>rt_status := t, rt_page := 0\<rparr>) else None)"
| "runs_step s (SetSearch t) = Some (s\<lparr>rt_search := t, rt_page := 0\<rparr>)"
| "runs_step s PrevPage =
     (if js_less (Fin 1) (totalPages (runs_data s)) \<and> rt_page s \<noteq> 0
      then Some (s\<lparr>rt_page := rt_page s - 1\<rparr>) else None)"
| "runs_step s NextPage =
     (if js_less (Fin 1) (totalPages (runs_data s))
         \<and> \<not> js_leq (totalPages (runs_data s)) (Fin (of_nat (rt_page s + 1)))
      then Some (s\<lparr>rt_page := rt_page s + 1\<rparr>) else None)"
| "runs_step s (RunsLoaded k p) = Some (s\<lparr>rt_cache := (rt_cache s)(k \<mapsto> p)\<rparr>)"
| "runs_step s (RunsEvicted k) =
     (if k = runs_key s then None else Some (s\<lparr>rt_cache := (rt_cache s)(k := None)\<rparr>))"

text \<open>A server whose list for each filter does not change while the user looks at it.\<close>

definition page_slice :: "nat \<Rightarrow> 'a list \<Rightarrow> 'a list" where
  "page_slice n xs = take PAGE_SIZE (drop (PAGE_SIZE * n) xs)"

definition serves :: "(string \<Rightarrow> string \<Rightarrow> VgBackupRun list) \<Rightarrow> runs_key \<Rightarrow> VgRunsPage \<Rightarrow> bool" where
  "serves runs k p \<longleftrightarrow>
     (case k of (status, search, n) \<Rightarrow>
        vgRunsPage_limit p = int PAGE_SIZE \<and> vgRunsPage_total p = int (length (runs status search))
        \<and> vgRunsPage_data p = page_slice n (runs status search))"

definition runs_inv :: "(string \<Rightarrow> string \<Rightarrow> VgBackupRun list) \<Rightarrow> runs_tab \<Rightarrow> bool" where
  "runs_inv runs s \<longleftrightarrow>
     (\<forall>k p. rt_cache s k = Some p \<longrightarrow> serves runs k p)
     \<and> (rt_page s = 0 \<or> PAGE_SIZE * rt_page s < length (runs (rt_status s) (rt_search s)))"

lemma ceil_pages: "int n < \<lceil>rat_of_int (int m) / rat_of_int (int PAGE_SIZE)\<rceil> \<longleftrightarrow> PAGE_SIZE * n < m"
  by (simp add: less_ceiling_iff PAGE_SIZE_def field_simps)
     (metis of_nat_less_iff of_nat_mult of_nat_numeral mult.commute)

lemma js_leq_Fin: "js_leq (Fin a) (Fin b) \<longleftrightarrow> a \<le> b"
  by (auto simp: js_leq_def)

lemma pages_less:
  assumes "serves runs (status, search, k) p"
  shows "js_less (Fin 1) (totalPages (Some p)) \<longleftrightarrow> PAGE_SIZE < length (runs status search)"
    and "\<not> js_leq (totalPages (Some p)) (Fin (of_nat (n + 1)))
           \<longleftrightarrow> PAGE_SIZE * (n + 1) < length (runs status search)"
proof -
  let ?m = "length (runs status search)"
  let ?c = "\<lceil>rat_of_int (int ?m) / rat_of_int (int PAGE_SIZE)\<rceil>"
  have t: "totalPages (Some p) = Fin (of_int (max 1 ?c))"
    using assms by (simp add: totalPages_def js_pages_def serves_def PAGE_SIZE_def)
  have "(1 :: rat) < of_int (max 1 ?c) \<longleftrightarrow> int 1 < ?c" by linarith
  then show "js_less (Fin 1) (totalPages (Some p)) \<longleftrightarrow> PAGE_SIZE < ?m"
    unfolding t using ceil_pages [of 1 ?m] by simp
  have "\<not> (of_int (max 1 ?c) :: rat) \<le> of_nat (n + 1) \<longleftrightarrow> int (n + 1) < ?c" by linarith
  then show "\<not> js_leq (totalPages (Some p)) (Fin (of_nat (n + 1))) \<longleftrightarrow> PAGE_SIZE * (n + 1) < ?m"
    unfolding t using ceil_pages [of "n + 1" ?m] by (simp only: js_leq_Fin)
qed

lemma runs_buttons:
  assumes "runs_inv runs s" "runs_data s = Some p"
  shows "runs_step s NextPage \<noteq> None \<longleftrightarrow> PAGE_SIZE * (rt_page s + 1) < length (runs (rt_status s) (rt_search s))"
    and "runs_step s PrevPage \<noteq> None \<longleftrightarrow> rt_page s \<noteq> 0"
proof -
  have p: "serves runs (rt_status s, rt_search s, rt_page s) p"
    using assms by (auto simp: runs_inv_def runs_data_def runs_key_def)
  note less = pages_less [OF p]
  show "runs_step s NextPage \<noteq> None \<longleftrightarrow> PAGE_SIZE * (rt_page s + 1) < length (runs (rt_status s) (rt_search s))"
    using less by (auto simp: assms(2) simp del: js_leq_def)
  have "rt_page s = 0 \<or> PAGE_SIZE < length (runs (rt_status s) (rt_search s))"
  proof (cases "rt_page s")
    case (Suc n)
    with assms(1) show ?thesis by (auto simp: runs_inv_def)
  qed simp
  with less(1) show "runs_step s PrevPage \<noteq> None \<longleftrightarrow> rt_page s \<noteq> 0" by (auto simp: assms(2))
qed

lemma runs_step_inv:
  assumes "runs_inv runs s" "runs_step s e = Some s'" "\<And>k p. e = RunsLoaded k p \<Longrightarrow> serves runs k p"
  shows "runs_inv runs s'"
proof (cases e)
  case NextPage
  with assms(2) have s': "s' = s\<lparr>rt_page := rt_page s + 1\<rparr>" by (auto split: if_splits)
  from NextPage assms(2) obtain p where p: "runs_data s = Some p"
    by (cases "runs_data s") (auto simp: totalPages_def)
  then have "PAGE_SIZE * (rt_page s + 1) < length (runs (rt_status s) (rt_search s))"
    using runs_buttons(1) [OF assms(1) p] assms(2) NextPage by blast
  with s' assms(1) show ?thesis by (simp add: runs_inv_def)
next
  case PrevPage
  with assms(2) have s': "s' = s\<lparr>rt_page := rt_page s - 1\<rparr>" by (auto split: if_splits)
  have "PAGE_SIZE * (rt_page s - 1) \<le> PAGE_SIZE * rt_page s" by simp
  then have "PAGE_SIZE * rt_page s < n \<Longrightarrow> PAGE_SIZE * (rt_page s - 1) < n" for n by (rule le_less_trans)
  with s' assms(1) show ?thesis by (auto simp: runs_inv_def)
qed (use assms in \<open>auto simp: runs_inv_def split: if_splits\<close>)

lemma page_slices: "concat (map (\<lambda>n. page_slice n xs) [0..<m]) = take (PAGE_SIZE * m) xs"
proof (induction m)
  case (Suc m)
  have "PAGE_SIZE * Suc m = PAGE_SIZE * m + PAGE_SIZE" by simp
  with Suc show ?case by (simp only: take_add) (simp add: page_slice_def)
qed simp

lemma pager_vanishes:
  "runs_data s = Some p \<Longrightarrow> vgRunsPage_limit p = int PAGE_SIZE \<Longrightarrow> vgRunsPage_total p \<le> int PAGE_SIZE
    \<Longrightarrow> runs_step s PrevPage = None \<and> runs_step s NextPage = None"
  by (simp add: totalPages_def js_pages_def PAGE_SIZE_def ceiling_le_iff)

section \<open>Overview\<close>

definition failed_runs :: "VgDashboard \<Rightarrow> VgBackupRun list" where
  "failed_runs d = filter (\<lambda>r. vgBackupRun_status r = ''FAILED'') (vgDashboard_recent_runs d)"

definition attentionCount :: "VgDashboard \<Rightarrow> nat" where
  "attentionCount d =
     length (failed_runs d) + length (vgDashboard_rpo_breaches d) + length (vgDashboard_sla_breaches d)"

datatype attention_row = RowRpo VgRpoBreach | RowSla VgSlaBreach | RowFailed VgBackupRun

definition attention_rows :: "VgDashboard \<Rightarrow> attention_row list" where
  "attention_rows d =
     (if attentionCount d > 0
      then map RowRpo (vgDashboard_rpo_breaches d) @ map RowSla (vgDashboard_sla_breaches d)
           @ map RowFailed (take 5 (failed_runs d))
      else [])"

fun attention_tab :: "attention_row \<Rightarrow> string" where
  "attention_tab (RowRpo b) = ''jobs''"
| "attention_tab (RowSla b) = ''jobs''"
| "attention_tab (RowFailed r) = ''runs''"

end
