(* ===== verification/Backup_Props.thy ===== *)
theory Backup_Props
  imports Backup_Runs
begin

text \<open>
  What the backup page guarantees: every component of it keeps to the access policy of the
  backend for the role of its user, destructive requests go out only after the confirmation of
  that very object, a password is sent only when it was typed, and paging shows every run.
\<close>

section \<open>Every component keeps to the access policy\<close>

text \<open>C3: in every execution, for every user, each component of the backup page (the storage,
  connection and policy tabs, an agent's card, the agents, restores and jobs tabs, a job's card
  and a run's card) refines the access-policy specification: the requests it has in flight and
  has sent are those of an execution of the specification for the user's role, so a request the
  backend would refuse for the role is never sent.\<close>

theorem backup_page_refines_policy:
  "(run (crud_step (storage_page tmsg) user) crud_init es1 = Some s1 \<longrightarrow> keeps_to_policy user s1)
   \<and> (run (crud_step (connections_page tmsg) user) crud_init es2 = Some s2 \<longrightarrow> keeps_to_policy user s2)
   \<and> (run (crud_step policies_page user) crud_init es3 = Some s3 \<longrightarrow> keeps_to_policy user s3)
   \<and> (run (agent_step tmsg user) (agent_init a) es4 = Some s4 \<longrightarrow> keeps_to_policy user s4)
   \<and> (run (agents_step tmsg user) agents_init es5 = Some s5 \<longrightarrow> keeps_to_policy user s5)
   \<and> (run (restores_step user) restores_init es6 = Some s6 \<longrightarrow> keeps_to_policy user s6)
   \<and> (run (job_step user) (job_init j) es7 = Some s7 \<longrightarrow> keeps_to_policy user s7)
   \<and> (run (jobs_step user) jobs_init es8 = Some s8 \<longrightarrow> keeps_to_policy user s8)
   \<and> (run (run_step user) (runcard_init r) es9 = Some s9 \<longrightarrow> keeps_to_policy user s9)"
  by (intro conjI impI; erule storage.page.keeps_to_policyI [OF refl] connections.page.keeps_to_policyI [OF refl]
    policies.page.keeps_to_policyI [OF refl] agent.keeps_to_policyI [OF refl] agents.keeps_to_policyI [OF refl]
    restores.keeps_to_policyI [OF refl] job.keeps_to_policyI [OF refl] jobs.keeps_to_policyI [OF refl]
    runcard.keeps_to_policyI [OF refl])

text \<open>An administrator presses one of the buttons of each component.\<close>

definition case_admin :: "json option" where
  "case_admin = Some (JObj [(''role'', JStr ''admin'')])"

lemma case_admin_role [simp]: "useDbBackupsRole case_admin = (True, True)"
  by (simp add: useDbBackupsRole_def case_admin_def)

lemmas panel_inits = crud_init_def agent_init_def agents_init_def restores_init_def job_init_def jobs_init_def
  runcard_init_def

lemmas form_evals = fresh_dialog_def emptyJob_def job_valid_def blank_restore_def restore_details_of_def
  agent_revoked_def policies_page_def policy_form_def policy_valid_def connections_page_def conn_blank_def
  conn_valid_def js_trim_def js_trimStart_def js_trimEnd_def is_space_char_def

definition sends_and_keeps :: "('o, 'z) panel_scheme option \<Rightarrow> bool" where
  "sends_and_keeps r \<longleftrightarrow> (\<exists>s. r = Some s \<and> pn_sent s \<noteq> [] \<and> keeps_to_policy case_admin s)"

lemma sends_and_keepsI:
  "\<exists>s. r = Some s \<and> pn_sent s \<noteq> [] \<Longrightarrow> (\<And>s. r = Some s \<Longrightarrow> keeps_to_policy case_admin s) \<Longrightarrow> sends_and_keeps r"
  by (auto simp: sends_and_keeps_def)

theorem backup_page_refines_policy_witness:
  "\<forall>t c a j r.
     sends_and_keeps (run (crud_step (storage_page []) case_admin) crud_init [DeleteItem t, ConfirmDelete])
     \<and> sends_and_keeps (run (crud_step (connections_page []) case_admin) crud_init [TestItem c])
     \<and> sends_and_keeps (run (crud_step policies_page case_admin) crud_init [NewItem, InputNew (PoName ''p''), SaveNew])
     \<and> sends_and_keeps (run (agent_step [] case_admin) (agent_init (a\<lparr>vgAgent_revoked_at := None\<rparr>)) [PressRotate])
     \<and> sends_and_keeps (run (agents_step [] case_admin) agents_init [PressMintKey])
     \<and> sends_and_keeps (run (restores_step case_admin) restores_init
           [NewRestore, RestoreInput (RiRun ''r''), RestoreInput (RiAgent ''a''), ReviewRestore, ConfirmStart])
     \<and> sends_and_keeps (run (job_step case_admin) (job_init j) [RunNow])
     \<and> sends_and_keeps (run (jobs_step case_admin) jobs_init
           [NewJob, NewJobInput (JiName ''j''), NewJobInput (JiAgent ''a''), NewJobInput (JiStorage ''s''), CreateJob])
     \<and> sends_and_keeps (run (run_step case_admin) (runcard_init (r\<lparr>vgBackupRun_status := ''COMPLETED''\<rparr>)) [PressVerify])"
proof -
  note T = backup_page_refines_policy [where user = case_admin and tmsg = "[]", rule_format]
  note K = T [THEN conjunct1] T [THEN conjunct2, THEN conjunct1] T [THEN conjunct2, THEN conjunct2, THEN conjunct1]
  note L = T [THEN conjunct2, THEN conjunct2, THEN conjunct2]
  note M = L [THEN conjunct1] L [THEN conjunct2, THEN conjunct1] L [THEN conjunct2, THEN conjunct2, THEN conjunct1]
  note N = L [THEN conjunct2, THEN conjunct2, THEN conjunct2]
  note R = N [THEN conjunct1] N [THEN conjunct2, THEN conjunct1] N [THEN conjunct2, THEN conjunct2]
  show ?thesis
    by (intro allI conjI; rule sends_and_keepsI;
        (erule K [rule_format] M [rule_format] R [rule_format] | simp add: panel_inits pn_defs form_evals))
qed

section \<open>Deleting needs a confirmation\<close>

definition is_delete :: "wire \<Rightarrow> bool" where
  "is_delete w \<longleftrightarrow> ri_method (wire_init w) = DELETE"

fun crud_arm :: "('i, 'f) crud_tab \<Rightarrow> ('i, 'e) crud_event \<Rightarrow> 'i option" where
  "crud_arm s (DeleteItem i) = Some i"
| "crud_arm s _ = None"

lemma crud_answer_deleting: "ct_deleting (crud_answer P k r s) = Some i \<Longrightarrow> ct_deleting s = Some i"
  by (auto simp: crud_answer_def pn_defs split: crud_op.splits sum.splits prod.splits)

locale crud_confirmed =
  fixes P :: "('i, 'f, 'e) crud_page"
  assumes create_other: "\<not> is_delete (cp_create P f)"
    and update_other: "cp_update P = Some upd \<Longrightarrow> \<not> is_delete (upd i f)"
    and test_other: "cp_test P = Some tst \<Longrightarrow> \<not> is_delete (tst i)"

sublocale crud_confirmed \<subseteq> deletion: confirmed_system "crud_step P user" crud_init ct_deleting crud_arm
  "\<lambda>e. e = CloseDelete" pn_sent ConfirmDelete is_delete "\<lambda>i w. w = cp_delete P i" for user
proof unfold_locales
  fix s s' e x assume "crud_step P user s e = Some s'" "ct_deleting s' = Some x"
  then show "crud_arm s e = Some x \<or> (ct_deleting s = Some x \<and> e \<noteq> CloseDelete \<and> crud_arm s e = None)"
    by (cases e) (auto simp: pn_defs split: if_splits option.splits prod.splits dest!: crud_answer_deleting)
next
  fix s s' e w assume "crud_step P user s e = Some s'" "w \<in> set (pn_sent s')" "is_delete w"
  then show "w \<in> set (pn_sent s) \<or> (e = ConfirmDelete \<and> (\<exists>x. ct_deleting s = Some x \<and> w = cp_delete P x))"
    using create_other update_other test_other
    by (cases e) (auto simp: pn_defs crud_answer_frame split: if_splits option.splits prod.splits)
qed (simp_all add: crud_init_def)

interpretation storage: crud_confirmed "storage_page tmsg" for tmsg
  by unfold_locales (auto simp: storage_page_def is_delete_def wire_of_def call_init_def api_defs)

interpretation connections: crud_confirmed "connections_page tmsg" for tmsg
  by unfold_locales (auto simp: connections_page_def is_delete_def wire_of_def call_init_def api_defs)

interpretation policies: crud_confirmed policies_page
  by unfold_locales (auto simp: policies_page_def is_delete_def wire_of_def call_init_def api_defs)

lemma crud_armed_by:
  "armed_by step init crud_arm (\<lambda>e. e = CloseDelete) es i \<Longrightarrow>
     \<exists>as bs. es = as @ DeleteItem i # bs \<and> CloseDelete \<notin> set bs"
  unfolding armed_by_def by (fastforce elim: crud_arm.elims)

text \<open>The connections tab sends a DELETE only for the connection whose delete button was pressed
  before, when the confirmation was then accepted and had not been closed in between,
  whatever else happened and however the requests were answered.\<close>

lemma connection_delete_confirmed:
  assumes "run (crud_step (connections_page tmsg) user) crud_init es = Some s"
    and "w \<in> set (pn_sent s)" and "is_delete w"
  shows "\<exists>as bs cs c. es = as @ DeleteItem c # bs @ ConfirmDelete # cs \<and> CloseDelete \<notin> set bs
           \<and> w = wire_of (dbBackupsApi_deleteConnection (vgConnection_id c))"
proof -
  from connections.deletion.confirmed [OF assms] obtain es' cs c where
    es: "es = es' @ ConfirmDelete # cs" and w: "w = cp_delete (connections_page tmsg) c"
    and armed: "armed_by (crud_step (connections_page tmsg) user) crud_init crud_arm (\<lambda>e. e = CloseDelete) es' c"
    by (elim exE conjE) rule
  from crud_armed_by [OF armed] obtain as bs where "es' = as @ DeleteItem c # bs" "CloseDelete \<notin> set bs" by blast
  then have "es = as @ DeleteItem c # bs @ ConfirmDelete # cs" "CloseDelete \<notin> set bs" using es by simp_all
  moreover have "w = wire_of (dbBackupsApi_deleteConnection (vgConnection_id c))"
    using w by (simp add: connections_page_def)
  ultimately show ?thesis by blast
qed

section \<open>A restore needs a review and a confirmation\<close>

fun restore_arm :: "restores_tab \<Rightarrow> restores_event \<Rightarrow> restore_details option" where
  "restore_arm s ReviewRestore =
     (case rs_create s of
        None \<Rightarrow> None
      | Some f \<Rightarrow> if rf_runId f = [] \<or> rf_agentId f = [] then None else Some (restore_details_of f))"
| "restore_arm s _ = None"

interpretation restoring: confirmed_system "restores_step user" restores_init rs_pending restore_arm
  "\<lambda>e. e = CloseRestoreConfirm" pn_sent ConfirmStart "\<lambda>w. True"
  "\<lambda>d w. w = wire_of (dbBackupsApi_createRestore (restore_request d))" for user
proof unfold_locales
  fix s s' e x assume "restores_step user s e = Some s'" "rs_pending s' = Some x"
  then show "restore_arm s e = Some x \<or> (rs_pending s = Some x \<and> e \<noteq> CloseRestoreConfirm \<and> restore_arm s e = None)"
    by (cases e) (auto simp: pn_defs split: if_splits option.splits sum.splits)
next
  fix s s' e w assume "restores_step user s e = Some s'" "w \<in> set (pn_sent s')"
  then show "w \<in> set (pn_sent s) \<or> (e = ConfirmStart
      \<and> (\<exists>x. rs_pending s = Some x \<and> w = wire_of (dbBackupsApi_createRestore (restore_request x))))"
    by (cases e) (auto simp: pn_defs split: if_splits option.splits sum.splits)
qed (simp_all add: restores_init_def)

text \<open>C5: the restores tab sends nothing but restores that were entered in the form, reviewed with
  a run and an agent chosen, and then confirmed without closing the confirmation; the request
  is the reviewed one, with its \<open>confirmed\<close> member set and empty targets left out.\<close>

theorem restore_confirmed:
  assumes "run (restores_step user) restores_init es = Some s" and "w \<in> set (pn_sent s)"
  shows "\<exists>as bs cs t f. es = as @ ReviewRestore # bs @ ConfirmStart # cs \<and> CloseRestoreConfirm \<notin> set bs
           \<and> run (restores_step user) restores_init as = Some t \<and> rs_create t = Some f
           \<and> rf_runId f \<noteq> [] \<and> rf_agentId f \<noteq> []
           \<and> w = wire_of (dbBackupsApi_createRestore (restore_request (restore_details_of f)))"
proof -
  from restoring.confirmed [OF assms] obtain es' cs d where
    es: "es = es' @ ConfirmStart # cs" and w: "w = wire_of (dbBackupsApi_createRestore (restore_request d))"
    and "armed_by (restores_step user) restores_init restore_arm (\<lambda>e. e = CloseRestoreConfirm) es' d"
    by blast
  then obtain as a bs t where "es' = as @ a # bs" "run (restores_step user) restores_init as = Some t"
    "restore_arm t a = Some d" "CloseRestoreConfirm \<notin> set bs"
    unfolding armed_by_def by blast
  with es w show ?thesis
    by (cases "(t, a)" rule: restore_arm.cases) (auto split: option.splits if_splits)
qed

theorem restore_confirmed_witness:
  "let es = [NewRestore, RestoreInput (RiRun ''r''), RestoreInput (RiAgent ''a''), ReviewRestore, ConfirmStart] in
   \<exists>s w. run (restores_step case_admin) restores_init es = Some s \<and> w \<in> set (pn_sent s)
     \<and> (\<exists>as bs cs t f. es = as @ ReviewRestore # bs @ ConfirmStart # cs \<and> CloseRestoreConfirm \<notin> set bs
           \<and> run (restores_step case_admin) restores_init as = Some t \<and> rs_create t = Some f
           \<and> rf_runId f \<noteq> [] \<and> rf_agentId f \<noteq> []
           \<and> w = wire_of (dbBackupsApi_createRestore (restore_request (restore_details_of f))))"
proof -
  let ?es = "[NewRestore, RestoreInput (RiRun ''r''), RestoreInput (RiAgent ''a''), ReviewRestore, ConfirmStart]"
  have "\<exists>s w. run (restores_step case_admin) restores_init ?es = Some s \<and> w \<in> set (pn_sent s)"
    by (simp add: restores_init_def pn_defs form_evals)
  then obtain s w where r: "run (restores_step case_admin) restores_init ?es = Some s" "w \<in> set (pn_sent s)" by blast
  with restore_confirmed [OF r] show ?thesis unfolding Let_def by blast
qed

section \<open>A password is sent only when it was typed\<close>

definition form_password :: "string \<Rightarrow> conn_form \<Rightarrow> bool" where
  "form_password t f \<longleftrightarrow> (t = cf_password f \<and> t \<noteq> []) \<or> vgConnectionInput_password (cf_input f) = Some t"

definition holds_password :: "string \<Rightarrow> (VgConnection, conn_form) crud_tab \<Rightarrow> bool" where
  "holds_password t s \<longleftrightarrow>
     (\<exists>w \<in> set (pn_sent s). wire_member ''password'' w = Some (JStr t))
     \<or> (\<exists>d. ct_create s = Some d \<and> form_password t (dg_form d))
     \<or> (\<exists>c d. ct_edit s = Some (c, d) \<and> form_password t (dg_form d))"

fun typed_password :: "string \<Rightarrow> (VgConnection, conn_input) crud_event \<Rightarrow> bool" where
  "typed_password t (InputNew (CnPassword u)) \<longleftrightarrow> t = u"
| "typed_password t (InputEdit (CnPassword u)) \<longleftrightarrow> t = u"
| "typed_password t _ \<longleftrightarrow> False"

lemma connection_password:
  "wire_member ''password'' (wire_of (dbBackupsApi_createConnection b)) = map_option JStr (vgConnectionInput_password b)"
  "wire_member ''password'' (wire_of (dbBackupsApi_updateConnection i (vgConnectionInput_json b)))
     = map_option JStr (vgConnectionInput_password b)"
  "wire_member ''password'' (wire_of (dbBackupsApi_testConnection i)) = None"
  unfolding api_defs by (simp_all add: wire_member_json vgConnectionInput_json_def json_get_jobj json_exact_simps)

lemma connection_delete_password: "wire_member k (wire_of (dbBackupsApi_deleteConnection i)) = None"
  unfolding api_defs by simp

lemma conn_body_password: "vgConnectionInput_password (conn_body f) = Some t \<Longrightarrow> form_password t f"
  by (auto simp: conn_body_def form_password_def split: if_splits)

lemma conn_edit_password:
  "conn_edit e f = Some f' \<Longrightarrow> form_password t f' \<Longrightarrow> form_password t f \<or> e = CnPassword t"
  by (cases e) (auto simp: form_password_def split: if_splits)

lemma crud_answer_holds: "holds_password t (crud_answer P k r s) \<Longrightarrow> holds_password t s"
  by (auto simp: holds_password_def crud_answer_def pn_defs release_def
      split: crud_op.splits sum.splits prod.splits if_splits)

lemma connections_password_step:
  assumes "crud_step (connections_page tmsg) user s e = Some s'" "holds_password t s'"
  shows "holds_password t s \<or> typed_password t e"
proof (cases e)
  case (InputNew i)
  with assms show ?thesis
    by (auto simp: holds_password_def connections_page_def split: option.splits dest!: conn_edit_password)
next
  case (InputEdit i)
  with assms show ?thesis
    by (auto simp: holds_password_def connections_page_def split: option.splits dest!: conn_edit_password)
next
  case (TabAnswer q r)
  with assms have "holds_password t (pn_done q s)" by (auto split: if_splits dest: crud_answer_holds)
  then show ?thesis by (simp add: holds_password_def pn_done_def)
next
  case SaveNew
  with assms show ?thesis
    by (auto simp: holds_password_def connections_page_def connection_password pn_defs
        split: option.splits if_splits dest!: conn_body_password)
next
  case SaveEdit
  with assms show ?thesis
    by (auto simp: holds_password_def connections_page_def connection_password pn_defs
        split: option.splits if_splits dest!: conn_body_password)
next
  case NewItem
  with assms show ?thesis
    by (auto simp: holds_password_def connections_page_def fresh_dialog_def conn_blank_def form_password_def
        split: option.splits if_splits)
next
  case (EditItem c)
  with assms show ?thesis
    by (auto simp: holds_password_def connections_page_def fresh_dialog_def conn_load_def form_password_def
        split: option.splits if_splits)
qed (use assms in \<open>auto simp: holds_password_def connections_page_def connection_password
    connection_delete_password pn_defs split: option.splits if_splits\<close>)

interpretation passwords: traced_system "crud_step (connections_page tmsg) user" crud_init holds_password typed_password
  for tmsg user
proof unfold_locales
  show "\<not> holds_password t crud_init" for t by (simp add: holds_password_def crud_init_def)
qed (rule connections_password_step)



section \<open>Paging through the runs\<close>

text \<open>While the list of runs of each filter stays as it is, the page of runs is never beyond the
  end of the list; a loaded page shows its twenty runs, Next is offered exactly when there are
  more and Prev exactly when the page is not the first; and the pages together are the
  whole list.\<close>

lemma runs_paging:
  assumes "run runs_step runs_init es = Some s" and "\<And>k p. RunsLoaded k p \<in> set es \<Longrightarrow> serves runs k p"
    and "runs_data s = Some p"
  defines "xs \<equiv> runs (rt_status s) (rt_search s)"
  shows "(rt_page s = 0 \<or> PAGE_SIZE * rt_page s < length xs)
         \<and> shown_runs s = page_slice (rt_page s) xs
         \<and> (runs_step s NextPage \<noteq> None \<longleftrightarrow> PAGE_SIZE * (rt_page s + 1) < length xs)
         \<and> (runs_step s PrevPage \<noteq> None \<longleftrightarrow> rt_page s \<noteq> 0)
         \<and> concat (map (\<lambda>n. page_slice n xs) [0..<length xs div PAGE_SIZE + 1]) = xs"
proof -
  have inv: "runs_inv runs s"
    using assms(1,2)
  proof (induction es arbitrary: s rule: rev_induct)
    case Nil
    then show ?case by (auto simp: runs_inv_def runs_init_def)
  next
    case (snoc e es)
    then obtain t where "run runs_step runs_init es = Some t" "runs_step t e = Some s"
      by (auto simp: run_snoc split: option.splits)
    with snoc show ?case by (intro runs_step_inv [of runs t e s]) auto
  qed
  then have "serves runs (runs_key s) p" using assms(3) by (auto simp: runs_inv_def runs_data_def runs_key_def)
  then have shown: "shown_runs s = page_slice (rt_page s) xs"
    using assms(3) by (simp add: shown_runs_def runs_key_def serves_def xs_def)
  have "length xs \<le> PAGE_SIZE * (length xs div PAGE_SIZE + 1)"
    using dividend_less_div_times [of PAGE_SIZE "length xs"] by (simp add: PAGE_SIZE_def mult.commute)
  then have "concat (map (\<lambda>n. page_slice n xs) [0..<length xs div PAGE_SIZE + 1]) = xs"
    by (simp only: page_slices take_all)
  with inv shown runs_buttons [OF inv assms(3)] show ?thesis by (auto simp: runs_inv_def xs_def)
qed

end
