(* ===== verification/Rules_Form.thy ===== *)
theory Rules_Form
  imports Crud_Tab
begin

text \<open>
  The notification rules of the settings page
  (\<open>client/src/features/settings/NotificationRulesSection.tsx\<close>): reading a stored rule into
  the form, building the request from the form, and the section as a step machine. The form
  is text the way the inputs hold it, so numbers go through \<open>Number\<close> and \<open>String\<close>.
\<close>

section \<open>Number of a text\<close>

text \<open>\<open>Number(text)\<close>: JSON's numbers first; then the forms only JavaScript reads (leading zeros, a
  plus sign, a missing integer or fraction part, other radices, infinity).\<close>

definition lax_decimal :: "string \<Rightarrow> rat option" where
  "lax_decimal s =
     (let ds = takeWhile is_digit_char s; r = dropWhile is_digit_char s;
          (fs, r') = (case r of
             [] \<Rightarrow> ([], [])
           | c # t \<Rightarrow> if c = CHR ''.'' then (takeWhile is_digit_char t, dropWhile is_digit_char t) else ([], r))
      in if ds = [] \<and> fs = [] then None
         else (case parse_exp r' of
                 Some (e, []) \<Rightarrow> Some ((of_nat (digits_val ds) + frac_val fs) * e)
               | _ \<Rightarrow> None))"

definition radix_digits :: "nat \<Rightarrow> string \<Rightarrow> rat option" where
  "radix_digits b s =
     (if s \<noteq> [] \<and> list_all (\<lambda>c. case hex_val c of None \<Rightarrow> False | Some d \<Rightarrow> d < b) s
      then Some (of_nat (foldl (\<lambda>a c. a * b + the (hex_val c)) 0 s)) else None)"

definition js_num_of :: "rat option \<Rightarrow> jsnum" where
  "js_num_of v = (case v of None \<Rightarrow> NaN | Some q \<Rightarrow> Fin q)"

definition js_radix :: "char \<Rightarrow> nat option" where
  "js_radix x =
     (if x \<in> {CHR ''x'', CHR ''X''} then Some 16 else if x \<in> {CHR ''o'', CHR ''O''} then Some 8
      else if x \<in> {CHR ''b'', CHR ''B''} then Some 2 else None)"

definition js_signed :: "string \<Rightarrow> jsnum" where
  "js_signed s =
     (let neg = js_startsWith s ''-''; t = (if neg \<or> js_startsWith s ''+'' then drop 1 s else s) in
      if t = ''Infinity'' then (if neg then NegInf else PosInf)
      else js_num_of (map_option (\<lambda>q. if neg then - q else q) (lax_decimal t)))"

definition js_lax_number :: "string \<Rightarrow> jsnum" where
  "js_lax_number s =
     (if js_startsWith s ''0'' \<and> 2 \<le> length s \<and> js_radix (s ! 1) \<noteq> None
      then js_num_of (radix_digits (the (js_radix (s ! 1))) (drop 2 s))
      else js_signed s)"

definition js_Number :: "string \<Rightarrow> jsnum" where
  "js_Number s =
     (let t = js_trim s in
      if t = [] then Fin 0
      else case parse_number t of Some (q, []) \<Rightarrow> Fin q | _ \<Rightarrow> js_lax_number t)"

section \<open>Form\<close>

datatype cooldown_unit = Seconds | Minutes | Hours

definition CONDITION_FIELDS :: "string list" where
  "CONDITION_FIELDS = [''severity'', ''condition'', ''value'', ''serverId'']"

definition NUMERIC_FIELDS :: "string list" where
  "NUMERIC_FIELDS = [''value'', ''serverId'']"

definition OPERATORS_BY_FIELD :: "string \<Rightarrow> string list" where
  "OPERATORS_BY_FIELD f =
     (if f \<in> set NUMERIC_FIELDS then [''eq'', ''neq'', ''gt'', ''gte'', ''lt'', ''lte'', ''in'']
      else [''eq'', ''neq'', ''contains'', ''in''])"

text \<open>The operator of a stored condition is whatever the row holds, so it is a value.\<close>

record FormState =
  fs_id :: "int option"
  fs_name :: string
  fs_description :: string
  fs_eventType :: NotificationEventType
  fs_severity :: string
  fs_useCondition :: bool
  fs_condField :: string
  fs_condOp :: "json option"
  fs_condValue :: string
  fs_groupId :: string
  fs_email :: bool
  fs_inApp :: bool
  fs_cooldown :: string
  fs_cooldownUnit :: cooldown_unit
  fs_notifyOnRecovery :: bool
  fs_enabled :: bool

definition EMPTY_FORM :: FormState where
  "EMPTY_FORM =
     \<lparr>fs_id = None, fs_name = [], fs_description = [], fs_eventType = AGENT_OFFLINE, fs_severity = [],
      fs_useCondition = False, fs_condField = ''severity'', fs_condOp = Some (JStr ''eq''), fs_condValue = [],
      fs_groupId = [], fs_email = True, fs_inApp = False, fs_cooldown = ''15'', fs_cooldownUnit = Minutes,
      fs_notifyOnRecovery = True, fs_enabled = True\<rparr>"

fun unit_seconds :: "cooldown_unit \<Rightarrow> int" where
  "unit_seconds Hours = 3600"
| "unit_seconds Minutes = 60"
| "unit_seconds Seconds = 1"

text \<open>\<open>Math.max(0, Math.floor(Number(amount) || 0))\<close> times the unit.\<close>

definition toSeconds :: "string \<Rightarrow> cooldown_unit \<Rightarrow> jsnum" where
  "toSeconds amount u =
     (case js_Number amount of
        Fin q \<Rightarrow> Fin (of_int (max 0 \<lfloor>q\<rfloor> * unit_seconds u))
      | PosInf \<Rightarrow> PosInf
      | _ \<Rightarrow> Fin 0)"

text \<open>A number in JSON: not-a-number and the infinities print as \<open>null\<close>.\<close>

fun json_num :: "jsnum \<Rightarrow> json" where
  "json_num (Fin q) = JNum q"
| "json_num _ = JNull"

definition buildConditionJson :: "FormState \<Rightarrow> string option" where
  "buildConditionJson f =
     (if \<not> fs_useCondition f \<or> js_trim (fs_condValue f) = [] then None
      else
        let numeric = fs_condField f \<in> set NUMERIC_FIELDS;
            v = (if fs_condOp f = Some (JStr ''in'') then
                   let parts = filter (\<lambda>p. p \<noteq> []) (map js_trim (js_split (CHR '','') (fs_condValue f))) in
                   JArr (if numeric then map (\<lambda>p. json_num (js_Number p)) parts else map JStr parts)
                 else if numeric then json_num (js_Number (js_trim (fs_condValue f)))
                 else JStr (js_trim (fs_condValue f)))
        in Some (JSON_stringify (jobj
             [(''field'', Some (JStr (fs_condField f))), (''operator'', fs_condOp f), (''value'', Some v)])))"

fun join_comma :: "string list \<Rightarrow> string" where
  "join_comma [] = []"
| "join_comma [p] = p"
| "join_comma (p # q # ps) = p @ '', '' @ join_comma (q # ps)"

fun condition_text :: "json option \<Rightarrow> string" where
  "condition_text (Some (JArr vs)) = join_comma (map (\<lambda>v. if v = JNull then [] else template_text (Some v)) vs)"
| "condition_text None = []"
| "condition_text (Some JNull) = []"
| "condition_text v = template_text v"

text \<open>The condition of a stored rule as field, operator and text; a row that does not parse, or
  names another field, leaves the condition off.\<close>

definition stored_condition :: "string \<Rightarrow> (string \<times> json option \<times> string) option" where
  "stored_condition t =
     (if t = [] then None
      else case JSON_parse t of
          None \<Rightarrow> None
        | Some JNull \<Rightarrow> None
        | Some c \<Rightarrow>
            (case json_get ''field'' c of
               Some (JStr f) \<Rightarrow>
                 if f \<in> set CONDITION_FIELDS
                 then Some (f, json_get ''operator'' c, condition_text (json_get ''value'' c)) else None
             | _ \<Rightarrow> None))"

definition cooldown_split :: "int \<Rightarrow> int \<times> cooldown_unit" where
  "cooldown_split cd =
     (if cd \<ge> 3600 \<and> cd mod 3600 = 0 then (cd div 3600, Hours)
      else if cd \<ge> 60 \<and> cd mod 60 = 0 then (cd div 60, Minutes)
      else (cd, Seconds))"

definition startEdit :: "NotificationRule \<Rightarrow> FormState" where
  "startEdit r =
     (let channels = map js_trim (js_split (CHR '','') (notificationRule_channels r));
          cond = stored_condition (notificationRule_conditionJson r);
          (cd, u) = cooldown_split (notificationRule_cooldownSeconds r)
      in \<lparr>fs_id = Some (notificationRule_id r), fs_name = notificationRule_name r, fs_description = [],
          fs_eventType = notificationRule_eventType r, fs_severity = notificationRule_severity r,
          fs_useCondition = (cond \<noteq> None),
          fs_condField = (case cond of None \<Rightarrow> ''severity'' | Some (f, p, v) \<Rightarrow> f),
          fs_condOp = (case cond of None \<Rightarrow> Some (JStr ''eq'') | Some (f, p, v) \<Rightarrow> p),
          fs_condValue = (case cond of None \<Rightarrow> [] | Some (f, p, v) \<Rightarrow> v),
          fs_groupId = int_str (notificationRule_notificationGroupId r),
          fs_email = (''EMAIL'' \<in> set channels), fs_inApp = (''IN_APP'' \<in> set channels),
          fs_cooldown = int_str cd, fs_cooldownUnit = u,
          fs_notifyOnRecovery = notificationRule_notifyOnRecovery r, fs_enabled = notificationRule_enabled r\<rparr>)"

definition form_channels :: "FormState \<Rightarrow> NotificationChannel list" where
  "form_channels f = (if fs_email f then [EMAIL] else []) @ (if fs_inApp f then [IN_APP] else [])"

text \<open>The number inputs of the form hold whole numbers or text that counts as one.\<close>

definition whole :: "jsnum \<Rightarrow> int" where
  "whole n = (case n of Fin q \<Rightarrow> \<lfloor>q\<rfloor> | _ \<Rightarrow> 0)"

definition rule_payload :: "FormState \<Rightarrow> NotificationRuleUpdate" where
  "rule_payload f =
     \<lparr>notificationRuleUpdate_name = Some (js_trim (fs_name f)),
      notificationRuleUpdate_description = Some (js_trim (fs_description f)),
      notificationRuleUpdate_enabled = Some (fs_enabled f),
      notificationRuleUpdate_eventType = Some (fs_eventType f),
      notificationRuleUpdate_severity = some_text (fs_severity f),
      notificationRuleUpdate_conditionJson = buildConditionJson f,
      notificationRuleUpdate_notificationGroupId = Some (whole (js_Number (fs_groupId f))),
      notificationRuleUpdate_channels = Some (form_channels f),
      notificationRuleUpdate_cooldownSeconds = Some (whole (toSeconds (fs_cooldown f) (fs_cooldownUnit f))),
      notificationRuleUpdate_notifyOnRecovery = Some (fs_notifyOnRecovery f),
      notificationRuleUpdate_repeatIntervalSec = None, notificationRuleUpdate_maxRepeats = None,
      notificationRuleUpdate_digestMode = None, notificationRuleUpdate_digestIntervalMin = None,
      notificationRuleUpdate_groupBy = None\<rparr>"

definition rule_creation :: "FormState \<Rightarrow> NotificationRuleCreate" where
  "rule_creation f =
     (let p = rule_payload f in
      \<lparr>notificationRuleCreate_name = js_trim (fs_name f),
       notificationRuleCreate_description = notificationRuleUpdate_description p,
       notificationRuleCreate_enabled = notificationRuleUpdate_enabled p,
       notificationRuleCreate_eventType = fs_eventType f,
       notificationRuleCreate_severity = notificationRuleUpdate_severity p,
       notificationRuleCreate_conditionJson = notificationRuleUpdate_conditionJson p,
       notificationRuleCreate_notificationGroupId = whole (js_Number (fs_groupId f)),
       notificationRuleCreate_channels = notificationRuleUpdate_channels p,
       notificationRuleCreate_cooldownSeconds = notificationRuleUpdate_cooldownSeconds p,
       notificationRuleCreate_notifyOnRecovery = notificationRuleUpdate_notifyOnRecovery p,
       notificationRuleCreate_repeatIntervalSec = None, notificationRuleCreate_maxRepeats = None,
       notificationRuleCreate_digestMode = None, notificationRuleCreate_digestIntervalMin = None,
       notificationRuleCreate_groupBy = None\<rparr>)"

section \<open>Reading and printing agree\<close>

lemma fixed_str_chars: "c \<in> set (fixed_str k n) \<Longrightarrow> is_digit_char c \<or> c = CHR ''.''"
  using padStart_digits by (auto simp: fixed_str_def dest: nat_str_digits split: if_splits)

lemma num_str_chars: "c \<in> set (num_str q) \<Longrightarrow> is_digit_char c \<or> c \<in> {CHR ''.'', CHR ''-''}"
  by (auto simp: num_str_def Let_def dest!: fixed_str_chars split: if_splits)

lemma num_str_no_space: "c \<in> set (num_str q) \<Longrightarrow> \<not> is_space_char c \<and> c \<noteq> CHR '',''"
  using num_str_chars [of c q] by (auto simp: is_digit_char_def is_space_char_def)

lemma js_trim_solid: "(\<And>c. c \<in> set s \<Longrightarrow> \<not> is_space_char c) \<Longrightarrow> js_trim s = s"
  by (rule js_trim_fixed) (metis hd_in_set last_in_set)

lemma js_trim_num_str [simp]: "js_trim (num_str q) = num_str q"
  using num_str_no_space by (intro js_trim_solid) blast

lemma js_Number_num_str [simp]: "decimal q \<Longrightarrow> js_Number (num_str q) = Fin q"
  using parse_number_num_str [of q "[]"] num_str_not_Nil [of q]
  by (simp add: js_Number_def Let_def number_end_def)

lemma js_Number_int_str [simp]: "js_Number (int_str i) = Fin (of_int i)"
  using js_Number_num_str [of "of_int i"] by simp

lemma cooldown_reads_back:
  assumes "0 \<le> cd"
  shows "(case cooldown_split cd of (n, u) \<Rightarrow> toSeconds (int_str n) u) = Fin (of_int cd)"
proof -
  have "cd mod k = 0 \<Longrightarrow> rat_of_int (cd div k) * rat_of_int k = rat_of_int cd" for k :: int
    by (metis add.right_neutral div_mult_mod_eq of_int_mult)
  from this [of 60] this [of 3600] assms show ?thesis
    by (auto simp: cooldown_split_def toSeconds_def pos_imp_zdiv_nonneg_iff)
qed

lemma js_trim_leading_space: "js_trim (CHR '' '' # s) = js_trim s"
  by (simp add: js_trim_def js_trimStart_def is_space_char_def)

text \<open>Printing a list with commas and splitting it again.\<close>

lemma split_join_comma:
  "ps \<noteq> [] \<Longrightarrow> (\<And>p. p \<in> set ps \<Longrightarrow> CHR '','' \<notin> set p) \<Longrightarrow>
     map js_trim (js_split (CHR '','') (join_comma ps)) = map js_trim ps"
proof (induction ps rule: join_comma.induct)
  case (3 p q ps)
  let ?r = "join_comma (q # ps)"
  from 3 have "CHR '','' \<notin> set p" by simp
  then have "js_split (CHR '','') (p @ '','' @ CHR '' '' # ?r) = p # js_split (CHR '','') (CHR '' '' # ?r)"
    by (simp add: js_split_append_sep)
  moreover have "map js_trim (js_split (CHR '','') (CHR '' '' # ?r)) = map js_trim (js_split (CHR '','') ?r)"
    by (cases "js_split (CHR '','') ?r") (auto simp: js_trim_leading_space)
  ultimately show ?case using 3 by simp
qed (auto simp: js_split_no_sep)

text \<open>Conditions the form can produce: an operator of the field, and one value or a list of
  values the text input can hold.\<close>

fun plain_value :: "bool \<Rightarrow> json \<Rightarrow> bool" where
  "plain_value True (JNum q) = decimal q"
| "plain_value False (JStr s) = (s \<noteq> [] \<and> js_trim s = s)"
| "plain_value _ _ = False"

fun list_value :: "bool \<Rightarrow> json \<Rightarrow> bool" where
  "list_value numeric (JArr vs) =
     (vs \<noteq> [] \<and> list_all (\<lambda>v. plain_value numeric v \<and> CHR '','' \<notin> set (template_text (Some v))) vs)"
| "list_value _ _ = False"

definition form_condition :: "string \<Rightarrow> string \<Rightarrow> json \<Rightarrow> bool" where
  "form_condition f p v \<longleftrightarrow>
     f \<in> set CONDITION_FIELDS \<and> p \<in> set (OPERATORS_BY_FIELD f)
     \<and> (if p = ''in'' then list_value (f \<in> set NUMERIC_FIELDS) v else plain_value (f \<in> set NUMERIC_FIELDS) v)"

definition condition_json :: "string \<Rightarrow> string \<Rightarrow> json \<Rightarrow> json" where
  "condition_json f p v = jobj [(''field'', Some (JStr f)), (''operator'', Some (JStr p)), (''value'', Some v)]"

lemma plain_value_text:
  assumes "plain_value numeric v"
  shows "js_trim (template_text (Some v)) = template_text (Some v)" "template_text (Some v) \<noteq> []"
    "(if numeric then json_num (js_Number (template_text (Some v))) else JStr (template_text (Some v))) = v"
    "json_exact v" "condition_text (Some v) = template_text (Some v)" "v \<noteq> JNull"
  using assms num_str_not_Nil by (cases numeric; cases v; simp)+

lemma js_trim_Nil: "js_trim s = [] \<Longrightarrow> c \<in> set s \<Longrightarrow> is_space_char c"
proof -
  assume t: "js_trim s = []" and c: "c \<in> set s"
  let ?r = "dropWhile is_space_char s"
  from t have "\<forall>x \<in> set ?r. is_space_char x" by (simp add: js_trim_def js_trimStart_def js_trimEnd_def)
  with hd_dropWhile [of is_space_char s] have "?r = []" by (metis list.set_sel(1))
  with c show "is_space_char c" by simp
qed

lemma js_trim_Nil_no_comma: "js_trim s = [] \<Longrightarrow> CHR '','' \<notin> set s"
  using js_trim_Nil [of s "CHR '',''"] by (auto simp: is_space_char_def)

lemma list_value_text:
  assumes "list_value numeric (JArr vs)"
  defines "ps \<equiv> map (\<lambda>v. template_text (Some v)) vs"
  shows "filter (\<lambda>p. p \<noteq> []) (map js_trim (js_split (CHR '','') (condition_text (Some (JArr vs))))) = ps"
    and "(if numeric then map (\<lambda>p. json_num (js_Number p)) ps else map JStr ps) = vs"
    and "json_exact (JArr vs)" and "js_trim (condition_text (Some (JArr vs))) \<noteq> []"
proof -
  have vs: "v \<in> set vs \<Longrightarrow> plain_value numeric v" "v \<in> set vs \<Longrightarrow> CHR '','' \<notin> set (template_text (Some v))" for v
    using assms(1) by (auto simp: list_all_iff)
  have "map (\<lambda>v. if v = JNull then [] else template_text (Some v)) vs = ps"
    unfolding ps_def using vs(1) plain_value_text(6) by (intro map_cong) auto
  then have joined: "condition_text (Some (JArr vs)) = join_comma ps" by (simp only: condition_text.simps)
  have "map js_trim (js_split (CHR '','') (join_comma ps)) = map js_trim ps"
    using assms(1) vs(2) by (intro split_join_comma) (auto simp: ps_def)
  moreover have "map js_trim ps = ps" using vs(1) plain_value_text(1) by (auto simp: ps_def)
  moreover have "filter (\<lambda>p. p \<noteq> []) ps = ps" using vs(1) plain_value_text(2) by (auto simp: ps_def filter_id_conv)
  ultimately show parts: "filter (\<lambda>p. p \<noteq> []) (map js_trim (js_split (CHR '','') (condition_text (Some (JArr vs))))) = ps"
    by (simp only: joined)
  show "(if numeric then map (\<lambda>p. json_num (js_Number p)) ps else map JStr ps) = vs"
    using plain_value_text(3) [OF vs(1)] by (cases numeric) (simp_all add: ps_def comp_def map_idI)
  show "json_exact (JArr vs)" using vs(1) plain_value_text(4) by auto
  show "js_trim (condition_text (Some (JArr vs))) \<noteq> []"
  proof
    assume trim: "js_trim (condition_text (Some (JArr vs))) = []"
    then have "CHR '','' \<notin> set (condition_text (Some (JArr vs)))" by (rule js_trim_Nil_no_comma)
    with parts trim have "ps = []" by (simp add: js_split_no_sep del: condition_text.simps)
    with assms(1) show False by (simp add: ps_def)
  qed
qed

lemma condition_read:
  assumes "form_condition f p v"
  shows "stored_condition (JSON_stringify (condition_json f p v)) = Some (f, Some (JStr p), condition_text (Some v))"
proof -
  let ?c = "condition_json f p v"
  have "json_exact v"
    using assms plain_value_text(4) list_value_text(3)
    by (auto simp: form_condition_def split: if_splits elim!: list_value.elims(2))
  then have "JSON_parse (JSON_stringify ?c) = Some ?c"
    by (intro JSON_parse_stringify) (simp add: condition_json_def json_exact_simps)
  moreover have "JSON_stringify ?c \<noteq> []" using stringify_start [of ?c] by auto
  ultimately show ?thesis
    using assms by (simp add: stored_condition_def form_condition_def condition_json_def jobj_def)
qed

lemma condition_built:
  assumes "form_condition f p v" "fs_useCondition g" "fs_condField g = f" "fs_condOp g = Some (JStr p)"
    "fs_condValue g = condition_text (Some v)"
  shows "buildConditionJson g = Some (JSON_stringify (condition_json f p v))"
proof (cases "p = ''in''")
  case True
  with assms(1) obtain vs where v: "v = JArr vs" and vs: "list_value (f \<in> set NUMERIC_FIELDS) (JArr vs)"
    by (auto simp: form_condition_def elim!: list_value.elims(2))
  from assms True v list_value_text [OF vs] show ?thesis
    by (simp add: buildConditionJson_def condition_json_def Let_def del: condition_text.simps split: if_splits)
next
  case False
  with assms(1) have v: "plain_value (f \<in> set NUMERIC_FIELDS) v" by (simp add: form_condition_def)
  from assms False plain_value_text [OF v] show ?thesis
    by (cases "f \<in> set NUMERIC_FIELDS")
       (simp_all add: buildConditionJson_def condition_json_def Let_def del: condition_text.simps)
qed

section \<open>Editing a rule\<close>

lemma startEdit_condition:
  "fs_useCondition (startEdit r) \<longleftrightarrow> stored_condition (notificationRule_conditionJson r) \<noteq> None"
  "stored_condition (notificationRule_conditionJson r) = Some (f, p, v) \<Longrightarrow>
     fs_condField (startEdit r) = f \<and> fs_condOp (startEdit r) = p \<and> fs_condValue (startEdit r) = v"
  by (simp_all add: startEdit_def Let_def split: prod.splits)

text \<open>A stored condition is either empty or one the form writes.\<close>

definition stored_by_form :: "NotificationRule \<Rightarrow> bool" where
  "stored_by_form r \<longleftrightarrow>
     notificationRule_conditionJson r = []
     \<or> (\<exists>f p v. form_condition f p v \<and> notificationRule_conditionJson r = JSON_stringify (condition_json f p v))"

lemma edit_keeps_condition:
  assumes "stored_by_form r"
  shows "buildConditionJson (startEdit r) = some_text (notificationRule_conditionJson r)"
  using assms unfolding stored_by_form_def
proof (elim disjE exE conjE)
  assume "notificationRule_conditionJson r = []"
  then show ?thesis
    by (simp add: buildConditionJson_def startEdit_condition(1) stored_condition_def some_text_def)
next
  fix f p v assume c: "form_condition f p v" and j: "notificationRule_conditionJson r = JSON_stringify (condition_json f p v)"
  note st = condition_read [OF c, folded j]
  have "buildConditionJson (startEdit r) = Some (notificationRule_conditionJson r)"
    unfolding j by (rule condition_built [OF c]) (use st startEdit_condition in auto)
  moreover have "notificationRule_conditionJson r \<noteq> []" using st by (auto simp: stored_condition_def)
  ultimately show ?thesis by (simp add: some_text_def)
qed



text \<open>What editing loses. Saving an edited rule always overwrites its description with nothing
  unless the user types it again, never includes the Telegram channel, which the form does not
  offer, and cannot clear a severity or a condition: the member is left out of the request when
  the input is empty, and an absent member keeps the stored value.\<close>

lemma rule_edit_losses:
  "notificationRuleUpdate_description (rule_payload (startEdit r)) = Some []
   \<and> TELEGRAM \<notin> set (form_channels f)
   \<and> json_get ''severity'' (notificationRuleUpdate_json (rule_payload (f\<lparr>fs_severity := []\<rparr>))) = None
   \<and> json_get ''conditionJson'' (notificationRuleUpdate_json (rule_payload (f\<lparr>fs_useCondition := False\<rparr>))) = None"
  by (simp add: rule_payload_def startEdit_def form_channels_def Let_def some_text_def buildConditionJson_def
      notificationRuleUpdate_json_def json_get_jobj js_trim_def js_trimStart_def js_trimEnd_def split: prod.splits)

section \<open>The section as a machine\<close>

text \<open>\<open>rl_loads\<close> are the running calls of \<open>refresh\<close>; a true entry is one that \<open>submit\<close>
  waits for before it clears its busy flag. The roles are tested as on the backup page.\<close>

datatype rule_op = RuleSave string | RuleToggle | RuleDelete

record rules_tab = "rule_op panel" +
  rl_rules :: "NotificationRule list"
  rl_groups :: "NotificationGroup list"
  rl_form :: FormState
  rl_editing :: bool
  rl_deleting :: "NotificationRule option"
  rl_loads :: "bool list"
  rl_busy :: bool

definition rules_init :: rules_tab where
  "rules_init =
     \<lparr>pn_busy = False, pn_open = [], pn_sent = [], pn_toasts = [], pn_changed = 0,
      rl_rules = [], rl_groups = [], rl_form = EMPTY_FORM, rl_editing = False, rl_deleting = None,
      rl_loads = [False], rl_busy = False\<rparr>"

datatype rule_input =
    RuName string
  | RuDescription string
  | RuEvent NotificationEventType
  | RuSeverity string
  | RuUseCondition
  | RuCondField string
  | RuCondOp string
  | RuCondValue string
  | RuGroup string
  | RuEmail bool
  | RuInApp bool
  | RuCooldown string
  | RuUnit cooldown_unit
  | RuRecovery
  | RuEnabled

definition set_condField :: "string \<Rightarrow> FormState \<Rightarrow> FormState" where
  "set_condField v f =
     (let ops = OPERATORS_BY_FIELD v in
      f\<lparr>fs_condField := v, fs_condOp := (if fs_condOp f \<in> (Some \<circ> JStr) ` set ops then fs_condOp f else Some (JStr (hd ops)))\<rparr>)"

fun rule_set :: "NotificationGroup list \<Rightarrow> rule_input \<Rightarrow> FormState \<Rightarrow> FormState option" where
  "rule_set gs (RuName t) f = Some (f\<lparr>fs_name := t\<rparr>)"
| "rule_set gs (RuDescription t) f = Some (f\<lparr>fs_description := t\<rparr>)"
| "rule_set gs (RuEvent e) f = Some (f\<lparr>fs_eventType := e\<rparr>)"
| "rule_set gs (RuSeverity t) f =
     (if t \<in> {[], ''INFO'', ''WARNING'', ''CRITICAL''} then Some (f\<lparr>fs_severity := t\<rparr>) else None)"
| "rule_set gs RuUseCondition f = Some (f\<lparr>fs_useCondition := \<not> fs_useCondition f\<rparr>)"
| "rule_set gs (RuCondField t) f =
     (if fs_useCondition f \<and> t \<in> set CONDITION_FIELDS then Some (set_condField t f) else None)"
| "rule_set gs (RuCondOp t) f =
     (if fs_useCondition f \<and> t \<in> set (OPERATORS_BY_FIELD (fs_condField f))
      then Some (f\<lparr>fs_condOp := Some (JStr t)\<rparr>) else None)"
| "rule_set gs (RuCondValue t) f = (if fs_useCondition f then Some (f\<lparr>fs_condValue := t\<rparr>) else None)"
| "rule_set gs (RuGroup t) f =
     (if t = [] \<or> t \<in> (\<lambda>g. int_str (notificationGroup_id g)) ` set gs then Some (f\<lparr>fs_groupId := t\<rparr>) else None)"
| "rule_set gs (RuEmail b) f = Some (f\<lparr>fs_email := b\<rparr>)"
| "rule_set gs (RuInApp b) f = Some (f\<lparr>fs_inApp := b\<rparr>)"
| "rule_set gs (RuCooldown t) f =
     (if t = [] \<or> js_isFinite (js_Number t) then Some (f\<lparr>fs_cooldown := t\<rparr>) else None)"
| "rule_set gs (RuUnit u) f = Some (f\<lparr>fs_cooldownUnit := u\<rparr>)"
| "rule_set gs RuRecovery f = Some (f\<lparr>fs_notifyOnRecovery := \<not> fs_notifyOnRecovery f\<rparr>)"
| "rule_set gs RuEnabled f = Some (f\<lparr>fs_enabled := \<not> fs_enabled f\<rparr>)"

datatype rules_event =
    StartCreate
  | StartEdit NotificationRule
  | RuleInput rule_input
  | SubmitRule
  | CancelRule
  | ToggleEnabled NotificationRule
  | DeleteRule NotificationRule
  | CloseRuleDelete
  | ConfirmRuleDelete
  | RulesLoad nat "(NotificationRule list \<times> NotificationGroup list) option"
  | RulesAnswer "rule_op \<times> wire" "js_error + json option"

definition submit_rule :: "rules_tab \<Rightarrow> rules_tab" where
  "submit_rule s =
     (let f = rl_form s in
      if js_trim (fs_name f) = [] \<or> fs_groupId f = [] then pn_toast ''Name and recipient group are required'' True s
      else if form_channels f = [] then pn_toast ''Select at least one channel'' True s
      else case fs_id f of
          None \<Rightarrow> pn_request (RuleSave ''Rule created.'') (wire_of (api_createNotificationRule (rule_creation f)))
                 (s\<lparr>rl_busy := True\<rparr>)
        | Some i \<Rightarrow> pn_request (RuleSave ''Rule updated.'') (wire_of (api_updateNotificationRule i (rule_payload f)))
                 (s\<lparr>rl_busy := True\<rparr>))"

definition rules_refresh :: "bool \<Rightarrow> rules_tab \<Rightarrow> rules_tab" where
  "rules_refresh awaited s = s\<lparr>rl_loads := rl_loads s @ [awaited]\<rparr>"

definition rules_answer :: "rule_op \<Rightarrow> js_error + json option \<Rightarrow> rules_tab \<Rightarrow> rules_tab" where
  "rules_answer k r s =
     (case (k, r) of
        (RuleSave msg, Inr v) \<Rightarrow> rules_refresh True ((pn_toast msg False s)\<lparr>rl_editing := False, rl_form := EMPTY_FORM\<rparr>)
      | (RuleSave msg, Inl e) \<Rightarrow> (pn_toast (error_message e) True s)\<lparr>rl_busy := False\<rparr>
      | (RuleToggle, Inr v) \<Rightarrow> rules_refresh False s
      | (RuleDelete, Inr v) \<Rightarrow> rules_refresh False (pn_toast ''Rule deleted.'' False s)
      | (_, Inl e) \<Rightarrow> pn_toast (error_message e) True s)"

definition enabled_update :: "bool \<Rightarrow> NotificationRuleUpdate" where
  "enabled_update b =
     \<lparr>notificationRuleUpdate_name = None, notificationRuleUpdate_description = None,
      notificationRuleUpdate_enabled = Some b, notificationRuleUpdate_eventType = None,
      notificationRuleUpdate_severity = None, notificationRuleUpdate_conditionJson = None,
      notificationRuleUpdate_notificationGroupId = None, notificationRuleUpdate_channels = None,
      notificationRuleUpdate_cooldownSeconds = None, notificationRuleUpdate_notifyOnRecovery = None,
      notificationRuleUpdate_repeatIntervalSec = None, notificationRuleUpdate_maxRepeats = None,
      notificationRuleUpdate_digestMode = None, notificationRuleUpdate_digestIntervalMin = None,
      notificationRuleUpdate_groupBy = None\<rparr>"

fun rules_step :: "json option \<Rightarrow> rules_tab \<Rightarrow> rules_event \<Rightarrow> rules_tab option" where
  "rules_step user s StartCreate =
     (if fst (useDbBackupsRole user) \<and> \<not> rl_editing s
      then Some (s\<lparr>rl_form := EMPTY_FORM\<lparr>fs_groupId :=
                   (case rl_groups s of [] \<Rightarrow> [] | g # gs \<Rightarrow> int_str (notificationGroup_id g))\<rparr>, rl_editing := True\<rparr>)
      else None)"
| "rules_step user s (StartEdit r) =
     (if fst (useDbBackupsRole user) \<and> r \<in> set (rl_rules s)
      then Some (s\<lparr>rl_form := startEdit r, rl_editing := True\<rparr>) else None)"
| "rules_step user s (RuleInput i) =
     (if fst (useDbBackupsRole user) \<and> rl_editing s
      then map_option (\<lambda>f. s\<lparr>rl_form := f\<rparr>) (rule_set (rl_groups s) i (rl_form s)) else None)"
| "rules_step user s SubmitRule =
     (if fst (useDbBackupsRole user) \<and> rl_editing s \<and> \<not> rl_busy s then Some (submit_rule s) else None)"
| "rules_step user s CancelRule =
     (if fst (useDbBackupsRole user) \<and> rl_editing s
      then Some (s\<lparr>rl_editing := False, rl_form := EMPTY_FORM\<rparr>) else None)"
| "rules_step user s (ToggleEnabled r) =
     (if fst (useDbBackupsRole user) \<and> r \<in> set (rl_rules s)
      then Some (pn_request RuleToggle (wire_of (api_updateNotificationRule (notificationRule_id r)
                   (enabled_update (\<not> notificationRule_enabled r)))) s) else None)"
| "rules_step user s (DeleteRule r) =
     (if snd (useDbBackupsRole user) \<and> r \<in> set (rl_rules s) then Some (s\<lparr>rl_deleting := Some r\<rparr>) else None)"
| "rules_step user s CloseRuleDelete = (if rl_deleting s = None then None else Some (s\<lparr>rl_deleting := None\<rparr>))"
| "rules_step user s ConfirmRuleDelete =
     (case rl_deleting s of
        None \<Rightarrow> None
      | Some r \<Rightarrow> Some (pn_request RuleDelete (wire_of (api_deleteNotificationRule (notificationRule_id r)))
                         (s\<lparr>rl_deleting := None\<rparr>)))"
| "rules_step user s (RulesLoad n res) =
     (if n < length (rl_loads s) then
        (let t = s\<lparr>rl_loads := take n (rl_loads s) @ drop (Suc n) (rl_loads s)\<rparr>;
             u = (case res of None \<Rightarrow> t | Some (rs, gs) \<Rightarrow> t\<lparr>rl_rules := rs, rl_groups := gs\<rparr>)
         in Some (if rl_loads s ! n then u\<lparr>rl_busy := False\<rparr> else u))
      else None)"
| "rules_step user s (RulesAnswer q r) =
     (if q \<in> set (pn_open s) then Some (rules_answer (fst q) r (pn_done q s)) else None)"

subsection \<open>Invariants\<close>

definition fitting_form :: "FormState \<Rightarrow> bool" where
  "fitting_form f \<longleftrightarrow>
     fs_condField f \<in> set CONDITION_FIELDS \<and> fs_condOp f \<in> (Some \<circ> JStr) ` set (OPERATORS_BY_FIELD (fs_condField f))"

text \<open>Dialogs are open for the roles they are for.\<close>

definition rules_inv :: "json option \<Rightarrow> rules_tab \<Rightarrow> bool" where
  "rules_inv user s \<longleftrightarrow>
     (rl_deleting s \<noteq> None \<longrightarrow> session_role user = Admin) \<and> (rl_editing s \<longrightarrow> Operator \<le> session_role user)"

text \<open>A busy section has a save or the reload after it running.\<close>

definition saving :: "rules_tab \<Rightarrow> bool" where
  "saving s \<longleftrightarrow> (\<exists>q \<in> set (pn_open s). \<exists>m. fst q = RuleSave m) \<or> True \<in> set (rl_loads s)"

definition rules_busy_inv :: "rules_tab \<Rightarrow> bool" where
  "rules_busy_inv s \<longleftrightarrow> (rl_busy s \<longrightarrow> saving s)"

lemma fitting_empty: "fitting_form EMPTY_FORM" "fitting_form (EMPTY_FORM\<lparr>fs_groupId := g\<rparr>)"
  by (simp_all add: fitting_form_def EMPTY_FORM_def CONDITION_FIELDS_def OPERATORS_BY_FIELD_def NUMERIC_FIELDS_def)

lemma fitting_edit: "stored_by_form r \<Longrightarrow> fitting_form (startEdit r)"
  unfolding stored_by_form_def
proof (elim disjE exE conjE)
  assume "notificationRule_conditionJson r = []"
  then show ?thesis
    by (simp add: fitting_form_def startEdit_def stored_condition_def CONDITION_FIELDS_def OPERATORS_BY_FIELD_def
        NUMERIC_FIELDS_def split: prod.splits)
next
  fix f p v assume c: "form_condition f p v" "notificationRule_conditionJson r = JSON_stringify (condition_json f p v)"
  from startEdit_condition(2) [of r, OF condition_read [OF c(1), folded c(2)]] c(1) show ?thesis
    by (auto simp: fitting_form_def form_condition_def)
qed

lemma hd_operators: "hd (OPERATORS_BY_FIELD f) \<in> set (OPERATORS_BY_FIELD f)"
  by (simp add: OPERATORS_BY_FIELD_def)

lemma fitting_condField: "t \<in> set CONDITION_FIELDS \<Longrightarrow> fitting_form (set_condField t f)"
  using hd_operators [of t] by (auto simp: fitting_form_def set_condField_def Let_def)

lemma fitting_set: "fitting_form f \<Longrightarrow> rule_set gs i f = Some f' \<Longrightarrow> fitting_form f'"
proof (cases i)
  case (RuCondField t)
  assume "rule_set gs i f = Some f'"
  with RuCondField show ?thesis by (auto simp: fitting_condField split: if_splits)
qed (auto simp: fitting_form_def split: if_splits)

lemma rules_answer_frame:
  "pn_open (rules_answer k r s) = pn_open s" "pn_sent (rules_answer k r s) = pn_sent s"
  "pn_busy (rules_answer k r s) = pn_busy s" "rl_deleting (rules_answer k r s) = rl_deleting s"
  "rl_editing (rules_answer k r s) \<Longrightarrow> rl_editing s" "rl_rules (rules_answer k r s) = rl_rules s"
  "rl_form (rules_answer k r s) \<in> {rl_form s, EMPTY_FORM}"
  "True \<in> set (rl_loads s) \<Longrightarrow> True \<in> set (rl_loads (rules_answer k r s))"
  "rl_busy (rules_answer k r s) \<Longrightarrow> rl_busy s \<and> ((\<exists>m. k = RuleSave m) \<longrightarrow> True \<in> set (rl_loads (rules_answer k r s)))"
  by (auto simp: rules_answer_def rules_refresh_def pn_defs split: rule_op.splits sum.splits)

lemma rules_answer_busy:
  assumes "rules_busy_inv s" "q \<in> set (pn_open s)"
  shows "rules_busy_inv (rules_answer (fst q) r (pn_done q s))"
proof -
  let ?t = "rules_answer (fst q) r (pn_done q s)"
  { assume "rl_busy ?t"
    note fr = rules_answer_frame(9) [OF this]
    then have "rl_busy s" by (simp add: pn_done_def)
    with assms(1) have "saving s" by (simp add: rules_busy_inv_def)
    then have "saving ?t" unfolding saving_def
    proof
      assume "\<exists>p \<in> set (pn_open s). \<exists>m. fst p = RuleSave m"
      then obtain p m where p: "p \<in> set (pn_open s)" "fst p = RuleSave m" by blast
      show "(\<exists>p \<in> set (pn_open ?t). \<exists>m. fst p = RuleSave m) \<or> True \<in> set (rl_loads ?t)"
      proof (cases "\<exists>m. fst q = RuleSave m")
        case True
        with fr show ?thesis by blast
      next
        case False
        with p have "p \<in> set (remove1 q (pn_open s))" by (metis in_set_remove1)
        with p(2) show ?thesis by (auto simp: rules_answer_frame pn_done_def)
      qed
    qed (simp add: rules_answer_frame(8) pn_done_def) }
  then show ?thesis by (simp add: rules_busy_inv_def)
qed

lemma still_waiting: "True \<in> set xs \<Longrightarrow> n < length xs \<Longrightarrow> \<not> xs ! n \<Longrightarrow> True \<in> set (take n xs @ drop (Suc n) xs)"
  by (metis (full_types) Un_iff id_take_nth_drop set_ConsD set_append)

lemma rules_load_busy:
  assumes "rules_busy_inv s" "rules_step user s (RulesLoad n res) = Some s'"
  shows "rules_busy_inv s'"
  using assms still_waiting [of "rl_loads s" n]
  by (cases "rl_loads s ! n") (auto simp: rules_busy_inv_def saving_def Let_def split: if_splits option.splits)

interpretation rules_busy: started_system "rules_step user" rules_busy_inv rules_init for user
proof unfold_locales
  fix s e s' assume a: "rules_busy_inv s" "rules_step user s e = Some s'"
  show "rules_busy_inv s'"
  proof (cases e)
    case (RulesLoad n res)
    with a show ?thesis by (simp only: rules_load_busy)
  next
    case (RulesAnswer q r)
    with a have "q \<in> set (pn_open s)" "s' = rules_answer (fst q) r (pn_done q s)" by (auto split: if_splits)
    with a(1) show ?thesis by (simp add: rules_answer_busy)
  next
    case SubmitRule
    with a show ?thesis
      by (auto simp: rules_busy_inv_def submit_rule_def saving_def pn_defs Let_def split: if_splits option.splits)
  qed (use a in \<open>auto simp: rules_busy_inv_def saving_def pn_defs split: if_splits option.splits\<close>)
qed (simp add: rules_busy_inv_def rules_init_def)

lemma submit_moves:
  assumes "Operator \<le> session_role user"
  shows "panel_move (permitted (session_role user)) (\<lambda>k. False) s (submit_rule s)"
proof (cases "js_trim (fs_name (rl_form s)) = [] \<or> fs_groupId (rl_form s) = [] \<or> form_channels (rl_form s) = []")
  case True
  then show ?thesis by (intro panel_move_none) (auto simp: submit_rule_def Let_def pn_defs)
next
  case False
  with assms show ?thesis
    by (cases "fs_id (rl_form s)")
       (auto intro!: panel_move_start simp: submit_rule_def Let_def call_roles pn_defs)
qed

lemma submit_frame:
  "rl_deleting (submit_rule s) = rl_deleting s" "rl_editing (submit_rule s) = rl_editing s"
  by (auto simp: submit_rule_def Let_def pn_defs split: option.splits)

lemma rules_moves:
  assumes "rules_inv user s" "rules_step user s e = Some s'"
  shows "rules_inv user s' \<and> panel_move (permitted (session_role user)) (\<lambda>k. False) s s'"
proof (cases e)
  case SubmitRule
  with assms show ?thesis
    by (auto simp: rules_inv_def role_flags submit_frame split: if_splits intro!: submit_moves)
next
  case (ToggleEnabled r)
  with assms show ?thesis
    by (auto intro!: panel_move_start simp: rules_inv_def role_flags call_roles pn_defs split: if_splits)
next
  case ConfirmRuleDelete
  with assms show ?thesis
    by (auto intro!: panel_move_start simp: rules_inv_def call_roles pn_defs split: option.splits)
next
  case (RulesAnswer q r)
  with assms have q: "q \<in> set (pn_open s)" "s' = rules_answer (fst q) r (pn_done q s)" by (auto split: if_splits)
  with assms(1) have "rules_inv user s'"
    using rules_answer_frame(5) [of "fst q" r "pn_done q s"] by (auto simp: rules_inv_def rules_answer_frame(4) pn_done_def)
  with q show ?thesis by (auto intro!: panel_move_end [of q] simp: rules_answer_frame pn_done_def)
qed (use assms in \<open>auto intro!: panel_move_none simp: rules_inv_def role_flags Let_def split: if_splits option.splits\<close>)

interpretation rules: panel_page "rules_step user" "rules_inv user" rules_init
  "permitted (session_role user)" "\<lambda>k. False" for user
proof unfold_locales
  show "rules_inv user rules_init" "panel_idle rules_init"
    by (simp_all add: rules_inv_def rules_init_def panel_idle_def)
qed (blast dest: rules_moves intro: panel_moves1)+

text \<open>As long as the stored rules have conditions the form can write, operator and field fit in
  every form the user can reach, whatever was typed before the field was changed.\<close>

definition reloads_fit :: "rules_event \<Rightarrow> bool" where
  "reloads_fit e = (case e of RulesLoad n (Some (rs, gs)) \<Rightarrow> (\<forall>r \<in> set rs. stored_by_form r) | _ \<Rightarrow> True)"

definition rules_fit :: "rules_tab \<Rightarrow> bool" where
  "rules_fit s \<longleftrightarrow> (\<forall>r \<in> set (rl_rules s). stored_by_form r) \<and> fitting_form (rl_form s)"

lemma rules_fit_step:
  assumes "rules_fit s" "rules_step user s e = Some s'" "reloads_fit e"
  shows "rules_fit s'"
proof (cases e)
  case (RuleInput i)
  with assms show ?thesis by (auto simp: rules_fit_def split: if_splits intro: fitting_set)
next
  case (RulesLoad n res)
  with assms show ?thesis by (auto simp: rules_fit_def reloads_fit_def Let_def split: if_splits option.splits)
next
  case SubmitRule
  with assms show ?thesis
    by (auto simp: rules_fit_def submit_rule_def Let_def pn_defs split: if_splits option.splits)
next
  case (RulesAnswer q r)
  with assms have "s' = rules_answer (fst q) r (pn_done q s)" by (auto split: if_splits)
  with assms(1) rules_answer_frame(6,7) [of "fst q" r "pn_done q s"] show ?thesis
    by (auto simp: rules_fit_def fitting_empty pn_done_def)
qed (use assms fitting_empty fitting_edit in \<open>auto simp: rules_fit_def pn_defs split: if_splits option.splits\<close>)

lemma rules_form_fits:
  "run (rules_step user) rules_init es = Some s \<Longrightarrow> \<forall>e \<in> set es. reloads_fit e \<Longrightarrow> rules_fit s"
proof (induction es arbitrary: s rule: rev_induct)
  case Nil
  then show ?case by (auto simp: rules_fit_def rules_init_def fitting_empty)
next
  case (snoc e es)
  then obtain t where "run (rules_step user) rules_init es = Some t" "rules_step user t e = Some s"
    by (auto simp: run_snoc split: option.splits)
  with snoc show ?case by (auto intro: rules_fit_step)
qed

end
