(* ===== verification/Ui_Widgets.thy ===== *)
theory Ui_Widgets
  imports Hub_Steps Api_Status Js_Number
begin

text \<open>
  Shared widgets of the web client with behaviour of their own
  (\<open>client/src/components/ui.tsx\<close>): the confirmation dialog, whose required text is
  checked by writing the button's \<open>disabled\<close> property directly, and the meter.
\<close>

section \<open>Confirmation dialog\<close>

text \<open>React writes a property of an element only when the rendered value changes; the input
  handler writes the same property behind its back. \<open>cm_prop\<close> is the value rendered last,
  \<open>cm_disabled\<close> what the button has. An empty text asks for nothing.\<close>

record confirm_modal =
  cm_require :: string
  cm_prop :: bool
  cm_disabled :: bool

definition ConfirmModal :: "string \<Rightarrow> bool \<Rightarrow> confirm_modal" where
  "ConfirmModal require busy =
     \<lparr>cm_require = require, cm_prop = (busy \<or> require \<noteq> []), cm_disabled = (busy \<or> require \<noteq> [])\<rparr>"

datatype confirm_event = TypeText string | RenderBusy bool

fun confirm_step :: "confirm_modal \<Rightarrow> confirm_event \<Rightarrow> confirm_modal option" where
  "confirm_step m (TypeText t) =
     (if cm_require m = [] then None else Some (m\<lparr>cm_disabled := (t \<noteq> cm_require m)\<rparr>))"
| "confirm_step m (RenderBusy busy) =
     (let p = (busy \<or> cm_require m \<noteq> []) in
      Some (if p = cm_prop m then m else m\<lparr>cm_prop := p, cm_disabled := p\<rparr>))"

text \<open>The text in the input and the busy flag after a sequence of events.\<close>

fun typed_text :: "string \<Rightarrow> confirm_event list \<Rightarrow> string" where
  "typed_text t [] = t"
| "typed_text t (TypeText u # es) = typed_text u es"
| "typed_text t (RenderBusy b # es) = typed_text t es"

fun shown_busy :: "bool \<Rightarrow> confirm_event list \<Rightarrow> bool" where
  "shown_busy b [] = b"
| "shown_busy b (TypeText u # es) = shown_busy b es"
| "shown_busy b (RenderBusy c # es) = shown_busy c es"

lemma confirm_required_run:
  "run confirm_step m es = Some m' \<Longrightarrow> cm_require m \<noteq> [] \<Longrightarrow> cm_prop m
    \<Longrightarrow> cm_disabled m = (t \<noteq> cm_require m) \<Longrightarrow> cm_disabled m' = (typed_text t es \<noteq> cm_require m)"
proof (induction es arbitrary: m t)
  case (Cons e es)
  show ?case
  proof (cases e)
    case (TypeText u)
    then show ?thesis
      using Cons.IH [of "m\<lparr>cm_disabled := (u \<noteq> cm_require m)\<rparr>" u] Cons.prems by simp
  next
    case (RenderBusy b)
    then show ?thesis using Cons.IH [of m t] Cons.prems by (simp add: Let_def)
  qed
qed simp

lemma confirm_plain_run:
  "run confirm_step m es = Some m' \<Longrightarrow> cm_require m = [] \<Longrightarrow> cm_prop m = cm_disabled m
    \<Longrightarrow> cm_disabled m' = shown_busy (cm_disabled m) es"
proof (induction es arbitrary: m)
  case (Cons e es)
  show ?case
  proof (cases e)
    case (RenderBusy b)
    with Cons show ?thesis by (cases "b = cm_prop m") (auto simp: Let_def)
  qed (use Cons in auto)
qed simp

text \<open>When the confirmation dialog lets the user confirm. A dialog without a required text is
  enabled exactly while it is not busy. A dialog with one is enabled exactly while the input
  holds that text, and the busy flag makes no difference: the running request does not stop a
  second confirmation.\<close>

lemma confirm_enabled:
  assumes "run confirm_step (ConfirmModal require busy) es = Some m"
  shows "\<not> cm_disabled m \<longleftrightarrow>
           (if require = [] then \<not> shown_busy busy es else typed_text [] es = require)"
proof (cases "require = []")
  case True
  with confirm_plain_run [OF assms] show ?thesis by (simp add: ConfirmModal_def)
next
  case False
  with confirm_required_run [OF assms, of "[]"] show ?thesis by (auto simp: ConfirmModal_def)
qed

section \<open>Meter and status pill\<close>

fun js_max :: "rat \<Rightarrow> jsnum \<Rightarrow> jsnum" where
  "js_max a (Fin b) = Fin (max a b)"
| "js_max a NaN = NaN"
| "js_max a PosInf = PosInf"
| "js_max a NegInf = Fin a"

fun js_min :: "rat \<Rightarrow> jsnum \<Rightarrow> jsnum" where
  "js_min a (Fin b) = Fin (min a b)"
| "js_min a NaN = NaN"
| "js_min a PosInf = Fin a"
| "js_min a NegInf = NegInf"

datatype fill_tone = ToneCalm | ToneWarn | ToneError

definition meter_pct :: "jsnum \<Rightarrow> jsnum" where
  "meter_pct pct = js_max 0 (js_min 100 pct)"

definition meter_tone :: "jsnum \<Rightarrow> fill_tone" where
  "meter_tone pct =
     (let p = meter_pct pct in
      if js_leq (Fin 90) p then ToneError else if js_leq (Fin 70) p then ToneWarn else ToneCalm)"

text \<open>The index into the 21 widths; not-a-number has none, and the bar gets no width.\<close>

definition meter_bucket :: "jsnum \<Rightarrow> nat option" where
  "meter_bucket pct = (case meter_pct pct of Fin q \<Rightarrow> Some (nat (js_round (q / 5))) | _ \<Rightarrow> None)"

lemma js_round_def': "js_round q = \<lfloor>q + 1 / 2\<rfloor>"
  by (simp add: js_round_def)

lemma meter_in_range: "meter_bucket pct = Some n \<Longrightarrow> n \<le> 20"
proof -
  assume "meter_bucket pct = Some n"
  then obtain q where q: "meter_pct pct = Fin q" and n: "n = nat (js_round (q / 5))"
    by (auto simp: meter_bucket_def split: jsnum.splits)
  from q have "q \<le> 100" by (cases pct) (auto simp: meter_pct_def max_def min_def split: if_splits)
  then have "js_round (q / 5) \<le> 20" unfolding js_round_def' by (simp add: floor_le_iff)
  with n show ?thesis by simp
qed

lemma meter_close:
  assumes "meter_pct pct = Fin q" and "meter_bucket pct = Some n"
  shows "\<bar>5 * of_nat n - q\<bar> \<le> 5 / 2"
proof -
  from assms have n: "n = nat (js_round (q / 5))" by (simp add: meter_bucket_def)
  from assms(1) have "0 \<le> q" by (cases pct) (auto simp: meter_pct_def max_def min_def split: if_splits)
  then have "0 \<le> js_round (q / 5)" unfolding js_round_def' by simp
  then have "rat_of_nat n = of_int \<lfloor>q / 5 + 1 / 2\<rfloor>" by (simp add: n js_round_def')
  moreover have "rat_of_int \<lfloor>q / 5 + 1 / 2\<rfloor> \<le> q / 5 + 1 / 2" "q / 5 + 1 / 2 < rat_of_int \<lfloor>q / 5 + 1 / 2\<rfloor> + 1"
    using floor_correct [of "q / 5 + 1 / 2"] by auto
  ultimately show ?thesis unfolding abs_le_iff by linarith
qed

end
