(* ===== verification/Settings_Team.thy ===== *)
theory Settings_Team
  imports Crud_Tab Ui_Widgets
begin

text \<open>
  Team and diagnostics tabs of the settings page
  (\<open>client/src/features/settings/tabs/TeamTab.tsx\<close>, \<open>DiagnosticsTab.tsx\<close>): user accounts
  with a removal that asks for the user's name, and the maintenance dialogs.
\<close>

section \<open>Team tab\<close>

record UserItem =
  userItem_username :: string
  userItem_role :: string
  userItem_createdAt :: string

datatype team_op = TeamLoad | TeamCreate string | TeamRole string string | TeamDelete string

record team_tab = "team_op panel" +
  tt_mounted :: bool
  tt_users :: "UserItem list"
  tt_loading :: bool
  tt_showAdd :: bool
  tt_delete :: "(string \<times> confirm_modal) option"
  tt_name :: string
  tt_password :: string
  tt_role :: string
  tt_addBusy :: bool

definition team_init :: team_tab where
  "team_init =
     \<lparr>pn_busy = False, pn_open = [], pn_sent = [], pn_toasts = [], pn_changed = 0,
      tt_mounted = False, tt_users = [], tt_loading = True, tt_showAdd = False, tt_delete = None,
      tt_name = [], tt_password = [], tt_role = ''operator'', tt_addBusy = False\<rparr>"

definition team_roles :: "string set" where
  "team_roles = {''admin'', ''operator'', ''viewer''}"

definition isSelf :: "json option \<Rightarrow> string \<Rightarrow> bool" where
  "isSelf user u \<longleftrightarrow> (case user of None \<Rightarrow> False | Some v \<Rightarrow> json_get ''username'' v = Some (JStr u))"

definition loadUsers :: "team_tab \<Rightarrow> team_tab" where
  "loadUsers s = pn_request TeamLoad (wire_of api_users) s"

datatype team_event =
    MountTeam
  | OpenAdd
  | CloseAdd
  | TypeUserName string
  | TypeUserPassword string
  | PickUserRole string
  | SubmitUser
  | ChangeRole UserItem string
  | PressRemove UserItem
  | TypeRemove string
  | CloseRemove
  | ConfirmRemove
  | UsersAnswer "team_op \<times> wire" "js_error + UserItem list"
  | TeamAnswer "team_op \<times> wire" "js_error + json option"

definition quote_name :: "string \<Rightarrow> string" where
  "quote_name u = [CHR 0x22] @ u @ [CHR 0x22]"

definition team_answer :: "team_op \<Rightarrow> js_error + json option \<Rightarrow> team_tab \<Rightarrow> team_tab" where
  "team_answer k r s =
     (case r of
        Inl e \<Rightarrow>
          (case k of
             TeamCreate u \<Rightarrow> (pn_toast (error_message e) True s)\<lparr>tt_addBusy := False\<rparr>
           | _ \<Rightarrow> pn_toast (error_message e) True s)
      | Inr v \<Rightarrow>
          (case k of
             TeamCreate u \<Rightarrow>
               (loadUsers (pn_toast (''Team member '' @ quote_name u @ '' added'') False
                  (s\<lparr>tt_name := [], tt_password := [], tt_role := ''operator'', tt_showAdd := False\<rparr>)))
                 \<lparr>tt_addBusy := False\<rparr>
           | TeamRole u r \<Rightarrow> loadUsers (pn_toast (''Role for '' @ quote_name u @ '' updated to '' @ r) False s)
           | TeamDelete u \<Rightarrow>
               loadUsers ((pn_toast (''User '' @ quote_name u @ '' removed'') False s)\<lparr>tt_delete := None\<rparr>)
           | TeamLoad \<Rightarrow> s))"

text \<open>Removing another user while the dialog is open keeps the mounted dialog, and with it the
  state of its button.\<close>

definition retarget :: "string \<Rightarrow> (string \<times> confirm_modal) option \<Rightarrow> (string \<times> confirm_modal) option" where
  "retarget u d =
     (if u = [] then None
      else Some (u, case d of None \<Rightarrow> ConfirmModal u False | Some (v, m) \<Rightarrow> m\<lparr>cm_require := u\<rparr>))"

fun team_step :: "json option \<Rightarrow> team_tab \<Rightarrow> team_event \<Rightarrow> team_tab option" where
  "team_step user s MountTeam = (if tt_mounted s then None else Some (loadUsers (s\<lparr>tt_mounted := True\<rparr>)))"
| "team_step user s OpenAdd = (if snd (useDbBackupsRole user) then Some (s\<lparr>tt_showAdd := True\<rparr>) else None)"
| "team_step user s CloseAdd = (if tt_showAdd s then Some (s\<lparr>tt_showAdd := False\<rparr>) else None)"
| "team_step user s (TypeUserName t) = (if tt_showAdd s then Some (s\<lparr>tt_name := t\<rparr>) else None)"
| "team_step user s (TypeUserPassword t) = (if tt_showAdd s then Some (s\<lparr>tt_password := t\<rparr>) else None)"
| "team_step user s (PickUserRole r) =
     (if tt_showAdd s \<and> r \<in> team_roles then Some (s\<lparr>tt_role := r\<rparr>) else None)"
| "team_step user s SubmitUser =
     (if tt_showAdd s \<and> \<not> tt_addBusy s \<and> js_trim (tt_name s) \<noteq> [] \<and> 8 \<le> length (tt_password s)
      then Some (pn_request (TeamCreate (tt_name s))
                  (wire_of (api_createUser (js_trim (tt_name s)) (tt_password s) (tt_role s))) (s\<lparr>tt_addBusy := True\<rparr>))
      else None)"
| "team_step user s (ChangeRole u r) =
     (if \<not> tt_loading s \<and> u \<in> set (tt_users s) \<and> snd (useDbBackupsRole user)
         \<and> \<not> isSelf user (userItem_username u) \<and> r \<in> team_roles
      then Some (pn_request (TeamRole (userItem_username u) r) (wire_of (api_setUserRole (userItem_username u) r)) s)
      else None)"
| "team_step user s (PressRemove u) =
     (if \<not> tt_loading s \<and> u \<in> set (tt_users s) \<and> snd (useDbBackupsRole user) \<and> \<not> isSelf user (userItem_username u)
      then Some (s\<lparr>tt_delete := retarget (userItem_username u) (tt_delete s)\<rparr>) else None)"
| "team_step user s (TypeRemove t) =
     (case tt_delete s of
        None \<Rightarrow> None
      | Some (u, m) \<Rightarrow> map_option (\<lambda>m. s\<lparr>tt_delete := Some (u, m)\<rparr>) (confirm_step m (TypeText t)))"
| "team_step user s CloseRemove = (if tt_delete s = None then None else Some (s\<lparr>tt_delete := None\<rparr>))"
| "team_step user s ConfirmRemove =
     (case tt_delete s of
        None \<Rightarrow> None
      | Some (u, m) \<Rightarrow>
          if cm_disabled m then None else Some (pn_request (TeamDelete u) (wire_of (api_deleteUser u)) s))"
| "team_step user s (UsersAnswer q r) =
     (if q \<in> set (pn_open s) \<and> fst q = TeamLoad
      then Some (case r of
             Inr us \<Rightarrow> (pn_done q s)\<lparr>tt_users := us, tt_loading := False\<rparr>
           | Inl e \<Rightarrow> (pn_toast (error_message e) True (pn_done q s))\<lparr>tt_loading := False\<rparr>)
      else None)"
| "team_step user s (TeamAnswer q r) =
     (if q \<in> set (pn_open s) \<and> fst q \<noteq> TeamLoad then Some (team_answer (fst q) r (pn_done q s)) else None)"

section \<open>What the team tab may send\<close>

text \<open>Loading the list is not tied to a role; everything else is an administrator's, concerns
  another user, and creates users with a name and a password of at least eight characters.\<close>

definition team_ok :: "json option \<Rightarrow> wire \<Rightarrow> bool" where
  "team_ok user w \<longleftrightarrow>
     w = wire_of api_users
     \<or> (session_role user = Admin
        \<and> ((\<exists>n p r. js_trim n \<noteq> [] \<and> 8 \<le> length p \<and> r \<in> team_roles \<and> w = wire_of (api_createUser (js_trim n) p r))
           \<or> (\<exists>u r. \<not> isSelf user u \<and> r \<in> team_roles \<and> w = wire_of (api_setUserRole u r))
           \<or> (\<exists>u. \<not> isSelf user u \<and> w = wire_of (api_deleteUser u))))"

definition team_inv :: "json option \<Rightarrow> team_tab \<Rightarrow> bool" where
  "team_inv user s \<longleftrightarrow>
     (tt_showAdd s \<longrightarrow> session_role user = Admin) \<and> tt_role s \<in> team_roles
     \<and> (\<forall>u m. tt_delete s = Some (u, m) \<longrightarrow> session_role user = Admin \<and> \<not> isSelf user u)"

lemma team_okI:
  "team_ok user (wire_of api_users)"
  "session_role user = Admin \<Longrightarrow> js_trim n \<noteq> [] \<Longrightarrow> 8 \<le> length p \<Longrightarrow> r \<in> team_roles
    \<Longrightarrow> team_ok user (wire_of (api_createUser (js_trim n) p r))"
  "session_role user = Admin \<Longrightarrow> \<not> isSelf user u \<Longrightarrow> r \<in> team_roles \<Longrightarrow> team_ok user (wire_of (api_setUserRole u r))"
  "session_role user = Admin \<Longrightarrow> \<not> isSelf user u \<Longrightarrow> team_ok user (wire_of (api_deleteUser u))"
  unfolding team_ok_def by blast+

text \<open>The end of a request and the reload after it.\<close>

lemma team_answer_moves:
  assumes "q \<in> set (pn_open s)"
  shows "(panel_move (team_ok user) (\<lambda>k. False))\<^sup>*\<^sup>* s (team_answer (fst q) r (pn_done q s))"
proof -
  let ?m = "panel_move (team_ok user) (\<lambda>k. False)"
  let ?t = "team_answer (fst q) r (pn_done q s)"
  have "?m s (pn_done q s)" using assms by (intro panel_move_end [of q]) (auto simp: pn_done_def)
  moreover have "?m (pn_done q s) ?t"
  proof (cases "(\<exists>e. r = Inl e) \<or> fst q = TeamLoad")
    case True
    then show ?thesis
      by (intro panel_move_none) (auto simp: team_answer_def pn_defs split: team_op.splits sum.splits)
  next
    case False
    then show ?thesis
      by (intro panel_move_start [of _ "wire_of api_users" _ _ TeamLoad])
         (auto simp: team_okI team_answer_def loadUsers_def pn_defs split: team_op.splits sum.splits)
  qed
  ultimately show ?thesis by (meson converse_rtranclp_into_rtranclp r_into_rtranclp)
qed

lemma team_answer_inv: "team_inv user s \<Longrightarrow> team_inv user (team_answer k r s)"
  by (auto simp: team_inv_def team_answer_def loadUsers_def pn_defs team_roles_def split: team_op.splits sum.splits)

lemma team_step_inv: "team_inv user s \<Longrightarrow> team_step user s e = Some s' \<Longrightarrow> team_inv user s'"
proof (cases e)
  case (TeamAnswer q r)
  assume "team_inv user s" "team_step user s e = Some s'"
  with TeamAnswer have "team_inv user (pn_done q s)" "s' = team_answer (fst q) r (pn_done q s)"
    by (auto simp: team_inv_def pn_done_def split: if_splits)
  then show ?thesis by (simp add: team_answer_inv)
qed (auto simp: team_inv_def role_flags loadUsers_def retarget_def pn_defs split: if_splits option.splits sum.splits)

lemma team_moves:
  assumes "team_inv user s" "team_step user s e = Some s'"
  shows "(panel_move (team_ok user) (\<lambda>k. False))\<^sup>*\<^sup>* s s'"
proof (cases e)
  case MountTeam
  then have "s' = loadUsers (s\<lparr>tt_mounted := True\<rparr>)" using assms(2) by (simp split: if_splits)
  then show ?thesis
    by (intro panel_moves1 panel_move_start [of _ "wire_of api_users" _ _ TeamLoad])
       (auto simp: team_okI loadUsers_def pn_defs)
next
  case SubmitUser
  with assms show ?thesis
    by (intro panel_moves1 panel_move_start [of _ "wire_of (api_createUser (js_trim (tt_name s)) (tt_password s) (tt_role s))"])
       (auto simp: team_inv_def pn_defs split: if_splits intro: team_okI)
next
  case (ChangeRole u r)
  with assms show ?thesis
    by (intro panel_moves1 panel_move_start [of _ "wire_of (api_setUserRole (userItem_username u) r)"])
       (auto simp: role_flags pn_defs split: if_splits intro: team_okI)
next
  case ConfirmRemove
  with assms obtain u m where "tt_delete s = Some (u, m)"
    "s' = pn_request (TeamDelete u) (wire_of (api_deleteUser u)) s" by (auto split: option.splits if_splits)
  with assms(1) show ?thesis
    by (intro panel_moves1 panel_move_start [of _ "wire_of (api_deleteUser u)"])
       (auto simp: team_inv_def pn_defs intro: team_okI)
next
  case (UsersAnswer q r)
  with assms show ?thesis
    by (intro panel_moves1 panel_move_end [of q]) (auto simp: pn_defs split: if_splits sum.splits)
next
  case (TeamAnswer q r)
  with assms show ?thesis by (auto split: if_splits intro: team_answer_moves)
qed (use assms in \<open>auto intro!: panel_moves1 panel_move_none split: if_splits option.splits\<close>)

interpretation team: panel_page "team_step user" "team_inv user" team_init "team_ok user" "\<lambda>k. False" for user
proof unfold_locales
  show "team_inv user team_init" "panel_idle team_init"
    by (simp_all add: team_inv_def team_init_def panel_idle_def team_roles_def)
qed (blast intro: team_step_inv team_moves)+

text \<open>C8: whatever is clicked and however the server answers, a user's team tab sends nothing but
  the request for the list unless the user is an administrator; an administrator's tab never
  changes the role of or removes the administrator's own account, creates accounts only with a
  name and a password of at least eight characters, and assigns only known roles.\<close>

theorem team_requests:
  assumes "run (team_step user) team_init es = Some s" and "w \<in> set (pn_sent s)"
  shows "w = wire_of api_users
         \<or> (session_role user = Admin
            \<and> ((\<exists>n p r. js_trim n \<noteq> [] \<and> 8 \<le> length p \<and> r \<in> team_roles
                   \<and> w = wire_of (api_createUser (js_trim n) p r))
               \<or> (\<exists>u r. \<not> isSelf user u \<and> r \<in> team_roles \<and> w = wire_of (api_setUserRole u r))
               \<or> (\<exists>u. \<not> isSelf user u \<and> w = wire_of (api_deleteUser u))))"
  using team.sent_ok [OF assms] unfolding team_ok_def .

theorem team_requests_witness:
  "let user = Some (JObj [(''username'', JStr ''root''), (''role'', JStr ''admin'')]);
       ann = \<lparr>userItem_username = ''ann'', userItem_role = ''viewer'', userItem_createdAt = []\<rparr>;
       es = [MountTeam, UsersAnswer (TeamLoad, wire_of api_users) (Inr [ann]), PressRemove ann, TypeRemove ''ann'',
             ConfirmRemove]
   in \<exists>s. run (team_step user) team_init es = Some s \<and> wire_of (api_deleteUser ''ann'') \<in> set (pn_sent s)
          \<and> (wire_of (api_deleteUser ''ann'') = wire_of api_users \<or> session_role user = Admin)"
proof -
  define user where "user = Some (JObj [(''username'', JStr ''root''), (''role'', JStr ''admin'')])"
  define ann where "ann = \<lparr>userItem_username = ''ann'', userItem_role = ''viewer'', userItem_createdAt = []\<rparr>"
  let ?es = "[MountTeam, UsersAnswer (TeamLoad, wire_of api_users) (Inr [ann]), PressRemove ann, TypeRemove ''ann'',
             ConfirmRemove]"
  have "useDbBackupsRole user = (True, True)" "\<not> isSelf user ''ann''"
    by (simp_all add: user_def useDbBackupsRole_def isSelf_def)
  then have "\<exists>s. run (team_step user) team_init ?es = Some s \<and> wire_of (api_deleteUser ''ann'') \<in> set (pn_sent s)"
    by (simp add: team_init_def loadUsers_def pn_defs ann_def retarget_def ConfirmModal_def)
  then obtain s where s: "run (team_step user) team_init ?es = Some s"
    "wire_of (api_deleteUser ''ann'') \<in> set (pn_sent s)" by blast
  from s team_requests [OF s] show ?thesis unfolding Let_def user_def [symmetric] ann_def [symmetric] by blast
qed

section \<open>Diagnostics tab\<close>

datatype diag_op = DiagWipe

record diag_tab = "diag_op panel" +
  dt_restart :: bool
  dt_wipe :: "confirm_modal option"
  dt_copied :: "string list"

definition diag_init :: diag_tab where
  "diag_init =
     \<lparr>pn_busy = False, pn_open = [], pn_sent = [], pn_toasts = [], pn_changed = 0,
      dt_restart = False, dt_wipe = None, dt_copied = []\<rparr>"

datatype diag_event =
    PressRestart
  | CloseRestart
  | ConfirmRestart
  | PressWipe
  | TypeWipe string
  | CloseWipe
  | ConfirmWipe
  | DiagAnswer "diag_op \<times> wire" "js_error + json option"

definition restart_command :: string where
  "restart_command = ''docker compose restart serverhub''"

definition diag_answer :: "string \<Rightarrow> js_error + json option \<Rightarrow> diag_tab \<Rightarrow> diag_tab" where
  "diag_answer tmsg r s =
     (case (case r of Inl e \<Rightarrow> Inl e | Inr v \<Rightarrow> field_of tmsg ''deleted'' v) of
        Inl e \<Rightarrow> pn_toast (error_message e) True s
      | Inr n \<Rightarrow> (pn_toast (''History cleared. '' @ template_text n @ '' entries removed.'') False s)\<lparr>dt_wipe := None\<rparr>)"

text \<open>The tab does not look at the user's role.\<close>

fun diag_step :: "string \<Rightarrow> diag_tab \<Rightarrow> diag_event \<Rightarrow> diag_tab option" where
  "diag_step tmsg s PressRestart = Some (s\<lparr>dt_restart := True\<rparr>)"
| "diag_step tmsg s CloseRestart = (if dt_restart s then Some (s\<lparr>dt_restart := False\<rparr>) else None)"
| "diag_step tmsg s ConfirmRestart =
     (if dt_restart s
      then Some ((pn_toast (''Command copied: '' @ restart_command) False s)
                  \<lparr>dt_copied := dt_copied s @ [restart_command], dt_restart := False\<rparr>)
      else None)"
| "diag_step tmsg s PressWipe =
     Some (s\<lparr>dt_wipe := Some (case dt_wipe s of None \<Rightarrow> ConfirmModal ''CLEAR'' False | Some m \<Rightarrow> m)\<rparr>)"
| "diag_step tmsg s (TypeWipe t) =
     (case dt_wipe s of
        None \<Rightarrow> None
      | Some m \<Rightarrow> map_option (\<lambda>m. s\<lparr>dt_wipe := Some m\<rparr>) (confirm_step m (TypeText t)))"
| "diag_step tmsg s CloseWipe = (if dt_wipe s = None then None else Some (s\<lparr>dt_wipe := None\<rparr>))"
| "diag_step tmsg s ConfirmWipe =
     (case dt_wipe s of
        None \<Rightarrow> None
      | Some m \<Rightarrow> if cm_disabled m then None else Some (pn_request DiagWipe (wire_of api_wipeDeployments) s))"
| "diag_step tmsg s (DiagAnswer q r) =
     (if q \<in> set (pn_open s) then Some (diag_answer tmsg r (pn_done q s)) else None)"

end
