(* ===== verification/Settings_Notify.thy ===== *)
theory Settings_Notify
  imports Crud_Tab
begin

text \<open>
  Notification settings (\<open>client/src/features/settings/SettingsPage.tsx\<close>,
  \<open>tabs/NotificationsTab.tsx\<close>): the editable draft of the routing settings and how it
  follows the settings query, saving with write-only secrets, and the recipient groups.
\<close>

section \<open>Routing settings\<close>

datatype secret = BotToken | SmtpPassword

datatype notify_op = NtSave | NtFresh | NtTest

text \<open>\<open>sp_remote\<close> is the notification part of the settings query, \<open>sp_prev\<close> the one the draft
  was taken from; the query keeps an equal answer as the same object.\<close>

record notify_tab = "notify_op panel" +
  sp_info :: bool
  sp_groups :: "NotificationGroup list"
  sp_remote :: "NotifySettings option"
  sp_prev :: "NotifySettings option"
  sp_notify :: "NotifySettings option"
  sp_online :: "bool option"
  nt_secret :: "secret \<Rightarrow> string"
  nt_test :: "json option"
  nt_busy :: bool
  nt_reloading :: bool

definition notify_init :: notify_tab where
  "notify_init =
     \<lparr>pn_busy = False, pn_open = [], pn_sent = [], pn_toasts = [], pn_changed = 0,
      sp_info = False, sp_groups = [], sp_remote = None, sp_prev = None, sp_notify = None, sp_online = None,
      nt_secret = (\<lambda>k. []), nt_test = Some JNull, nt_busy = False, nt_reloading = False\<rparr>"

text \<open>\<open>if (remoteNotify !== prevRemoteNotify)\<close> during the render.\<close>

definition sync_draft :: "notify_tab \<Rightarrow> notify_tab" where
  "sync_draft s =
     (if sp_remote s \<noteq> sp_prev s then s\<lparr>sp_prev := sp_remote s, sp_notify := sp_remote s\<rparr> else s)"

definition settings_data ::
  "bool \<Rightarrow> NotifySettings option \<Rightarrow> NotificationGroup list option \<Rightarrow> notify_tab \<Rightarrow> notify_tab"
where
  "settings_data info n gs s =
     sync_draft (s\<lparr>sp_info := info, sp_online := Some info, sp_remote := n, sp_groups := or_else gs []\<rparr>)"

definition settings_shown :: "notify_tab \<Rightarrow> bool" where
  "settings_shown s \<longleftrightarrow> sp_info s \<and> sp_notify s \<noteq> None"

datatype notify_patch =
    PaEnabled
  | PaDeployFailed
  | PaThreshold
  | PaBackupFailed
  | PaProjectFailed
  | PaTelegram
  | PaChatId string
  | PaEmail
  | PaHost string
  | PaPort string
  | PaUsername string
  | PaFrom string
  | PaTo string
  | PaTls
  | PaGroup "int option"

definition on_events :: "(NotifySettings_events \<Rightarrow> NotifySettings_events) \<Rightarrow> NotifySettings \<Rightarrow> NotifySettings" where
  "on_events f n = n\<lparr>notifySettings_events := f (notifySettings_events n)\<rparr>"

definition on_telegram :: "(NotifySettings_telegram \<Rightarrow> NotifySettings_telegram) \<Rightarrow> NotifySettings \<Rightarrow> NotifySettings" where
  "on_telegram f n = n\<lparr>notifySettings_telegram := f (notifySettings_telegram n)\<rparr>"

definition on_email :: "(NotifySettings_email \<Rightarrow> NotifySettings_email) \<Rightarrow> NotifySettings \<Rightarrow> NotifySettings" where
  "on_email f n = n\<lparr>notifySettings_email := f (notifySettings_email n)\<rparr>"

fun patchNotify :: "notify_patch \<Rightarrow> NotifySettings \<Rightarrow> NotifySettings" where
  "patchNotify PaEnabled n = n\<lparr>notifySettings_enabled := \<not> notifySettings_enabled n\<rparr>"
| "patchNotify PaDeployFailed n =
     on_events (\<lambda>e. e\<lparr>notifySettings_events_deployFailed := \<not> notifySettings_events_deployFailed e\<rparr>) n"
| "patchNotify PaThreshold n =
     on_events (\<lambda>e. e\<lparr>notifySettings_events_threshold := \<not> notifySettings_events_threshold e\<rparr>) n"
| "patchNotify PaBackupFailed n =
     on_events (\<lambda>e. e\<lparr>notifySettings_events_backupFailed := \<not> notifySettings_events_backupFailed e\<rparr>) n"
| "patchNotify PaProjectFailed n =
     on_events (\<lambda>e. e\<lparr>notifySettings_events_projectFailed := \<not> notifySettings_events_projectFailed e\<rparr>) n"
| "patchNotify PaTelegram n =
     on_telegram (\<lambda>t. t\<lparr>notifySettings_telegram_enabled := \<not> notifySettings_telegram_enabled t\<rparr>) n"
| "patchNotify (PaChatId c) n = on_telegram (\<lambda>t. t\<lparr>notifySettings_telegram_chatId := c\<rparr>) n"
| "patchNotify PaEmail n = on_email (\<lambda>m. m\<lparr>notifySettings_email_enabled := \<not> notifySettings_email_enabled m\<rparr>) n"
| "patchNotify (PaHost t) n = on_email (\<lambda>m. m\<lparr>notifySettings_email_host := t\<rparr>) n"
| "patchNotify (PaPort t) n = on_email (\<lambda>m. m\<lparr>notifySettings_email_port := t\<rparr>) n"
| "patchNotify (PaUsername t) n = on_email (\<lambda>m. m\<lparr>notifySettings_email_username := t\<rparr>) n"
| "patchNotify (PaFrom t) n = on_email (\<lambda>m. m\<lparr>notifySettings_email_from := t\<rparr>) n"
| "patchNotify (PaTo t) n = on_email (\<lambda>m. m\<lparr>notifySettings_email_to := t\<rparr>) n"
| "patchNotify PaTls n = on_email (\<lambda>m. m\<lparr>notifySettings_email_tls := \<not> notifySettings_email_tls m\<rparr>) n"
| "patchNotify (PaGroup g) n = on_email (\<lambda>m. m\<lparr>notifySettings_email_emailGroupId := g\<rparr>) n"

definition save_body :: "(secret \<Rightarrow> string) \<Rightarrow> NotifySettings \<Rightarrow> json" where
  "save_body sec n =
     (let e = notifySettings_events n; t = notifySettings_telegram n; m = notifySettings_email n in
      jobj
        [(''enabled'', Some (JBool (notifySettings_enabled n))),
         (''events'', Some (jobj
            [(''deployFailed'', Some (JBool (notifySettings_events_deployFailed e))),
             (''threshold'', Some (JBool (notifySettings_events_threshold e))),
             (''backupFailed'', Some (JBool (notifySettings_events_backupFailed e))),
             (''projectFailed'', Some (JBool (notifySettings_events_projectFailed e)))])),
         (''telegram'', Some (jobj
            [(''enabled'', Some (JBool (notifySettings_telegram_enabled t))),
             (''chatId'', Some (JStr (notifySettings_telegram_chatId t))),
             (''token'', map_option JStr (some_text (sec BotToken)))])),
         (''email'', Some (jobj
            [(''enabled'', Some (JBool (notifySettings_email_enabled m))),
             (''host'', Some (JStr (notifySettings_email_host m))),
             (''port'', Some (JStr (notifySettings_email_port m))),
             (''username'', Some (JStr (notifySettings_email_username m))),
             (''from'', Some (JStr (notifySettings_email_from m))),
             (''to'', Some (JStr (notifySettings_email_to m))),
             (''tls'', Some (JBool (notifySettings_email_tls m))),
             (''password'', map_option JStr (some_text (sec SmtpPassword))),
             (''emailGroupId'', Some (case notifySettings_email_emailGroupId m of None \<Rightarrow> JNull | Some g \<Rightarrow> jint g))]))])"

datatype notify_event =
    SettingsLoaded bool "NotifySettings option" "NotificationGroup list option"
  | Patch notify_patch
  | TypeSecret secret string
  | PressSave
  | PressTest
  | FreshAnswer "notify_op \<times> wire" "js_error + NotifySettings"
  | NotifyAnswer "notify_op \<times> wire" "js_error + json option"

definition clear_secrets :: "notify_tab \<Rightarrow> notify_tab" where
  "clear_secrets s = s\<lparr>nt_secret := (\<lambda>k. []), nt_test := Some JNull\<rparr>"

definition notify_answer :: "notify_op \<Rightarrow> js_error + json option \<Rightarrow> notify_tab \<Rightarrow> notify_tab" where
  "notify_answer k r s =
     (case (k, r) of
        (NtSave, Inr v) \<Rightarrow>
          pn_request NtFresh (wire_of api_notifySettings) (pn_toast ''Notification routing saved.'' False (clear_secrets s))
      | (NtSave, Inl e) \<Rightarrow> (pn_toast (error_message e) True s)\<lparr>nt_busy := False\<rparr>
      | (NtTest, Inr v) \<Rightarrow> s\<lparr>nt_test := v\<rparr>
      | (_, Inl e) \<Rightarrow> pn_toast (error_message e) True s
      | _ \<Rightarrow> s)"

definition group_choice :: "notify_tab \<Rightarrow> notify_patch \<Rightarrow> bool" where
  "group_choice s p =
     (case p of PaGroup (Some g) \<Rightarrow> g \<in> notificationGroup_id ` set (sp_groups s) | _ \<Rightarrow> True)"

text \<open>Neither saving nor testing looks at the user's role.\<close>

fun notify_step :: "notify_tab \<Rightarrow> notify_event \<Rightarrow> notify_tab option" where
  "notify_step s (SettingsLoaded info n gs) =
     (let t = settings_data info n gs s in
      Some (if nt_reloading s then t\<lparr>nt_reloading := False, nt_busy := False\<rparr> else t))"
| "notify_step s (Patch p) =
     (if settings_shown s \<and> group_choice s p
      then Some (s\<lparr>sp_notify := map_option (patchNotify p) (sp_notify s)\<rparr>) else None)"
| "notify_step s (TypeSecret k t) =
     (if settings_shown s then Some (s\<lparr>nt_secret := (nt_secret s)(k := t)\<rparr>) else None)"
| "notify_step s PressSave =
     (case sp_notify s of
        None \<Rightarrow> None
      | Some n \<Rightarrow>
          if sp_info s \<and> \<not> nt_busy s
          then Some (pn_request NtSave (wire_of (api_saveNotifySettings (save_body (nt_secret s) n))) (s\<lparr>nt_busy := True\<rparr>))
          else None)"
| "notify_step s PressTest =
     (if settings_shown s then Some (pn_request NtTest (wire_of api_testNotify) s) else None)"
| "notify_step s (FreshAnswer q r) =
     (if q \<in> set (pn_open s) \<and> fst q = NtFresh
      then Some (case r of
             Inr n \<Rightarrow> (pn_done q s)\<lparr>sp_notify := Some n, nt_reloading := True\<rparr>
           | Inl e \<Rightarrow> (pn_toast (error_message e) True (pn_done q s))\<lparr>nt_busy := False\<rparr>)
      else None)"
| "notify_step s (NotifyAnswer q r) =
     (if q \<in> set (pn_open s) \<and> fst q \<noteq> NtFresh then Some (notify_answer (fst q) r (pn_done q s)) else None)"

section \<open>A secret is sent only when it was typed\<close>

fun secret_path :: "secret \<Rightarrow> string \<times> string" where
  "secret_path BotToken = (''telegram'', ''token'')"
| "secret_path SmtpPassword = (''email'', ''password'')"

definition wire_secret :: "secret \<Rightarrow> wire \<Rightarrow> json option" where
  "wire_secret k w = Option.bind (wire_member (fst (secret_path k)) w) (json_get (snd (secret_path k)))"

lemma wire_secret_save:
  "wire_secret k (wire_of (api_saveNotifySettings (save_body sec n))) = map_option JStr (some_text (sec k))"
  unfolding api_defs wire_secret_def save_body_def Let_def
  by (subst wire_member_json; cases k; simp add: json_get_jobj json_exact_simps split: option.split)

lemma wire_secret_none:
  "wire_secret k (wire_of api_testNotify) = None" "wire_secret k (wire_of api_notifySettings) = None"
  unfolding api_defs wire_secret_def by simp_all

fun secret_arm :: "secret \<Rightarrow> notify_tab \<Rightarrow> notify_event \<Rightarrow> string option" where
  "secret_arm k s (TypeSecret j t) = (if j = k then some_text t else None)"
| "secret_arm k s _ = None"

fun saved_event :: "notify_event \<Rightarrow> bool" where
  "saved_event (NotifyAnswer q r) \<longleftrightarrow> fst q = NtSave \<and> \<not> isl r"
| "saved_event _ \<longleftrightarrow> False"

lemma notify_answer_frame:
  "nt_secret (notify_answer j r s) k = (if j = NtSave \<and> \<not> isl r then [] else nt_secret s k)"
  "w \<in> set (pn_sent (notify_answer j r s)) \<Longrightarrow> w \<in> set (pn_sent s) \<or> w = wire_of api_notifySettings"
  by (cases j; cases r; simp add: notify_answer_def clear_secrets_def pn_defs)
     (auto simp: notify_answer_def clear_secrets_def pn_defs split: notify_op.splits sum.splits)

interpretation secrets: confirmed_system notify_step notify_init "\<lambda>s. some_text (nt_secret s k)" "secret_arm k"
  saved_event pn_sent PressSave "\<lambda>w. wire_secret k w \<noteq> None" "\<lambda>t w. wire_secret k w = Some (JStr t)" for k
proof unfold_locales
  fix s e s' x assume "notify_step s e = Some s'" "some_text (nt_secret s' k) = Some x"
  then show "secret_arm k s e = Some x
      \<or> (some_text (nt_secret s k) = Some x \<and> \<not> saved_event e \<and> secret_arm k s e = None)"
    by (cases e) (auto simp: settings_data_def sync_draft_def Let_def some_text_def pn_defs notify_answer_frame
        split: if_splits option.splits sum.splits)
next
  fix s e s' w assume "notify_step s e = Some s'" "w \<in> set (pn_sent s')" "wire_secret k w \<noteq> None"
  then show "w \<in> set (pn_sent s)
      \<or> (e = PressSave \<and> (\<exists>x. some_text (nt_secret s k) = Some x \<and> wire_secret k w = Some (JStr x)))"
    by (cases e) (auto simp: settings_data_def sync_draft_def Let_def pn_defs wire_secret_save wire_secret_none
        split: if_splits option.splits sum.splits dest!: notify_answer_frame(2))
qed (simp_all add: notify_init_def some_text_def)



end
