(* ===== verification/Settings_Groups.thy ===== *)
theory Settings_Groups
  imports Settings_Notify
begin

text \<open>
  The recipient groups of the notification settings (\<open>NotificationGroupManager\<close> in
  \<open>client/src/features/settings/tabs/NotificationsTab.tsx\<close>): selecting, creating and deleting
  groups, adding and removing members, each followed by reloading the settings query and the
  selected group. Several of these chains can run at once. A deletion also hands the parent the
  fresh settings; the parent's draft is the state of \<open>Settings_Notify\<close>.
\<close>

section \<open>Model\<close>

text \<open>What a request continues with: loading a group for the detail view, with the busy flag
  cleared afterwards or not. A deletion remembers whether its group was the selected one when
  the button was pressed, as the closure in the source does.\<close>

datatype group_op =
    GmSelect bool
  | GmCreate
  | GmAdd int
  | GmRemove int
  | GmDelete int bool
  | GmSettings

record group_manager = "group_op panel" +
  gm_groups :: "NotificationGroup list"
  gm_detail :: "NotificationGroupDetail option"
  gm_name :: string
  gm_desc :: string
  gm_email :: string
  gm_busy :: bool
  gm_confirm :: "int option"
  gm_reloads :: "(int \<times> bool) option list"

definition groups_init :: group_manager where
  "groups_init =
     \<lparr>pn_busy = False, pn_open = [], pn_sent = [], pn_toasts = [], pn_changed = 0,
      gm_groups = [], gm_detail = None, gm_name = [], gm_desc = [], gm_email = [], gm_busy = False,
      gm_confirm = None, gm_reloads = []\<rparr>"

definition selectGroup :: "int \<Rightarrow> bool \<Rightarrow> group_manager \<Rightarrow> group_manager" where
  "selectGroup i frees s = pn_request (GmSelect frees) (wire_of (api_notificationGroup i)) s"

text \<open>\<open>await refreshGroups()\<close>, then perhaps \<open>await selectGroup(id)\<close>.\<close>

definition refreshGroups :: "(int \<times> bool) option \<Rightarrow> group_manager \<Rightarrow> group_manager" where
  "refreshGroups k s = s\<lparr>gm_reloads := gm_reloads s @ [k]\<rparr>"

definition free_if :: "bool \<Rightarrow> group_manager \<Rightarrow> group_manager" where
  "free_if b s = (if b then s\<lparr>gm_busy := False\<rparr> else s)"

datatype groups_event =
    GroupsProp "NotificationGroup list"
  | PressGroup NotificationGroup
  | TypeGroupName string
  | TypeGroupDesc string
  | CreateGroup
  | TypeMember string
  | PressAddMember
  | EnterAddMember
  | RemoveMember NotificationGroupMember
  | PressDeleteGroup
  | CloseDeleteGroup
  | ConfirmDeleteGroup
  | GroupsReloaded nat
  | DetailAnswer "group_op \<times> wire" "js_error + NotificationGroupDetail"
  | CreatedAnswer "group_op \<times> wire" "js_error + NotificationGroup"
  | GroupAnswer "group_op \<times> wire" "js_error + json option"

definition addMember :: "group_manager \<Rightarrow> group_manager option" where
  "addMember s =
     (case gm_detail s of
        None \<Rightarrow> None
      | Some d \<Rightarrow>
          if length (notificationGroupDetail_members d) \<ge> 10 then None
          else if js_trim (gm_email s) = [] then Some s
          else Some (pn_request (GmAdd (notificationGroupDetail_id d))
                 (wire_of (api_addGroupMember (notificationGroupDetail_id d) (js_trim (gm_email s)))) (s\<lparr>gm_busy := True\<rparr>)))"

definition group_answer :: "group_op \<Rightarrow> js_error + json option \<Rightarrow> group_manager \<Rightarrow> group_manager" where
  "group_answer k r s =
     (case (k, r) of
        (GmAdd i, Inr v) \<Rightarrow> refreshGroups (Some (i, True)) (pn_toast ''Member added.'' False (s\<lparr>gm_email := []\<rparr>))
      | (GmAdd i, Inl e) \<Rightarrow> (pn_toast (error_message e) True s)\<lparr>gm_busy := False\<rparr>
      | (GmRemove i, Inr v) \<Rightarrow> refreshGroups (Some (i, False)) (pn_toast ''Member removed.'' False s)
      | (GmDelete i shown, Inr v) \<Rightarrow>
          pn_request GmSettings (wire_of api_notifySettings)
            ((pn_toast ''Group deleted. Email falls back to the To address.'' False s)
               \<lparr>gm_confirm := None, gm_detail := (if shown then None else gm_detail s)\<rparr>)
      | (GmSettings, Inr v) \<Rightarrow> refreshGroups None s
      | (_, Inl e) \<Rightarrow> pn_toast (error_message e) True s
      | _ \<Rightarrow> s)"

fun groups_step :: "json option \<Rightarrow> group_manager \<Rightarrow> groups_event \<Rightarrow> group_manager option" where
  "groups_step user s (GroupsProp gs) = Some (s\<lparr>gm_groups := gs\<rparr>)"
| "groups_step user s (PressGroup g) =
     (if g \<in> set (gm_groups s) then Some (selectGroup (notificationGroup_id g) False s) else None)"
| "groups_step user s (TypeGroupName t) = (if fst (useDbBackupsRole user) then Some (s\<lparr>gm_name := t\<rparr>) else None)"
| "groups_step user s (TypeGroupDesc t) = (if fst (useDbBackupsRole user) then Some (s\<lparr>gm_desc := t\<rparr>) else None)"
| "groups_step user s CreateGroup =
     (if fst (useDbBackupsRole user) \<and> \<not> gm_busy s \<and> js_trim (gm_name s) \<noteq> []
      then Some (pn_request GmCreate
                  (wire_of (api_createNotificationGroup (js_trim (gm_name s)) (Some (js_trim (gm_desc s)))))
                  (s\<lparr>gm_busy := True\<rparr>))
      else None)"
| "groups_step user s (TypeMember t) =
     (if fst (useDbBackupsRole user) \<and> gm_detail s \<noteq> None then Some (s\<lparr>gm_email := t\<rparr>) else None)"
| "groups_step user s PressAddMember =
     (if fst (useDbBackupsRole user) \<and> \<not> gm_busy s \<and> js_trim (gm_email s) \<noteq> [] then addMember s else None)"
| "groups_step user s EnterAddMember = (if fst (useDbBackupsRole user) then addMember s else None)"
| "groups_step user s (RemoveMember m) =
     (case gm_detail s of
        None \<Rightarrow> None
      | Some d \<Rightarrow>
          if fst (useDbBackupsRole user) \<and> m \<in> set (notificationGroupDetail_members d)
          then Some (pn_request (GmRemove (notificationGroupDetail_id d))
                 (wire_of (api_removeGroupMember (notificationGroupDetail_id d) (notificationGroupMember_id m))) s)
          else None)"
| "groups_step user s PressDeleteGroup =
     (case gm_detail s of
        None \<Rightarrow> None
      | Some d \<Rightarrow>
          if snd (useDbBackupsRole user) then Some (s\<lparr>gm_confirm := Some (notificationGroupDetail_id d)\<rparr>) else None)"
| "groups_step user s CloseDeleteGroup = (if gm_confirm s = None then None else Some (s\<lparr>gm_confirm := None\<rparr>))"
| "groups_step user s ConfirmDeleteGroup =
     (case gm_confirm s of
        None \<Rightarrow> None
      | Some i \<Rightarrow> Some (pn_request (GmDelete i (map_option notificationGroupDetail_id (gm_detail s) = Some i))
                         (wire_of (api_deleteNotificationGroup i)) s))"
| "groups_step user s (GroupsReloaded n) =
     (if n < length (gm_reloads s) then
        (let t = s\<lparr>gm_reloads := take n (gm_reloads s) @ drop (Suc n) (gm_reloads s)\<rparr>
         in Some (case gm_reloads s ! n of None \<Rightarrow> t | Some (i, frees) \<Rightarrow> selectGroup i frees t))
      else None)"
| "groups_step user s (DetailAnswer q r) =
     (case fst q of
        GmSelect frees \<Rightarrow>
          if q \<in> set (pn_open s)
          then Some (free_if frees (case r of
                 Inr d \<Rightarrow> (pn_done q s)\<lparr>gm_detail := Some d, gm_email := []\<rparr>
               | Inl e \<Rightarrow> pn_toast (error_message e) True (pn_done q s)))
          else None
      | _ \<Rightarrow> None)"
| "groups_step user s (CreatedAnswer q r) =
     (if fst q = GmCreate \<and> q \<in> set (pn_open s)
      then Some (case r of
             Inr g \<Rightarrow> refreshGroups (Some (notificationGroup_id g, True))
               (pn_toast (''Group '' @ [CHR 0x22] @ notificationGroup_name g @ [CHR 0x22] @ '' created.'') False
                 ((pn_done q s)\<lparr>gm_name := [], gm_desc := []\<rparr>))
           | Inl e \<Rightarrow> (pn_toast (error_message e) True (pn_done q s))\<lparr>gm_busy := False\<rparr>)
      else None)"
| "groups_step user s (GroupAnswer q r) =
     (if q \<in> set (pn_open s) \<and> fst q \<noteq> GmCreate \<and> (\<forall>b. fst q \<noteq> GmSelect b)
      then Some (group_answer (fst q) r (pn_done q s)) else None)"

section \<open>Access\<close>

definition groups_inv :: "json option \<Rightarrow> group_manager \<Rightarrow> bool" where
  "groups_inv user s \<longleftrightarrow> (gm_confirm s \<noteq> None \<longrightarrow> session_role user = Admin)"

lemma reading_calls:
  "call_role (api_notificationGroup k) = Some Viewer" "call_role api_notifySettings = Some Viewer"
  by (simp_all add: role_eval)

lemma groups_answer_moves:
  assumes "q \<in> set (pn_open s)"
  shows "(panel_move (permitted (session_role user)) (\<lambda>k. False))\<^sup>*\<^sup>* s (group_answer (fst q) r (pn_done q s))"
proof -
  let ?m = "panel_move (permitted (session_role user)) (\<lambda>k. False)"
  have "?m s (pn_done q s)" using assms by (intro panel_move_end [of q]) (auto simp: pn_done_def)
  moreover have "?m (pn_done q s) (group_answer (fst q) r (pn_done q s))"
  proof (cases "\<exists>i b v. fst q = GmDelete i b \<and> r = Inr v")
    case True
    then show ?thesis
      by (intro panel_move_start [of _ "wire_of api_notifySettings" _ _ GmSettings])
         (auto simp: group_answer_def reading_calls pn_defs)
  next
    case False
    then show ?thesis
      by (intro panel_move_none) (auto simp: group_answer_def refreshGroups_def pn_defs split: group_op.splits sum.splits)
  qed
  ultimately show ?thesis by (meson converse_rtranclp_into_rtranclp r_into_rtranclp)
qed

lemma group_answer_inv: "groups_inv user s \<Longrightarrow> groups_inv user (group_answer k r s)"
  by (auto simp: groups_inv_def group_answer_def refreshGroups_def pn_defs split: group_op.splits sum.splits)

lemma groups_step_inv: "groups_inv user s \<Longrightarrow> groups_step user s e = Some s' \<Longrightarrow> groups_inv user s'"
proof (cases e)
  case (GroupAnswer q r)
  assume "groups_inv user s" "groups_step user s e = Some s'"
  with GroupAnswer have "groups_inv user (pn_done q s)" "s' = group_answer (fst q) r (pn_done q s)"
    by (auto simp: groups_inv_def pn_done_def split: if_splits)
  then show ?thesis by (simp add: group_answer_inv)
qed (auto simp: groups_inv_def role_flags selectGroup_def refreshGroups_def free_if_def addMember_def Let_def pn_defs
      split: if_splits option.splits sum.splits group_op.splits prod.splits)

lemma add_moves:
  assumes "Operator \<le> session_role user" "addMember s = Some s'"
  shows "panel_move (permitted (session_role user)) (\<lambda>k. False) s s'"
proof (cases "s' = s")
  case False
  with assms show ?thesis
    by (auto intro!: panel_move_start simp: addMember_def call_roles pn_defs split: option.splits if_splits)
qed (simp add: panel_move_none)

lemma select_moves: "panel_move (permitted (session_role user)) (\<lambda>k. False) s (selectGroup i b s)"
  by (intro panel_move_start [of _ "wire_of (api_notificationGroup i)" _ _ "GmSelect b"])
     (auto simp: selectGroup_def reading_calls pn_defs)

lemma groups_moves:
  assumes "groups_inv user s" "groups_step user s e = Some s'"
  shows "(panel_move (permitted (session_role user)) (\<lambda>k. False))\<^sup>*\<^sup>* s s'"
proof (cases e)
  case (PressGroup g)
  with assms show ?thesis by (auto intro!: panel_moves1 select_moves split: if_splits)
next
  case CreateGroup
  with assms show ?thesis
    by (auto intro!: panel_moves1 panel_move_start simp: role_flags call_roles pn_defs split: if_splits)
next
  case PressAddMember
  with assms show ?thesis by (auto intro!: panel_moves1 add_moves simp: role_flags split: if_splits)
next
  case EnterAddMember
  with assms show ?thesis by (auto intro!: panel_moves1 add_moves simp: role_flags split: if_splits)
next
  case (RemoveMember m)
  with assms show ?thesis
    by (auto intro!: panel_moves1 panel_move_start simp: role_flags call_roles pn_defs split: option.splits if_splits)
next
  case ConfirmDeleteGroup
  with assms show ?thesis
    by (auto intro!: panel_moves1 panel_move_start simp: groups_inv_def call_roles pn_defs split: option.splits)
next
  case (GroupsReloaded n)
  let ?t = "s\<lparr>gm_reloads := take n (gm_reloads s) @ drop (Suc n) (gm_reloads s)\<rparr>"
  have "panel_move (permitted (session_role user)) (\<lambda>k. False) s ?t" by (simp add: panel_move_none)
  moreover have "panel_move (permitted (session_role user)) (\<lambda>k. False) ?t s'"
    using assms(2) GroupsReloaded
    by (auto simp: Let_def split: if_splits option.splits intro: select_moves panel_move_none)
  ultimately show ?thesis by (meson converse_rtranclp_into_rtranclp r_into_rtranclp)
next
  case (DetailAnswer q r)
  with assms show ?thesis
    by (intro panel_moves1 panel_move_end [of q])
       (auto simp: free_if_def pn_defs split: if_splits sum.splits group_op.splits)
next
  case (CreatedAnswer q r)
  with assms show ?thesis
    by (intro panel_moves1 panel_move_end [of q])
       (auto simp: refreshGroups_def pn_defs split: if_splits sum.splits)
next
  case (GroupAnswer q r)
  with assms show ?thesis by (auto split: if_splits intro: groups_answer_moves)
qed (use assms in \<open>auto intro!: panel_moves1 panel_move_none split: if_splits option.splits\<close>)

interpretation groups: panel_page "groups_step user" "groups_inv user" groups_init
  "permitted (session_role user)" "\<lambda>k. False" for user
proof unfold_locales
  show "groups_inv user groups_init" "panel_idle groups_init"
    by (simp_all add: groups_inv_def groups_init_def panel_idle_def)
qed (blast intro: groups_step_inv groups_moves)+

end
