(* ===== verification/Settings_Props.thy ===== *)
theory Settings_Props
  imports Backup_Props Rules_Form Settings_Team Settings_Groups
begin

text \<open>
  The access policy on the settings page: its rule section and its group manager keep to it,
  while the team, notification and diagnostics tabs offer every user requests that the backend
  serves to higher roles only.
\<close>

text \<open>The notification rules and the recipient groups refine the access-policy specification
  as the backup page does: in every execution, for every user, they send no request the backend
  would refuse for the user's role.\<close>

lemma settings_refine_policy:
  "(run (rules_step user) rules_init es1 = Some s1 \<longrightarrow> keeps_to_policy user s1)
   \<and> (run (groups_step user) groups_init es2 = Some s2 \<longrightarrow> keeps_to_policy user s2)"
  by (intro conjI impI; erule rules.keeps_to_policyI [OF refl] groups.keeps_to_policyI [OF refl])

text \<open>C10: three tabs of the settings page do not follow the policy. For every user who is not an
  administrator, opening the team tab, pressing Save or Test on the notification tab and
  confirming the history wipe each send a request the backend refuses for that role.\<close>

theorem settings_not_gated:
  assumes "session_role user \<noteq> Admin"
  shows "(\<exists>s. run (team_step user) team_init [MountTeam] = Some s
             \<and> (\<exists>w \<in> set (pn_sent s). \<not> permitted (session_role user) w))
         \<and> (\<exists>s. run notify_step notify_init [SettingsLoaded True (Some n) None, PressSave] = Some s
             \<and> (\<exists>w \<in> set (pn_sent s). \<not> permitted (session_role user) w))
         \<and> (\<exists>s. run notify_step notify_init [SettingsLoaded True (Some n) None, PressTest] = Some s
             \<and> (\<exists>w \<in> set (pn_sent s). \<not> permitted (session_role user) w))
         \<and> (\<exists>s. run (diag_step tmsg) diag_init [PressWipe, TypeWipe ''CLEAR'', ConfirmWipe] = Some s
             \<and> (\<exists>w \<in> set (pn_sent s). \<not> permitted (session_role user) w))"
  using assms
  by (simp add: team_init_def loadUsers_def notify_init_def settings_data_def sync_draft_def settings_shown_def
      diag_init_def ConfirmModal_def Let_def pn_defs call_roles)

theorem settings_not_gated_witness:
  "\<exists>s. run (diag_step []) diag_init [PressWipe, TypeWipe ''CLEAR'', ConfirmWipe] = Some s
       \<and> (\<exists>w \<in> set (pn_sent s). \<not> permitted (session_role None) w)"
  using settings_not_gated [of None] by (simp add: session_role_def)

end
