(* ===== verification/Page_Servers.thy ===== *)
theory Page_Servers
  imports Ui_Panel
begin

text \<open>
  The server inventory, \<open>client/src/features/dashboard/ServersPage.tsx\<close>: the filters and counts
  of the list, and the wizard that registers a server, mints its agent token and then polls
  until the agent reports. The wizard's effect depends on the step, on the created server and
  on the callback \<open>onCreated\<close>, which the page makes anew each time it renders.
\<close>

section \<open>The list\<close>

record servers_page =
  sv_servers :: "ManagedServer list"
  sv_groups :: "ServerGroup list"
  sv_search :: string
  sv_status :: "managedServer_status_enum option"
  sv_group :: "int option"

definition count_status :: "managedServer_status_enum \<Rightarrow> ManagedServer list \<Rightarrow> nat" where
  "count_status st xs = length (filter (\<lambda>x. managedServer_status x = st) xs)"

definition count_unknown :: "ManagedServer list \<Rightarrow> nat" where
  "count_unknown xs =
     length (filter (\<lambda>x. managedServer_status x \<noteq> ManagedServerStatus_ONLINE
        \<and> managedServer_status x \<noteq> ManagedServerStatus_OFFLINE \<and> managedServer_status x \<noteq> ManagedServerStatus_WARNING) xs)"

definition server_needle :: "string \<Rightarrow> ManagedServer \<Rightarrow> bool" where
  "server_needle needle x \<longleftrightarrow>
     js_includes (js_toLowerCase (managedServer_name x)) needle
     \<or> js_includes (js_toLowerCase (managedServer_hostname x)) needle
     \<or> js_includes (js_toLowerCase (managedServer_ipAddress x)) needle
     \<or> js_includes (js_toLowerCase (managedServer_os x)) needle"

definition server_shown :: "servers_page \<Rightarrow> ManagedServer \<Rightarrow> bool" where
  "server_shown s x =
     (let needle = js_toLowerCase (js_trim (sv_search s)) in
      if sv_group s \<noteq> None \<and> managedServer_groupId x \<noteq> sv_group s then False
      else if sv_status s \<noteq> None \<and> Some (managedServer_status x) \<noteq> sv_status s then False
      else if needle \<noteq> [] then server_needle needle x
      else True)"

definition servers_filtered :: "servers_page \<Rightarrow> ManagedServer list" where
  "servers_filtered s = filter (server_shown s) (sv_servers s)"

text \<open>The condition of the text \<open>No servers match current filter.\<close> and of the reset button; a
  group with the number 0 counts as no filter.\<close>

definition filters_set :: "servers_page \<Rightarrow> bool" where
  "filters_set s \<longleftrightarrow> sv_search s \<noteq> [] \<or> sv_status s \<noteq> None \<or> (sv_group s \<noteq> None \<and> sv_group s \<noteq> Some 0)"

datatype servers_event =
    ServersLoaded "ManagedServer list"
  | GroupsLoaded "ServerGroup list"
  | TypeSearch string
  | PressStatus "managedServer_status_enum option"
  | ClearStatus
  | PressServerGroup "ServerGroup option"
  | ResetFilters

fun servers_step :: "servers_page \<Rightarrow> servers_event \<Rightarrow> servers_page option" where
  "servers_step s (ServersLoaded xs) = Some (s\<lparr>sv_servers := xs\<rparr>)"
| "servers_step s (GroupsLoaded gs) = Some (s\<lparr>sv_groups := gs\<rparr>)"
| "servers_step s (TypeSearch t) = Some (s\<lparr>sv_search := t\<rparr>)"
| "servers_step s (PressStatus f) =
     (if f = Some ManagedServerStatus_UNKNOWN then None
      else Some (s\<lparr>sv_status := (if sv_status s = f then None else f)\<rparr>))"
| "servers_step s ClearStatus = (if sv_status s = None then None else Some (s\<lparr>sv_status := None\<rparr>))"
| "servers_step s (PressServerGroup g) =
     (if sv_groups s = [] \<or> (case g of None \<Rightarrow> False | Some x \<Rightarrow> x \<notin> set (sv_groups s)) then None
      else Some (s\<lparr>sv_group := map_option serverGroup_id g\<rparr>))"
| "servers_step s ResetFilters =
     (if servers_filtered s = [] \<and> filters_set s
      then Some (s\<lparr>sv_search := [], sv_status := None, sv_group := None\<rparr>) else None)"

text \<open>Events that make the page load its list again.\<close>

definition servers_event_reloads :: "string \<Rightarrow> bool" where
  "servers_event_reloads t \<longleftrightarrow> t \<in> {''server.heartbeat'', ''server.metrics''}"

lemma length_filter_disjoint:
  "(\<And>x. P x \<Longrightarrow> \<not> Q x) \<Longrightarrow> length (filter P xs) + length (filter Q xs) = length (filter (\<lambda>x. P x \<or> Q x) xs)"
  by (induction xs) auto

text \<open>Every server is counted under exactly one status, and pressing a status with no other
  filter set shows as many servers as its button says.\<close>

lemma servers_counted:
  "count_status ManagedServerStatus_ONLINE xs + count_status ManagedServerStatus_OFFLINE xs
     + count_status ManagedServerStatus_WARNING xs + count_unknown xs = length xs"
  by (induction xs) (auto simp: count_status_def count_unknown_def)

lemma servers_status_count:
  assumes "js_trim (sv_search s) = []" "sv_group s = None" "sv_status s \<noteq> Some st"
    "servers_step s (PressStatus (Some st)) = Some s'"
  shows "length (servers_filtered s') = count_status st (sv_servers s)"
proof -
  have "s' = s\<lparr>sv_status := Some st\<rparr>" using assms(3,4) by (auto split: if_splits)
  then show ?thesis
    using assms(1,2) by (auto simp: servers_filtered_def server_shown_def count_status_def js_toLowerCase_def
        intro!: arg_cong [of _ _ length] filter_cong split: if_splits)
qed

text \<open>The reset is offered whenever a filter of the page hides every server, except for a group
  numbered 0.\<close>

lemma servers_reset:
  assumes "servers_filtered s = []" "sv_servers s \<noteq> []" "sv_group s \<noteq> Some 0"
  shows "\<exists>s'. servers_step s ResetFilters = Some s' \<and> servers_filtered s' = sv_servers s"
proof -
  have "filters_set s"
  proof (rule ccontr)
    assume "\<not> filters_set s"
    then have "sv_search s = []" "sv_status s = None" "sv_group s = None"
      using assms(3) by (auto simp: filters_set_def)
    then have "servers_filtered s = sv_servers s"
      by (simp add: servers_filtered_def server_shown_def js_trim_def js_trimStart_def js_trimEnd_def js_toLowerCase_def)
    with assms show False by simp
  qed
  with assms(1) show ?thesis
    by (simp add: servers_filtered_def server_shown_def js_trim_def js_trimStart_def js_trimEnd_def js_toLowerCase_def)
qed

section \<open>The wizard\<close>

datatype os_type = Linux | Docker | Windows

datatype poll_status = Connecting | Connected | TimedOut

text \<open>A request to create remembers the trimmed name its handler captured, a poll the run of the
  effect that sent it.\<close>

datatype wizard_op =
    WzCreate string
  | WzToken
  | WzPoll nat

record wizard = "wizard_op panel" +
  wz_mounted :: bool
  wz_step :: nat
  wz_name :: string
  wz_hostname :: string
  wz_ip :: string
  wz_osType :: os_type
  wz_created :: "int option"
  wz_token :: string
  wz_copied :: bool
  wz_status :: poll_status
  wz_seconds :: nat
  wz_run :: nat
  wz_poller :: bool
  wz_timer :: bool
  wz_timeout :: bool

definition wizard_init :: wizard where
  "wizard_init =
     \<lparr>pn_busy = False, pn_open = [], pn_sent = [], pn_toasts = [], pn_changed = 0,
      wz_mounted = True, wz_step = 1, wz_name = [], wz_hostname = [], wz_ip = [], wz_osType = Linux,
      wz_created = None, wz_token = [], wz_copied = False, wz_status = Connecting, wz_seconds = 0,
      wz_run = 0, wz_poller = False, wz_timer = False, wz_timeout = False\<rparr>"

definition has_server :: "wizard \<Rightarrow> bool" where
  "has_server s \<longleftrightarrow> wz_created s \<noteq> None \<and> wz_created s \<noteq> Some 0"

text \<open>The cleanup of the effect and its next run.\<close>

definition wz_effect :: "wizard \<Rightarrow> wizard" where
  "wz_effect s =
     (let on = (wz_step s = 4 \<and> has_server s)
      in s\<lparr>wz_run := Suc (wz_run s), wz_poller := on, wz_timer := on, wz_timeout := on\<rparr>)"

definition setStep :: "nat \<Rightarrow> wizard \<Rightarrow> wizard" where
  "setStep n s = (if \<not> wz_mounted s \<or> wz_step s = n then s else wz_effect (s\<lparr>wz_step := n\<rparr>))"

definition setCreated :: "int \<Rightarrow> wizard \<Rightarrow> wizard" where
  "setCreated i s = (if \<not> wz_mounted s \<or> wz_created s = Some i then s else wz_effect (s\<lparr>wz_created := Some i\<rparr>))"

text \<open>The end of \<open>handleProceedToSetup\<close>: \<open>onCreated\<close>, step 3, and the busy flag.\<close>

definition proceed_end :: "wizard \<Rightarrow> wizard" where
  "proceed_end s = pn_free (setStep 3 (pn_change s))"

definition proceed_fail :: "js_error \<Rightarrow> wizard \<Rightarrow> wizard" where
  "proceed_fail e s = pn_free (pn_toast (error_message e) True s)"

definition token_request :: "int \<Rightarrow> string \<Rightarrow> wire" where
  "token_request i nm = wire_of (api_createAgentToken i (Some (nm @ ''-initial-token'')))"

definition handleProceedToSetup :: "wizard \<Rightarrow> wizard" where
  "handleProceedToSetup s =
     (let nm = js_trim (wz_name s) in
      if nm = [] then s
      else if \<not> has_server s then
        pn_start (WzCreate nm)
          (wire_of (api_createServer nm (some_text (js_trim (wz_hostname s))) (some_text (js_trim (wz_ip s))) None)) s
      else if wz_token s = [] then pn_start WzToken (token_request (the (wz_created s)) nm) s
      else proceed_end s)"

text \<open>The handler after the server was created. Its copy of the token is the empty text: a token
  is only ever minted for a created server.\<close>

definition created_answer :: "string \<Rightarrow> js_error + int \<Rightarrow> wizard \<Rightarrow> wizard" where
  "created_answer nm r s =
     (case r of
        Inl e \<Rightarrow> proceed_fail e s
      | Inr i \<Rightarrow> if i = 0 then proceed_end (setCreated i s) else pn_request WzToken (token_request i nm) (setCreated i s))"

definition token_answer :: "js_error + string \<Rightarrow> wizard \<Rightarrow> wizard" where
  "token_answer r s =
     (case r of
        Inl e \<Rightarrow> proceed_fail e s
      | Inr t \<Rightarrow> proceed_end (if wz_mounted s then s\<lparr>wz_token := t\<rparr> else s))"

definition handleEnterStep4 :: "wizard \<Rightarrow> wizard" where
  "handleEnterStep4 s = setStep 4 (s\<lparr>wz_status := Connecting, wz_seconds := 0\<rparr>)"

definition agent_up :: "ManagedServer \<Rightarrow> bool" where
  "agent_up x \<longleftrightarrow> managedServer_agentStatus x = ManagedServerAgentStatus_CONNECTED
     \<or> managedServer_status x = ManagedServerStatus_ONLINE"

definition poll_answer :: "nat \<Rightarrow> js_error + ManagedServer \<Rightarrow> wizard \<Rightarrow> wizard" where
  "poll_answer g r s =
     (case r of
        Inl e \<Rightarrow> s
      | Inr x \<Rightarrow>
          if \<not> agent_up x then s
          else let t = (if wz_mounted s then s\<lparr>wz_status := Connected\<rparr> else s);
                   u = (if g = wz_run s then t\<lparr>wz_poller := False, wz_timer := False\<rparr> else t)
               in pn_change u)"

text \<open>The command of step 3.\<close>

definition quoted :: "string \<Rightarrow> string" where
  "quoted t = [CHR 0x22] @ t @ [CHR 0x22]"

definition setup_command :: "string \<Rightarrow> wizard \<Rightarrow> string" where
  "setup_command host s =
     (case wz_osType s of
        Linux \<Rightarrow> ''curl -fsSL '' @ host @ ''/agent/install.sh | sudo AGENT_TOKEN='' @ quoted (wz_token s)
          @ '' SERVERHUB_URL='' @ quoted host @ '' bash''
      | Docker \<Rightarrow> ''docker run -d --name serverhub-agent --restart always '' @ [CHR 0x5C, CHR 0x0A]
          @ ''  -e AGENT_TOKEN='' @ quoted (wz_token s) @ '' '' @ [CHR 0x5C, CHR 0x0A]
          @ ''  -e SERVERHUB_URL='' @ quoted host @ '' '' @ [CHR 0x5C, CHR 0x0A]
          @ ''  -v /var/run/docker.sock:/var/run/docker.sock '' @ [CHR 0x5C, CHR 0x0A]
          @ ''  serverhub/agent:latest''
      | Windows \<Rightarrow> ''$env:AGENT_TOKEN='' @ quoted (wz_token s) @ ''; $env:SERVERHUB_URL='' @ quoted host
          @ ''; .'' @ [CHR 0x5C] @ ''serverhub-agent.exe'')"

datatype wizard_event =
    WzTypeName string
  | WzTypeHostname string
  | WzTypeIp string
  | WzToStep2
  | WzPickOs os_type
  | WzBack
  | WzProceed
  | WzCopied bool
  | WzUncopy
  | WzVerify
  | WzRetry
  | WzClose
  | WzSecond
  | WzPollTick
  | WzTimeout
  | WzParentRender
  | WzCreatedAnswer "wizard_op \<times> wire" "js_error + int"
  | WzTokenAnswer "wizard_op \<times> wire" "js_error + string"
  | WzPollAnswer "wizard_op \<times> wire" "js_error + ManagedServer"

text \<open>Closing the dialog (by its buttons or the backdrop) ends the effect; requests in flight still
  continue their handlers.\<close>

definition wz_close :: "wizard \<Rightarrow> wizard" where
  "wz_close s =
     s\<lparr>wz_mounted := False, wz_run := Suc (wz_run s), wz_poller := False, wz_timer := False, wz_timeout := False\<rparr>"

fun wizard_step :: "wizard \<Rightarrow> wizard_event \<Rightarrow> wizard option" where
  "wizard_step s (WzTypeName t) = (if wz_mounted s \<and> wz_step s = 1 then Some (s\<lparr>wz_name := t\<rparr>) else None)"
| "wizard_step s (WzTypeHostname t) = (if wz_mounted s \<and> wz_step s = 1 then Some (s\<lparr>wz_hostname := t\<rparr>) else None)"
| "wizard_step s (WzTypeIp t) = (if wz_mounted s \<and> wz_step s = 1 then Some (s\<lparr>wz_ip := t\<rparr>) else None)"
| "wizard_step s WzToStep2 =
     (if wz_mounted s \<and> wz_step s = 1 \<and> js_trim (wz_name s) \<noteq> [] then Some (setStep 2 s) else None)"
| "wizard_step s (WzPickOs k) = (if wz_mounted s \<and> wz_step s = 2 then Some (s\<lparr>wz_osType := k\<rparr>) else None)"
| "wizard_step s WzBack =
     (if \<not> wz_mounted s then None
      else if wz_step s = 2 then Some (setStep 1 s)
      else if wz_step s = 3 then Some (setStep 2 s)
      else if wz_step s = 4 \<and> wz_status s = TimedOut then Some (setStep 3 s)
      else None)"
| "wizard_step s WzProceed =
     (if wz_mounted s \<and> wz_step s = 2 \<and> \<not> pn_busy s then Some (handleProceedToSetup s) else None)"
| "wizard_step s (WzCopied ok) =
     (if wz_mounted s \<and> wz_step s = 3
      then Some (if ok then (pn_toast ''Setup command copied to clipboard!'' False s)\<lparr>wz_copied := True\<rparr>
                 else pn_toast ''Failed to copy to clipboard'' True s)
      else None)"
| "wizard_step s WzUncopy = (if wz_copied s then Some (s\<lparr>wz_copied := False\<rparr>) else None)"
| "wizard_step s WzVerify = (if wz_mounted s \<and> wz_step s = 3 then Some (handleEnterStep4 s) else None)"
| "wizard_step s WzRetry =
     (if wz_mounted s \<and> wz_step s = 4 \<and> wz_status s = TimedOut then Some (s\<lparr>wz_status := Connecting\<rparr>) else None)"
| "wizard_step s WzClose = (if wz_mounted s then Some (wz_close s) else None)"
| "wizard_step s WzSecond = (if wz_timer s then Some (s\<lparr>wz_seconds := Suc (wz_seconds s)\<rparr>) else None)"
| "wizard_step s WzPollTick =
     (if wz_poller s
      then Some (pn_request (WzPoll (wz_run s)) (wire_of (api_managedServer (the (wz_created s)))) s) else None)"
| "wizard_step s WzTimeout =
     (if wz_timeout s
      then Some (s\<lparr>wz_status := (if wz_status s = Connected then Connected else TimedOut),
                   wz_poller := False, wz_timer := False, wz_timeout := False\<rparr>)
      else None)"
| "wizard_step s WzParentRender = (if wz_mounted s then Some (wz_effect s) else None)"
| "wizard_step s (WzCreatedAnswer q r) =
     (case fst q of
        WzCreate nm \<Rightarrow> if q \<in> set (pn_open s) then Some (created_answer nm r (pn_done q s)) else None
      | _ \<Rightarrow> None)"
| "wizard_step s (WzTokenAnswer q r) =
     (if fst q = WzToken \<and> q \<in> set (pn_open s) then Some (token_answer r (pn_done q s)) else None)"
| "wizard_step s (WzPollAnswer q r) =
     (case fst q of
        WzPoll g \<Rightarrow> if q \<in> set (pn_open s) then Some (poll_answer g r (pn_done q s)) else None
      | _ \<Rightarrow> None)"

section \<open>What the wizard does\<close>

fun is_poll :: "wizard_op \<Rightarrow> bool" where
  "is_poll (WzPoll g) \<longleftrightarrow> True"
| "is_poll _ \<longleftrightarrow> False"

fun created_as :: "int \<Rightarrow> wizard_event \<Rightarrow> bool" where
  "created_as i (WzCreatedAnswer q (Inr j)) \<longleftrightarrow> j = i"
| "created_as i _ \<longleftrightarrow> False"

fun creates :: "wizard_event \<Rightarrow> bool" where
  "creates (WzCreatedAnswer q (Inr i)) \<longleftrightarrow> i \<noteq> 0"
| "creates _ \<longleftrightarrow> False"

fun reports_agent :: "wizard_event \<Rightarrow> bool" where
  "reports_agent (WzPollAnswer q (Inr x)) \<longleftrightarrow> agent_up x"
| "reports_agent _ \<longleftrightarrow> False"

fun mints :: "string \<Rightarrow> wizard_event \<Rightarrow> bool" where
  "mints t (WzTokenAnswer q (Inr u)) \<longleftrightarrow> u = t"
| "mints t _ \<longleftrightarrow> False"

definition wizard_wire :: "wizard_event list \<Rightarrow> wire \<Rightarrow> bool" where
  "wizard_wire es w \<longleftrightarrow>
     (\<exists>nm h ip. nm \<noteq> [] \<and> w = wire_of (api_createServer nm h ip None))
     \<or> (\<exists>i. (\<exists>e \<in> set es. created_as i e)
          \<and> ((\<exists>nm. w = token_request i nm) \<or> w = wire_of (api_managedServer i)))"

text \<open>The requests of the handler in flight, polls apart.\<close>

definition handler_ops :: "(wizard_op \<times> wire) list \<Rightarrow> wizard_op list" where
  "handler_ops qs = map fst (filter (\<lambda>q. \<not> is_poll (fst q)) qs)"

text \<open>Only one handler runs, and only one server is ever created.\<close>

definition create_once :: "wizard_event list \<Rightarrow> wizard \<Rightarrow> bool" where
  "create_once es s \<longleftrightarrow>
     length (handler_ops (pn_open s)) = (if pn_busy s then 1 else 0)
     \<and> length (filter creates es) \<le> 1
     \<and> ((wz_mounted s \<and> \<not> has_server s) \<or> (\<exists>nm. WzCreate nm \<in> set (handler_ops (pn_open s))) \<longrightarrow> filter creates es = [])"

text \<open>Where what the wizard shows and sends comes from.\<close>

definition wizard_traced :: "wizard_event list \<Rightarrow> wizard \<Rightarrow> bool" where
  "wizard_traced es s \<longleftrightarrow>
     (wz_poller s \<longrightarrow> has_server s)
     \<and> (\<forall>i. wz_created s = Some i \<longrightarrow> (\<exists>e \<in> set es. created_as i e))
     \<and> (wz_token s \<noteq> [] \<longrightarrow> (\<exists>e \<in> set es. mints (wz_token s) e))
     \<and> (wz_status s = Connected \<longrightarrow> (\<exists>e \<in> set es. reports_agent e))
     \<and> (\<forall>w \<in> set (pn_sent s). wizard_wire es w)"

lemma wz_effect_frame [simp]:
  "pn_open (wz_effect s) = pn_open s" "pn_sent (wz_effect s) = pn_sent s" "pn_busy (wz_effect s) = pn_busy s"
  "wz_mounted (wz_effect s) = wz_mounted s" "wz_created (wz_effect s) = wz_created s"
  "wz_token (wz_effect s) = wz_token s" "wz_status (wz_effect s) = wz_status s" "wz_step (wz_effect s) = wz_step s"
  "wz_poller (wz_effect s) \<longleftrightarrow> wz_step s = 4 \<and> has_server s"
  by (simp_all add: wz_effect_def Let_def)

lemma setStep_frame [simp]:
  "pn_open (setStep n s) = pn_open s" "pn_sent (setStep n s) = pn_sent s" "pn_busy (setStep n s) = pn_busy s"
  "wz_mounted (setStep n s) = wz_mounted s" "wz_created (setStep n s) = wz_created s"
  "wz_token (setStep n s) = wz_token s" "wz_status (setStep n s) = wz_status s"
  by (auto simp: setStep_def has_server_def split: if_splits)

lemma setStep_poller: "wz_poller (setStep n s) \<Longrightarrow> wz_poller s \<or> has_server s"
  by (auto simp: setStep_def has_server_def split: if_splits)

lemma setCreated_frame [simp]:
  "pn_open (setCreated i s) = pn_open s" "pn_sent (setCreated i s) = pn_sent s" "pn_busy (setCreated i s) = pn_busy s"
  "wz_mounted (setCreated i s) = wz_mounted s" "wz_token (setCreated i s) = wz_token s"
  "wz_status (setCreated i s) = wz_status s"
  "wz_created (setCreated i s) = (if wz_mounted s then Some i else wz_created s)"
  by (auto simp: setCreated_def has_server_def split: if_splits)

lemma setCreated_poller:
  "wz_poller (setCreated i s) \<Longrightarrow> wz_poller s \<and> \<not> (wz_mounted s \<and> wz_created s \<noteq> Some i) \<or> (wz_mounted s \<and> i \<noteq> 0)"
  by (auto simp: setCreated_def has_server_def split: if_splits)

lemmas wizard_frames = has_server_def proceed_end_def proceed_fail_def pn_defs

lemma handler_ops_simps [simp]:
  "handler_ops [] = []" "handler_ops (xs @ ys) = handler_ops xs @ handler_ops ys"
  "handler_ops [(k, w)] = (if is_poll k then [] else [k])"
  by (simp_all add: handler_ops_def)

lemma handler_ops_remove1:
  "is_poll (fst q) \<Longrightarrow> handler_ops (remove1 q xs) = handler_ops xs"
  "q \<in> set xs \<Longrightarrow> \<not> is_poll (fst q) \<Longrightarrow> Suc (length (handler_ops (remove1 q xs))) = length (handler_ops xs)"
  "q \<in> set xs \<Longrightarrow> \<not> is_poll (fst q) \<Longrightarrow> fst q \<in> set (handler_ops xs)"
  by (induction xs) (auto simp: handler_ops_def)

lemma handler_done:
  assumes "q \<in> set xs" "\<not> is_poll (fst q)" "length (handler_ops xs) = (if b then 1 else 0)"
  shows "handler_ops (remove1 q xs) = []" "b"
  using handler_ops_remove1(2) [OF assms(1,2)] assms(3) by (auto split: if_splits)

lemma created_answer_once:
  assumes "create_once es s" "(WzCreate nm, w) \<in> set (pn_open s)"
  shows "create_once (es @ [WzCreatedAnswer (WzCreate nm, w) r]) (created_answer nm r (pn_done (WzCreate nm, w) s))"
proof -
  let ?q = "(WzCreate nm, w)"
  have c: "length (handler_ops (pn_open s)) = (if pn_busy s then 1 else 0)" using assms(1) by (simp add: create_once_def)
  have "WzCreate nm \<in> set (handler_ops (pn_open s))" using handler_ops_remove1(3) [OF assms(2)] by simp
  with assms(1) have b: "filter creates es = []" by (auto simp: create_once_def)
  have d: "handler_ops (remove1 ?q (pn_open s)) = []" "pn_busy s"
    using handler_done [OF assms(2) _ c] by simp_all
  show ?thesis
  proof (cases r)
    case (Inl e)
    with b d show ?thesis by (simp add: create_once_def created_answer_def wizard_frames)
  next
    case (Inr i)
    with b d show ?thesis by (simp add: create_once_def created_answer_def wizard_frames)
  qed
qed

lemma token_answer_once:
  assumes "create_once es s" "(WzToken, w) \<in> set (pn_open s)"
  shows "create_once (es @ [WzTokenAnswer (WzToken, w) r]) (token_answer r (pn_done (WzToken, w) s))"
proof -
  have c: "length (handler_ops (pn_open s)) = (if pn_busy s then 1 else 0)" using assms(1) by (simp add: create_once_def)
  have d: "handler_ops (remove1 (WzToken, w) (pn_open s)) = []"
    using handler_done [OF assms(2) _ c] by simp
  show ?thesis using assms(1) d
    by (cases r) (auto simp: create_once_def token_answer_def wizard_frames)
qed

lemma poll_answer_frame [simp]:
  "pn_open (poll_answer g r s) = pn_open s" "pn_sent (poll_answer g r s) = pn_sent s"
  "pn_busy (poll_answer g r s) = pn_busy s" "wz_mounted (poll_answer g r s) = wz_mounted s"
  "wz_created (poll_answer g r s) = wz_created s" "wz_token (poll_answer g r s) = wz_token s"
  by (cases r; auto simp: poll_answer_def pn_defs Let_def split: if_splits)+

lemma poll_answer_effects:
  "wz_poller (poll_answer g r s) \<Longrightarrow> wz_poller s"
  "wz_status (poll_answer g r s) = Connected \<Longrightarrow> wz_status s = Connected \<or> (\<exists>x. r = Inr x \<and> agent_up x)"
  by (cases r; auto simp: poll_answer_def pn_defs Let_def split: if_splits)+

lemma create_once_frame:
  assumes "create_once es s" "\<not> creates e" "handler_ops (pn_open s') = handler_ops (pn_open s)" "pn_busy s' = pn_busy s"
    "wz_mounted s' \<Longrightarrow> wz_mounted s" "wz_created s' = wz_created s"
  shows "create_once (es @ [e]) s'"
  using assms unfolding create_once_def has_server_def by auto

lemma proceed_once:
  assumes "create_once es s" "\<not> pn_busy s" "wz_mounted s"
  shows "create_once (es @ [WzProceed]) (handleProceedToSetup s)"
  using assms by (simp add: create_once_def handleProceedToSetup_def Let_def wizard_frames)

interpretation creating: recorded_system wizard_step wizard_init create_once
proof unfold_locales
  show "create_once [] wizard_init"
    by (simp add: create_once_def wizard_init_def handler_ops_def)
next
  fix es s e s' assume a: "create_once es s" "wizard_step s e = Some s'"
  show "create_once (es @ [e]) s'"
  proof (cases e)
    case (WzCreatedAnswer q r)
    with a show ?thesis by (cases q) (auto split: wizard_op.splits if_splits intro: created_answer_once)
  next
    case (WzTokenAnswer q r)
    with a show ?thesis by (cases q) (auto split: if_splits intro: token_answer_once)
  next
    case (WzPollAnswer q r)
    then obtain g w where q: "q = (WzPoll g, w)" "s' = poll_answer g r (pn_done q s)"
      using a(2) by (cases q) (auto split: wizard_op.splits if_splits)
    show ?thesis
      by (rule create_once_frame [OF a(1)])
         (simp_all add: WzPollAnswer q pn_done_def handler_ops_remove1)
  next
    case WzProceed
    with a show ?thesis by (auto split: if_splits intro: proceed_once)
  qed (rule create_once_frame [OF a(1)];
       use a(2) in \<open>force simp: handleEnterStep4_def wz_close_def pn_defs split: if_splits\<close>)+
qed

lemma mints_answer: "mints t (WzTokenAnswer q r) \<longleftrightarrow> r = Inr t"
  by (cases r) auto

lemma wizard_wire_mono: "wizard_wire es w \<Longrightarrow> wizard_wire (es @ fs) w"
  by (auto simp: wizard_wire_def)

lemma wizard_wireI:
  "nm \<noteq> [] \<Longrightarrow> wizard_wire es (wire_of (api_createServer nm h ip None))"
  "e \<in> set es \<Longrightarrow> created_as i e \<Longrightarrow> wizard_wire es (token_request i nm)"
  "e \<in> set es \<Longrightarrow> created_as i e \<Longrightarrow> wizard_wire es (wire_of (api_managedServer i))"
  unfolding wizard_wire_def by blast+

lemma wizard_traced_step:
  assumes "wizard_traced es s"
    and "\<And>i. wz_created s' = Some i \<Longrightarrow> wz_created s = Some i \<or> created_as i e"
    and "wz_token s' \<noteq> [] \<Longrightarrow> wz_token s' = wz_token s \<or> mints (wz_token s') e"
    and "wz_status s' = Connected \<Longrightarrow> wz_status s = Connected \<or> reports_agent e"
    and "wz_poller s' \<Longrightarrow> has_server s'"
    and "set (pn_sent s') \<subseteq> set (pn_sent s) \<union> {w. wizard_wire (es @ [e]) w}"
  shows "wizard_traced (es @ [e]) s'"
  unfolding wizard_traced_def
proof (intro conjI allI impI ballI)
  note old = assms(1) [unfolded wizard_traced_def]
  show "has_server s'" if "wz_poller s'" using that by (rule assms(5))
  show "\<exists>f \<in> set (es @ [e]). created_as i f" if "wz_created s' = Some i" for i
    using assms(2) [OF that] old by auto
  show "\<exists>f \<in> set (es @ [e]). mints (wz_token s') f" if "wz_token s' \<noteq> []"
    using assms(3) [OF that] that old by auto
  show "\<exists>f \<in> set (es @ [e]). reports_agent f" if "wz_status s' = Connected"
    using assms(4) [OF that] old by auto
  show "wizard_wire (es @ [e]) w" if "w \<in> set (pn_sent s')" for w
    using assms(6) that old wizard_wire_mono by blast
qed

lemma proceed_sent:
  assumes "wizard_traced es s"
  shows "set (pn_sent (handleProceedToSetup s)) \<subseteq> set (pn_sent s) \<union> {w. wizard_wire (es @ [e]) w}"
proof -
  have "wizard_wire (es @ [e]) (token_request i nm)" if "wz_created s = Some i" for i nm
  proof -
    obtain f where "f \<in> set es" "created_as i f" using assms \<open>wz_created s = Some i\<close> unfolding wizard_traced_def by blast
    then show ?thesis by (intro wizard_wireI(2) [of f]) auto
  qed
  then show ?thesis
    by (auto simp: handleProceedToSetup_def Let_def wizard_frames intro: wizard_wireI(1))
qed

lemma token_answer_frame:
  "wz_created (token_answer r s) = wz_created s" "wz_status (token_answer r s) = wz_status s"
  "pn_sent (token_answer r s) = pn_sent s"
  "wz_token (token_answer r s) = wz_token s \<or> (\<exists>t. r = Inr t \<and> wz_token (token_answer r s) = t)"
  "wz_poller (token_answer r s) \<Longrightarrow> wz_poller s \<or> has_server s"
proof -
  show "wz_poller (token_answer r s) \<Longrightarrow> wz_poller s \<or> has_server s"
  proof (cases r)
    case (Inr t)
    assume "wz_poller (token_answer r s)"
    then have "wz_poller (setStep 3 (pn_change (if wz_mounted s then s\<lparr>wz_token := t\<rparr> else s)))"
      by (simp add: Inr token_answer_def proceed_end_def pn_free_def)
    from setStep_poller [OF this] show "wz_poller s \<or> has_server s"
      by (auto simp: pn_change_def has_server_def split: if_splits)
  qed (simp add: token_answer_def proceed_fail_def pn_defs)
qed (auto simp: token_answer_def proceed_end_def proceed_fail_def pn_defs split: sum.splits)

lemma created_answer_frame:
  "wz_created (created_answer nm (Inr i) s) = (if wz_mounted s then Some i else wz_created s)"
  "wz_token (created_answer nm r s) = wz_token s" "wz_status (created_answer nm r s) = wz_status s"
  "wz_created (created_answer nm (Inl x) s) = wz_created s" "wz_poller (created_answer nm (Inl x) s) = wz_poller s"
  "set (pn_sent (created_answer nm r s)) \<subseteq> set (pn_sent s) \<union> {token_request i nm | i. r = Inr i}"
  by (auto simp: created_answer_def proceed_end_def proceed_fail_def pn_defs split: sum.splits)

lemma created_answer_poller:
  assumes "wz_poller s \<Longrightarrow> has_server s" "wz_poller (created_answer nm (Inr i) s)"
  shows "has_server (created_answer nm (Inr i) s)"
proof (cases "i = 0")
  case True
  then have "wz_poller (setStep 3 (pn_change (setCreated 0 s)))"
    using assms(2) by (simp add: created_answer_def proceed_end_def pn_free_def)
  then have "wz_poller (pn_change (setCreated 0 s)) \<or> has_server (pn_change (setCreated 0 s))"
    by (rule setStep_poller)
  with True assms(1) show ?thesis
    by (auto simp: has_server_def created_answer_frame pn_change_def dest: setCreated_poller split: if_splits)
next
  case False
  then have "wz_poller (setCreated i s)" using assms(2) by (simp add: created_answer_def pn_request_def)
  with False assms(1) show ?thesis
    by (auto simp: has_server_def created_answer_frame dest: setCreated_poller)
qed

text \<open>The other steps send nothing and learn nothing.\<close>

fun quiet :: "wizard_event \<Rightarrow> bool" where
  "quiet (WzCreatedAnswer q r) \<longleftrightarrow> False"
| "quiet (WzTokenAnswer q r) \<longleftrightarrow> False"
| "quiet (WzPollAnswer q r) \<longleftrightarrow> False"
| "quiet WzProceed \<longleftrightarrow> False"
| "quiet WzPollTick \<longleftrightarrow> False"
| "quiet _ \<longleftrightarrow> True"

lemma quiet_step:
  assumes "wizard_step s e = Some s'" "quiet e"
  shows "wz_created s' = wz_created s \<and> wz_token s' = wz_token s \<and> pn_sent s' = pn_sent s
    \<and> (wz_status s' = Connected \<longrightarrow> wz_status s = Connected) \<and> (wz_poller s' \<longrightarrow> wz_poller s \<or> has_server s)"
proof (cases e)
  case WzVerify
  with assms setStep_poller [of 4 "s\<lparr>wz_status := Connecting, wz_seconds := 0\<rparr>"] show ?thesis
    by (auto simp: handleEnterStep4_def has_server_def split: if_splits)
qed (use assms in \<open>auto simp: wz_close_def pn_defs split: if_splits dest: setStep_poller\<close>)

lemma quiet_traced:
  assumes "wizard_traced es s" "wz_created s' = wz_created s \<and> wz_token s' = wz_token s \<and> pn_sent s' = pn_sent s
    \<and> (wz_status s' = Connected \<longrightarrow> wz_status s = Connected) \<and> (wz_poller s' \<longrightarrow> wz_poller s \<or> has_server s)"
  shows "wizard_traced (es @ [e]) s'"
  using assms by (intro wizard_traced_step [OF assms(1)]) (auto simp: wizard_traced_def has_server_def)

text \<open>The steps that send or learn something, one by one.\<close>

lemma traced_poller: "wizard_traced es s \<Longrightarrow> wz_poller s \<Longrightarrow> has_server s"
  by (simp add: wizard_traced_def)

lemma created_traced:
  assumes a: "wizard_traced es s"
  shows "wizard_traced (es @ [WzCreatedAnswer (WzCreate nm, w) r]) (created_answer nm r (pn_done (WzCreate nm, w) s))"
    (is "wizard_traced (es @ [?e]) ?s")
proof -
  have p: "wz_poller s \<Longrightarrow> has_server s" using a by (rule traced_poller)
  have "wizard_wire (es @ [?e]) (token_request i nm)" if "r = Inr i" for i
    using that by (intro wizard_wireI(2) [of ?e]) auto
  with created_answer_frame(6) [of nm r "pn_done (WzCreate nm, w) s"]
  have sent: "set (pn_sent ?s) \<subseteq> set (pn_sent s) \<union> {w. wizard_wire (es @ [?e]) w}" by (auto simp: pn_done_def)
  show ?thesis
  proof (cases r)
    case (Inl x)
    with p sent show ?thesis
      by (intro wizard_traced_step [OF a]) (simp_all add: created_answer_frame pn_done_def has_server_def)
  next
    case (Inr i)
    have "wz_poller ?s \<Longrightarrow> has_server ?s"
      using created_answer_poller [of "pn_done (WzCreate nm, w) s" nm i] p by (simp add: Inr pn_done_def has_server_def)
    with sent Inr show ?thesis
      by (intro wizard_traced_step [OF a]) (auto simp: created_answer_frame pn_done_def split: if_splits)
  qed
qed

lemma token_traced:
  assumes a: "wizard_traced es s"
  shows "wizard_traced (es @ [WzTokenAnswer q r]) (token_answer r (pn_done q s))"
proof (rule wizard_traced_step [OF a])
  show "wz_token (token_answer r (pn_done q s)) = wz_token s \<or> mints (wz_token (token_answer r (pn_done q s))) (WzTokenAnswer q r)"
    using token_answer_frame(4) [of r "pn_done q s"] by (auto simp: pn_done_def mints_answer)
  show "wz_poller (token_answer r (pn_done q s)) \<Longrightarrow> has_server (token_answer r (pn_done q s))"
    using token_answer_frame(5) [of r "pn_done q s"] traced_poller [OF a]
    by (auto simp: token_answer_frame(1) pn_done_def has_server_def)
qed (simp_all add: token_answer_frame(1-3) pn_done_def)

lemma poll_traced:
  assumes a: "wizard_traced es s"
  shows "wizard_traced (es @ [WzPollAnswer (WzPoll g, w) r]) (poll_answer g r (pn_done (WzPoll g, w) s))"
  using traced_poller [OF a] by (intro wizard_traced_step [OF a])
    (auto simp: pn_done_def has_server_def dest: poll_answer_effects)

lemma proceed_traced:
  assumes a: "wizard_traced es s"
  shows "wizard_traced (es @ [WzProceed]) (handleProceedToSetup s)"
proof -
  have "wz_created (handleProceedToSetup s) = wz_created s" "wz_token (handleProceedToSetup s) = wz_token s"
    "wz_status (handleProceedToSetup s) = wz_status s"
    by (simp_all add: handleProceedToSetup_def Let_def proceed_end_def pn_defs)
  moreover have "wz_poller (handleProceedToSetup s) \<Longrightarrow> has_server s"
    using traced_poller [OF a] setStep_poller [of 3 "pn_change s"]
    by (auto simp: handleProceedToSetup_def Let_def proceed_end_def pn_defs has_server_def split: if_splits)
  ultimately show ?thesis
    using proceed_sent [OF a] by (intro wizard_traced_step [OF a]) (auto simp: has_server_def)
qed

lemma wizard_step_traced:
  assumes a: "wizard_traced es s" "wizard_step s e = Some s'"
  shows "wizard_traced (es @ [e]) s'"
proof (cases e)
  case (WzCreatedAnswer q r)
  then obtain nm w where "q = (WzCreate nm, w)" "s' = created_answer nm r (pn_done q s)"
    using a(2) by (cases q) (auto split: wizard_op.splits if_splits)
  with WzCreatedAnswer created_traced [OF a(1)] show ?thesis by simp
next
  case (WzTokenAnswer q r)
  with a(2) token_traced [OF a(1), of q r] show ?thesis by (auto split: if_splits)
next
  case (WzPollAnswer q r)
  then obtain g w where "q = (WzPoll g, w)" "s' = poll_answer g r (pn_done q s)"
    using a(2) by (cases q) (auto split: wizard_op.splits if_splits)
  with WzPollAnswer poll_traced [OF a(1)] show ?thesis by simp
next
  case WzProceed
  with a(2) proceed_traced [OF a(1)] show ?thesis by (auto split: if_splits)
next
  case WzPollTick
  then have s': "s' = pn_request (WzPoll (wz_run s)) (wire_of (api_managedServer (the (wz_created s)))) s" "wz_poller s"
    using a(2) by (auto split: if_splits)
  then obtain i where "wz_created s = Some i" using traced_poller [OF a(1)] by (auto simp: has_server_def)
  with a(1) s' show ?thesis
    by (intro wizard_traced_step [OF a(1)]) (auto simp: wizard_traced_def pn_defs has_server_def intro: wizard_wireI)
qed (use a quiet_step [OF a(2)] in \<open>auto intro: quiet_traced\<close>)

interpretation showing: recorded_system wizard_step wizard_init wizard_traced
  by unfold_locales (simp add: wizard_traced_def wizard_init_def, rule wizard_step_traced)

text \<open>C17: however the wizard is used, closed, rendered again and answered, it registers at most one
  server; every token it asks for and every poll it sends is for a server it registered; the
  token in its command is one the backend minted; and it says that the server is connected only
  after a poll of the backend said so.\<close>

theorem wizard_sound:
  assumes "run wizard_step wizard_init es = Some s"
  shows "length (filter creates es) \<le> 1
         \<and> (\<forall>w \<in> set (pn_sent s). wizard_wire es w)
         \<and> (wz_token s \<noteq> [] \<longrightarrow> (\<exists>e \<in> set es. mints (wz_token s) e))
         \<and> (wz_status s = Connected \<longrightarrow> (\<exists>e \<in> set es. reports_agent e))"
  using creating.recorded [OF assms] showing.recorded [OF assms]
  unfolding create_once_def wizard_traced_def by blast

definition wizard_case :: "wizard_event list" where
  "wizard_case =
     [WzTypeName ''web'', WzToStep2, WzProceed,
      WzCreatedAnswer (WzCreate ''web'', wire_of (api_createServer ''web'' None None None)) (Inr 7),
      WzTokenAnswer (WzToken, token_request 7 ''web'') (Inr ''tok''), WzVerify]"

lemma wizard_case_run:
  "\<exists>s. run wizard_step wizard_init wizard_case = Some s \<and> wz_step s = 4 \<and> wz_token s = ''tok'' \<and> wz_created s = Some 7
     \<and> wz_timeout s \<and> wz_mounted s \<and> wz_status s = Connecting \<and> pn_open s = []"
proof -
  have "js_trim ''web'' = ''web''" "js_trim [] = []" by (simp_all add: js_eval)
  then show ?thesis
    by (simp add: wizard_case_def wizard_init_def handleProceedToSetup_def created_answer_def token_answer_def proceed_end_def
        handleEnterStep4_def setStep_def setCreated_def wz_effect_def has_server_def some_text_def pn_defs Let_def)
qed

theorem wizard_sound_witness:
  "\<exists>s. run wizard_step wizard_init wizard_case = Some s \<and> wz_token s = ''tok'' \<and> (\<exists>e \<in> set wizard_case. mints ''tok'' e)"
proof -
  obtain s where s: "run wizard_step wizard_init wizard_case = Some s" "wz_token s = ''tok''"
    using wizard_case_run by blast
  with wizard_sound [OF s(1)] show ?thesis by auto
qed

section \<open>Listening again\<close>

text \<open>The state after the time-out: nothing polls, and the effect does not start again.\<close>

definition deaf :: "wizard \<Rightarrow> bool" where
  "deaf s \<longleftrightarrow> wz_mounted s \<and> wz_step s = 4 \<and> \<not> wz_poller s \<and> \<not> wz_timer s \<and> \<not> wz_timeout s
     \<and> wz_status s = Connecting \<and> pn_open s = []"

lemma deaf_step:
  assumes "deaf s" "wizard_step s e = Some s'" "e \<noteq> WzParentRender" "e \<noteq> WzClose"
  shows "deaf s' \<and> pn_sent s' = pn_sent s"
  using assms by (cases e) (simp_all add: deaf_def split: if_splits wizard_op.splits, auto)

lemma deaf_run:
  "deaf s \<Longrightarrow> run wizard_step s fs = Some s' \<Longrightarrow> WzParentRender \<notin> set fs \<Longrightarrow> WzClose \<notin> set fs
    \<Longrightarrow> deaf s' \<and> pn_sent s' = pn_sent s"
proof (induction fs arbitrary: s)
  case (Cons e fs)
  then obtain t where "wizard_step s e = Some t" "run wizard_step t fs = Some s'" by (auto split: option.splits)
  with Cons deaf_step [of s e t] show ?case by auto
qed simp

text \<open>The button \<open>Retry Listening\<close> does not listen. When the time is up and no poll is in flight,
  pressing it shows the waiting page again, but nothing polls: until the page renders the
  wizard anew or the wizard is closed it sends no request and never leaves the waiting page,
  whatever happens and even if the agent connects.\<close>

lemma retry_is_deaf:
  assumes "run wizard_step wizard_init es = Some s" and "wz_step s = 4" and "wz_mounted s"
    and "pn_open s = []" and "wz_timeout s" and "wz_status s \<noteq> Connected"
    and "run wizard_step s (WzTimeout # WzRetry # fs) = Some t"
    and "WzParentRender \<notin> set fs" and "WzClose \<notin> set fs"
  shows "wz_status t = Connecting \<and> pn_sent t = pn_sent s"
proof -
  obtain u where u: "run wizard_step s [WzTimeout, WzRetry] = Some u" "run wizard_step u fs = Some t"
    using assms(7) by (auto split: option.splits)
  then have "deaf u" "pn_sent u = pn_sent s" using assms(2-6) by (auto simp: deaf_def split: if_splits)
  with deaf_run [OF _ u(2) assms(8,9)] show ?thesis by (simp add: deaf_def)
qed

section \<open>Access\<close>

text \<open>The wizard does not look at the role: an operator may register a server but not mint its
  token, so the second request of the wizard is always refused.\<close>

lemma wizard_operator:
  "permitted Operator (wire_of (api_createServer nm h ip None))" "\<not> permitted Operator (token_request i nm)"
  by (simp_all add: token_request_def call_roles)

end
