(* ===== verification/Page_Charts.thy ===== *)
theory Page_Charts
  imports Web_Api Format "HOL-Library.AList"
begin

text \<open>
  The charts and figures of the monitoring pages: the gap-aware chart and the metric chart of
  \<open>client/src/features/dashboard/ServerDetailPage.tsx\<close>, the chart, the rates and the size
  formatters of \<open>TelemetryPage.tsx\<close> and the chart of \<open>MonitoringPage.tsx\<close>. A chart is the list
  of its integer points; its SVG text is printed from them.
\<close>

named_theorems chart_defs \<open>the charts of the pages\<close>

section \<open>Points\<close>

text \<open>\<open>Math.max(...vals, 1)\<close>.\<close>

definition max_one :: "rat list \<Rightarrow> rat" where
  "max_one vs = foldr max vs 1"

text \<open>\<open>Math.round(H - base - (Math.min(v, hi) / hi) * (H - inner))\<close>.\<close>

definition chart_y :: "rat \<Rightarrow> rat \<Rightarrow> rat \<Rightarrow> rat \<Rightarrow> rat \<Rightarrow> int" where
  "chart_y H base inner hi v = js_round (H - base - (min v hi / hi) * (H - inner))"

definition point_text :: "int \<times> int \<Rightarrow> string" where
  "point_text p = int_str (fst p) @ CHR '','' # int_str (snd p)"

definition line_text :: "(int \<times> int) list \<Rightarrow> string" where
  "line_text ps = join_with (CHR '' '') (map point_text ps)"

text \<open>The evenly spaced line of the metric, telemetry and monitoring charts.\<close>

definition line_points :: "rat \<Rightarrow> rat \<Rightarrow> rat \<Rightarrow> rat \<Rightarrow> rat \<Rightarrow> rat list \<Rightarrow> (int \<times> int) list" where
  "line_points W H base inner hi vs =
     (let st = (if length vs > 1 then W / of_nat (length vs - 1) else 0)
      in map (\<lambda>(i, v). (js_round (of_nat i * st), chart_y H base inner hi v)) (enumerate 0 vs))"

definition metric_line :: "(ServerMetricPoint \<Rightarrow> rat) \<Rightarrow> ServerMetricPoint list \<Rightarrow> (int \<times> int) list" where
  [chart_defs]: "metric_line val ps = line_points 560 120 10 20 (max_one (map val ps)) (map val ps)"

definition svg_line :: "rat list \<Rightarrow> (int \<times> int) list" where
  [chart_defs]: "svg_line vs = line_points 560 112 8 16 (max_one vs) vs"

text \<open>The scale of a telemetry chart covers both of its lines.\<close>

definition telemetry_hi :: "(rat list \<Rightarrow> rat) \<Rightarrow> rat list \<Rightarrow> rat list option \<Rightarrow> rat" where
  "telemetry_hi mx vs vs2 = max (mx vs) (max_one (vs @ (case vs2 of None \<Rightarrow> [] | Some us \<Rightarrow> us)))"

definition telemetry_line :: "rat \<Rightarrow> rat list \<Rightarrow> (int \<times> int) list" where
  [chart_defs]: "telemetry_line hi vs = line_points 560 140 12 28 hi vs"

definition closed_area :: "nat \<Rightarrow> string \<Rightarrow> string" where
  "closed_area H line = ''0,'' @ nat_str H @ '' '' @ line @ '' 560,'' @ nat_str H"

section \<open>The gap-aware chart\<close>

definition put_point :: "ServerPromPoint \<Rightarrow> (rat \<times> rat option) list \<Rightarrow> (rat \<times> rat option) list" where
  "put_point p m =
     (if map_of m (serverPromPoint_timestamp p) = None \<or> serverPromPoint_value p \<noteq> None
      then AList.update (serverPromPoint_timestamp p) (serverPromPoint_value p) m else m)"

definition byTime :: "ServerPromSeries list \<Rightarrow> (rat \<times> rat option) list" where
  "byTime series = fold put_point (concat (map serverPromSeries_values series)) []"

definition prom_times :: "ServerPromSeries list \<Rightarrow> rat list" where
  "prom_times series = sort (map fst (byTime series))"

definition prom_values :: "ServerPromSeries list \<Rightarrow> rat option list" where
  "prom_values series = map (\<lambda>t. case map_of (byTime series) t of None \<Rightarrow> None | Some v \<Rightarrow> v) (prom_times series)"

definition prom_valid :: "ServerPromSeries list \<Rightarrow> rat list" where
  "prom_valid series = List.map_filter (\<lambda>v. v) (prom_values series)"

definition prom_hi :: "rat option \<Rightarrow> ServerPromSeries list \<Rightarrow> rat" where
  "prom_hi fixedMax series = (case fixedMax of Some m \<Rightarrow> m | None \<Rightarrow> max_one (prom_valid series))"

definition prom_x :: "ServerPromSeries list \<Rightarrow> rat \<Rightarrow> int" where
  "prom_x series t =
     (let ts = prom_times series; t0 = hd ts; t1 = last ts
      in if t1 > t0 then js_round ((t - t0) / (t1 - t0) * 560) else 0)"

text \<open>The points in the order of time, none where the value is missing.\<close>

definition prom_points :: "rat option \<Rightarrow> ServerPromSeries list \<Rightarrow> (int \<times> int) option list" where
  "prom_points fixedMax series =
     map2 (\<lambda>t v. map_option (\<lambda>v. (prom_x series t, chart_y 120 10 20 (prom_hi fixedMax series) v)) v)
       (prom_times series) (prom_values series)"

definition flush :: "'a list list \<times> 'a list \<Rightarrow> 'a list list \<times> 'a list" where
  "flush st =
     ((if length (snd st) > 1 then fst st @ [snd st]
       else if length (snd st) = 1 then fst st @ [[hd (snd st), hd (snd st)]] else fst st), [])"

definition plot_step :: "'a list list \<times> 'a list \<Rightarrow> 'a option \<Rightarrow> 'a list list \<times> 'a list" where
  "plot_step st v = (case v of None \<Rightarrow> flush st | Some p \<Rightarrow> (fst st, snd st @ [p]))"

definition prom_segments :: "'a option list \<Rightarrow> 'a list list" where
  "prom_segments vs = fst (flush (foldl plot_step ([], []) vs))"

text \<open>The area under a segment, from the text of the segment.\<close>

definition prom_area :: "string \<Rightarrow> string" where
  "prom_area pts =
     (let x0 = hd (js_split (CHR '','') (hd (js_split (CHR '' '') pts)));
          x1 = hd (js_split (CHR '','') (last (js_split (CHR '' '') pts)))
      in x0 @ '',120 '' @ pts @ '' '' @ x1 @ '',120'')"

subsection \<open>What a chart with gaps is\<close>

text \<open>The runs of values between the gaps.\<close>

inductive gap_runs :: "'a option list \<Rightarrow> 'a list list \<Rightarrow> bool" where
  empty: "gap_runs [] []"
| gap: "gap_runs vs rs \<Longrightarrow> gap_runs (None # vs) rs"
| run: "gap_runs vs rs \<Longrightarrow> r \<noteq> [] \<Longrightarrow> vs = [] \<or> hd vs = None \<Longrightarrow> gap_runs (map Some r @ vs) (r # rs)"

text \<open>A single value is drawn as a line from the point to itself.\<close>

definition widen :: "'a list \<Rightarrow> 'a list" where
  "widen r = (if length r = 1 then [hd r, hd r] else r)"

lemma plot_step_simps [simp]: "plot_step st None = flush st" "plot_step st (Some p) = (fst st, snd st @ [p])"
  by (simp_all add: plot_step_def)

lemma segments_from:
  "\<exists>rs. gap_runs (map Some cur @ vs) rs \<and> fst (flush (foldl plot_step (segs, cur) vs)) = segs @ map widen rs"
proof (induction vs arbitrary: segs cur)
  case Nil
  show ?case
  proof (cases "cur = []")
    case True
    then show ?thesis by (auto simp: flush_def intro: gap_runs.empty)
  next
    case False
    then have "length cur > 1 \<or> length cur = 1" by (cases cur) auto
    with False show ?thesis
      using gap_runs.run [OF gap_runs.empty, of cur] by (auto simp: flush_def widen_def)
  qed
next
  case (Cons v vs)
  show ?case
  proof (cases v)
    case None
    obtain rs where rs: "gap_runs vs rs"
      "fst (flush (foldl plot_step (fst (flush (segs, cur)), []) vs)) = fst (flush (segs, cur)) @ map widen rs"
      using Cons.IH [of "[]" "fst (flush (segs, cur))"] by auto
    have fl: "flush (segs, cur) = (fst (flush (segs, cur)), [])" by (simp add: flush_def)
    have cur: "cur = [] \<or> length cur > 1 \<or> length cur = 1" by (cases cur) auto
    have "gap_runs (map Some cur @ None # vs) (if cur = [] then rs else cur # rs)"
      using gap_runs.gap [OF rs(1)] gap_runs.run [of "None # vs" rs cur] by auto
    moreover have "fst (flush (segs, cur)) @ map widen rs = segs @ map widen (if cur = [] then rs else cur # rs)"
      using cur by (auto simp: flush_def widen_def)
    ultimately show ?thesis using None rs(2) fl by auto
  next
    case (Some p)
    then show ?thesis using Cons.IH [of "cur @ [p]" segs] by simp
  qed
qed

lemma segments_are_runs: "\<exists>rs. gap_runs vs rs \<and> prom_segments vs = map widen rs"
  using segments_from [of "[]" vs "[]"] by (simp add: prom_segments_def)

inductive_cases gap_runs_Nil: "gap_runs [] rs"
inductive_cases gap_runs_None: "gap_runs (None # vs) rs"
inductive_cases gap_runs_Some: "gap_runs (Some v # vs) rs"

lemma gap_runs_all:
  "gap_runs vs rs \<Longrightarrow> concat rs = List.map_filter (\<lambda>v. v) vs \<and> [] \<notin> set rs"
  by (induction rule: gap_runs.induct) (auto simp: List.map_filter_def comp_def)

lemma map_Some_prefix_eq:
  assumes "map Some r @ vs = map Some q @ ws" "vs = [] \<or> hd vs = None" "ws = [] \<or> hd ws = None"
  shows "r = q \<and> vs = ws"
  using assms
proof (induction r arbitrary: q)
  case Nil
  then show ?case by (cases q) auto
next
  case (Cons a r)
  then show ?case by (cases q) auto
qed

text \<open>The runs are determined by the values.\<close>

lemma gap_runs_unique: "gap_runs vs rs \<Longrightarrow> gap_runs vs qs \<Longrightarrow> qs = rs"
proof (induction arbitrary: qs rule: gap_runs.induct)
  case empty
  then show ?case by (auto elim: gap_runs_Nil)
next
  case (gap vs rs)
  from gap.prems show ?case
  proof (cases rule: gap_runs.cases)
    case (run ws ss r)
    then show ?thesis by (cases r) auto
  qed (use gap.IH in auto)
next
  case (run vs rs r)
  from run.prems show ?case
  proof (cases rule: gap_runs.cases)
    case (run ws ss q)
    with run.hyps map_Some_prefix_eq [of r vs q ws] run.IH show ?thesis by auto
  qed (use run.hyps in \<open>auto simp: Cons_eq_append_conv append_eq_Cons_conv\<close>)
qed

subsection \<open>Merging the series\<close>

definition latest :: "ServerPromPoint list \<Rightarrow> rat \<Rightarrow> rat option" where
  "latest ps t =
     (let vs = filter (\<lambda>p. serverPromPoint_timestamp p = t \<and> serverPromPoint_value p \<noteq> None) ps
      in if vs = [] then None else serverPromPoint_value (last vs))"

lemma put_point_keys: "distinct (map fst m) \<Longrightarrow> distinct (map fst (put_point p m))"
  by (simp add: put_point_def distinct_update)

lemma put_point_lookup:
  "map_of (put_point p m) t
     = (if t = serverPromPoint_timestamp p \<and> (map_of m t = None \<or> serverPromPoint_value p \<noteq> None)
        then Some (serverPromPoint_value p) else map_of m t)"
  by (auto simp: put_point_def update_conv')

lemma latest_snoc:
  "latest (ps @ [p]) t
     = (if serverPromPoint_timestamp p = t \<and> serverPromPoint_value p \<noteq> None then serverPromPoint_value p else latest ps t)"
  by (simp add: latest_def Let_def)

lemma latest_absent: "t \<notin> serverPromPoint_timestamp ` set ps \<Longrightarrow> latest ps t = None"
  by (auto simp: latest_def Let_def filter_empty_conv)

lemma merged_keys: "distinct (map fst (fold put_point ps []))"
  by (induction ps rule: rev_induct) (simp_all add: put_point_keys)

lemma merged_points:
  "map_of (fold put_point ps []) t
     = (if t \<in> serverPromPoint_timestamp ` set ps then Some (latest ps t) else None)"
proof (induction ps rule: rev_induct)
  case (snoc p ps)
  then show ?case by (auto simp: put_point_lookup latest_snoc latest_absent)
qed simp

definition all_points :: "ServerPromSeries list \<Rightarrow> ServerPromPoint list" where
  "all_points series = concat (map serverPromSeries_values series)"

lemma byTime_lookup:
  "map_of (byTime series) t
     = (if t \<in> serverPromPoint_timestamp ` set (all_points series) then Some (latest (all_points series) t) else None)"
  using merged_points [of "all_points series" t] by (simp add: byTime_def all_points_def)

lemma prom_times_exact:
  "sorted_wrt (<) (prom_times series)" "set (prom_times series) = serverPromPoint_timestamp ` set (all_points series)"
proof -
  have "distinct (map fst (byTime series))"
    by (simp add: byTime_def merged_keys)
  then show "sorted_wrt (<) (prom_times series)"
    by (simp add: prom_times_def strict_sorted_iff)
  have "set (map fst (byTime series)) = dom (map_of (byTime series))" by (simp add: dom_map_of_conv_image_fst)
  then show "set (prom_times series) = serverPromPoint_timestamp ` set (all_points series)"
    by (auto simp: prom_times_def byTime_lookup dom_def split: if_splits)
qed

lemma latest_None: "latest ps t = None \<longleftrightarrow> (\<forall>p \<in> set ps. serverPromPoint_timestamp p = t \<longrightarrow> serverPromPoint_value p = None)"
proof -
  let ?vs = "filter (\<lambda>p. serverPromPoint_timestamp p = t \<and> serverPromPoint_value p \<noteq> None) ps"
  have "?vs \<noteq> [] \<Longrightarrow> serverPromPoint_value (last ?vs) \<noteq> None"
    using last_in_set [of ?vs] by simp
  then have "latest ps t = None \<longleftrightarrow> ?vs = []" by (auto simp: latest_def Let_def)
  then show ?thesis by (auto simp: filter_empty_conv)
qed

lemma prom_values_latest: "prom_values series = map (latest (all_points series)) (prom_times series)"
  using prom_times_exact(2) [of series] by (auto simp: prom_values_def byTime_lookup)

text \<open>C23: the chart of a Prometheus history draws every measured value and nothing else. Its times
  are the timestamps of the series, each once and in order; a time is a gap exactly when no
  series has a value there; and the lines drawn are exactly the runs of values between the
  gaps, which are determined by the points, so no line crosses a gap.\<close>

theorem prom_chart_gaps:
  "sorted_wrt (<) (prom_times series)
   \<and> set (prom_times series) = serverPromPoint_timestamp ` set (all_points series)
   \<and> (\<forall>i < length (prom_times series). prom_points fixedMax series ! i = None
        \<longleftrightarrow> (\<forall>p \<in> set (all_points series). serverPromPoint_timestamp p = prom_times series ! i \<longrightarrow> serverPromPoint_value p = None))
   \<and> (\<exists>rs. gap_runs (prom_points fixedMax series) rs
        \<and> (\<forall>qs. gap_runs (prom_points fixedMax series) qs \<longrightarrow> qs = rs)
        \<and> prom_segments (prom_points fixedMax series) = map widen rs)"
proof (intro conjI)
  show "\<forall>i < length (prom_times series). prom_points fixedMax series ! i = None
        \<longleftrightarrow> (\<forall>p \<in> set (all_points series). serverPromPoint_timestamp p = prom_times series ! i \<longrightarrow> serverPromPoint_value p = None)"
    by (simp add: prom_points_def prom_values_latest latest_None)
  show "\<exists>rs. gap_runs (prom_points fixedMax series) rs
        \<and> (\<forall>qs. gap_runs (prom_points fixedMax series) qs \<longrightarrow> qs = rs)
        \<and> prom_segments (prom_points fixedMax series) = map widen rs"
    using segments_are_runs [of "prom_points fixedMax series"] gap_runs_unique by metis
qed (rule prom_times_exact)+

theorem prom_chart_gaps_witness:
  "let p = (\<lambda>t v. \<lparr>serverPromPoint_timestamp = t, serverPromPoint_value = v\<rparr>);
       series = [\<lparr>serverPromSeries_name = ''a'', serverPromSeries_values = [p 0 (Some 50), p 10 None, p 20 (Some 100)]\<rparr>]
   in prom_segments (prom_points (Some 100) series) = [[(0, 60), (0, 60)], [(560, 10), (560, 10)]]
      \<and> gap_runs (prom_points (Some 100) series) [[(0, 60)], [(560, 10)]]"
proof -
  define p where "p = (\<lambda>t v. \<lparr>serverPromPoint_timestamp = t, serverPromPoint_value = v\<rparr>)"
  define series where
    "series = [\<lparr>serverPromSeries_name = ''a'', serverPromSeries_values = [p 0 (Some 50), p 10 None, p 20 (Some 100)]\<rparr>]"
  have pts: "prom_points (Some 100) series = [Some (0, 60), None, Some (560, 10)]"
    by (simp add: series_def p_def prom_points_def prom_values_def prom_times_def byTime_def put_point_def
        prom_x_def prom_hi_def chart_y_def js_round_def floor_eq_iff)
  then have runs: "gap_runs (prom_points (Some 100) series) [[(0, 60)], [(560, 10)]]"
    using gap_runs.run [OF gap_runs.gap [OF gap_runs.run [OF gap_runs.empty, of "[(560, 10)]"]], of "[(0, 60)]"] by simp
  obtain rs where "\<And>qs. gap_runs (prom_points (Some 100) series) qs \<Longrightarrow> qs = rs"
    "prom_segments (prom_points (Some 100) series) = map widen rs"
    using prom_chart_gaps [of series "Some 100"] by blast
  with runs have "prom_segments (prom_points (Some 100) series) = map widen [[(0, 60)], [(560, 10)]]" by metis
  with runs show ?thesis
    unfolding Let_def p_def [symmetric] series_def [symmetric] by (simp add: widen_def)
qed

text \<open>The area under a segment is the segment closed along the base line below its first and
  last point.\<close>

lemma join_with_snoc: "ps \<noteq> [] \<Longrightarrow> join_with c (ps @ [p]) = join_with c ps @ c # p"
  by (induction c ps rule: join_with.induct) auto

lemma join_with_Cons: "ps \<noteq> [] \<Longrightarrow> join_with c (p # ps) = p @ c # join_with c ps"
  by (cases ps) auto

lemma point_text_plain: "CHR '' '' \<notin> set (point_text p)" "js_split (CHR '','') (point_text p) = [int_str (fst p), int_str (snd p)]"
proof -
  have no: "CHR '' '' \<notin> set (int_str i)" "CHR '','' \<notin> set (int_str i)" for i
    using int_str_chars [of "CHR '' ''" i] int_str_chars [of "CHR '',''" i] by (auto simp: is_digit_char_def)
  then show "CHR '' '' \<notin> set (point_text p)" by (simp add: point_text_def)
  show "js_split (CHR '','') (point_text p) = [int_str (fst p), int_str (snd p)]"
    by (simp add: point_text_def js_split_append_sep js_split_no_sep no)
qed

lemma prom_area_closed:
  assumes "seg \<noteq> []"
  shows "prom_area (line_text seg) = line_text ((fst (hd seg), 120) # seg @ [(fst (last seg), 120)])"
proof -
  have "js_split (CHR '' '') (line_text seg) = map point_text seg"
    unfolding line_text_def using assms by (intro js_split_join) (auto simp: point_text_plain)
  moreover have "int_str 120 = ''120''" by (simp add: int_str_def nat_str.simps digit_char_def char_of_def bit_0)
  ultimately show ?thesis
    using assms
    by (simp add: prom_area_def Let_def hd_map last_map point_text_plain line_text_def join_with_Cons join_with_snoc)
       (simp add: point_text_def)
qed

section \<open>Charts stay in their frame\<close>

lemma js_round_bounds: "of_int a \<le> q \<Longrightarrow> q \<le> of_int b \<Longrightarrow> a \<le> js_round q \<and> js_round q \<le> b"
proof
  assume a: "of_int a \<le> q" and b: "q \<le> of_int b"
  show "a \<le> js_round q" unfolding js_round_def le_floor_iff using a by simp
  have "q + 1 / 2 < of_int b + 1" using b by simp
  then show "js_round q \<le> b" unfolding js_round_def floor_le_iff by simp
qed

lemma js_round_share: "0 \<le> k \<Longrightarrow> k \<le> 1 \<Longrightarrow> 0 \<le> js_round (k * 560) \<and> js_round (k * 560) \<le> 560"
  by (rule js_round_bounds) auto

lemma max_one_ge: "1 \<le> max_one vs" "v \<in> set vs \<Longrightarrow> v \<le> max_one vs"
  by (induction vs) (auto simp: max_one_def le_max_iff_disj)

lemma chart_y_frame:
  assumes "0 \<le> v" "0 < hi" "inner \<le> H" "of_int lo = inner - base" "of_int up = H - base"
  shows "lo \<le> chart_y H base inner hi v \<and> chart_y H base inner hi v \<le> up"
proof -
  let ?k = "min v hi / hi"
  have k: "0 \<le> ?k" "?k \<le> 1" using assms(1,2) by (auto simp: min_def divide_le_eq)
  have "0 \<le> ?k * (H - inner)" using k(1) assms(3) by (intro mult_nonneg_nonneg) auto
  moreover have "?k * (H - inner) \<le> 1 * (H - inner)" using k(2) assms(3) by (intro mult_right_mono) auto
  ultimately have "inner - base \<le> H - base - ?k * (H - inner)" "H - base - ?k * (H - inner) \<le> H - base" by auto
  then show ?thesis
    unfolding chart_y_def using assms(4,5) by (intro js_round_bounds) simp_all
qed

lemma line_points_frame:
  assumes "(x, y) \<in> set (line_points W H base inner hi vs)" "\<forall>v \<in> set vs. 0 \<le> v" "0 < hi" "0 \<le> W" "inner \<le> H"
    and "of_int w = W" "of_int lo = inner - base" "of_int up = H - base"
  shows "0 \<le> x \<and> x \<le> w \<and> lo \<le> y \<and> y \<le> up"
proof -
  let ?st = "if length vs > 1 then W / of_nat (length vs - 1) else 0"
  from assms(1) obtain i where i: "i < length vs" "x = js_round (of_nat i * ?st)" "y = chart_y H base inner hi (vs ! i)"
    by (auto simp: line_points_def Let_def in_set_enumerate_eq)
  have "0 \<le> of_nat i * ?st" using assms(4) by simp
  moreover have "of_nat i * ?st \<le> W"
  proof (cases "length vs > 1")
    case True
    have "of_nat i \<le> (of_nat (length vs - 1) :: rat)" using i(1) by simp
    with True assms(4) have "of_nat i * W \<le> of_nat (length vs - 1) * W" by (intro mult_right_mono)
    with True show ?thesis by (simp add: divide_le_eq mult.commute)
  qed (use assms(4) in simp)
  ultimately have "0 \<le> x \<and> x \<le> w" using i(2) assms(6) js_round_bounds [of 0 "of_nat i * ?st" w] by simp
  moreover have "lo \<le> y \<and> y \<le> up"
    unfolding i(3) using assms i(1) by (intro chart_y_frame) auto
  ultimately show ?thesis by simp
qed

lemma prom_x_frame:
  assumes "t \<in> set (prom_times series)"
  shows "0 \<le> prom_x series t \<and> prom_x series t \<le> 560"
proof -
  let ?ts = "prom_times series" and ?d = "last (prom_times series) - hd (prom_times series)"
  have s: "sorted ?ts" "?ts \<noteq> []" using assms by (auto simp: prom_times_def simp del: set_sort)
  from s assms have le: "hd ?ts \<le> t" "t \<le> last ?ts"
    by (auto simp: in_set_conv_nth hd_conv_nth last_conv_nth intro: sorted_nth_mono)
  show ?thesis
  proof (cases "?d > 0")
    case True
    then have "0 \<le> (t - hd ?ts) / ?d" "(t - hd ?ts) / ?d \<le> 1" using le by (auto simp: divide_le_eq)
    then have "0 \<le> js_round ((t - hd ?ts) / ?d * 560) \<and> js_round ((t - hd ?ts) / ?d * 560) \<le> 560"
      by (rule js_round_share)
    with True show ?thesis by (simp add: prom_x_def Let_def)
  next
    case False
    then show ?thesis by (simp add: prom_x_def Let_def)
  qed
qed

lemma prom_points_frame:
  assumes "Some (x, y) \<in> set (prom_points fixedMax series)" "\<forall>v \<in> set (prom_valid series). 0 \<le> v"
    "\<forall>m. fixedMax = Some m \<longrightarrow> 0 < m"
  shows "0 \<le> x \<and> x \<le> 560 \<and> 10 \<le> y \<and> y \<le> 110"
proof -
  from assms(1) obtain t u where tu: "(t, u) \<in> set (zip (prom_times series) (prom_values series))"
    "Some (x, y) = map_option (\<lambda>v. (prom_x series t, chart_y 120 10 20 (prom_hi fixedMax series) v)) u"
    by (auto simp: prom_points_def)
  then obtain v where tv: "t \<in> set (prom_times series)" "Some v \<in> set (prom_values series)"
    "x = prom_x series t" "y = chart_y 120 10 20 (prom_hi fixedMax series) v"
    by (cases u) (auto dest: set_zip_leftD set_zip_rightD)
  from tv(2) have "v \<in> set (prom_valid series)"
    by (force simp: prom_valid_def List.map_filter_def)
  with assms(2) have "0 \<le> v" by blast
  moreover have "0 < prom_hi fixedMax series"
    using assms(3) max_one_ge(1) [of "prom_valid series"] by (auto simp: prom_hi_def split: option.split)
  ultimately have "10 \<le> y \<and> y \<le> 110" unfolding tv(4) by (intro chart_y_frame) auto
  with prom_x_frame [OF tv(1)] tv(3) show ?thesis by simp
qed



section \<open>Rates\<close>

definition rates :: "(TelemetryPoint \<Rightarrow> rat) \<Rightarrow> TelemetryPoint list \<Rightarrow> rat list" where
  "rates key ps =
     map (\<lambda>i. if i = 0 then 0
              else let dt = max 1 (of_int (telemetryPoint_ts (ps ! i)) - of_int (telemetryPoint_ts (ps ! (i - 1))));
                       dv = max 0 (key (ps ! i) - key (ps ! (i - 1)))
                   in dv / dt / 1024)
       [0..<length ps]"

text \<open>The four rates of the page.\<close>

record RichPoint =
  rich_point :: TelemetryPoint
  rich_rx :: rat
  rich_tx :: rat
  rich_rd :: rat
  rich_wr :: rat

definition rich :: "TelemetryPoint list \<Rightarrow> RichPoint list" where
  "rich ps =
     map (\<lambda>i. \<lparr>rich_point = ps ! i, rich_rx = rates telemetryPoint_netRx ps ! i, rich_tx = rates telemetryPoint_netTx ps ! i,
               rich_rd = rates telemetryPoint_diskRead ps ! i, rich_wr = rates telemetryPoint_diskWrite ps ! i\<rparr>)
       [0..<length ps]"

lemma rates_nonneg: "r \<in> set (rates key ps) \<Longrightarrow> 0 \<le> r"
  by (auto simp: rates_def Let_def)

text \<open>On samples at least a second apart and a counter that is never reset the rates account for
  all of the traffic: weighted by the time they cover they add up to the counter's growth.\<close>

lemma rates_account:
  assumes "\<forall>i < length ps - 1. telemetryPoint_ts (ps ! i) + 1 \<le> telemetryPoint_ts (ps ! Suc i) \<and> key (ps ! i) \<le> key (ps ! Suc i)"
    and "n < length ps"
  shows "(\<Sum>i \<in> {1..n}. rates key ps ! i * 1024 * of_int (telemetryPoint_ts (ps ! i) - telemetryPoint_ts (ps ! (i - 1))))
    = key (ps ! n) - key (ps ! 0)"
  using assms(2)
proof (induction n)
  case (Suc n)
  have d: "telemetryPoint_ts (ps ! n) + 1 \<le> telemetryPoint_ts (ps ! Suc n)" "key (ps ! n) \<le> key (ps ! Suc n)"
    using assms(1) Suc.prems by auto
  define dt :: rat where "dt = of_int (telemetryPoint_ts (ps ! Suc n) - telemetryPoint_ts (ps ! n))"
  define dv where "dv = key (ps ! Suc n) - key (ps ! n)"
  have "(1 :: rat) \<le> dt" using d(1) unfolding dt_def of_int_1_le_iff by simp
  then have "rates key ps ! Suc n = dv / dt / 1024"
    using d(2) Suc.prems by (simp add: rates_def Let_def max_def dt_def dv_def)
  then have "rates key ps ! Suc n * 1024 * dt = dv" using \<open>1 \<le> dt\<close> by simp
  then have "rates key ps ! Suc n * 1024 * of_int (telemetryPoint_ts (ps ! Suc n) - telemetryPoint_ts (ps ! n)) = dv"
    by (simp only: dt_def)
  with Suc show ?case by (simp add: dv_def)
qed simp

section \<open>Sizes\<close>

definition fmtGB :: "rat \<Rightarrow> string" where
  "fmtGB gb =
     (if gb < 0 then em_dash else if gb < 1 then int_str (js_round (gb * 1024)) @ '' MB''
      else toFixed_rat 1 gb @ '' GB'')"

definition fmtBytesTotal :: "rat \<Rightarrow> string" where
  "fmtBytesTotal b =
     (if b = 0 \<or> b < 0 then ''0 B''
      else if b < 1024 then int_str (js_round b) @ '' B''
      else if b < 1024 * 1024 then toFixed_rat 1 (b / 1024) @ '' KB''
      else if b < 1024 * 1024 * 1024 then toFixed_rat 1 (b / 1024 / 1024) @ '' MB''
      else toFixed_rat 1 (b / 1024 / 1024 / 1024) @ '' GB'')"

definition fmtSize :: "rat \<Rightarrow> string" where
  "fmtSize mb =
     (if mb < 0 then em_dash
      else if mb < 1 then int_str (js_round (mb * 1024)) @ '' KB''
      else if mb < 1024 then toFixed_rat 0 mb @ '' MB''
      else if mb / 1024 < 1024 then toFixed_rat 1 (mb / 1024) @ '' GB''
      else toFixed_rat 1 (mb / 1024 / 1024) @ '' TB'')"

text \<open>The bar of an application's share of the disk.\<close>

definition app_bar :: "AppUsage list \<Rightarrow> AppUsage \<Rightarrow> int" where
  "app_bar apps a =
     max (if appUsage_bytesMB a > 0 then 1 else 0)
       (js_round (appUsage_bytesMB a / max_one (map appUsage_bytesMB apps) * 10))"

lemma app_bar_in_range:
  assumes "a \<in> set apps" "0 \<le> appUsage_bytesMB a"
  shows "0 \<le> app_bar apps a \<and> app_bar apps a \<le> 10 \<and> (0 < appUsage_bytesMB a \<longrightarrow> 1 \<le> app_bar apps a)"
proof -
  let ?t = "max_one (map appUsage_bytesMB apps)"
  have "0 < ?t" "appUsage_bytesMB a \<le> ?t"
    using max_one_ge(1) [of "map appUsage_bytesMB apps"] max_one_ge(2) assms(1) by auto
  then have "0 \<le> appUsage_bytesMB a / ?t * 10" "appUsage_bytesMB a / ?t * 10 \<le> 10"
    using assms(2) by (auto simp: divide_le_eq)
  then have "js_round (appUsage_bytesMB a / ?t * 10) \<le> 10"
    using js_round_bounds [of 0 "appUsage_bytesMB a / ?t * 10" 10] by simp
  then show ?thesis by (auto simp: app_bar_def)
qed

text \<open>What a failed Prometheus query says.\<close>

definition promErrorMessage :: "js_error \<Rightarrow> string" where
  "promErrorMessage e =
     (case e of
        ApiError st m \<Rightarrow>
          if st = 503 then ''Prometheus monitoring is disabled.''
          else if st = 502 \<or> st \<ge> 500 then ''Monitoring data is currently unavailable.''
          else error_message e
      | _ \<Rightarrow> error_message e)"

definition pressureDot :: "string \<Rightarrow> string" where
  "pressureDot level = (if level = ''High'' then ''bg-brick'' else if level = ''Elevated'' then ''bg-status-amber'' else ''bg-moss'')"

end
