(* ===== verification/Page_Databases.thy ===== *)
theory Page_Databases
  imports Ui_Panel
begin

text \<open>
  The databases page, \<open>client/src/features/dashboard/DatabasesPage.tsx\<close>: picking a detected
  server, reading its databases, saving its credentials, ticking databases and registering
  them under a project. Several reads can be in flight at once; the page has no check that an
  answer belongs to the server it now shows.
\<close>

section \<open>Model\<close>

text \<open>What the end of a read continues with: nothing, the end of \<open>connectAndBrowse\<close>, or the end of
  \<open>register\<close>. The handlers keep the server and the credentials they were started with.\<close>

datatype browse_for = ForPick | ForConnect | ForRegister

datatype db_op =
    DbBrowse browse_for
  | DbConnect DbServerInfo string string
  | DbRegister DbServerInfo string string
  | DbProjects

record db_page = "db_op panel" +
  db_servers :: "DbServerInfo list option"
  db_selectedKey :: "string option"
  db_dbs :: "DbItem list option"
  db_browsing :: bool
  db_authRequired :: bool
  db_browseErr :: "string option"
  db_username :: string
  db_password :: string
  db_checked :: "string list"
  db_projects :: "Project list"
  db_projectId :: "int option"
  db_registering :: bool
  db_reloads :: "(browse_for \<times> DbServerInfo \<times> string \<times> string) list"

definition db_init :: db_page where
  "db_init =
     \<lparr>pn_busy = False, pn_open = [(DbProjects, wire_of api_projects)], pn_sent = [wire_of api_projects], pn_toasts = [],
      pn_changed = 0, db_servers = None, db_selectedKey = None, db_dbs = None, db_browsing = False,
      db_authRequired = False, db_browseErr = None, db_username = [], db_password = [], db_checked = [],
      db_projects = [], db_projectId = None, db_registering = False, db_reloads = []\<rparr>"

definition serverTarget :: "DbServerInfo \<Rightarrow> DbTarget" where
  "serverTarget v =
     \<lparr>dbTarget_engine = dbServerInfo_engine v, dbTarget_source = dbServerInfo_source v, dbTarget_host = dbServerInfo_host v,
      dbTarget_port = dbServerInfo_port v, dbTarget_container = dbServerInfo_container v,
      dbTarget_username = None, dbTarget_password = None\<rparr>"

definition selected :: "db_page \<Rightarrow> DbServerInfo option" where
  "selected s =
     Option.bind (db_servers s) (List.find (\<lambda>v. Some (dbServerInfo_key v) = db_selectedKey s))"

definition tickable :: "db_page \<Rightarrow> DbItem list" where
  "tickable s = filter (\<lambda>d. \<not> dbItem_registered d) (case db_dbs s of None \<Rightarrow> [] | Some ds \<Rightarrow> ds)"

definition allTicked :: "db_page \<Rightarrow> bool" where
  "allTicked s \<longleftrightarrow> tickable s \<noteq> [] \<and> (\<forall>d \<in> set (tickable s). dbItem_name d \<in> set (db_checked s))"

text \<open>Whether an error message asks for credentials.\<close>

definition asks_login :: "string \<Rightarrow> bool" where
  "asks_login msg \<longleftrightarrow>
     js_includes (js_toLowerCase msg) ''password'' \<or> js_includes (js_toLowerCase msg) ''username''
     \<or> js_includes (js_toLowerCase msg) ''auth''"

definition browse :: "browse_for \<Rightarrow> DbServerInfo \<Rightarrow> string \<Rightarrow> string \<Rightarrow> db_page \<Rightarrow> db_page" where
  "browse k v user pass s =
     pn_request (DbBrowse k)
       (wire_of (api_browseDatabases ((serverTarget v)\<lparr>dbTarget_username := Some user, dbTarget_password := Some pass\<rparr>)))
       (s\<lparr>db_browsing := True, db_browseErr := None, db_authRequired := False\<rparr>)"

definition browse_answer :: "browse_for \<Rightarrow> js_error + DbItem list \<Rightarrow> db_page \<Rightarrow> db_page" where
  "browse_answer k r s =
     (let t = (case r of
           Inr ds \<Rightarrow> s\<lparr>db_dbs := Some ds, db_checked := []\<rparr>
         | Inl e \<Rightarrow> if asks_login (error_message e) then s\<lparr>db_authRequired := True, db_dbs := None\<rparr>
                    else s\<lparr>db_browseErr := Some (error_message e), db_dbs := None\<rparr>)
      in t\<lparr>db_browsing := False, db_registering := (if k = ForRegister then False else db_registering t)\<rparr>)"

definition pick :: "DbServerInfo \<Rightarrow> db_page \<Rightarrow> db_page" where
  "pick v s =
     browse ForPick v [] []
       (s\<lparr>db_selectedKey := Some (dbServerInfo_key v), db_username := [], db_password := [], db_dbs := None\<rparr>)"

definition left_quote :: string where
  "left_quote = [CHR 0xE2, CHR 0x80, CHR 0x9C]"

definition right_quote :: string where
  "right_quote = [CHR 0xE2, CHR 0x80, CHR 0x9D]"

definition login_target :: "DbServerInfo \<Rightarrow> string \<Rightarrow> string \<Rightarrow> DbTarget" where
  "login_target v user pass = (serverTarget v)\<lparr>dbTarget_username := Some user, dbTarget_password := Some pass\<rparr>"

definition connectAndBrowse :: "DbServerInfo \<Rightarrow> db_page \<Rightarrow> db_page" where
  "connectAndBrowse v s =
     pn_request (DbConnect v (db_username s) (db_password s))
       (wire_of (api_connectDatabase (login_target v (db_username s) (db_password s))))
       (s\<lparr>db_browsing := True, db_browseErr := None\<rparr>)"

definition connect_answer :: "DbServerInfo \<Rightarrow> string \<Rightarrow> string \<Rightarrow> js_error + json option \<Rightarrow> db_page \<Rightarrow> db_page" where
  "connect_answer v user pass r s =
     (case r of
        Inr x \<Rightarrow>
          (pn_toast (''Connected to '' @ left_quote @ dbServerInfo_name v @ right_quote @ ''. Credential saved.'') False s)
            \<lparr>db_reloads := db_reloads s @ [(ForConnect, v, user, pass)]\<rparr>
      | Inl e \<Rightarrow>
          (let msg = error_message e in
           if asks_login msg \<or> js_includes (js_toLowerCase msg) ''invalid''
           then (pn_toast msg True s)\<lparr>db_authRequired := True, db_browsing := False\<rparr>
           else s\<lparr>db_browseErr := Some msg, db_browsing := False\<rparr>))"

text \<open>A JavaScript \<open>Set\<close> in the order of insertion.\<close>

definition toggle_name :: "string \<Rightarrow> string list \<Rightarrow> string list" where
  "toggle_name n xs = (if n \<in> set xs then removeAll n xs else xs @ [n])"

definition register :: "DbServerInfo \<Rightarrow> int \<Rightarrow> db_page \<Rightarrow> db_page" where
  "register v p s =
     pn_request (DbRegister v (db_username s) (db_password s))
       (wire_of (api_registerDatabases p (serverTarget v) (db_checked s) (some_text (db_username s)) (some_text (db_password s))))
       (s\<lparr>db_registering := True\<rparr>)"

definition registered_text :: "string list \<Rightarrow> string" where
  "registered_text names =
     (if names = [] then ''Nothing new '' @ em_dash @ '' already registered.''
      else nat_str (length names) @ '' database'' @ (if length names = 1 then [] else ''s'') @ '' registered: ''
        @ concat (case names of [] \<Rightarrow> [] | n # ns \<Rightarrow> n # map (\<lambda>m. '', '' @ m) ns) @ ''.'')"

definition register_answer :: "DbServerInfo \<Rightarrow> string \<Rightarrow> string \<Rightarrow> js_error + string list \<Rightarrow> db_page \<Rightarrow> db_page" where
  "register_answer v user pass r s =
     (case r of
        Inr names \<Rightarrow>
          (pn_toast (registered_text names) False s)
            \<lparr>db_checked := [], db_reloads := db_reloads s @ [(ForRegister, v, user, pass)]\<rparr>
      | Inl e \<Rightarrow> (pn_toast (error_message e) True s)\<lparr>db_registering := False\<rparr>)"

datatype db_event =
    DbServersLoaded "DbServerInfo list"
  | PickServer DbServerInfo
  | RefreshDbs
  | TypeUsername string
  | TypePassword string
  | PressConnect
  | ToggleDb DbItem
  | ToggleAll
  | PickProject "int option"
  | PressRegister
  | DbReloaded nat
  | BrowseAnswer "db_op \<times> wire" "js_error + DbItem list"
  | ConnectAnswer "db_op \<times> wire" "js_error + json option"
  | RegisterAnswer "db_op \<times> wire" "js_error + string list"
  | ProjectsAnswer "db_op \<times> wire" "js_error + Project list"

definition login_shown :: "db_page \<Rightarrow> bool" where
  "login_shown s \<longleftrightarrow>
     (case selected s of
        None \<Rightarrow> False
      | Some v \<Rightarrow> db_authRequired s \<or> dbServerInfo_hasCreds v \<or> db_username s \<noteq> [] \<or> db_password s \<noteq> [])"

fun db_step :: "db_page \<Rightarrow> db_event \<Rightarrow> db_page option" where
  "db_step s (DbServersLoaded vs) = Some (s\<lparr>db_servers := Some vs\<rparr>)"
| "db_step s (PickServer v) =
     (case db_servers s of None \<Rightarrow> None | Some vs \<Rightarrow> if v \<in> set vs then Some (pick v s) else None)"
| "db_step s RefreshDbs =
     (case selected s of
        None \<Rightarrow> None
      | Some v \<Rightarrow> if db_browsing s then None else Some (browse ForPick v (db_username s) (db_password s) s))"
| "db_step s (TypeUsername t) = (if login_shown s then Some (s\<lparr>db_username := t\<rparr>) else None)"
| "db_step s (TypePassword t) = (if login_shown s then Some (s\<lparr>db_password := t\<rparr>) else None)"
| "db_step s PressConnect =
     (case selected s of
        None \<Rightarrow> None
      | Some v \<Rightarrow> if login_shown s \<and> \<not> db_browsing s then Some (connectAndBrowse v s) else None)"
| "db_step s (ToggleDb d) =
     (if selected s \<noteq> None \<and> d \<in> set (tickable s)
      then Some (s\<lparr>db_checked := toggle_name (dbItem_name d) (db_checked s)\<rparr>) else None)"
| "db_step s ToggleAll =
     (case db_dbs s of
        None \<Rightarrow> None
      | Some ds \<Rightarrow>
          if selected s = None \<or> ds = [] then None
          else Some (s\<lparr>db_checked := (if allTicked s then [] else remdups (map dbItem_name (tickable s)))\<rparr>))"
| "db_step s (PickProject p) =
     (case db_dbs s of
        None \<Rightarrow> None
      | Some ds \<Rightarrow>
          if selected s = None \<or> ds = [] \<or> (case p of None \<Rightarrow> False | Some i \<Rightarrow> i \<notin> project_id ` set (db_projects s))
          then None else Some (s\<lparr>db_projectId := p\<rparr>))"
| "db_step s PressRegister =
     (case (selected s, db_projectId s, db_dbs s) of
        (Some v, Some p, Some ds) \<Rightarrow>
          if ds = [] \<or> db_registering s \<or> db_checked s = [] then None else Some (register v p s)
      | _ \<Rightarrow> None)"
| "db_step s (DbReloaded n) =
     (if n < length (db_reloads s)
      then (case db_reloads s ! n of
              (k, v, user, pass) \<Rightarrow>
                Some (browse k v user pass (s\<lparr>db_reloads := take n (db_reloads s) @ drop (Suc n) (db_reloads s)\<rparr>)))
      else None)"
| "db_step s (BrowseAnswer q r) =
     (case fst q of
        DbBrowse k \<Rightarrow> if q \<in> set (pn_open s) then Some (browse_answer k r (pn_done q s)) else None
      | _ \<Rightarrow> None)"
| "db_step s (ConnectAnswer q r) =
     (case fst q of
        DbConnect v user pass \<Rightarrow> if q \<in> set (pn_open s) then Some (connect_answer v user pass r (pn_done q s)) else None
      | _ \<Rightarrow> None)"
| "db_step s (RegisterAnswer q r) =
     (case fst q of
        DbRegister v user pass \<Rightarrow> if q \<in> set (pn_open s) then Some (register_answer v user pass r (pn_done q s)) else None
      | _ \<Rightarrow> None)"
| "db_step s (ProjectsAnswer q r) =
     (if fst q = DbProjects \<and> q \<in> set (pn_open s)
      then Some ((pn_done q s)\<lparr>db_projects := (case r of Inr ps \<Rightarrow> ps | Inl e \<Rightarrow> [])\<rparr>) else None)"

lemmas db_defs = browse_def browse_answer_def pick_def connectAndBrowse_def connect_answer_def register_def
  register_answer_def pn_defs

section \<open>Registering what is listed\<close>

text \<open>Only databases of the list shown that are not registered are ticked.\<close>

definition db_inv :: "db_page \<Rightarrow> bool" where
  "db_inv s \<longleftrightarrow>
     (db_dbs s \<noteq> None \<longrightarrow> set (db_checked s) \<subseteq> dbItem_name ` set (tickable s)) \<and> distinct (db_checked s)"

text \<open>A running registration is waited for: its request, the reload after it or the last read.\<close>

fun registers :: "db_op \<Rightarrow> bool" where
  "registers (DbRegister v u p) \<longleftrightarrow> True"
| "registers (DbBrowse k) \<longleftrightarrow> k = ForRegister"
| "registers _ \<longleftrightarrow> False"

definition registering_held :: "db_page \<Rightarrow> bool" where
  "registering_held s \<longleftrightarrow> (\<exists>q \<in> set (pn_open s). registers (fst q)) \<or> (\<exists>r \<in> set (db_reloads s). fst r = ForRegister)"

lemma toggle_name_set:
  "set (toggle_name n xs) \<subseteq> insert n (set xs)" "distinct xs \<Longrightarrow> distinct (toggle_name n xs)"
  by (auto simp: toggle_name_def distinct_removeAll)

lemma db_step_inv:
  assumes "db_inv s" "db_step s e = Some s'"
  shows "db_inv s'"
proof (cases e)
  case (ToggleDb d)
  then have d: "d \<in> set (tickable s)" "s' = s\<lparr>db_checked := toggle_name (dbItem_name d) (db_checked s)\<rparr>"
    using assms(2) by (auto split: if_splits)
  then have "tickable s' = tickable s" by (simp add: tickable_def)
  with d assms(1) toggle_name_set show ?thesis by (fastforce simp: db_inv_def)
next
  case ToggleAll
  with assms show ?thesis by (auto simp: db_inv_def tickable_def split: if_splits option.splits)
next
  case (BrowseAnswer q r)
  with assms show ?thesis
    by (cases r) (auto simp: db_inv_def tickable_def db_defs Let_def split: if_splits db_op.splits)
next
  case (ConnectAnswer q r)
  with assms show ?thesis
    by (cases r) (auto simp: db_inv_def tickable_def db_defs Let_def split: if_splits db_op.splits)
next
  case (RegisterAnswer q r)
  with assms show ?thesis
    by (cases r) (auto simp: db_inv_def tickable_def db_defs split: if_splits db_op.splits)
next
  case PressRegister
  with assms show ?thesis by (auto simp: db_inv_def tickable_def db_defs split: if_splits option.splits)
qed (use assms in \<open>auto simp: db_inv_def tickable_def db_defs split: if_splits option.splits prod.splits\<close>)

interpretation databases: started_system db_step db_inv db_init
  by unfold_locales (simp_all add: db_step_inv, simp add: db_inv_def db_init_def)

text \<open>The state in which Register was pressed, and the request it sent.\<close>

definition register_press :: "db_page \<Rightarrow> wire \<Rightarrow> bool" where
  "register_press t w \<longleftrightarrow>
     (\<exists>v p. selected t = Some v \<and> db_projectId t = Some p \<and> db_checked t \<noteq> [] \<and> distinct (db_checked t)
        \<and> set (db_checked t) \<subseteq> dbItem_name ` set (tickable t)
        \<and> w = wire_of (api_registerDatabases p (serverTarget v) (db_checked t) (some_text (db_username t))
                  (some_text (db_password t))))"

definition db_wire :: "db_event list \<Rightarrow> wire \<Rightarrow> bool" where
  "db_wire es w \<longleftrightarrow>
     w = wire_of api_projects \<or> (\<exists>t. w = wire_of (api_browseDatabases t)) \<or> (\<exists>t. w = wire_of (api_connectDatabase t))
     \<or> (\<exists>as bs t. es = as @ PressRegister # bs \<and> run db_step db_init as = Some t \<and> register_press t w)"

definition db_law :: "db_event list \<Rightarrow> db_page \<Rightarrow> bool" where
  "db_law es s \<longleftrightarrow> run db_step db_init es = Some s \<and> (\<forall>w \<in> set (pn_sent s). db_wire es w)"

lemma db_wire_mono: "db_wire es w \<Longrightarrow> db_wire (es @ [e]) w"
  unfolding db_wire_def by (metis append.assoc append_Cons)

lemma db_step_sent:
  assumes "db_step s e = Some s'" "w \<in> set (pn_sent s')"
  shows "w \<in> set (pn_sent s) \<or> (\<exists>t. w = wire_of (api_browseDatabases t)) \<or> (\<exists>t. w = wire_of (api_connectDatabase t))
    \<or> (e = PressRegister \<and> (\<exists>v p ds. selected s = Some v \<and> db_projectId s = Some p \<and> db_dbs s = Some ds \<and> db_checked s \<noteq> []
          \<and> w = wire_of (api_registerDatabases p (serverTarget v) (db_checked s) (some_text (db_username s))
                  (some_text (db_password s)))))"
proof (cases e)
  case (BrowseAnswer q r)
  with assms show ?thesis by (cases r) (auto simp: db_defs Let_def split: if_splits db_op.splits)
next
  case (ConnectAnswer q r)
  with assms show ?thesis by (cases r) (auto simp: db_defs Let_def split: if_splits db_op.splits)
next
  case (RegisterAnswer q r)
  with assms show ?thesis by (cases r) (auto simp: db_defs split: if_splits db_op.splits)
qed (use assms in \<open>auto simp: db_defs split: if_splits option.splits prod.splits\<close>)

interpretation registering: recorded_system db_step db_init db_law
proof unfold_locales
  show "db_law [] db_init" by (simp add: db_law_def db_init_def db_wire_def)
next
  fix es s e s' assume a: "db_law es s" "db_step s e = Some s'"
  have r: "run db_step db_init es = Some s" using a(1) by (simp add: db_law_def)
  have "db_wire (es @ [e]) w" if w: "w \<in> set (pn_sent s')" for w
    using db_step_sent [OF a(2) w]
  proof (elim disjE)
    assume "w \<in> set (pn_sent s)"
    with a(1) show ?thesis by (auto simp: db_law_def intro: db_wire_mono)
  next
    assume p: "e = PressRegister \<and> (\<exists>v p ds. selected s = Some v \<and> db_projectId s = Some p \<and> db_dbs s = Some ds \<and> db_checked s \<noteq> []
          \<and> w = wire_of (api_registerDatabases p (serverTarget v) (db_checked s) (some_text (db_username s))
                  (some_text (db_password s))))"
    then have "register_press s w"
      using databases.reachable_inv [OF r] by (auto simp: register_press_def db_inv_def)
    with p r show ?thesis by (auto simp: db_wire_def)
  qed (auto simp: db_wire_def)
  with a(2) r show "db_law (es @ [e]) s'" by (simp add: db_law_def run_snoc)
qed

text \<open>C24: a registration names only databases that the page listed as not registered when Register
  was pressed, each once, for the project and the server selected then; no other request of
  the page changes anything but a credential.\<close>

theorem databases_registered:
  assumes "run db_step db_init es = Some s" and "w \<in> set (pn_sent s)"
  shows "db_wire es w"
  using registering.recorded [OF assms(1)] assms(2) by (simp add: db_law_def)

definition case_server :: "string \<Rightarrow> DbServerInfo" where
  "case_server k =
     \<lparr>dbServerInfo_key = k, dbServerInfo_engine = ''postgres'', dbServerInfo_source = ''docker'', dbServerInfo_name = k,
      dbServerInfo_host = ''localhost'', dbServerInfo_port = 5432, dbServerInfo_container = k, dbServerInfo_version = [],
      dbServerInfo_state = ''running'', dbServerInfo_verified = True, dbServerInfo_hasCreds = False,
      dbServerInfo_registered = []\<rparr>"

definition case_db :: "string \<Rightarrow> DbItem" where
  "case_db n = \<lparr>dbItem_name = n, dbItem_sizeBytes = 0, dbItem_registered = False, dbItem_system = False\<rparr>"

definition browse_wire :: "DbServerInfo \<Rightarrow> wire" where
  "browse_wire v = wire_of (api_browseDatabases (login_target v [] []))"

text \<open>Two servers picked one after the other, the first one's answer arriving last.\<close>

definition late_answer :: "DbServerInfo \<Rightarrow> DbServerInfo \<Rightarrow> Project \<Rightarrow> DbItem list \<Rightarrow> DbItem list \<Rightarrow> db_event list" where
  "late_answer a b p as bs =
     [DbServersLoaded [a, b], ProjectsAnswer (DbProjects, wire_of api_projects) (Inr [p]), PickServer a, PickServer b,
      BrowseAnswer (DbBrowse ForPick, browse_wire b) (Inr bs), BrowseAnswer (DbBrowse ForPick, browse_wire a) (Inr as)]"

lemma late_answer_run:
  assumes "dbServerInfo_key a \<noteq> dbServerInfo_key b" "d \<in> set as" "\<not> dbItem_registered d"
  shows "\<exists>s. run db_step db_init (late_answer a b p as bs) = Some s \<and> selected s = Some b \<and> db_dbs s = Some as
    \<and> db_checked s = [] \<and> db_projects s = [p] \<and> \<not> db_registering s \<and> db_username s = [] \<and> db_password s = []"
proof -
  have "browse_wire a \<noteq> browse_wire b \<or> browse_wire a = browse_wire b" by blast
  with assms show ?thesis
    by (auto simp: late_answer_def db_init_def db_defs selected_def browse_wire_def login_target_def Let_def)
qed

text \<open>A read that is answered late changes what the page registers. When a second server is picked
  before the first one's databases arrive and that answer comes last, the page shows the first
  server's databases under the second server's name; ticking one and pressing Register asks the
  backend to register that database on the second server.\<close>

lemma databases_wrong_server:
  assumes "dbServerInfo_key a \<noteq> dbServerInfo_key b" and "d \<in> set as" and "\<not> dbItem_registered d"
  shows "\<exists>s. run db_step db_init (late_answer a b p as bs
               @ [ToggleDb d, PickProject (Some (project_id p)), PressRegister]) = Some s
           \<and> selected s = Some b \<and> db_dbs s = Some as
           \<and> wire_of (api_registerDatabases (project_id p) (serverTarget b) [dbItem_name d] None None) \<in> set (pn_sent s)"
proof -
  obtain s where s: "run db_step db_init (late_answer a b p as bs) = Some s" "selected s = Some b" "db_dbs s = Some as"
    "db_checked s = []" "db_projects s = [p]" "\<not> db_registering s" "db_username s = []" "db_password s = []"
    using late_answer_run [OF assms] by blast
  have sel: "selected (s\<lparr>db_checked := x\<rparr>) = Some b" "selected (s\<lparr>db_checked := x, db_projectId := y\<rparr>) = Some b"
    "selected (s\<lparr>db_checked := x, db_projectId := y, db_registering := z, pn_open := u, pn_sent := v\<rparr>) = Some b" for x y z u v
    using s(2) by (simp_all add: selected_def)
  have "as \<noteq> []" "d \<in> set (tickable s)" using assms s(3) by (auto simp: tickable_def)
  with s sel show ?thesis
    by (simp add: run_append toggle_name_def register_def pn_request_def some_text_def)
qed

theorem databases_registered_witness:
  "\<forall>p. \<exists>s w. run db_step db_init (late_answer (case_server ''one'') (case_server ''two'') p [case_db ''shop''] []
               @ [ToggleDb (case_db ''shop''), PickProject (Some (project_id p)), PressRegister]) = Some s
           \<and> w \<in> set (pn_sent s)
           \<and> db_wire (late_answer (case_server ''one'') (case_server ''two'') p [case_db ''shop''] []
               @ [ToggleDb (case_db ''shop''), PickProject (Some (project_id p)), PressRegister]) w"
proof
  fix p
  let ?es = "late_answer (case_server ''one'') (case_server ''two'') p [case_db ''shop''] []
               @ [ToggleDb (case_db ''shop''), PickProject (Some (project_id p)), PressRegister]"
  have run: "\<exists>s. run db_step db_init ?es = Some s \<and> pn_sent s \<noteq> []"
    using late_answer_run [of "case_server ''one''" "case_server ''two''" "case_db ''shop''" "[case_db ''shop'']" p "[]"]
    by (auto simp: case_server_def case_db_def run_append selected_def tickable_def toggle_name_def register_def pn_request_def)
  then obtain s w where "run db_step db_init ?es = Some s" "w \<in> set (pn_sent s)" by (meson last_in_set)
  with databases_registered show "\<exists>s w. run db_step db_init ?es = Some s \<and> w \<in> set (pn_sent s) \<and> db_wire ?es w" by blast
qed

text \<open>A registration in progress always waits for something that ends it.\<close>

lemma held_after:
  assumes "q \<in> set (pn_open s)" "\<not> registers (fst q)" "registering_held s"
    "pn_open s' = remove1 q (pn_open s)" "set (db_reloads s) \<subseteq> set (db_reloads s')"
  shows "registering_held s'"
proof -
  have "x \<in> set (pn_open s')" if "x \<in> set (pn_open s)" "x \<noteq> q" for x using that assms(4) by simp
  then show ?thesis using assms(2,3,5) unfolding registering_held_def by blast
qed

lemma registering_step:
  assumes "db_registering s \<longrightarrow> registering_held s" "db_step s e = Some s'"
  shows "db_registering s' \<longrightarrow> registering_held s'"
proof (cases e)
  case (BrowseAnswer q r)
  then obtain k where k: "fst q = DbBrowse k" "q \<in> set (pn_open s)" "s' = browse_answer k r (pn_done q s)"
    using assms(2) by (auto split: db_op.splits if_splits)
  then have "pn_open s' = remove1 q (pn_open s)" "db_reloads s' = db_reloads s"
    "db_registering s' \<longleftrightarrow> db_registering s \<and> k \<noteq> ForRegister"
    by (auto simp: browse_answer_def pn_done_def Let_def split: sum.splits)
  with k assms(1) held_after [of q s s'] show ?thesis by auto
next
  case (ConnectAnswer q r)
  then obtain v u p where k: "fst q = DbConnect v u p" "q \<in> set (pn_open s)" "s' = connect_answer v u p r (pn_done q s)"
    using assms(2) by (auto split: db_op.splits if_splits)
  then have "pn_open s' = remove1 q (pn_open s)" "set (db_reloads s) \<subseteq> set (db_reloads s')" "db_registering s' = db_registering s"
    by (auto simp: connect_answer_def pn_defs Let_def split: sum.splits)
  with k assms(1) held_after [of q s s'] show ?thesis by auto
next
  case (RegisterAnswer q r)
  with assms(2) show ?thesis
    by (cases r) (auto simp: register_answer_def pn_defs registering_held_def split: db_op.splits if_splits)
next
  case (ProjectsAnswer q r)
  with assms held_after [of q s s'] show ?thesis by (auto simp: pn_done_def split: if_splits)
next
  case (DbReloaded n)
  then obtain k v u p where n: "n < length (db_reloads s)" "db_reloads s ! n = (k, v, u, p)"
    "s' = browse k v u p (s\<lparr>db_reloads := take n (db_reloads s) @ drop (Suc n) (db_reloads s)\<rparr>)"
    using assms(2) by (auto split: if_splits prod.splits)
  have "set (db_reloads s) = insert (k, v, u, p) (set (take n (db_reloads s) @ drop (Suc n) (db_reloads s)))"
    using n(1,2) by (metis id_take_nth_drop list.simps(15) set_append Un_insert_right)
  with n(3) assms(1) show ?thesis by (cases k) (auto simp: registering_held_def browse_def pn_request_def)
next
  case PressRegister
  with assms show ?thesis
    by (auto simp: register_def pn_request_def registering_held_def split: option.splits if_splits)
qed (use assms in \<open>auto simp: registering_held_def db_defs split: option.splits if_splits\<close>)

interpretation registration: started_system db_step "\<lambda>s. db_registering s \<longrightarrow> registering_held s" db_init
  by unfold_locales (rule registering_step, simp_all add: db_init_def)

lemma registration_ends: "run db_step db_init es = Some s \<Longrightarrow> db_registering s \<Longrightarrow> registering_held s"
  using registration.reachable_inv by blast

end
