(* ===== verification/Page_Fleet.thy ===== *)
theory Page_Fleet
  imports Ui_Panel
begin

text \<open>
  The fleet page, \<open>client/src/features/dashboard/FleetPage.tsx\<close>: the search, the set of ticked
  projects and the actions on all of them; and the dialog that imports discovered projects,
  \<open>DiscoveryModal.tsx\<close>.
\<close>

section \<open>Fleet page\<close>

datatype fleet_op = BulkOp lifecycle_action

text \<open>\<open>fl_loads\<close> counts the reloads a finished action is waiting for.\<close>

record fleet_page = "fleet_op panel" +
  fl_projects :: "Project list option"
  fl_q :: string
  fl_picked :: "int list"
  fl_pending :: "lifecycle_action option"
  fl_loads :: nat

definition fleet_init :: fleet_page where
  "fleet_init =
     \<lparr>pn_busy = False, pn_open = [], pn_sent = [], pn_toasts = [], pn_changed = 0,
      fl_projects = None, fl_q = [], fl_picked = [], fl_pending = None, fl_loads = 0\<rparr>"

definition fleet_filtered :: "fleet_page \<Rightarrow> Project list" where
  "fleet_filtered s =
     (let needle = js_toLowerCase (js_trim (fl_q s)); ps = (case fl_projects s of None \<Rightarrow> [] | Some ps \<Rightarrow> ps)
      in if needle = [] then ps
         else filter (\<lambda>p. js_includes (js_toLowerCase (project_name p)) needle
                          \<or> js_includes (js_toLowerCase (case project_repository p of None \<Rightarrow> [] | Some r \<Rightarrow> r)) needle) ps)"

definition togglePick :: "int \<Rightarrow> int list \<Rightarrow> int list" where
  "togglePick i xs = (if i \<in> set xs then removeAll i xs else xs @ [i])"

definition toggle_view :: "int list \<Rightarrow> int list \<Rightarrow> int list" where
  "toggle_view view xs =
     (if set view \<subseteq> set xs then filter (\<lambda>i. i \<notin> set view) xs
      else fold (\<lambda>i ys. if i \<in> set ys then ys else ys @ [i]) view xs)"

definition pickedShips :: "fleet_page \<Rightarrow> Project list" where
  "pickedShips s = filter (\<lambda>p. project_id p \<in> set (fl_picked s)) (case fl_projects s of None \<Rightarrow> [] | Some ps \<Rightarrow> ps)"

definition runBulk :: "lifecycle_action \<Rightarrow> bool \<Rightarrow> fleet_page \<Rightarrow> fleet_page" where
  "runBulk a confirm s = pn_start (BulkOp a) (wire_of (api_bulkLifecycle (fl_picked s) a (Some confirm))) s"

fun bulk_verb :: "lifecycle_action \<Rightarrow> string" where
  "bulk_verb Start = ''started''"
| "bulk_verb Stop = ''stopped''"
| "bulk_verb Restart = ''restarted''"

definition bulk_text :: "lifecycle_action \<Rightarrow> int \<Rightarrow> int \<Rightarrow> string" where
  "bulk_text a ok failed =
     (if failed = 0
      then int_str ok @ '' project'' @ (if ok = 1 then [] else ''s'') @ '' '' @ bulk_verb a @ ''.''
      else int_str ok @ ''/'' @ int_str (ok + failed) @ '' '' @ bulk_verb a @ '' '' @ em_dash @ '' '' @ int_str failed @ '' failed.'')"

definition bulk_answer :: "lifecycle_action \<Rightarrow> js_error + int \<times> int \<Rightarrow> fleet_page \<Rightarrow> fleet_page" where
  "bulk_answer a r s =
     (case r of
        Inr (ok, failed) \<Rightarrow>
          (pn_toast (bulk_text a ok failed) (failed > 0) s)\<lparr>fl_pending := None, fl_picked := [], fl_loads := Suc (fl_loads s)\<rparr>
      | Inl e \<Rightarrow> pn_free (pn_toast (error_message e) True s))"

datatype fleet_event =
    FleetLoaded "Project list"
  | TypeQuery string
  | TickShip int
  | TickView
  | PressStartAll
  | PressBulk lifecycle_action
  | ClearPicked
  | CloseBulk
  | ConfirmBulk
  | BulkReloaded
  | BulkAnswer "fleet_op \<times> wire" "js_error + int \<times> int"

fun fleet_step :: "fleet_page \<Rightarrow> fleet_event \<Rightarrow> fleet_page option" where
  "fleet_step s (FleetLoaded ps) = Some (s\<lparr>fl_projects := Some ps\<rparr>)"
| "fleet_step s (TypeQuery t) = (if fl_projects s = None then None else Some (s\<lparr>fl_q := t\<rparr>))"
| "fleet_step s (TickShip i) =
     (if i \<in> project_id ` set (fleet_filtered s) then Some (s\<lparr>fl_picked := togglePick i (fl_picked s)\<rparr>) else None)"
| "fleet_step s TickView =
     (if fleet_filtered s = [] then None
      else Some (s\<lparr>fl_picked := toggle_view (map project_id (fleet_filtered s)) (fl_picked s)\<rparr>))"
| "fleet_step s PressStartAll =
     (if fl_projects s \<noteq> None \<and> fl_picked s \<noteq> [] \<and> \<not> pn_busy s then Some (runBulk Start False s) else None)"
| "fleet_step s (PressBulk a) =
     (if fl_projects s \<noteq> None \<and> fl_picked s \<noteq> [] \<and> \<not> pn_busy s \<and> a \<noteq> Start then Some (s\<lparr>fl_pending := Some a\<rparr>) else None)"
| "fleet_step s ClearPicked =
     (if fl_projects s \<noteq> None \<and> fl_picked s \<noteq> [] then Some (s\<lparr>fl_picked := []\<rparr>) else None)"
| "fleet_step s CloseBulk = (if fl_pending s = None then None else Some (s\<lparr>fl_pending := None\<rparr>))"
| "fleet_step s ConfirmBulk =
     (case fl_pending s of None \<Rightarrow> None | Some a \<Rightarrow> if pn_busy s then None else Some (runBulk a True s))"
| "fleet_step s BulkReloaded =
     (if fl_loads s = 0 then None else Some (pn_free (s\<lparr>fl_loads := fl_loads s - 1\<rparr>)))"
| "fleet_step s (BulkAnswer q r) =
     (case fst q of BulkOp a \<Rightarrow> if q \<in> set (pn_open s) then Some (bulk_answer a r (pn_done q s)) else None)"

lemma toggle_view_set:
  "set (toggle_view view xs) = (if set view \<subseteq> set xs then set xs - set view else set xs \<union> set view)"
proof -
  have "set (fold (\<lambda>i ys. if i \<in> set ys then ys else ys @ [i]) view xs) = set xs \<union> set view"
    by (induction view arbitrary: xs) auto
  then show ?thesis by (auto simp: toggle_view_def)
qed

section \<open>Confirmation\<close>

fun bulk_arm :: "fleet_page \<Rightarrow> fleet_event \<Rightarrow> lifecycle_action option" where
  "bulk_arm s (PressBulk a) = Some a"
| "bulk_arm s _ = None"

fun bulk_disarm :: "fleet_event \<Rightarrow> bool" where
  "bulk_disarm CloseBulk \<longleftrightarrow> True"
| "bulk_disarm _ \<longleftrightarrow> False"

definition only_starts :: "wire \<Rightarrow> bool" where
  "only_starts w \<longleftrightarrow> wire_member ''action'' w = Some (JStr ''start'')"

lemma bulk_member:
  "wire_member ''action'' (wire_of (api_bulkLifecycle ids a c)) = Some (JStr (action_name a))"
  unfolding api_defs by (subst wire_member_json) (simp_all add: json_get_jobj json_exact_simps)

interpretation bulk: confirmed_system fleet_step fleet_init fl_pending bulk_arm bulk_disarm pn_sent ConfirmBulk
  "\<lambda>w. \<not> only_starts w" "\<lambda>a w. \<exists>ids. w = wire_of (api_bulkLifecycle ids a (Some True))"
proof unfold_locales
  fix s e s' x assume "fleet_step s e = Some s'" "fl_pending s' = Some x"
  then show "bulk_arm s e = Some x \<or> (fl_pending s = Some x \<and> \<not> bulk_disarm e \<and> bulk_arm s e = None)"
    by (cases e) (auto simp: runBulk_def bulk_answer_def pn_defs split: if_splits option.splits fleet_op.splits sum.splits)
next
  fix s e s' w assume "fleet_step s e = Some s'" "w \<in> set (pn_sent s')" "\<not> only_starts w"
  then show "w \<in> set (pn_sent s)
      \<or> (e = ConfirmBulk \<and> (\<exists>x. fl_pending s = Some x \<and> (\<exists>ids. w = wire_of (api_bulkLifecycle ids x (Some True)))))"
    by (cases e) (auto simp: runBulk_def bulk_answer_def pn_defs only_starts_def bulk_member
        split: if_splits option.splits fleet_op.splits sum.splits)
qed (simp_all add: fleet_init_def)

text \<open>C25: no project is stopped or restarted from the fleet page without a confirmation: a bulk
  request that is not a start goes out with \<open>confirm\<close> set, for the action whose button was
  pressed before, and the dialog was then confirmed without having been closed in between;
  starting needs no confirmation and does not claim one.\<close>

theorem fleet_bulk_confirmed:
  assumes "run fleet_step fleet_init es = Some s" and "w \<in> set (pn_sent s)" and "\<not> only_starts w"
  shows "\<exists>as bs cs a ids. es = as @ PressBulk a # bs @ ConfirmBulk # cs \<and> CloseBulk \<notin> set bs
           \<and> w = wire_of (api_bulkLifecycle ids a (Some True))"
proof -
  from bulk.confirmed [OF assms] obtain es' cs a where es: "es = es' @ ConfirmBulk # cs"
    and arm: "armed_by fleet_step fleet_init bulk_arm bulk_disarm es' a"
    and w: "\<exists>ids. w = wire_of (api_bulkLifecycle ids a (Some True))" by blast
  from arm obtain as e bs u where b: "es' = as @ e # bs" "bulk_arm u e = Some a" "\<forall>b \<in> set bs. \<not> bulk_disarm b"
    unfolding armed_by_def by blast
  then have "e = PressBulk a" "CloseBulk \<notin> set bs" by (cases e; auto)+
  with es b(1) have "es = as @ PressBulk a # bs @ ConfirmBulk # cs" by simp
  with \<open>CloseBulk \<notin> set bs\<close> w show ?thesis by blast
qed

theorem fleet_bulk_confirmed_witness:
  "\<forall>p. \<exists>s w. run fleet_step fleet_init [FleetLoaded [p], TickView, PressBulk Stop, ConfirmBulk] = Some s
        \<and> w \<in> set (pn_sent s) \<and> \<not> only_starts w \<and> (\<exists>ids. w = wire_of (api_bulkLifecycle ids Stop (Some True)))"
proof
  fix p
  let ?es = "[FleetLoaded [p], TickView, PressBulk Stop, ConfirmBulk]"
  have "js_trim [] = []" by (rule js_trim_empty)
  then have "\<exists>s w. run fleet_step fleet_init ?es = Some s \<and> w \<in> set (pn_sent s) \<and> \<not> only_starts w"
    by (simp add: fleet_init_def fleet_filtered_def js_toLowerCase_def toggle_view_def runBulk_def pn_defs only_starts_def
        bulk_member Let_def)
  then obtain s w where sw: "run fleet_step fleet_init ?es = Some s" "w \<in> set (pn_sent s)" "\<not> only_starts w" by blast
  from fleet_bulk_confirmed [OF sw] have "\<exists>ids. w = wire_of (api_bulkLifecycle ids Stop (Some True))"
    by (auto simp: Cons_eq_append_conv)
  with sw show "\<exists>s w. run fleet_step fleet_init ?es = Some s \<and> w \<in> set (pn_sent s) \<and> \<not> only_starts w
      \<and> (\<exists>ids. w = wire_of (api_bulkLifecycle ids Stop (Some True)))" by blast
qed

section \<open>Busy state\<close>

text \<open>The page is busy exactly while one action is in flight or waits for its reload.\<close>

definition fleet_inv :: "fleet_page \<Rightarrow> bool" where
  "fleet_inv s \<longleftrightarrow> length (pn_open s) + fl_loads s = (if pn_busy s then 1 else 0)"

lemma fleet_step_inv: "fleet_inv s \<Longrightarrow> fleet_step s e = Some s' \<Longrightarrow> fleet_inv s'"
proof (cases e)
  case (BulkAnswer q r)
  assume a: "fleet_inv s" "fleet_step s e = Some s'"
  with BulkAnswer have q: "q \<in> set (pn_open s)" by (auto split: fleet_op.splits if_splits)
  then have "0 < length (pn_open s)" by (auto intro: length_pos_if_in_set)
  moreover have "length (pn_open s) + fl_loads s = (if pn_busy s then 1 else 0)" using a(1) by (simp add: fleet_inv_def)
  ultimately have "length (pn_open s) = 1" and "fl_loads s = 0" and "pn_busy s" by (cases "pn_busy s"; cases "length (pn_open s)"; auto)+
  then have "remove1 q (pn_open s) = []" using q by (cases "pn_open s") auto
  with a(2) BulkAnswer q \<open>fl_loads s = 0\<close> \<open>pn_busy s\<close> show ?thesis
    by (cases r) (auto simp: fleet_inv_def bulk_answer_def pn_defs split: fleet_op.splits)
next
  case BulkReloaded
  then show "fleet_inv s \<Longrightarrow> fleet_step s e = Some s' \<Longrightarrow> fleet_inv s'"
    by (cases "pn_open s") (auto simp: fleet_inv_def pn_defs split: if_splits)
qed (auto simp: fleet_inv_def runBulk_def pn_defs split: if_splits option.splits)

interpretation fleet: started_system fleet_step fleet_inv fleet_init
  by unfold_locales (rule fleet_step_inv, simp_all add: fleet_inv_def fleet_init_def)

lemma fleet_one_action: "run fleet_step fleet_init es = Some s \<Longrightarrow> length (pn_open s) + fl_loads s = (if pn_busy s then 1 else 0)"
  using fleet.reachable_inv by (simp add: fleet_inv_def)

section \<open>Discovery dialog\<close>

datatype disc_op = DiscScan | DiscImport | DiscImportAll | DiscRescan

record disc_modal = "disc_op panel" +
  dm_open :: bool
  dm_projects :: "DiscoveredProject list option"
  dm_filesystem :: "FoundProject list option"
  dm_docker :: bool
  dm_busy :: "string option"
  dm_err :: "string option"

definition disc_init :: disc_modal where
  "disc_init =
     \<lparr>pn_busy = False, pn_open = [(DiscScan, wire_of api_discovery)], pn_sent = [wire_of api_discovery], pn_toasts = [],
      pn_changed = 0, dm_open = True, dm_projects = None, dm_filesystem = None, dm_docker = True, dm_busy = None,
      dm_err = None\<rparr>"

definition show_scan :: "DiscoveryResult \<Rightarrow> disc_modal \<Rightarrow> disc_modal" where
  "show_scan d s =
     s\<lparr>dm_projects := Some (discoveryResult_projects d), dm_filesystem := Some (discoveryResult_filesystem d),
       dm_docker := discoveryResult_dockerAvailable d\<rparr>"

definition unregistered :: "disc_modal \<Rightarrow> nat" where
  "unregistered s =
     length (filter (\<lambda>p. \<not> discoveredProject_registered p) (case dm_projects s of None \<Rightarrow> [] | Some ps \<Rightarrow> ps))
     + length (filter (\<lambda>p. \<not> foundProject_registered p) (case dm_filesystem s of None \<Rightarrow> [] | Some ps \<Rightarrow> ps))"

definition importOne :: "string \<Rightarrow> disc_modal \<Rightarrow> disc_modal" where
  "importOne n s = pn_request DiscImport (wire_of (api_importDiscovered n)) (s\<lparr>dm_busy := Some n\<rparr>)"

definition importAll :: "disc_modal \<Rightarrow> disc_modal" where
  "importAll s = pn_request DiscImportAll (wire_of api_importAllDiscovered) (s\<lparr>dm_busy := Some ''__all''\<rparr>)"

definition plural_s :: "int \<Rightarrow> string" where
  "plural_s n = (if n = 1 then [] else ''s'')"

definition imported_text :: "int \<Rightarrow> int \<Rightarrow> string" where
  "imported_text n k =
     (if n = 0 then ''Projects already up to date.''
      else int_str n @ '' project'' @ plural_s n @ '' imported with '' @ int_str k @ '' service'' @ plural_s k @ ''.'')"

datatype disc_event =
    ImportFound string
  | ImportAllFound
  | CloseDisc
  | ScanAnswer "disc_op \<times> wire" "js_error + DiscoveryResult"
  | ImportAnswer "disc_op \<times> wire" "js_error + string \<times> int"
  | ImportAllAnswer "disc_op \<times> wire" "js_error + int \<times> int"

text \<open>The name of a project of the two lists that is offered for import.\<close>

definition importable :: "string \<Rightarrow> disc_modal \<Rightarrow> bool" where
  "importable n s \<longleftrightarrow>
     (\<exists>p \<in> set (case dm_projects s of None \<Rightarrow> [] | Some ps \<Rightarrow> ps). discoveredProject_name p = n \<and> \<not> discoveredProject_registered p)
     \<or> (\<exists>p \<in> set (case dm_filesystem s of None \<Rightarrow> [] | Some ps \<Rightarrow> ps). foundProject_name p = n \<and> \<not> foundProject_registered p)"

fun disc_step :: "disc_modal \<Rightarrow> disc_event \<Rightarrow> disc_modal option" where
  "disc_step s (ImportFound n) = (if dm_open s \<and> dm_busy s = None \<and> importable n s then Some (importOne n s) else None)"
| "disc_step s ImportAllFound =
     (if dm_open s \<and> dm_err s = None \<and> dm_projects s \<noteq> None \<and> unregistered s > 1 \<and> dm_busy s = None
      then Some (importAll s) else None)"
| "disc_step s CloseDisc = (if dm_open s then Some (s\<lparr>dm_open := False\<rparr>) else None)"
| "disc_step s (ScanAnswer q r) =
     (if q \<notin> set (pn_open s) then None
      else case fst q of
        DiscScan \<Rightarrow> Some (case r of Inr d \<Rightarrow> show_scan d (pn_done q s) | Inl e \<Rightarrow> (pn_done q s)\<lparr>dm_err := Some (error_message e)\<rparr>)
      | DiscRescan \<Rightarrow>
          Some ((case r of Inr d \<Rightarrow> show_scan d (pn_done q s) | Inl e \<Rightarrow> pn_toast (error_message e) True (pn_done q s))\<lparr>dm_busy := None\<rparr>)
      | _ \<Rightarrow> None)"
| "disc_step s (ImportAnswer q r) =
     (if q \<in> set (pn_open s) \<and> fst q = DiscImport
      then Some (case r of
             Inr (n, k) \<Rightarrow>
               (pn_change (pn_toast ([CHR 0xE2, CHR 0x80, CHR 0x9C] @ n @ [CHR 0xE2, CHR 0x80, CHR 0x9D] @ '' added to projects with ''
                 @ int_str k @ '' service'' @ plural_s k @ ''.'') False (pn_done q s)))\<lparr>dm_open := False\<rparr>
           | Inl e \<Rightarrow> (pn_toast (error_message e) True (pn_done q s))\<lparr>dm_busy := None\<rparr>)
      else None)"
| "disc_step s (ImportAllAnswer q r) =
     (if q \<in> set (pn_open s) \<and> fst q = DiscImportAll
      then Some (case r of
             Inr (n, k) \<Rightarrow> pn_request DiscRescan (wire_of api_discovery)
                             (pn_change (pn_toast (imported_text n k) False (pn_done q s)))
           | Inl e \<Rightarrow> (pn_toast (error_message e) True (pn_done q s))\<lparr>dm_busy := None\<rparr>)
      else None)"

text \<open>The requests in flight, the first scan apart.\<close>

definition imports_open :: "(disc_op \<times> wire) list \<Rightarrow> nat" where
  "imports_open qs = length (filter (\<lambda>q. fst q \<noteq> DiscScan) qs)"

lemma imports_open_simps [simp]:
  "imports_open [] = 0" "imports_open (xs @ ys) = imports_open xs + imports_open ys"
  "imports_open [(k, w)] = (if k = DiscScan then 0 else 1)"
  by (simp_all add: imports_open_def)

lemma imports_open_remove1:
  "q \<in> set xs \<Longrightarrow> imports_open xs = imports_open (remove1 q xs) + (if fst q = DiscScan then 0 else 1)"
  by (induction xs) (auto simp: imports_open_def)

text \<open>One import runs at a time, and the dialog is not left disabled: while it is busy and open an
  import or the scan after it is in flight.\<close>

definition disc_inv :: "disc_modal \<Rightarrow> bool" where
  "disc_inv s \<longleftrightarrow>
     imports_open (pn_open s) \<le> 1 \<and> (dm_busy s = None \<longrightarrow> imports_open (pn_open s) = 0)
     \<and> (dm_busy s \<noteq> None \<and> dm_open s \<longrightarrow> imports_open (pn_open s) = 1)"

lemma disc_step_inv:
  assumes "disc_inv s" "disc_step s e = Some s'"
  shows "disc_inv s'"
proof (cases e)
  case (ScanAnswer q r)
  with assms imports_open_remove1 [of q "pn_open s"] show ?thesis
    by (cases r; cases "fst q") (auto simp: disc_inv_def show_scan_def pn_defs split: if_splits)
next
  case (ImportAnswer q r)
  with assms imports_open_remove1 [of q "pn_open s"] show ?thesis
    by (cases r) (auto simp: disc_inv_def pn_defs split: if_splits)
next
  case (ImportAllAnswer q r)
  with assms imports_open_remove1 [of q "pn_open s"] show ?thesis
    by (cases r) (auto simp: disc_inv_def pn_defs split: if_splits)
qed (use assms in \<open>auto simp: disc_inv_def importOne_def importAll_def pn_defs split: if_splits\<close>)

interpretation discovery: started_system disc_step disc_inv disc_init
  by unfold_locales (rule disc_step_inv, simp_all add: disc_inv_def disc_init_def)

lemma discovery_one_import: "run disc_step disc_init es = Some s \<Longrightarrow> imports_open (pn_open s) \<le> 1"
  using discovery.reachable_inv [of es s] by (simp add: disc_inv_def)

end
