(* ===== verification/Page_Monitoring.thy ===== *)
theory Page_Monitoring
  imports Ui_Panel
begin

text \<open>
  The monitoring pages: the range effect and the one-time reads of
  \<open>client/src/features/dashboard/TelemetryPage.tsx\<close>, and the five tabs of \<open>MonitoringPage.tsx\<close>.
  Both load by range or metric; the first page drops answers that come too late, the second does
  not.
\<close>

section \<open>Telemetry\<close>

text \<open>Each run of an effect has its own \<open>alive\<close> variable; the runs are numbered, and only the last
  run of a mounted page is alive.\<close>

record tel_page =
  tl_mounted :: bool
  tl_range :: string
  tl_points :: "TelemetryPoint list"
  tl_loading :: bool
  tl_run :: nat
  tl_open :: "(nat \<times> string) list"
  tl_detail :: "ServerDetail option"
  tl_storage :: "StorageInfo option"
  tl_cstats :: "ContainerStat list option"
  tl_reads :: "wire list"

definition tel_effect :: "tel_page \<Rightarrow> tel_page" where
  "tel_effect s =
     s\<lparr>tl_loading := True, tl_run := Suc (tl_run s), tl_open := tl_open s @ [(Suc (tl_run s), tl_range s)]\<rparr>"

definition tel_init :: tel_page where
  "tel_init =
     tel_effect \<lparr>tl_mounted = True, tl_range = ''1h'', tl_points = [], tl_loading = True, tl_run = 0, tl_open = [],
       tl_detail = None, tl_storage = None, tl_cstats = None,
       tl_reads = [wire_of api_serverDetail, wire_of api_storage, wire_of api_containerStats]\<rparr>"

definition tel_ranges :: "string list" where
  "tel_ranges = [''15m'', ''1h'', ''6h'', ''24h'']"

text \<open>The request of a run.\<close>

definition tel_wire :: "nat \<times> string \<Rightarrow> wire" where
  "tel_wire q = wire_of (api_telemetry (Some (snd q)))"

definition tel_alive :: "tel_page \<Rightarrow> nat \<Rightarrow> bool" where
  "tel_alive s n \<longleftrightarrow> tl_mounted s \<and> n = tl_run s"

datatype tel_event =
    TelRange string
  | TelPoints "nat \<times> string" "js_error + TelemetryPoint list"
  | TelDetail "js_error + ServerDetail"
  | TelStorage "js_error + StorageInfo"
  | TelStats "js_error + ContainerStat list"
  | TelLeave

text \<open>The one-time reads: a failed detail or storage read changes nothing, failed container figures
  are shown as none.\<close>

definition tel_read :: "wire \<Rightarrow> (tel_page \<Rightarrow> tel_page) \<Rightarrow> tel_page \<Rightarrow> tel_page option" where
  "tel_read w f s =
     (if w \<in> set (tl_reads s)
      then (let t = s\<lparr>tl_reads := remove1 w (tl_reads s)\<rparr> in Some (if tl_mounted s then f t else t)) else None)"

fun tel_step :: "tel_page \<Rightarrow> tel_event \<Rightarrow> tel_page option" where
  "tel_step s (TelRange r) =
     (if \<not> tl_mounted s \<or> r \<notin> set tel_ranges then None
      else if r = tl_range s then Some s else Some (tel_effect (s\<lparr>tl_range := r\<rparr>)))"
| "tel_step s (TelPoints q a) =
     (if q \<notin> set (tl_open s) then None
      else (let t = s\<lparr>tl_open := remove1 q (tl_open s)\<rparr> in
            Some (if tel_alive s (fst q)
                  then t\<lparr>tl_points := (case a of Inr ps \<Rightarrow> ps | Inl e \<Rightarrow> []), tl_loading := False\<rparr> else t)))"
| "tel_step s (TelDetail a) =
     tel_read (wire_of api_serverDetail) (\<lambda>t. case a of Inr d \<Rightarrow> t\<lparr>tl_detail := Some d\<rparr> | Inl e \<Rightarrow> t) s"
| "tel_step s (TelStorage a) =
     tel_read (wire_of api_storage) (\<lambda>t. case a of Inr d \<Rightarrow> t\<lparr>tl_storage := Some d\<rparr> | Inl e \<Rightarrow> t) s"
| "tel_step s (TelStats a) =
     tel_read (wire_of api_containerStats) (\<lambda>t. t\<lparr>tl_cstats := Some (case a of Inr c \<Rightarrow> c | Inl e \<Rightarrow> [])\<rparr>) s"
| "tel_step s TelLeave = (if tl_mounted s then Some (s\<lparr>tl_mounted := False\<rparr>) else None)"

text \<open>What the page shows: nothing while loading.\<close>

definition tel_shown :: "tel_page \<Rightarrow> TelemetryPoint list option" where
  "tel_shown s = (if tl_loading s then None else Some (tl_points s))"

definition runs_known :: "(nat \<times> string) list \<Rightarrow> nat \<Rightarrow> string \<Rightarrow> bool" where
  "runs_known qs n r \<longleftrightarrow> (\<forall>q \<in> set qs. fst q \<le> n \<and> (fst q = n \<longrightarrow> snd q = r))"

definition tel_law :: "tel_event list \<Rightarrow> tel_page \<Rightarrow> bool" where
  "tel_law es s \<longleftrightarrow>
     runs_known (tl_open s) (tl_run s) (tl_range s)
     \<and> (tl_mounted s \<longrightarrow>
          (if tl_loading s then (tl_run s, tl_range s) \<in> set (tl_open s)
           else \<exists>a. TelPoints (tl_run s, tl_range s) a \<in> set es
                  \<and> tl_points s = (case a of Inr ps \<Rightarrow> ps | Inl e \<Rightarrow> [])))"

lemma tel_law_frame:
  assumes "tel_law es s" "tl_open s' = tl_open s" "tl_run s' = tl_run s" "tl_range s' = tl_range s"
    "tl_points s' = tl_points s" "tl_loading s' = tl_loading s" "tl_mounted s' \<longrightarrow> tl_mounted s"
  shows "tel_law (es @ [e]) s'"
  using assms by (auto simp: tel_law_def)

lemma tel_read_frame:
  assumes "tel_read w f s = Some s'" "\<And>t. tl_open (f t) = tl_open t \<and> tl_run (f t) = tl_run t \<and> tl_range (f t) = tl_range t
     \<and> tl_points (f t) = tl_points t \<and> tl_loading (f t) = tl_loading t \<and> tl_mounted (f t) = tl_mounted t" "tel_law es s"
  shows "tel_law (es @ [e]) s'"
proof (cases "tl_mounted s")
  case True
  then have "s' = f (s\<lparr>tl_reads := remove1 w (tl_reads s)\<rparr>)" using assms(1) by (auto simp: tel_read_def Let_def split: if_splits)
  with assms(2) show ?thesis by (intro tel_law_frame [OF assms(3)]) simp_all
next
  case False
  then have "s' = s\<lparr>tl_reads := remove1 w (tl_reads s)\<rparr>" using assms(1) by (auto simp: tel_read_def Let_def split: if_splits)
  then show ?thesis by (intro tel_law_frame [OF assms(3)]) simp_all
qed

lemma runs_known_remove1: "runs_known qs n r \<Longrightarrow> runs_known (remove1 q qs) n r"
  unfolding runs_known_def using set_remove1_subset by fast

lemma runs_known_last: "runs_known qs n r \<Longrightarrow> q \<in> set qs \<Longrightarrow> fst q = n \<Longrightarrow> q = (n, r)"
  unfolding runs_known_def by (metis prod.collapse)

lemma runs_known_next: "runs_known qs n r \<Longrightarrow> runs_known (qs @ [(Suc n, r')]) (Suc n) r'"
  unfolding runs_known_def by fastforce

lemma tel_law_points:
  assumes "tel_law es s" "tel_step s (TelPoints q a) = Some s'"
  shows "tel_law (es @ [TelPoints q a]) s'"
proof -
  have q: "q \<in> set (tl_open s)" using assms(2) by (simp split: if_splits)
  have known: "runs_known (tl_open s) (tl_run s) (tl_range s)" using assms(1) by (simp add: tel_law_def)
  show ?thesis
  proof (cases "tel_alive s (fst q)")
    case True
    then have "q = (tl_run s, tl_range s)" using runs_known_last [OF known q] by (simp add: tel_alive_def)
    moreover have "s' = s\<lparr>tl_open := remove1 q (tl_open s), tl_points := (case a of Inr ps \<Rightarrow> ps | Inl e \<Rightarrow> []), tl_loading := False\<rparr>"
      using True q assms(2) by (simp add: Let_def)
    ultimately show ?thesis using runs_known_remove1 [OF known] by (auto simp: tel_law_def)
  next
    case False
    have "s' = s\<lparr>tl_open := remove1 q (tl_open s)\<rparr>" using False q assms(2) by (simp add: Let_def)
    moreover have "q \<noteq> (tl_run s, tl_range s)" if "tl_mounted s" using False that by (auto simp: tel_alive_def)
    ultimately show ?thesis using assms(1) runs_known_remove1 [OF known] by (auto simp: tel_law_def in_set_remove1)
  qed
qed

interpretation telemetry: recorded_system tel_step tel_init tel_law
proof unfold_locales
  show "tel_law [] tel_init" by (simp add: tel_law_def tel_init_def tel_effect_def runs_known_def)
next
  fix es s e s' assume law: "tel_law es s" and st: "tel_step s e = Some s'"
  show "tel_law (es @ [e]) s'"
  proof (cases e)
    case (TelRange r)
    from TelRange st consider "s' = s" "tl_range s = r" | "s' = tel_effect (s\<lparr>tl_range := r\<rparr>)" by (auto split: if_splits)
    then show ?thesis
    proof cases
      case 2
      then show ?thesis using law by (auto simp: tel_law_def tel_effect_def intro: runs_known_next)
    qed (use law in \<open>auto intro: tel_law_frame\<close>)
  next
    case (TelPoints q a)
    then show ?thesis using tel_law_points law st by blast
  next
    case TelLeave
    then show ?thesis using law st by (auto split: if_splits intro: tel_law_frame)
  qed (use law st in \<open>auto elim!: tel_read_frame split: sum.splits\<close>)
qed

text \<open>C18: On the telemetry page only readings of the selected range are shown. Whatever ranges were
  selected and in whatever order the answers come, a mounted page that is not loading shows the
  points of an answer to the request of its last run, which was made for the range now selected,
  or none if that request failed; and a mounted page that is loading waits for exactly that
  request, whose answer ends the loading.\<close>

theorem telemetry_current_range:
  assumes "run tel_step tel_init es = Some s" and "tl_mounted s"
  shows "case tel_shown s of
      Some ps \<Rightarrow> \<exists>a. TelPoints (tl_run s, tl_range s) a \<in> set es \<and> ps = (case a of Inr qs \<Rightarrow> qs | Inl e \<Rightarrow> [])
    | None \<Rightarrow> tel_wire (tl_run s, tl_range s) = wire_of (api_telemetry (Some (tl_range s)))
        \<and> (\<forall>a. \<exists>s'. tel_step s (TelPoints (tl_run s, tl_range s) a) = Some s'
               \<and> tel_shown s' = Some (case a of Inr qs \<Rightarrow> qs | Inl e \<Rightarrow> []))"
  using telemetry.recorded [OF assms(1)] assms(2)
  by (auto simp: tel_law_def tel_shown_def tel_alive_def tel_wire_def Let_def split: if_splits)

theorem telemetry_current_range_witness:
  "\<forall>ps qs. \<exists>s. run tel_step tel_init [TelRange ''6h'', TelPoints (2, ''6h'') (Inr qs), TelPoints (1, ''1h'') (Inr ps)] = Some s
     \<and> tel_shown s = Some qs"
proof (intro allI)
  fix ps qs
  let ?es = "[TelRange ''6h'', TelPoints (2, ''6h'') (Inr qs), TelPoints (1, ''1h'') (Inr ps)]"
  obtain s where s: "run tel_step tel_init ?es = Some s" "tl_mounted s" "tl_run s = 2" "tl_range s = ''6h''" "\<not> tl_loading s"
    by (simp add: tel_init_def tel_effect_def tel_ranges_def tel_alive_def Let_def eval_nat_numeral)
  from telemetry_current_range [OF s(1,2)] s have "tel_shown s = Some qs"
    by (auto simp: tel_shown_def)
  with s(1) show "\<exists>s. run tel_step tel_init ?es = Some s \<and> tel_shown s = Some qs" by blast
qed

section \<open>Metrics tab\<close>

text \<open>An answer carries the metric and range of its request; there is no \<open>alive\<close> variable. The timer of
  an effect run resets the error and shows the loading text.\<close>

record metrics_tab =
  mt_metric :: string
  mt_range :: string
  mt_data :: "PromRangeResult option"
  mt_loading :: bool
  mt_error :: string
  mt_timers :: nat
  mt_open :: "(string \<times> string) list"

definition metrics_effect :: "metrics_tab \<Rightarrow> metrics_tab" where
  "metrics_effect s = s\<lparr>mt_timers := Suc (mt_timers s), mt_open := mt_open s @ [(mt_metric s, mt_range s)]\<rparr>"

definition metrics_init :: metrics_tab where
  "metrics_init =
     metrics_effect \<lparr>mt_metric = ''cpu'', mt_range = ''1h'', mt_data = None, mt_loading = False, mt_error = [],
       mt_timers = 0, mt_open = []\<rparr>"

definition METRIC_OPTIONS :: "(string \<times> string) list" where
  "METRIC_OPTIONS =
     [(''cpu'', ''#EA580C''), (''memory'', ''#16A34A''), (''disk'', ''#D97706''), (''networkRx'', ''#0E7490''),
      (''networkTx'', ''#7C3AED'')]"

definition metrics_ranges :: "string list" where
  "metrics_ranges = [''1h'', ''6h'', ''24h'', ''7d'']"

definition metrics_wire :: "string \<times> string \<Rightarrow> wire" where
  "metrics_wire q = wire_of (api_monitoringMetrics (fst q) (Some (snd q)) None)"

datatype metrics_event =
    MtMetric string
  | MtRange string
  | MtTimer
  | MtAnswer "string \<times> string" "js_error + PromRangeResult"

fun metrics_step :: "metrics_tab \<Rightarrow> metrics_event \<Rightarrow> metrics_tab option" where
  "metrics_step s (MtMetric m) =
     (if m \<notin> fst ` set METRIC_OPTIONS then None
      else if m = mt_metric s then Some s else Some (metrics_effect (s\<lparr>mt_metric := m\<rparr>)))"
| "metrics_step s (MtRange r) =
     (if r \<notin> set metrics_ranges then None
      else if r = mt_range s then Some s else Some (metrics_effect (s\<lparr>mt_range := r\<rparr>)))"
| "metrics_step s MtTimer =
     (if mt_timers s = 0 then None else Some (s\<lparr>mt_timers := mt_timers s - 1, mt_loading := True, mt_error := []\<rparr>))"
| "metrics_step s (MtAnswer q a) =
     (if q \<notin> set (mt_open s) then None
      else Some ((case a of Inr d \<Rightarrow> s\<lparr>mt_data := Some d\<rparr> | Inl e \<Rightarrow> s\<lparr>mt_error := error_message e, mt_data := None\<rparr>)
                   \<lparr>mt_open := remove1 q (mt_open s), mt_loading := False\<rparr>))"

text \<open>What the tab draws under the name of the selected metric: an error, the loading text, or data.\<close>

definition metrics_view :: "metrics_tab \<Rightarrow> string + PromRangeResult option option" where
  "metrics_view s =
     (if mt_error s \<noteq> [] then Inl (mt_error s) else Inr (if mt_loading s then None else Some (mt_data s)))"

definition metrics_color :: "metrics_tab \<Rightarrow> string" where
  "metrics_color s = (case map_of METRIC_OPTIONS (mt_metric s) of Some c \<Rightarrow> c | None \<Rightarrow> ''#EA580C'')"

definition isPercent :: "metrics_tab \<Rightarrow> bool" where
  "isPercent s \<longleftrightarrow> mt_metric s = ''cpu'' \<or> mt_metric s = ''memory'' \<or> mt_metric s = ''disk''"

definition lastVal :: "metrics_tab \<Rightarrow> string option" where
  "lastVal s =
     (case mt_data s of
        None \<Rightarrow> None
      | Some d \<Rightarrow> (case promRangeResult_result d of
            [] \<Rightarrow> None
          | r # rs \<Rightarrow> if promRangeResult_result_item_values r = [] then None
                     else Some (snd (last (promRangeResult_result_item_values r)))))"

text \<open>The metrics tab does not check which metric an answer is for. Select another metric while the
  first is being read: when the answer for the new one comes first and the one for the old one
  later, the tab ends with nothing in flight, the new metric selected and named, and the old
  metric's readings drawn, whatever the two metrics are.\<close>

lemma metrics_stale_answer:
  assumes "m \<in> fst ` set METRIC_OPTIONS" and "m \<noteq> ''cpu''"
  shows "\<exists>s. run metrics_step metrics_init
                 [MtTimer, MtMetric m, MtTimer, MtAnswer (m, ''1h'') (Inr new), MtAnswer (''cpu'', ''1h'') (Inr old)] = Some s
             \<and> mt_metric s = m \<and> metrics_view s = Inr (Some (Some old)) \<and> mt_open s = [] \<and> mt_timers s = 0"
  using assms by (simp add: metrics_init_def metrics_effect_def metrics_view_def)

section \<open>Alerts, silences and targets tabs\<close>

text \<open>What the three tabs share: a list, a loading flag and an error text. \<open>clear\<close> says whether a
  successful load resets the error text, which only the targets tab does. Messages of \<open>alert\<close> are
  recorded as error toasts.\<close>

datatype mon_op = MonLoad | MonSilence | MonExpire string

record 'a mon_tab = "mon_op panel" +
  mo_items :: 'a
  mo_loading :: bool
  mo_error :: string
  mo_timer :: bool

definition mon_load :: "wire \<Rightarrow> bool \<Rightarrow> ('a, 'z) mon_tab_scheme \<Rightarrow> ('a, 'z) mon_tab_scheme" where
  "mon_load w showSpinner s = pn_request MonLoad w (if showSpinner then s\<lparr>mo_loading := True\<rparr> else s)"

definition mon_loaded :: "bool \<Rightarrow> js_error + 'a \<Rightarrow> ('a, 'z) mon_tab_scheme \<Rightarrow> ('a, 'z) mon_tab_scheme" where
  "mon_loaded clear r s =
     (case r of
        Inr xs \<Rightarrow> s\<lparr>mo_items := xs, mo_error := (if clear then [] else mo_error s)\<rparr>
      | Inl e \<Rightarrow> s\<lparr>mo_error := error_message e\<rparr>)\<lparr>mo_loading := False\<rparr>"

definition mon_visible :: "('a, 'z) mon_tab_scheme \<Rightarrow> bool" where
  "mon_visible s \<longleftrightarrow> \<not> mo_loading s \<and> mo_error s = []"

definition mon_init :: "'a \<Rightarrow> 'a mon_tab" where
  "mon_init xs =
     \<lparr>pn_busy = False, pn_open = [], pn_sent = [], pn_toasts = [], pn_changed = 0,
      mo_items = xs, mo_loading = True, mo_error = [], mo_timer = True\<rparr>"

subsection \<open>Alerts\<close>

record alerts_tab = "AmAlert list mon_tab" +
  al_silencing :: "AmAlert option"
  al_dur :: string
  al_comment :: string
  al_now :: int

definition alerts_init :: alerts_tab where
  "alerts_init =
     mon_tab.extend (mon_init []) \<lparr>al_silencing = None, al_dur = ''1h'', al_comment = [], al_now = 0\<rparr>"

text \<open>\<open>toISOString\<close> of a time in milliseconds: the Gregorian date of its day, counted in eras of 400
  years that begin on the first of March.\<close>

definition civil_date :: "int \<Rightarrow> int \<times> int \<times> int" where
  "civil_date days =
     (let z = days + 719468; era = z div 146097; doe = z mod 146097;
          yoe = (doe - doe div 1460 + doe div 36524 - doe div 146096) div 365;
          doy = doe - (365 * yoe + yoe div 4 - yoe div 100);
          mp = (5 * doy + 2) div 153;
          m = (if mp < 10 then mp + 3 else mp - 9)
      in (yoe + era * 400 + (if m \<le> 2 then 1 else 0), m, doy - (153 * mp + 2) div 5 + 1))"

definition two_digits :: "int \<Rightarrow> string" where
  "two_digits n = js_padStart 2 (CHR ''0'') (nat_str (nat n))"

definition iso_year :: "int \<Rightarrow> string" where
  "iso_year y =
     (if 0 \<le> y \<and> y \<le> 9999 then js_padStart 4 (CHR ''0'') (nat_str (nat y))
      else (if y < 0 then ''-'' else ''+'') @ js_padStart 6 (CHR ''0'') (nat_str (nat \<bar>y\<bar>)))"

definition toISOString :: "int \<Rightarrow> string" where
  "toISOString ms =
     (case civil_date (ms div 86400000) of
        (y, m, d) \<Rightarrow>
          (let t = ms mod 86400000 in
           iso_year y @ ''-'' @ two_digits m @ ''-'' @ two_digits d @ ''T''
             @ two_digits (t div 3600000) @ '':'' @ two_digits (t div 60000 mod 60) @ '':''
             @ two_digits (t div 1000 mod 60) @ ''.'' @ js_padStart 3 (CHR ''0'') (nat_str (nat (t mod 1000))) @ ''Z''))"

lemma civil_date_examples:
  "civil_date 0 = (1970, 1, 1)" "civil_date (-1) = (1969, 12, 31)" "civil_date 11015 = (2000, 2, 28)"
  "civil_date 11016 = (2000, 2, 29)" "civil_date 11017 = (2000, 3, 1)" "civil_date (-25509) = (1900, 2, 28)"
  "civil_date (-25508) = (1900, 3, 1)" "civil_date 19723 = (2024, 1, 1)"
  by code_simp+

definition silence_minutes :: "string \<Rightarrow> int" where
  "silence_minutes d =
     (case map_of [(''30m'', 30), (''1h'', 60), (''4h'', 240), (''custom'', 60)] d of Some n \<Rightarrow> n | None \<Rightarrow> 60)"

definition silence_matcher :: "string \<times> string \<Rightarrow> json" where
  "silence_matcher l =
     JObj [(''name'', JStr (fst l)), (''value'', JStr (snd l)), (''isRegex'', JBool False), (''isEqual'', JBool True)]"

definition silence_body :: "AmAlert \<Rightarrow> string \<Rightarrow> string \<Rightarrow> int \<Rightarrow> json" where
  "silence_body a dur comment now =
     JObj [(''matchers'', JArr (map silence_matcher (amAlert_labels a))),
           (''startsAt'', JStr (toISOString now)),
           (''endsAt'', JStr (toISOString (now + silence_minutes dur * 60000))),
           (''createdBy'', JStr ''serverhub''),
           (''comment'', JStr (if comment = [] then ''Silenced via ServerHub for '' @ dur else comment))]"

definition silence_durations :: "string list" where
  "silence_durations = [''30m'', ''1h'', ''4h'', ''custom'']"

definition doSilence :: "AmAlert \<Rightarrow> alerts_tab \<Rightarrow> alerts_tab" where
  "doSilence a s = pn_start MonSilence (wire_of (api_createSilence (silence_body a (al_dur s) (al_comment s) (al_now s)))) s"

definition silence_answer :: "js_error + json option \<Rightarrow> alerts_tab \<Rightarrow> alerts_tab" where
  "silence_answer r s =
     pn_free (case r of Inr v \<Rightarrow> s\<lparr>al_silencing := None, al_comment := []\<rparr> | Inl e \<Rightarrow> pn_toast (error_message e) True s)"

datatype alerts_event =
    AlClock int
  | AlTimer
  | AlBus BusEvent
  | AlRefresh
  | AlPick AmAlert
  | AlDur string
  | AlComment string
  | AlClose
  | AlCreate
  | AlLoaded "mon_op \<times> wire" "js_error + AmAlert list"
  | AlSilenced "mon_op \<times> wire" "js_error + json option"

definition alert_event_type :: "string \<Rightarrow> bool" where
  "alert_event_type t \<longleftrightarrow> t = ''monitoring.alert.firing'' \<or> t = ''monitoring.alert.resolved''"

fun alerts_step :: "alerts_tab \<Rightarrow> alerts_event \<Rightarrow> alerts_tab option" where
  "alerts_step s (AlClock t) = Some (s\<lparr>al_now := t\<rparr>)"
| "alerts_step s AlTimer =
     (if mo_timer s then Some (mon_load (wire_of api_monitoringAlerts) False (s\<lparr>mo_timer := False\<rparr>)) else None)"
| "alerts_step s (AlBus ev) =
     Some (if alert_event_type (busEvent_type ev) then mon_load (wire_of api_monitoringAlerts) True s else s)"
| "alerts_step s AlRefresh = (if mon_visible s then Some (mon_load (wire_of api_monitoringAlerts) True s) else None)"
| "alerts_step s (AlPick a) =
     (if mon_visible s \<and> a \<in> set (mo_items s) \<and> amAlert_status_state (amAlert_status a) = AmAlert_statusState_active
      then Some (s\<lparr>al_silencing := Some a\<rparr>) else None)"
| "alerts_step s (AlDur d) =
     (if mon_visible s \<and> al_silencing s \<noteq> None \<and> d \<in> set silence_durations then Some (s\<lparr>al_dur := d\<rparr>) else None)"
| "alerts_step s (AlComment t) =
     (if mon_visible s \<and> al_silencing s \<noteq> None then Some (s\<lparr>al_comment := t\<rparr>) else None)"
| "alerts_step s AlClose =
     (if mon_visible s \<and> al_silencing s \<noteq> None then Some (s\<lparr>al_silencing := None\<rparr>) else None)"
| "alerts_step s AlCreate =
     (case al_silencing s of
        None \<Rightarrow> None
      | Some a \<Rightarrow> if mon_visible s \<and> \<not> pn_busy s then Some (doSilence a s) else None)"
| "alerts_step s (AlLoaded q r) =
     (if fst q = MonLoad \<and> q \<in> set (pn_open s) then Some (mon_loaded False r (pn_done q s)) else None)"
| "alerts_step s (AlSilenced q r) =
     (if fst q = MonSilence \<and> q \<in> set (pn_open s) then Some (silence_answer r (pn_done q s)) else None)"

lemmas mon_defs = mon_load_def mon_loaded_def doSilence_def silence_answer_def pn_defs

definition is_silence :: "wire \<Rightarrow> bool" where
  "is_silence w \<longleftrightarrow> (\<exists>b. w = wire_of (api_createSilence b))"

text \<open>The dialog stays open for the alert that was picked.\<close>

fun al_arm :: "alerts_tab \<Rightarrow> alerts_event \<Rightarrow> AmAlert option" where
  "al_arm s (AlPick a) = Some a"
| "al_arm s _ = None"

definition al_disarm :: "alerts_event \<Rightarrow> bool" where
  "al_disarm e \<longleftrightarrow> e = AlClose \<or> (\<exists>q v. e = AlSilenced q (Inr v))"

lemma alerts_not_silence [simp]: "\<not> is_silence (wire_of api_monitoringAlerts)"
  by (auto simp: is_silence_def wire_of_def call_init_def api_defs)

interpretation silencing: confirmed_system alerts_step alerts_init al_silencing al_arm al_disarm pn_sent AlCreate is_silence
  "\<lambda>a w. \<exists>dur c t. w = wire_of (api_createSilence (silence_body a dur c t))"
proof unfold_locales
  fix s e s' x assume st: "alerts_step s e = Some s'" "al_silencing s' = Some x"
  show "al_arm s e = Some x \<or> al_silencing s = Some x \<and> \<not> al_disarm e \<and> al_arm s e = None"
  proof (cases e)
    case (AlSilenced q r)
    with st show ?thesis by (cases r) (auto simp: mon_defs al_disarm_def split: if_splits)
  next
    case (AlLoaded q r)
    with st show ?thesis by (cases r) (auto simp: mon_defs al_disarm_def split: if_splits)
  qed (use st in \<open>auto simp: mon_defs al_disarm_def split: if_splits option.splits\<close>)
next
  fix s e s' w assume st: "alerts_step s e = Some s'" "w \<in> set (pn_sent s')" "is_silence w"
  show "w \<in> set (pn_sent s) \<or> e = AlCreate \<and> (\<exists>x. al_silencing s = Some x
          \<and> (\<exists>dur c t. w = wire_of (api_createSilence (silence_body x dur c t))))"
  proof (cases e)
    case (AlSilenced q r)
    with st show ?thesis by (cases r) (auto simp: mon_defs split: if_splits)
  next
    case (AlLoaded q r)
    with st show ?thesis by (cases r) (auto simp: mon_defs split: if_splits)
  next
    case AlCreate
    with st show ?thesis by (auto simp: mon_defs split: if_splits option.splits)
  qed (use st in \<open>auto simp: mon_defs split: if_splits option.splits\<close>)
qed (simp_all add: alerts_init_def mon_init_def mon_tab.extend_def)

definition alerts_why :: "alerts_tab \<Rightarrow> alerts_event \<Rightarrow> wire \<Rightarrow> bool" where
  "alerts_why t e w \<longleftrightarrow>
     w = wire_of api_monitoringAlerts
     \<or> (\<exists>a. e = AlCreate \<and> al_silencing t = Some a
          \<and> w = wire_of (api_createSilence (silence_body a (al_dur t) (al_comment t) (al_now t))))"

interpretation alerts: explained_system alerts_step alerts_init pn_sent alerts_why
proof unfold_locales
  fix s e s' w assume st: "alerts_step s e = Some s'" "w \<in> set (pn_sent s')"
  show "w \<in> set (pn_sent s) \<or> alerts_why s e w"
  proof (cases e)
    case (AlSilenced q r)
    with st show ?thesis by (cases r) (auto simp: mon_defs split: if_splits)
  next
    case (AlLoaded q r)
    with st show ?thesis by (cases r) (auto simp: mon_defs split: if_splits)
  qed (use st in \<open>auto simp: mon_defs alerts_why_def split: if_splits option.splits\<close>)
qed

lemma silence_body_exact: "json_exact (silence_body a dur c t)"
  by (simp add: silence_body_def silence_matcher_def)

lemma silence_members:
  "wire_member ''matchers'' (wire_of (api_createSilence (silence_body a d c t))) = Some (JArr (map silence_matcher (amAlert_labels a)))"
  "wire_member ''startsAt'' (wire_of (api_createSilence (silence_body a d c t))) = Some (JStr (toISOString t))"
  "wire_member ''endsAt'' (wire_of (api_createSilence (silence_body a d c t)))
     = Some (JStr (toISOString (t + (if d = ''30m'' then 30 else if d = ''4h'' then 240 else 60) * 60000)))"
  unfolding api_createSilence_def wire_member_json [OF silence_body_exact]
  by (simp_all add: silence_body_def silence_minutes_def)


definition case_alert :: AmAlert where
  "case_alert =
     \<lparr>amAlert_fingerprint = ''f1'',
      amAlert_status = \<lparr>amAlert_status_state = AmAlert_statusState_active, amAlert_status_silencedBy = [], amAlert_status_inhibitedBy = []\<rparr>,
      amAlert_labels = [(''alertname'', ''DiskFull''), (''instance'', ''web-1'')], amAlert_annotations = [],
      amAlert_startsAt = [], amAlert_endsAt = [], amAlert_generatorURL = [], amAlert_receivers = []\<rparr>"

abbreviation silence_case :: "alerts_event list" where
  "silence_case \<equiv>
     [AlTimer, AlLoaded (MonLoad, wire_of api_monitoringAlerts) (Inr [case_alert]), AlClock 951782400000, AlPick case_alert,
      AlDur ''4h'', AlCreate]"


text \<open>An error of the alerts tab never goes away. Once a read of the alerts has failed with a message,
  no later event of any execution shows the alerts again: a later successful read does not reset
  the error text, and the error view has no Refresh button. Only a read that fails with an empty
  message would.\<close>

lemma alerts_error_sticks:
  assumes "run alerts_step alerts_init es = Some s" and "mo_error s \<noteq> []"
    and "run alerts_step s fs = Some s'" and "\<forall>q e. AlLoaded q (Inl e) \<in> set fs \<longrightarrow> error_message e \<noteq> []"
  shows "mo_error s' \<noteq> [] \<and> \<not> mon_visible s' \<and> alerts_step s' AlRefresh = None"
proof -
  have "mo_error s' \<noteq> []" using assms(2-)
  proof (induction fs arbitrary: s)
    case (Cons f fs)
    then obtain t where t: "alerts_step s f = Some t" "run alerts_step t fs = Some s'" by (auto split: option.splits)
    have "mo_error t \<noteq> []"
    proof (cases f)
      case (AlLoaded q r)
      then have "r = Inl e \<Longrightarrow> error_message e \<noteq> []" for e
        using Cons.prems(3) by (metis list.set_intros(1))
      with AlLoaded t(1) Cons.prems(1) show ?thesis by (cases r) (auto simp: mon_defs split: if_splits)
    next
      case (AlSilenced q r)
      with t(1) Cons.prems(1) show ?thesis by (cases r) (auto simp: mon_defs split: if_splits)
    qed (use t(1) Cons.prems(1) in \<open>auto simp: mon_defs split: if_splits option.splits\<close>)
    with t(2) Cons show ?case by auto
  qed simp
  then show ?thesis by (simp add: mon_visible_def)
qed

subsection \<open>Silences\<close>

record silences_tab = "AmSilence list mon_tab" +
  si_deleting :: "string option"

definition silences_init :: silences_tab where
  "silences_init = mon_tab.extend (mon_init []) \<lparr>si_deleting = None\<rparr>"

definition doDelete :: "string \<Rightarrow> silences_tab \<Rightarrow> silences_tab" where
  "doDelete i s = pn_request (MonExpire i) (wire_of (api_deleteSilence i)) (s\<lparr>si_deleting := Some i\<rparr>)"

definition delete_answer :: "js_error + OkReply \<Rightarrow> silences_tab \<Rightarrow> silences_tab" where
  "delete_answer r s =
     (case r of Inr v \<Rightarrow> mon_load (wire_of api_monitoringSilences) True s | Inl e \<Rightarrow> pn_toast (error_message e) True s)
       \<lparr>si_deleting := None\<rparr>"

datatype silences_event =
    SiTimer
  | SiBus BusEvent
  | SiRefresh
  | SiExpire AmSilence
  | SiLoaded "mon_op \<times> wire" "js_error + AmSilence list"
  | SiExpired "mon_op \<times> wire" "js_error + OkReply"

definition active_silence :: "AmSilence \<Rightarrow> bool" where
  "active_silence x \<longleftrightarrow> amSilence_status_state (amSilence_status x) = AmSilence_statusState_active"

fun silences_step :: "silences_tab \<Rightarrow> silences_event \<Rightarrow> silences_tab option" where
  "silences_step s SiTimer =
     (if mo_timer s then Some (mon_load (wire_of api_monitoringSilences) False (s\<lparr>mo_timer := False\<rparr>)) else None)"
| "silences_step s (SiBus ev) =
     Some (if alert_event_type (busEvent_type ev) then mon_load (wire_of api_monitoringSilences) True s else s)"
| "silences_step s SiRefresh = (if mon_visible s then Some (mon_load (wire_of api_monitoringSilences) True s) else None)"
| "silences_step s (SiExpire x) =
     (if mon_visible s \<and> x \<in> set (mo_items s) \<and> active_silence x \<and> si_deleting s \<noteq> Some (amSilence_id x)
      then Some (doDelete (amSilence_id x) s) else None)"
| "silences_step s (SiLoaded q r) =
     (if fst q = MonLoad \<and> q \<in> set (pn_open s) then Some (mon_loaded False r (pn_done q s)) else None)"
| "silences_step s (SiExpired q r) =
     (case fst q of MonExpire i \<Rightarrow> if q \<in> set (pn_open s) then Some (delete_answer r (pn_done q s)) else None | _ \<Rightarrow> None)"

definition silences_line :: "AmSilence list \<Rightarrow> nat \<times> nat" where
  "silences_line xs = (length (filter active_silence xs), length (filter (\<lambda>x. \<not> active_silence x) xs))"

lemma silences_line_total: "fst (silences_line xs) + snd (silences_line xs) = length xs"
  by (simp add: silences_line_def sum_length_filter_compl)

text \<open>A silence is expired only by pressing Expire on it while it was listed as active.\<close>

lemma silences_sends:
  assumes "silences_step s e = Some s'" "w \<in> set (pn_sent s')"
  shows "w \<in> set (pn_sent s) \<or> w = wire_of api_monitoringSilences
     \<or> (\<exists>x. e = SiExpire x \<and> x \<in> set (mo_items s) \<and> active_silence x \<and> w = wire_of (api_deleteSilence (amSilence_id x)))"
proof (cases e)
  case (SiLoaded q r)
  with assms show ?thesis by (cases r) (auto simp: mon_defs split: if_splits)
next
  case (SiExpired q r)
  with assms show ?thesis by (cases r) (auto simp: mon_defs delete_answer_def split: if_splits mon_op.splits)
qed (use assms in \<open>auto simp: mon_defs doDelete_def split: if_splits\<close>)

interpretation expiring: traced_system silences_step silences_init
  "\<lambda>w s. w \<in> set (pn_sent s) \<and> w \<noteq> wire_of api_monitoringSilences"
  "\<lambda>w e. \<exists>x. e = SiExpire x \<and> active_silence x \<and> w = wire_of (api_deleteSilence (amSilence_id x))"
  by unfold_locales (use silences_sends in \<open>fastforce simp: silences_init_def mon_init_def mon_tab.extend_def\<close>)+

lemma silence_expired_by_user:
  "run silences_step silences_init es = Some s \<Longrightarrow> w \<in> set (pn_sent s) \<Longrightarrow> w \<noteq> wire_of api_monitoringSilences
    \<Longrightarrow> \<exists>x. SiExpire x \<in> set es \<and> active_silence x \<and> w = wire_of (api_deleteSilence (amSilence_id x))"
  using expiring.traced by blast

subsection \<open>Targets\<close>

type_synonym targets_tab = "PromTargetsData option mon_tab"

definition targets_init :: targets_tab where
  "targets_init = mon_load (wire_of api_prometheusTargets) False ((mon_init None)\<lparr>mo_timer := False\<rparr>)"

datatype targets_event =
    TgBus BusEvent
  | TgLoaded "mon_op \<times> wire" "js_error + PromTargetsData"

fun targets_step :: "targets_tab \<Rightarrow> targets_event \<Rightarrow> targets_tab option" where
  "targets_step s (TgBus ev) =
     Some (if alert_event_type (busEvent_type ev) then mon_load (wire_of api_prometheusTargets) False s else s)"
| "targets_step s (TgLoaded q r) =
     (if fst q = MonLoad \<and> q \<in> set (pn_open s) then Some (mon_loaded True (map_sum id Some r) (pn_done q s)) else None)"

definition target_up :: "PromTarget \<Rightarrow> bool" where
  "target_up t \<longleftrightarrow> promTarget_health t = PromTargetHealth_up"

definition targets_line :: "PromTargetsData \<Rightarrow> nat \<times> nat" where
  "targets_line d = (length (filter target_up (promTargetsData_activeTargets d)), length (promTargetsData_activeTargets d))"

definition target_job :: "PromTarget \<Rightarrow> string" where
  "target_job t = (case map_of (promTarget_labels t) ''job'' of Some j \<Rightarrow> j | None \<Rightarrow> promTarget_scrapePool t)"

text \<open>The targets tab recovers: a successful read shows its targets whatever failed before.\<close>

lemma targets_recover:
  assumes "targets_step s (TgLoaded q (Inr d)) = Some s'"
  shows "mon_visible s' \<and> mo_items s' = Some d"
  using assms by (auto simp: mon_loaded_def mon_visible_def split: if_splits)

section \<open>Dashboard tab\<close>

text \<open>The five requests of \<open>load\<close> are sent together; the loading text goes when all have settled.\<close>

datatype dash_op = DsOverview | DsProm | DsAm | DsAlerts | DsTargets

record dash_tab =
  ds_overview :: "MonitoringOverview option"
  ds_promOk :: "bool option"
  ds_amOk :: "bool option"
  ds_alerts :: "AmAlert list"
  ds_targets :: "PromTargetsData option"
  ds_loading :: bool
  ds_timer :: bool
  ds_wait :: "dash_op list"
  ds_extra :: nat

definition dash_init :: dash_tab where
  "dash_init =
     \<lparr>ds_overview = None, ds_promOk = None, ds_amOk = None, ds_alerts = [], ds_targets = None, ds_loading = True,
      ds_timer = True, ds_wait = [], ds_extra = 0\<rparr>"

definition settle :: "dash_op \<Rightarrow> dash_tab \<Rightarrow> dash_tab" where
  "settle k s =
     (let ws = remove1 k (ds_wait s) in s\<lparr>ds_wait := ws, ds_loading := (if ws = [] then False else ds_loading s)\<rparr>)"

datatype dash_event =
    DsTimer
  | DsBus BusEvent
  | DsOverviewAnswer "js_error + MonitoringOverview"
  | DsPromAnswer "js_error + PrometheusStatus"
  | DsAmAnswer "js_error + AlertmanagerStatus"
  | DsAlertsAnswer "js_error + AmAlert list"
  | DsTargetsAnswer "js_error + PromTargetsData"
  | DsExtraAnswer "js_error + AmAlert list"

definition on_wait :: "dash_op \<Rightarrow> (dash_tab \<Rightarrow> dash_tab) \<Rightarrow> dash_tab \<Rightarrow> dash_tab option" where
  "on_wait k f s = (if k \<in> set (ds_wait s) then Some (settle k (f s)) else None)"

fun dash_step :: "dash_tab \<Rightarrow> dash_event \<Rightarrow> dash_tab option" where
  "dash_step s DsTimer =
     (if ds_timer s then Some (s\<lparr>ds_timer := False, ds_wait := [DsOverview, DsProm, DsAm, DsAlerts, DsTargets]\<rparr>) else None)"
| "dash_step s (DsBus ev) = Some (if alert_event_type (busEvent_type ev) then s\<lparr>ds_extra := Suc (ds_extra s)\<rparr> else s)"
| "dash_step s (DsOverviewAnswer r) =
     on_wait DsOverview (\<lambda>s. case r of Inr v \<Rightarrow> s\<lparr>ds_overview := Some v\<rparr> | Inl e \<Rightarrow> s) s"
| "dash_step s (DsPromAnswer r) =
     on_wait DsProm (\<lambda>s. case r of Inr v \<Rightarrow> s\<lparr>ds_promOk := Some (or_else (prometheusStatus_healthy v) (prometheusStatus_available v))\<rparr> | Inl e \<Rightarrow> s) s"
| "dash_step s (DsAmAnswer r) =
     on_wait DsAm (\<lambda>s. case r of Inr v \<Rightarrow> s\<lparr>ds_amOk := Some (or_else (alertmanagerStatus_healthy v) (alertmanagerStatus_available v))\<rparr> | Inl e \<Rightarrow> s) s"
| "dash_step s (DsAlertsAnswer r) =
     on_wait DsAlerts (\<lambda>s. s\<lparr>ds_alerts := (case r of Inr v \<Rightarrow> v | Inl e \<Rightarrow> [])\<rparr>) s"
| "dash_step s (DsTargetsAnswer r) =
     on_wait DsTargets (\<lambda>s. case r of Inr v \<Rightarrow> s\<lparr>ds_targets := Some v\<rparr> | Inl e \<Rightarrow> s) s"
| "dash_step s (DsExtraAnswer r) =
     (case ds_extra s of
        0 \<Rightarrow> None
      | Suc n \<Rightarrow> Some ((case r of Inr v \<Rightarrow> s\<lparr>ds_alerts := v\<rparr> | Inl e \<Rightarrow> s)\<lparr>ds_extra := n\<rparr>))"

definition ellipsis :: string where
  "ellipsis = [CHR 0xE2, CHR 0x80, CHR 0xA6]"

definition status_label :: "bool option \<Rightarrow> string" where
  "status_label ok =
     (case ok of None \<Rightarrow> ''Checking'' @ ellipsis | Some b \<Rightarrow> if b then ''Connected'' else ''Unavailable'')"

definition firing :: "AmAlert list \<Rightarrow> AmAlert list" where
  "firing as = filter (\<lambda>a. amAlert_status_state (amAlert_status a) = AmAlert_statusState_active) as"

text \<open>The loading text is shown exactly until everything has settled.\<close>

definition dash_inv :: "dash_tab \<Rightarrow> bool" where
  "dash_inv s \<longleftrightarrow> distinct (ds_wait s) \<and> (ds_timer s \<longrightarrow> ds_loading s \<and> ds_wait s = [])
     \<and> (\<not> ds_timer s \<longrightarrow> (ds_loading s \<longleftrightarrow> ds_wait s \<noteq> []))
     \<and> (ds_promOk s \<noteq> None \<longrightarrow> \<not> ds_timer s \<and> DsProm \<notin> set (ds_wait s))"

lemma on_wait_inv:
  assumes "on_wait k f s = Some s'" "dash_inv s" "\<And>t. ds_wait (f t) = ds_wait t \<and> ds_loading (f t) = ds_loading t \<and> ds_timer (f t) = ds_timer t"
    "\<And>t. ds_promOk (f t) = ds_promOk t \<or> k = DsProm"
  shows "dash_inv s'"
  using assms by (auto simp: on_wait_def dash_inv_def settle_def Let_def split: if_splits)

interpretation dash: started_system dash_step dash_inv dash_init
proof unfold_locales
  show "dash_inv dash_init" by (simp add: dash_inv_def dash_init_def)
next
  fix s e s' assume inv: "dash_inv s" and st: "dash_step s e = Some s'"
  show "dash_inv s'"
  proof (cases e)
    case DsTimer
    then show ?thesis using inv st by (auto simp: dash_inv_def split: if_splits)
  next
    case (DsExtraAnswer r)
    then show ?thesis using inv st by (cases r) (auto simp: dash_inv_def split: nat.splits)
  next
    case (DsBus ev)
    then show ?thesis using inv st by (auto simp: dash_inv_def split: if_splits)
  qed (use inv st in \<open>auto elim!: on_wait_inv split: sum.splits\<close>)
qed

text \<open>A failed status request leaves Checking on the card for good: the tab asks only once.\<close>

definition prom_given_up :: "dash_tab \<Rightarrow> bool" where
  "prom_given_up s \<longleftrightarrow> ds_promOk s = None \<and> \<not> ds_timer s \<and> DsProm \<notin> set (ds_wait s)"

lemma on_wait_given_up:
  assumes "on_wait k f s = Some s'" "prom_given_up s" "\<And>t. ds_wait (f t) = ds_wait t \<and> ds_timer (f t) = ds_timer t"
    "\<And>t. ds_promOk (f t) = ds_promOk t \<or> k = DsProm"
  shows "prom_given_up s'"
proof -
  have "k \<noteq> DsProm" "s' = settle k (f s)" using assms(1,2) by (auto simp: on_wait_def prom_given_up_def split: if_splits)
  with assms(2,3,4) notin_set_remove1 [of DsProm "ds_wait s" k] show ?thesis
    by (simp add: prom_given_up_def settle_def Let_def)
qed

interpretation given_up: step_invariant dash_step prom_given_up
proof unfold_locales
  fix s e s' assume gone: "prom_given_up s" and st: "dash_step s e = Some s'"
  show "prom_given_up s'"
  proof (cases e)
    case (DsExtraAnswer r)
    then show ?thesis using gone st by (cases r) (auto simp: prom_given_up_def split: nat.splits)
  next
    case (DsBus ev)
    then show ?thesis using gone st by (auto simp: prom_given_up_def split: if_splits)
  next
    case DsTimer
    then show ?thesis using gone st by (simp add: prom_given_up_def)
  qed (use gone st in \<open>auto elim!: on_wait_given_up split: sum.splits\<close>)
qed

lemma status_checked_once:
  assumes "run dash_step dash_init es = Some s" "DsProm \<in> set (ds_wait s)"
    "run dash_step s (DsPromAnswer (Inl e) # fs) = Some s'"
  shows "status_label (ds_promOk s') = ''Checking'' @ ellipsis"
proof -
  have "dash_inv s" by (rule dash.reachable_inv [OF assms(1)])
  with assms(2) have "prom_given_up (settle DsProm s)"
    by (auto simp: prom_given_up_def dash_inv_def settle_def Let_def)
  then have "prom_given_up s'" using assms(2,3) by (auto simp: on_wait_def intro: given_up.run_inv)
  then show ?thesis by (simp add: prom_given_up_def status_label_def)
qed

section \<open>Figures\<close>

text \<open>The bar of a metric: no value, or the percentage shown, its tone and its width in percent.\<close>

definition metric_pct :: "rat \<Rightarrow> rat" where
  "metric_pct x = max 0 (min 100 x)"

definition metric_bar :: "rat option \<Rightarrow> (string \<times> string \<times> int) option" where
  "metric_bar v =
     (case v of
        None \<Rightarrow> None
      | Some x \<Rightarrow>
          if x < 0 then None
          else (let pct = metric_pct x in
                Some (toFixed_rat 1 pct @ ''%'',
                      if pct \<ge> 90 then ''bg-brick'' else if pct \<ge> 70 then ''bg-status-amber'' else ''bg-ink dark:bg-bone'',
                      js_round (pct / 5) * 5)))"

lemma metric_bar_width: "metric_bar v = Some (t, c, w) \<Longrightarrow> 0 \<le> w \<and> w \<le> 100 \<and> 5 dvd w"
proof -
  assume "metric_bar v = Some (t, c, w)"
  then obtain x where x: "w = js_round (metric_pct x / 5) * 5"
    by (auto simp: metric_bar_def Let_def split: option.splits if_split_asm)
  have "0 \<le> metric_pct x / 5" "metric_pct x / 5 \<le> 20" by (auto simp: metric_pct_def)
  then have "0 \<le> js_round (metric_pct x / 5)" "js_round (metric_pct x / 5) < 21"
    by (simp_all add: js_round_def floor_less_iff)
  with x show ?thesis by simp
qed

definition rate_text :: "rat option \<Rightarrow> string" where
  "rate_text b =
     (case b of
        None \<Rightarrow> em_dash
      | Some b \<Rightarrow>
          if b < 0 then em_dash
          else if b < 1024 then toFixed_rat 0 b @ '' B/s''
          else if b < 1024 * 1024 then toFixed_rat 1 (b / 1024) @ '' KB/s''
          else toFixed_rat 1 (b / 1024 / 1024) @ '' MB/s'')"

definition alert_age :: "(string \<Rightarrow> rat) \<Rightarrow> rat \<Rightarrow> string \<Rightarrow> string" where
  "alert_age date now start =
     (let sec = \<lfloor>(now - date start) / 1000\<rfloor> in
      if sec < 60 then int_str sec @ ''s''
      else if sec < 3600 then int_str \<lfloor>of_int sec / 60 :: rat\<rfloor> @ ''m''
      else int_str \<lfloor>of_int sec / 3600 :: rat\<rfloor> @ ''h'')"

definition severityColor :: "string option \<Rightarrow> string" where
  "severityColor sev =
     (let t = js_toLowerCase (or_else sev []) in
      if t = ''critical'' then ''text-brick'' else if t = ''warning'' then ''text-status-amber''
      else ''text-muted dark:text-fog'')"

definition severityBadge :: "string option \<Rightarrow> string" where
  "severityBadge sev =
     (let t = js_toLowerCase (or_else sev []) in
      if t = ''critical'' then ''bg-brick/10 text-brick border-brick/30''
      else if t = ''warning'' then ''bg-status-amber/10 text-status-amber border-status-amber/30''
      else ''bg-paper dark:bg-abyss text-muted dark:text-fog border-line dark:border-edge'')"

end
