(* ===== verification/Page_Checks.thy ===== *)
theory Page_Checks
  imports Rules_Form Format
begin

text \<open>
  The health check page, the alert page, the activity log and the agent tokens of a server
  (\<open>client/src/features/dashboard/HealthChecksPage.tsx\<close>, \<open>AlertsPage.tsx\<close>, \<open>AuditLogPage.tsx\<close>,
  \<open>ServerDetailPage.tsx\<close>): their forms, confirmations and requests, and what they show when a
  read fails.
\<close>

section \<open>Health checks\<close>

text \<open>Each opening of the dialog is a new component; the number tells the openings apart, since a
  request can outlive the dialog that sent it.\<close>

record check_form =
  cf_id :: nat
  cf_name :: string
  cf_type :: healthCheck_type_enum
  cf_target :: string
  cf_interval :: jsnum
  cf_timeout :: jsnum
  cf_expectedStatus :: jsnum
  cf_busy :: bool

definition new_check_form :: "nat \<Rightarrow> check_form" where
  "new_check_form n =
     \<lparr>cf_id = n, cf_name = [], cf_type = HealthCheckType_http, cf_target = [], cf_interval = Fin 60, cf_timeout = Fin 10,
      cf_expectedStatus = Fin 200, cf_busy = False\<rparr>"

datatype check_field =
    CfName string
  | CfType healthCheck_type_enum
  | CfTarget string
  | CfInterval string
  | CfTimeout string
  | CfExpected string

fun set_field :: "check_field \<Rightarrow> check_form \<Rightarrow> check_form" where
  "set_field (CfName t) f = f\<lparr>cf_name := t\<rparr>"
| "set_field (CfType t) f = f\<lparr>cf_type := t\<rparr>"
| "set_field (CfTarget t) f = f\<lparr>cf_target := t\<rparr>"
| "set_field (CfInterval t) f = f\<lparr>cf_interval := js_Number t\<rparr>"
| "set_field (CfTimeout t) f = f\<lparr>cf_timeout := js_Number t\<rparr>"
| "set_field (CfExpected t) f = f\<lparr>cf_expectedStatus := js_Number t\<rparr>"

definition field_shown :: "check_field \<Rightarrow> check_form \<Rightarrow> bool" where
  "field_shown x f \<longleftrightarrow> (case x of CfExpected t \<Rightarrow> cf_type f = HealthCheckType_http | _ \<Rightarrow> True)"

fun check_type_word :: "healthCheck_type_enum \<Rightarrow> string" where
  "check_type_word HealthCheckType_http = ''http''"
| "check_type_word HealthCheckType_tcp = ''tcp''"
| "check_type_word HealthCheckType_ping = ''ping''"

definition check_json :: "check_form \<Rightarrow> json" where
  "check_json f =
     JObj [(''name'', JStr (cf_name f)), (''type'', JStr (check_type_word (cf_type f))), (''target'', JStr (cf_target f)),
           (''interval'', json_num (cf_interval f)), (''timeout'', json_num (cf_timeout f)),
           (''expectedStatus'', json_num (cf_expectedStatus f))]"

datatype check_op = HcCreate nat string | HcDelete | HcToggle

record checks_page = "check_op panel" +
  hc_checks :: "HealthCheck list"
  hc_form :: "check_form option"
  hc_opened :: nat

definition checks_init :: checks_page where
  "checks_init =
     \<lparr>pn_busy = False, pn_open = [], pn_sent = [], pn_toasts = [], pn_changed = 0,
      hc_checks = [], hc_form = None, hc_opened = 0\<rparr>"

definition check_submit :: "check_form \<Rightarrow> checks_page \<Rightarrow> checks_page" where
  "check_submit f s =
     pn_request (HcCreate (cf_id f) (cf_name f)) (wire_of (api_createHealthCheck (check_json f)))
       (s\<lparr>hc_form := Some (f\<lparr>cf_busy := True\<rparr>)\<rparr>)"

text \<open>After the await: \<open>onClose\<close> closes whatever dialog the page shows, while the busy flag is that of
  the component that sent the request.\<close>

definition unbusy :: "nat \<Rightarrow> check_form option \<Rightarrow> check_form option" where
  "unbusy n fo = map_option (\<lambda>f. if cf_id f = n then f\<lparr>cf_busy := False\<rparr> else f) fo"

definition check_created :: "nat \<Rightarrow> string \<Rightarrow> js_error + json option \<Rightarrow> checks_page \<Rightarrow> checks_page" where
  "check_created n name r s =
     (case r of
        Inr v \<Rightarrow> (pn_change (pn_toast (''Health check '' @ [CHR 0x22] @ name @ [CHR 0x22] @ '' created'') False s))\<lparr>hc_form := None\<rparr>
      | Inl e \<Rightarrow> (pn_toast (error_message e) True s)\<lparr>hc_form := unbusy n (hc_form s)\<rparr>)"

definition check_deleted :: "js_error + json option \<Rightarrow> checks_page \<Rightarrow> checks_page" where
  "check_deleted r s =
     (case r of Inr v \<Rightarrow> pn_change (pn_toast ''Deleted'' False s) | Inl e \<Rightarrow> pn_toast (error_message e) True s)"

definition check_toggled :: "js_error + json option \<Rightarrow> checks_page \<Rightarrow> checks_page" where
  "check_toggled r s = (case r of Inr v \<Rightarrow> pn_change s | Inl e \<Rightarrow> pn_toast (error_message e) True s)"

definition toggle_wire :: "HealthCheck \<Rightarrow> wire" where
  "toggle_wire c = wire_of (api_updateHealthCheck (healthCheck_id c) (JObj [(''enabled'', JBool (\<not> healthCheck_enabled c))]))"

text \<open>The answer to \<open>confirm\<close> is part of the event.\<close>

datatype checks_event =
    ChecksLoaded "HealthCheck list"
  | OpenCheckForm
  | CloseCheckForm
  | SetCheckField check_field
  | SubmitCheck
  | ToggleCheck HealthCheck
  | DeleteCheck HealthCheck bool
  | CheckCreated "check_op \<times> wire" "js_error + json option"
  | CheckDeleted "check_op \<times> wire" "js_error + json option"
  | CheckToggled "check_op \<times> wire" "js_error + json option"

fun checks_step :: "checks_page \<Rightarrow> checks_event \<Rightarrow> checks_page option" where
  "checks_step s (ChecksLoaded cs) = Some (s\<lparr>hc_checks := cs\<rparr>)"
| "checks_step s OpenCheckForm =
     (if hc_form s = None
      then Some (s\<lparr>hc_form := Some (new_check_form (Suc (hc_opened s))), hc_opened := Suc (hc_opened s)\<rparr>) else None)"
| "checks_step s CloseCheckForm = (if hc_form s = None then None else Some (s\<lparr>hc_form := None\<rparr>))"
| "checks_step s (SetCheckField x) =
     (case hc_form s of
        None \<Rightarrow> None
      | Some f \<Rightarrow> if field_shown x f then Some (s\<lparr>hc_form := Some (set_field x f)\<rparr>) else None)"
| "checks_step s SubmitCheck =
     (case hc_form s of
        None \<Rightarrow> None
      | Some f \<Rightarrow> if cf_busy f \<or> cf_name f = [] \<or> cf_target f = [] then None else Some (check_submit f s))"
| "checks_step s (ToggleCheck c) =
     (if c \<in> set (hc_checks s) then Some (pn_request HcToggle (toggle_wire c) s) else None)"
| "checks_step s (DeleteCheck c ok) =
     (if c \<notin> set (hc_checks s) then None
      else Some (if ok then pn_request HcDelete (wire_of (api_deleteHealthCheck (healthCheck_id c))) s else s))"
| "checks_step s (CheckCreated q r) =
     (case fst q of
        HcCreate n name \<Rightarrow> if q \<in> set (pn_open s) then Some (check_created n name r (pn_done q s)) else None
      | _ \<Rightarrow> None)"
| "checks_step s (CheckDeleted q r) =
     (if fst q = HcDelete \<and> q \<in> set (pn_open s) then Some (check_deleted r (pn_done q s)) else None)"
| "checks_step s (CheckToggled q r) =
     (if fst q = HcToggle \<and> q \<in> set (pn_open s) then Some (check_toggled r (pn_done q s)) else None)"

definition count_checks :: "healthCheck_status_enum \<Rightarrow> HealthCheck list \<Rightarrow> nat" where
  "count_checks st cs = length (filter (\<lambda>c. healthCheck_status c = st) cs)"

lemmas check_defs = check_submit_def check_created_def check_deleted_def check_toggled_def pn_defs

text \<open>What the requests of the page mean.\<close>

definition checks_why :: "checks_page \<Rightarrow> checks_event \<Rightarrow> wire \<Rightarrow> bool" where
  "checks_why t e w \<longleftrightarrow>
     (\<exists>f. e = SubmitCheck \<and> hc_form t = Some f \<and> \<not> cf_busy f \<and> cf_name f \<noteq> [] \<and> cf_target f \<noteq> []
        \<and> w = wire_of (api_createHealthCheck (check_json f)))
     \<or> (\<exists>c. e = ToggleCheck c \<and> c \<in> set (hc_checks t) \<and> w = toggle_wire c)
     \<or> (\<exists>c. e = DeleteCheck c True \<and> c \<in> set (hc_checks t) \<and> w = wire_of (api_deleteHealthCheck (healthCheck_id c)))"

interpretation checks: explained_system checks_step checks_init pn_sent checks_why
proof unfold_locales
  fix s e s' w assume st: "checks_step s e = Some s'" "w \<in> set (pn_sent s')"
  show "w \<in> set (pn_sent s) \<or> checks_why s e w"
  proof (cases e)
    case (CheckCreated q r)
    with st show ?thesis by (cases r) (auto simp: check_defs split: check_op.splits if_splits)
  next
    case (CheckDeleted q r)
    with st show ?thesis by (cases r) (auto simp: check_defs split: if_splits)
  next
    case (CheckToggled q r)
    with st show ?thesis by (cases r) (auto simp: check_defs split: if_splits)
  qed (use st in \<open>auto simp: check_defs checks_why_def split: if_splits option.splits\<close>)
qed

text \<open>The health check page sends what the user asked for. Every request of the page is the creation
  of the check in the form, sent by Create with a name and a target and never while the form's own
  creation runs; the switch of a listed check to the opposite of the state the list shows; or the
  deletion of a listed check for which the browser's question was answered with yes.\<close>

lemma checks_as_asked:
  assumes "run checks_step checks_init es = Some s" and "w \<in> set (pn_sent s)"
  shows "explained_by checks_step checks_init checks_why es w"
  using checks.explained [OF assms] by (simp add: checks_init_def)

definition case_check :: HealthCheck where
  "case_check =
     \<lparr>healthCheck_id = 4, healthCheck_name = ''api'', healthCheck_type = HealthCheckType_tcp, healthCheck_target = ''db:5432'',
      healthCheck_interval = 60, healthCheck_timeout = 10, healthCheck_expectedStatus = 0, healthCheck_enabled = True,
      healthCheck_status = HealthCheckStatus_UP, healthCheck_responseTimeMs = None, healthCheck_lastCheckedAt = None,
      healthCheck_serverId = None, healthCheck_createdAt = [], healthCheck_updatedAt = []\<rparr>"

text \<open>A dialog that was closed while its creation ran takes the next one with it: the answer closes the
  form the user is filling in.\<close>

lemma late_creation_closes:
  assumes "run checks_step checks_init es = Some s" "q \<in> set (pn_open s)" "fst q = HcCreate n name"
  shows "\<exists>s'. checks_step s (CheckCreated q (Inr v)) = Some s' \<and> hc_form s' = None"
  using assms(2,3) by (simp add: check_defs)

text \<open>Clearing a number field sends zero.\<close>

lemma cleared_number: "cf_interval (set_field (CfInterval []) f) = Fin 0"
  by (simp add: js_Number_def js_trim_def js_trimStart_def js_trimEnd_def)

section \<open>Reads that fail\<close>

text \<open>What a page knows of a query: its status and whether a request is running. \<open>isLoading\<close> is pending
  and running; a pending query whose request is paused (the browser is offline) is not loading.\<close>

datatype query_status = QyPending | QyError | QySuccess

record 'a query =
  qy_status :: query_status
  qy_fetching :: bool
  qy_data :: "'a option"

definition isLoading :: "'a query \<Rightarrow> bool" where
  "isLoading q \<longleftrightarrow> qy_status q = QyPending \<and> qy_fetching q"

definition isError :: "'a query \<Rightarrow> bool" where
  "isError q \<longleftrightarrow> qy_status q = QyError"

definition query_rows :: "'a list query \<Rightarrow> 'a list" where
  "query_rows q = (case qy_data q of None \<Rightarrow> [] | Some xs \<Rightarrow> xs)"

datatype 'a page_view = ViewError | ViewLoading | ViewEmpty string | ViewRows "'a list"

datatype alert_tab = TabTriggered | TabResolved | TabAll

definition triggered_alerts :: "Alert list \<Rightarrow> Alert list" where
  "triggered_alerts xs = filter (\<lambda>a. alert_status a = AlertStatus_TRIGGERED) xs"

definition resolved_alerts :: "Alert list \<Rightarrow> Alert list" where
  "resolved_alerts xs = filter (\<lambda>a. alert_status a = AlertStatus_RESOLVED) xs"

fun tab_alerts :: "alert_tab \<Rightarrow> Alert list \<Rightarrow> Alert list" where
  "tab_alerts TabTriggered xs = triggered_alerts xs"
| "tab_alerts TabResolved xs = resolved_alerts xs"
| "tab_alerts TabAll xs = xs"

fun tab_empty :: "alert_tab \<Rightarrow> string" where
  "tab_empty TabTriggered = ''No active alerts.''"
| "tab_empty TabResolved = ''No resolved alerts yet.''"
| "tab_empty TabAll = ''No alerts at all.''"

fun tab_query :: "alert_tab \<Rightarrow> wire" where
  "tab_query TabTriggered = wire_of (api_alerts (Some ''TRIGGERED''))"
| "tab_query TabResolved = wire_of (api_alerts (Some ''RESOLVED''))"
| "tab_query TabAll = wire_of (api_alerts None)"

definition alerts_view :: "alert_tab \<Rightarrow> Alert list query \<Rightarrow> Alert page_view" where
  "alerts_view tab q =
     (let alerts = query_rows q; shown = tab_alerts tab alerts in
      if isError q \<and> \<not> isLoading q \<and> alerts = [] then ViewError
      else if isLoading q then ViewLoading
      else if shown = [] then ViewEmpty (tab_empty tab) else ViewRows shown)"

definition tab_label :: "alert_tab \<Rightarrow> Alert list \<Rightarrow> string" where
  "tab_label tab xs =
     (case tab of
        TabTriggered \<Rightarrow> ''Active ('' @ nat_str (length (triggered_alerts xs)) @ '')''
      | TabResolved \<Rightarrow> ''Resolved ('' @ nat_str (length (resolved_alerts xs)) @ '')''
      | TabAll \<Rightarrow> ''All ('' @ nat_str (length xs) @ '')'')"

definition checks_view :: "HealthCheck list query \<Rightarrow> HealthCheck page_view" where
  "checks_view q =
     (if isLoading q then ViewLoading
      else if query_rows q = [] then ViewEmpty ''No health checks configured.'' else ViewRows (query_rows q))"

definition audit_view :: "AuditLog list query \<Rightarrow> AuditLog page_view" where
  "audit_view q =
     (if isLoading q then ViewLoading
      else if query_rows q = [] then ViewEmpty ''No activity records found.'' else ViewRows (query_rows q))"

definition audit_limits :: "int list" where
  "audit_limits = [50, 100, 200]"

text \<open>What the query library documents: a successful query has data, a pending one has none.\<close>

definition query_law :: "'a query \<Rightarrow> bool" where
  "query_law q \<longleftrightarrow> (qy_status q = QySuccess \<longrightarrow> qy_data q \<noteq> None) \<and> (qy_status q = QyPending \<longrightarrow> qy_data q = None)"

text \<open>The alert page gives the all-clear only on data: when it says that there are no alerts, then
  either the list it last read has none for the tab, or the first read is paused because the
  browser is offline; in particular a failed first read is never an all-clear. The health check
  and activity pages lack that: a failed first read of theirs is shown as an empty list.\<close>

lemma alerts_all_clear:
  assumes "query_law q" and "query_law hq" and "query_law aq"
    and "qy_status hq = QyError" "qy_data hq = None" and "qy_status aq = QyError" "qy_data aq = None"
  shows "(\<forall>t. alerts_view tab q = ViewEmpty t \<longrightarrow>
            (\<exists>xs. qy_data q = Some xs \<and> tab_alerts tab xs = [])
            \<or> (qy_status q = QyPending \<and> \<not> qy_fetching q))
         \<and> checks_view hq = ViewEmpty ''No health checks configured.''
         \<and> audit_view aq = ViewEmpty ''No activity records found.''"
proof (intro conjI allI impI)
  fix t assume "alerts_view tab q = ViewEmpty t"
  with assms(1) show "(\<exists>xs. qy_data q = Some xs \<and> tab_alerts tab xs = []) \<or> (qy_status q = QyPending \<and> \<not> qy_fetching q)"
    by (cases "qy_status q"; cases "qy_data q")
      (auto simp: alerts_view_def query_law_def isError_def isLoading_def query_rows_def Let_def split: if_splits)
qed (use assms in \<open>simp_all add: checks_view_def audit_view_def isLoading_def query_rows_def\<close>)

text \<open>The numbers on the tabs come from the list of the selected tab, which the server filtered: on the
  active tab the resolved ones are always none, and the other way round.\<close>

lemma tab_counts_of_other_tab:
  "(\<forall>a \<in> set xs. alert_status a = AlertStatus_TRIGGERED) \<Longrightarrow> tab_label TabResolved xs = ''Resolved (0)''"
  "(\<forall>a \<in> set xs. alert_status a = AlertStatus_RESOLVED) \<Longrightarrow> tab_label TabTriggered xs = ''Active (0)''"
  by (auto simp: tab_label_def resolved_alerts_def triggered_alerts_def nat_str_0 filter_empty_conv cong: filter_cong)

text \<open>How long a resolved alert lasted; none for a missing, unreadable or negative span.\<close>

definition alertDuration :: "(string \<Rightarrow> rat option) \<Rightarrow> Alert \<Rightarrow> string option" where
  "alertDuration date a =
     (case alert_resolvedAt a of
        None \<Rightarrow> None
      | Some r \<Rightarrow>
          if r = [] then None
          else (case (date r, date (alert_triggeredAt a)) of
                  (Some y, Some x) \<Rightarrow> if y - x < 0 then None else Some (fmtDuration (Some (of_int (js_round ((y - x) / 1000)))))
                | _ \<Rightarrow> None))"

section \<open>Resolving an alert\<close>

text \<open>A row of the alert page, with the alert it is drawn for.\<close>

datatype row_event =
    RowAlert Alert
  | PressResolve
  | Resolved "unit \<times> wire" "js_error + json option"

record alert_row = "unit panel" +
  ar_alert :: Alert

fun row_step :: "alert_row \<Rightarrow> row_event \<Rightarrow> alert_row option" where
  "row_step s (RowAlert a) = (if alert_id a = alert_id (ar_alert s) then Some (s\<lparr>ar_alert := a\<rparr>) else None)"
| "row_step s PressResolve =
     (if alert_status (ar_alert s) = AlertStatus_TRIGGERED \<and> \<not> pn_busy s
      then Some (pn_start () (wire_of (api_resolveAlert (alert_id (ar_alert s)))) s) else None)"
| "row_step s (Resolved q r) =
     (if q \<in> set (pn_open s) then Some (pn_act (\<lambda>s. s) ''Alert resolved'' r (pn_done q s)) else None)"

definition row_init :: "Alert \<Rightarrow> alert_row" where
  "row_init a = \<lparr>pn_busy = False, pn_open = [], pn_sent = [], pn_toasts = [], pn_changed = 0, ar_alert = a\<rparr>"

text \<open>A row asks for its own alert only, and for one thing at a time.\<close>

definition row_inv :: "int \<Rightarrow> alert_row \<Rightarrow> bool" where
  "row_inv i s \<longleftrightarrow>
     alert_id (ar_alert s) = i \<and> set (pn_sent s) \<subseteq> {wire_of (api_resolveAlert i)}
     \<and> length (pn_open s) = (if pn_busy s then 1 else 0)"

interpretation row: step_invariant row_step "row_inv i" for i
proof unfold_locales
  fix s e s' assume inv: "row_inv i s" and st: "row_step s e = Some s'"
  show "row_inv i s'"
  proof (cases e)
    case (Resolved q r)
    then have q: "q \<in> set (pn_open s)" "s' = pn_act (\<lambda>s. s) ''Alert resolved'' r (pn_done q s)"
      using st by (auto split: if_splits)
    then have "length (remove1 q (pn_open s)) = 0" using inv by (auto simp: row_inv_def length_remove1 split: if_splits)
    with q inv show ?thesis by (cases r) (auto simp: row_inv_def pn_defs)
  qed (use inv st in \<open>auto simp: row_inv_def pn_defs split: if_splits\<close>)
qed

lemma row_one_request:
  "run row_step (row_init a) es = Some s \<Longrightarrow> row_inv (alert_id a) s"
  by (rule row.run_inv [of "alert_id a" "row_init a"]) (simp_all add: row_inv_def row_init_def)

section \<open>Agent tokens of a server\<close>

datatype token_op = TkCreate | TkRevoke int

record tokens_tab = "token_op panel" +
  tk_tokens :: "AgentToken list"
  tk_new :: "string option"
  tk_label :: string
  tk_form :: bool
  tk_creating :: bool
  tk_busy :: "int list"

definition tokens_init :: tokens_tab where
  "tokens_init =
     \<lparr>pn_busy = False, pn_open = [], pn_sent = [], pn_toasts = [], pn_changed = 0,
      tk_tokens = [], tk_new = None, tk_label = [], tk_form = False, tk_creating = False, tk_busy = []\<rparr>"

definition createToken :: "int \<Rightarrow> tokens_tab \<Rightarrow> tokens_tab" where
  "createToken sid s =
     pn_request TkCreate (wire_of (api_createAgentToken sid (Some (tk_label s)))) (s\<lparr>tk_creating := True\<rparr>)"

definition token_made :: "js_error + string \<Rightarrow> tokens_tab \<Rightarrow> tokens_tab" where
  "token_made r s =
     (case r of
        Inr t \<Rightarrow> (pn_change s)\<lparr>tk_new := Some t, tk_label := [], tk_form := False\<rparr>
      | Inl e \<Rightarrow> pn_toast (error_message e) True s)\<lparr>tk_creating := False\<rparr>"

definition revokeToken :: "int \<Rightarrow> AgentToken \<Rightarrow> tokens_tab \<Rightarrow> tokens_tab" where
  "revokeToken sid t s =
     pn_request (TkRevoke (agentToken_id t)) (wire_of (api_revokeAgentToken sid (agentToken_id t)))
       (s\<lparr>tk_busy := agentToken_id t # tk_busy s\<rparr>)"

definition token_revoked :: "int \<Rightarrow> js_error + json option \<Rightarrow> tokens_tab \<Rightarrow> tokens_tab" where
  "token_revoked i r s =
     (case r of Inr v \<Rightarrow> pn_change (pn_toast ''Token revoked'' False s) | Inl e \<Rightarrow> pn_toast (error_message e) True s)
       \<lparr>tk_busy := remove1 i (tk_busy s)\<rparr>"

datatype token_event =
    TokensLoaded "AgentToken list"
  | ToggleTokenForm
  | TypeLabel string
  | PressCreateToken
  | DismissToken
  | PressRevoke AgentToken bool
  | TokenMade "token_op \<times> wire" "js_error + string"
  | TokenRevoked "token_op \<times> wire" "js_error + json option"

fun tokens_step :: "int \<Rightarrow> tokens_tab \<Rightarrow> token_event \<Rightarrow> tokens_tab option" where
  "tokens_step sid s (TokensLoaded ts) = Some (s\<lparr>tk_tokens := ts\<rparr>)"
| "tokens_step sid s ToggleTokenForm = Some (s\<lparr>tk_form := \<not> tk_form s\<rparr>)"
| "tokens_step sid s (TypeLabel t) = (if tk_form s then Some (s\<lparr>tk_label := t\<rparr>) else None)"
| "tokens_step sid s PressCreateToken = (if tk_form s \<and> \<not> tk_creating s then Some (createToken sid s) else None)"
| "tokens_step sid s DismissToken = (if tk_new s = None then None else Some (s\<lparr>tk_new := None\<rparr>))"
| "tokens_step sid s (PressRevoke t ok) =
     (if t \<notin> set (tk_tokens s) \<or> agentToken_revoked t \<or> agentToken_id t \<in> set (tk_busy s) then None
      else Some (if ok then revokeToken sid t s else s))"
| "tokens_step sid s (TokenMade q r) =
     (if fst q = TkCreate \<and> q \<in> set (pn_open s) then Some (token_made r (pn_done q s)) else None)"
| "tokens_step sid s (TokenRevoked q r) =
     (case fst q of
        TkRevoke i \<Rightarrow> if q \<in> set (pn_open s) then Some (token_revoked i r (pn_done q s)) else None
      | _ \<Rightarrow> None)"

lemmas token_defs = createToken_def token_made_def revokeToken_def token_revoked_def pn_defs

definition tokens_why :: "int \<Rightarrow> tokens_tab \<Rightarrow> token_event \<Rightarrow> wire \<Rightarrow> bool" where
  "tokens_why sid t e w \<longleftrightarrow>
     (e = PressCreateToken \<and> tk_form t \<and> \<not> tk_creating t \<and> w = wire_of (api_createAgentToken sid (Some (tk_label t))))
     \<or> (\<exists>x. e = PressRevoke x True \<and> x \<in> set (tk_tokens t) \<and> \<not> agentToken_revoked x
          \<and> agentToken_id x \<notin> set (tk_busy t) \<and> w = wire_of (api_revokeAgentToken sid (agentToken_id x)))"

interpretation tokens: explained_system "tokens_step sid" tokens_init pn_sent "tokens_why sid" for sid
proof unfold_locales
  fix s e s' w assume st: "tokens_step sid s e = Some s'" "w \<in> set (pn_sent s')"
  show "w \<in> set (pn_sent s) \<or> tokens_why sid s e w"
  proof (cases e)
    case (TokenMade q r)
    with st show ?thesis by (cases r) (auto simp: token_defs split: if_splits)
  next
    case (TokenRevoked q r)
    with st show ?thesis by (cases r) (auto simp: token_defs split: if_splits token_op.splits)
  qed (use st in \<open>auto simp: token_defs tokens_why_def split: if_splits\<close>)
qed

interpretation new_token: traced_system "tokens_step sid" tokens_init "\<lambda>t s. tk_new s = Some t"
  "\<lambda>t e. \<exists>q. e = TokenMade q (Inr t)" for sid
proof unfold_locales
  fix x show "tk_new tokens_init \<noteq> Some x" by (simp add: tokens_init_def)
next
  fix s e s' x assume st: "tokens_step sid s e = Some s'" "tk_new s' = Some x"
  show "tk_new s = Some x \<or> (\<exists>q. e = TokenMade q (Inr x))"
  proof (cases e)
    case (TokenMade q r)
    with st show ?thesis by (cases r) (auto simp: token_defs split: if_splits)
  next
    case (TokenRevoked q r)
    with st show ?thesis by (cases r) (auto simp: token_defs split: if_splits token_op.splits)
  qed (use st in \<open>auto simp: token_defs split: if_splits\<close>)
qed

text \<open>C26: The token tab of a server is exact about secrets. It asks for a token only by Create with the
  form open and no creation running, with the label typed; it revokes only a listed token that is
  not revoked yet and whose revocation does not run, after the browser's question was answered
  with yes; all of it for this server. The token it shows is one a creation of this execution
  returned.\<close>

theorem tokens_as_asked:
  assumes "run (tokens_step sid) tokens_init es = Some s"
  shows "(\<forall>w \<in> set (pn_sent s). explained_by (tokens_step sid) tokens_init (tokens_why sid) es w)
         \<and> (\<forall>t. tk_new s = Some t \<longrightarrow> (\<exists>q. TokenMade q (Inr t) \<in> set es))"
proof (intro conjI ballI allI impI)
  fix w assume "w \<in> set (pn_sent s)"
  from tokens.explained [OF assms this] show "explained_by (tokens_step sid) tokens_init (tokens_why sid) es w"
    by (simp add: tokens_init_def)
qed (use new_token.traced [OF assms] in blast)

theorem tokens_as_asked_witness:
  "\<exists>s q. run (tokens_step 3) tokens_init
       [ToggleTokenForm, TypeLabel ''edge'', PressCreateToken,
        TokenMade (TkCreate, wire_of (api_createAgentToken 3 (Some ''edge''))) (Inr ''tok'')] = Some s
     \<and> tk_new s = Some ''tok''
     \<and> TokenMade q (Inr ''tok'') \<in> set [ToggleTokenForm, TypeLabel ''edge'', PressCreateToken,
        TokenMade (TkCreate, wire_of (api_createAgentToken 3 (Some ''edge''))) (Inr ''tok'')]"
proof -
  let ?es = "[ToggleTokenForm, TypeLabel ''edge'', PressCreateToken,
        TokenMade (TkCreate, wire_of (api_createAgentToken 3 (Some ''edge''))) (Inr ''tok'')]"
  obtain s where s: "run (tokens_step 3) tokens_init ?es = Some s" "tk_new s = Some ''tok''"
    by (simp add: tokens_init_def token_defs)
  from tokens_as_asked [OF s(1), THEN conjunct2] s show ?thesis by blast
qed

section \<open>The queries of a server's page\<close>

datatype detail_tab = TabOverview | TabMonitoring | TabAudit | TabTokens

definition PROM_RANGES :: "string list" where
  "PROM_RANGES = [''1h'', ''6h'', ''24h'', ''7d'']"

definition PROM_STEP :: "string \<Rightarrow> string option" where
  "PROM_STEP r = map_of [(''1h'', ''1m''), (''6h'', ''5m''), (''24h'', ''15m''), (''7d'', ''1h'')] r"

definition PROM_METRICS :: "(string \<times> rat option) list" where
  "PROM_METRICS =
     [(''cpu_usage'', Some 100), (''memory_usage'', Some 100), (''disk_usage'', Some 100), (''load_1m'', None),
      (''network_receive'', None), (''network_transmit'', None)]"

definition prom_queries :: "int \<Rightarrow> detail_tab \<Rightarrow> string \<Rightarrow> bool \<Rightarrow> wire list" where
  "prom_queries sid tab rng haveServer =
     (if tab = TabMonitoring \<and> rng \<in> set PROM_RANGES \<and> haveServer
      then map (\<lambda>m. wire_of (api_serverPrometheusMetrics sid (fst m) rng (or_else (PROM_STEP rng) ''undefined''))) PROM_METRICS
      else [])"

definition detail_queries :: "int \<Rightarrow> detail_tab \<Rightarrow> string \<Rightarrow> bool \<Rightarrow> wire list" where
  "detail_queries sid tab rng haveServer =
     [wire_of (api_managedServer sid), wire_of (api_serverMetricsLatest sid), wire_of (api_alerts (Some ''TRIGGERED''))]
     @ (if tab = TabMonitoring then [wire_of (api_serverMetrics sid (Some rng))] else [])
     @ prom_queries sid tab rng haveServer
     @ (if tab = TabTokens then [wire_of (api_agentTokens sid)] else [])
     @ (if tab = TabAudit then [wire_of (api_audit (Some 50))] else [])"

text \<open>Every Prometheus query that is sent has a step, and the audit tab asks for the whole platform's log.\<close>

lemma prom_queries_stepped:
  "w \<in> set (prom_queries sid tab rng haveServer)
    \<Longrightarrow> \<exists>m st. PROM_STEP rng = Some st \<and> w = wire_of (api_serverPrometheusMetrics sid m rng st)"
  by (auto simp: prom_queries_def PROM_RANGES_def PROM_STEP_def PROM_METRICS_def split: if_splits)

lemma audit_tab_is_global:
  "wire_of (api_audit (Some 50)) \<in> set (detail_queries sid TabAudit rng h)"
  by (simp add: detail_queries_def)

definition server_alerts :: "int \<Rightarrow> Alert list \<Rightarrow> Alert list" where
  "server_alerts sid xs = filter (\<lambda>a. alert_serverId a = Some sid) xs"

definition detail_bar :: "rat \<Rightarrow> string \<times> rat" where
  "detail_bar pct =
     (if pct > 85 then ''bg-brick'' else if pct > 70 then ''bg-status-amber'' else ''bg-moss'', min pct 100)"

end
