(* ===== verification/Page_Dashboard.thy ===== *)
theory Page_Dashboard
  imports Rules_Form Format Web_Dashboard
begin

text \<open>
  The dashboard, \<open>client/src/features/dashboard/DashboardPage.tsx\<close>: the notices about changes
  between two polls, the list of what needs attention and the banner over it, the notices for
  live events, and the automatic import at start.
\<close>

section \<open>Notices about changes\<close>

text \<open>The preferences are read again at each poll; \<open>loadAlerts\<close> of the settings page reads the same
  entry in the same way.\<close>

definition dash_pref :: "local_storage \<Rightarrow> alert_key \<Rightarrow> bool" where
  "dash_pref ls k = json_truthy (map_of (loadAlerts ls) (alert_key_name k))"

definition project_fleet :: "Project \<Rightarrow> FleetStatus" where
  "project_fleet p = toFleetStatus (Some (project_status p))"

lemma fleet_words:
  "toFleetStatus (Some ''ok'') = Sailing" "toFleetStatus (Some ''down'') = Lost" "toFleetStatus (Some ''unknown'') = Docked"
  by (simp_all add: toFleetStatus_def js_eval)

text \<open>A JavaScript \<open>Map\<close>: later entries replace the value and keep the place.\<close>

definition cur_health :: "DashboardData \<Rightarrow> (int \<times> FleetStatus) list" where
  "cur_health d = fold (\<lambda>p. AList.update (project_id p) (project_fleet p)) (dashboardData_projects d) []"

record notifier =
  nf_health :: "(int \<times> FleetStatus) list option"
  nf_deps :: "int set option"
  nf_hot :: bool

definition notifier_init :: notifier where
  "notifier_init = \<lparr>nf_health = None, nf_deps = None, nf_hot = False\<rparr>"

definition project_label :: "DashboardData \<Rightarrow> int \<Rightarrow> string" where
  "project_label d i =
     (case List.find (\<lambda>p. project_id p = i) (dashboardData_projects d) of
        Some p \<Rightarrow> project_name p
      | None \<Rightarrow> ''#'' @ int_str i)"

definition health_notice :: "DashboardData \<Rightarrow> int \<times> FleetStatus \<Rightarrow> string \<times> bool" where
  "health_notice d x =
     (project_label d (fst x) @ '' is '' @ fleetLabel (snd x) @ ''.'', snd x = Lost \<or> snd x = Choppy)"

definition health_notices :: "(int \<times> FleetStatus) list option \<Rightarrow> DashboardData \<Rightarrow> (string \<times> bool) list" where
  "health_notices prev d =
     (case prev of
        None \<Rightarrow> []
      | Some m \<Rightarrow>
          map (health_notice d)
            (filter (\<lambda>x. case map_of m (fst x) of None \<Rightarrow> False | Some b \<Rightarrow> b \<noteq> snd x \<and> snd x \<noteq> Docked) (cur_health d)))"

definition deployment_ids :: "DashboardData \<Rightarrow> int set" where
  "deployment_ids d = deployment_id ` set (dashboardData_recentDeployments d)"

definition launch_notices :: "int set option \<Rightarrow> DashboardData \<Rightarrow> (string \<times> bool) list" where
  "launch_notices prev d =
     (case prev of
        None \<Rightarrow> []
      | Some ids \<Rightarrow>
          (case List.find (\<lambda>x. deployment_id x \<notin> ids \<and> deployment_status x = ''SUCCESS'') (dashboardData_recentDeployments d) of
             None \<Rightarrow> []
           | Some x \<Rightarrow>
               [(''Launch succeeded: '' @ project_label d (deployment_projectId x) @ '' @ ''
                   @ (if js_truthy (deployment_commitSha x) then or_else (deployment_commitSha x) [] else ''unknown'') @ ''.'', False)]))"

definition is_hot :: "DashboardData \<Rightarrow> bool" where
  "is_hot d \<longleftrightarrow>
     dashboardData_server_cpuPercent (dashboardData_server d) > 85 \<or> dashboardData_server_memPercent (dashboardData_server d) > 85"

definition hot_notice :: "string \<times> bool" where
  "hot_notice = (''High load '' @ em_dash @ '' processor or memory above 85%.'', True)"

definition notifyTransitions :: "local_storage \<Rightarrow> DashboardData \<Rightarrow> notifier \<Rightarrow> (string \<times> bool) list \<times> notifier" where
  "notifyTransitions ls d n =
     ((if dash_pref ls HealthChanged then health_notices (nf_health n) d else [])
        @ (if dash_pref ls DeployFinished then launch_notices (nf_deps n) d else [])
        @ (if is_hot d \<and> \<not> nf_hot n \<and> dash_pref ls HighUsage then [hot_notice] else []),
      \<lparr>nf_health = Some (cur_health d), nf_deps = Some (deployment_ids d), nf_hot = is_hot d\<rparr>)"

text \<open>The polls so far, each with the storage at its time.\<close>

definition after_polls :: "(local_storage \<times> DashboardData) list \<Rightarrow> notifier" where
  "after_polls ps = fold (\<lambda>p n. snd (notifyTransitions (fst p) (snd p) n)) ps notifier_init"

subsection \<open>What changed\<close>

definition distinct_projects :: "DashboardData \<Rightarrow> bool" where
  "distinct_projects d \<longleftrightarrow> distinct (map project_id (dashboardData_projects d))"

lemma update_fresh: "k \<notin> fst ` set m \<Longrightarrow> AList.update k v m = m @ [(k, v)]"
  by (induction m) auto

lemma find_distinct: "distinct (map f xs) \<Longrightarrow> x \<in> set xs \<Longrightarrow> List.find (\<lambda>y. f y = f x) xs = Some x"
  by (induction xs) force+

lemma fold_update_fresh:
  "distinct (map f xs) \<Longrightarrow> (\<And>x. x \<in> set xs \<Longrightarrow> f x \<notin> fst ` set m)
    \<Longrightarrow> fold (\<lambda>p. AList.update (f p) (g p)) xs m = m @ map (\<lambda>p. (f p, g p)) xs"
proof (induction xs arbitrary: m)
  case (Cons x xs)
  have "AList.update (f x) (g x) m = m @ [(f x, g x)]" using Cons.prems(2) [of x] by (simp add: update_fresh)
  moreover have "fold (\<lambda>p. AList.update (f p) (g p)) xs (m @ [(f x, g x)]) = (m @ [(f x, g x)]) @ map (\<lambda>p. (f p, g p)) xs"
    using Cons.prems by (intro Cons.IH) (auto, metis imageI)
  ultimately show ?case by simp
qed simp

lemma cur_health_exact:
  "distinct_projects d \<Longrightarrow> cur_health d = map (\<lambda>p. (project_id p, project_fleet p)) (dashboardData_projects d)"
  by (simp add: cur_health_def distinct_projects_def fold_update_fresh)

lemma project_label_exact: "distinct_projects d \<Longrightarrow> p \<in> set (dashboardData_projects d) \<Longrightarrow> project_label d (project_id p) = project_name p"
  by (simp add: project_label_def distinct_projects_def find_distinct)

text \<open>The projects of the second poll that were known, are in another state now and are not stopped.\<close>

definition changed_projects :: "DashboardData \<Rightarrow> DashboardData \<Rightarrow> Project list" where
  "changed_projects d0 d =
     filter (\<lambda>p. project_fleet p \<noteq> Docked
          \<and> (\<exists>p0 \<in> set (dashboardData_projects d0). project_id p0 = project_id p \<and> project_fleet p0 \<noteq> project_fleet p))
       (dashboardData_projects d)"

lemma map_of_health:
  assumes "distinct_projects d0"
  shows "(case map_of (cur_health d0) i of None \<Rightarrow> False | Some b \<Rightarrow> b \<noteq> st \<and> st \<noteq> Docked)
     \<longleftrightarrow> st \<noteq> Docked \<and> (\<exists>p0 \<in> set (dashboardData_projects d0). project_id p0 = i \<and> project_fleet p0 \<noteq> st)"
proof -
  have dist: "distinct (map fst (cur_health d0))"
    using assms by (simp add: cur_health_exact distinct_projects_def comp_def)
  have "map_of (cur_health d0) i = Some b \<longleftrightarrow> (\<exists>p0 \<in> set (dashboardData_projects d0). project_id p0 = i \<and> project_fleet p0 = b)" for b
    using map_of_eq_Some_iff [OF dist] by (auto simp: cur_health_exact [OF assms])
  then have "(\<exists>b. map_of (cur_health d0) i = Some b \<and> b \<noteq> st)
     \<longleftrightarrow> (\<exists>p0 \<in> set (dashboardData_projects d0). project_id p0 = i \<and> project_fleet p0 \<noteq> st)" by metis
  then show ?thesis by (cases "map_of (cur_health d0) i") auto
qed

lemma health_notices_exact:
  assumes "distinct_projects d0" "distinct_projects d"
  shows "health_notices (Some (cur_health d0)) d
     = map (\<lambda>p. (project_name p @ '' is '' @ fleetLabel (project_fleet p) @ ''.'', project_fleet p = Lost \<or> project_fleet p = Choppy))
         (changed_projects d0 d)"
  using assms(2)
  by (auto simp: health_notices_def map_of_health [OF assms(1)] cur_health_exact [OF assms(2)] filter_map comp_def
      changed_projects_def health_notice_def project_label_exact)

lemma health_notices_None: "health_notices None d = []"
  by (simp add: health_notices_def)

lemma launch_notices_None: "launch_notices None d = []"
  by (simp add: launch_notices_def)

lemma after_polls_snoc:
  "after_polls (ps @ [(ls, d)]) = \<lparr>nf_health = Some (cur_health d), nf_deps = Some (deployment_ids d), nf_hot = is_hot d\<rparr>"
  by (simp add: after_polls_def notifyTransitions_def)


definition case_project :: "int \<Rightarrow> string \<Rightarrow> string \<Rightarrow> Project" where
  "case_project i n st =
     \<lparr>project_id = i, project_name = n, project_description = None, project_repository = None, project_branch = None,
      project_environment = None, project_deploymentPath = None, project_composeFile = None, project_gatewayPrefix = None,
      project_healthUrl = None, project_status = st, project_autoDeploy = False, project_createdAt = [], project_updatedAt = []\<rparr>"

definition case_dash :: "rat \<Rightarrow> Project list \<Rightarrow> DashboardData" where
  "case_dash cpu ps =
     \<lparr>dashboardData_server = \<lparr>dashboardData_server_cpuPercent = cpu, dashboardData_server_memTotalMB = 0,
        dashboardData_server_memUsedMB = 0, dashboardData_server_memPercent = 0, dashboardData_server_diskTotalGB = 0,
        dashboardData_server_diskUsedGB = 0, dashboardData_server_diskPercent = 0, dashboardData_server_uptimeSec = 0\<rparr>,
      dashboardData_counts = \<lparr>dashboardData_counts_projects = 0, dashboardData_counts_services = 0,
        dashboardData_counts_deployments = 0, dashboardData_counts_healthy = 0, dashboardData_counts_degraded = 0,
        dashboardData_counts_down = 0\<rparr>,
      dashboardData_projects = ps, dashboardData_recentDeployments = [], dashboardData_dockerAvailable = True\<rparr>"


section \<open>What needs attention\<close>

record attention_item =
  at_key :: string
  at_tone :: BusinessTone
  at_title :: string
  at_detail :: string
  at_route :: string

fun fleet_word :: "FleetStatus \<Rightarrow> string" where
  "fleet_word Sailing = ''sailing''"
| "fleet_word Choppy = ''choppy''"
| "fleet_word Lost = ''lost''"
| "fleet_word Docked = ''docked''"

definition project_item :: "Project \<Rightarrow> attention_item list" where
  "project_item p =
     (let b = toBusinessStatus (Some (fleet_word (project_fleet p))) in
      if tone b = Down \<or> tone b = Attention \<or> tone b = Unknown
      then [\<lparr>at_key = ''project-'' @ int_str (project_id p), at_tone = tone b, at_title = project_name p,
             at_detail = (if tone b = Unknown then ''Status unknown '' @ em_dash @ '' open the project to check.''
                          else if tone b = Attention then ''Project needs attention.''
                          else ''Project is '' @ js_toLowerCase (label b) @ ''.''),
             at_route = ''/?project='' @ int_str (project_id p)\<rparr>]
      else [])"

definition server_item :: "ManagedServer \<Rightarrow> attention_item list" where
  "server_item v =
     (let it = (\<lambda>t d. [\<lparr>at_key = ''server-'' @ int_str (managedServer_id v), at_tone = t, at_title = managedServer_name v,
                     at_detail = d, at_route = ''/servers/'' @ int_str (managedServer_id v)\<rparr>]) in
      case managedServer_status v of
        ManagedServerStatus_OFFLINE \<Rightarrow> it Down (''Server is offline '' @ em_dash @ '' check power, network, and its monitoring agent.'')
      | ManagedServerStatus_WARNING \<Rightarrow> it Attention (''Server needs attention '' @ em_dash @ '' open it for details.'')
      | ManagedServerStatus_UNKNOWN \<Rightarrow> it Unknown (''Server hasn'' @ apos @ ''t reported yet.'')
      | ManagedServerStatus_ONLINE \<Rightarrow> [])"

definition middle_dot :: string where
  "middle_dot = [CHR 0xC2, CHR 0xB7]"

definition check_item :: "(string \<Rightarrow> string) \<Rightarrow> HealthCheck \<Rightarrow> attention_item list" where
  "check_item ago c =
     (if healthCheck_status c = HealthCheckStatus_DOWN
      then [\<lparr>at_key = ''check-'' @ int_str (healthCheck_id c), at_tone = Down, at_title = healthCheck_name c,
             at_detail = ''Website/service check failed''
               @ (if js_truthy (healthCheck_lastCheckedAt c)
                  then '' '' @ middle_dot @ '' last checked '' @ ago (or_else (healthCheck_lastCheckedAt c) []) else []) @ ''.'',
             at_route = ''/health-checks''\<rparr>]
      else [])"

definition alert_item :: "(string \<Rightarrow> string) \<Rightarrow> Alert \<Rightarrow> attention_item list" where
  "alert_item ago a =
     (if alert_status a \<noteq> AlertStatus_TRIGGERED then []
      else [\<lparr>at_key = ''alert-'' @ int_str (alert_id a),
             at_tone = (if alert_severity a = AlertSeverity_CRITICAL then Down else Attention),
             at_title = (if alert_message a \<noteq> [] then alert_message a else alert_condition a),
             at_detail = ''Alert raised'' @ (if alert_triggeredAt a \<noteq> [] then '' '' @ ago (alert_triggeredAt a) else [])
               @ '' '' @ em_dash @ '' see Alerts to act on it.'',
             at_route = ''/alerts''\<rparr>])"

text \<open>A query without data counts as an empty list.\<close>

definition attention_items ::
  "(string \<Rightarrow> string) \<Rightarrow> FullDashboardState \<Rightarrow> HealthCheck list option \<Rightarrow> Alert list option \<Rightarrow> attention_item list"
where
  "attention_items ago f checks alerts =
     concat (map project_item (dashboardData_projects (fd_dash f))) @ concat (map server_item (fd_servers f))
     @ concat (map (check_item ago) (or_else checks [])) @ concat (map (alert_item ago) (or_else alerts []))"

definition attention ::
  "(string \<Rightarrow> string) \<Rightarrow> FullDashboardState \<Rightarrow> HealthCheck list option \<Rightarrow> Alert list option \<Rightarrow> attention_item list"
where
  "attention ago f checks alerts = take 6 (sort_key (\<lambda>x. toneRank (at_tone x)) (attention_items ago f checks alerts))"

definition banner :: "attention_item list \<Rightarrow> string" where
  "banner xs = (if xs = [] then ''All systems normal'' else ''Attention needed on some components'')"

definition healthLine :: "DashboardData option \<Rightarrow> string" where
  "healthLine data =
     (case data of
        None \<Rightarrow> ''Checking'' @ [CHR 0xE2, CHR 0x80, CHR 0xA6]
      | Some d \<Rightarrow>
          (let c = dashboardData_counts d; down = dashboardData_counts_down c; degraded = dashboardData_counts_degraded c in
           if down > 0 then int_str down @ '' thing'' @ (if down = 1 then '' is'' else ''s are'') @ '' down''
           else if degraded > 0 then int_str degraded @ '' need'' @ (if degraded = 1 then ''s'' else []) @ '' attention''
           else if dashboardData_counts_healthy c > 0 then ''Everything is working''
           else ''Nothing reporting yet''))"

subsection \<open>Completeness\<close>

lemma sorted_take_before:
  assumes "sorted (map f xs)" "x \<in> set (take n xs)" "y \<in> set xs" "y \<notin> set (take n xs)"
  shows "f x \<le> f y"
proof -
  have "y \<in> set (drop n xs)" using assms(3,4) append_take_drop_id [of n xs] by (metis Un_iff set_append)
  moreover have "sorted (map f (take n xs) @ map f (drop n xs))"
    using assms(1) by (simp only: map_append [symmetric] append_take_drop_id)
  ultimately show ?thesis using assms(2) by (auto simp: sorted_append)
qed


text \<open>Which projects have an item. The status of a project passes through the fleet vocabulary, which
  has no word for unknown: an unknown status counts as stopped and is not listed.\<close>

lemma fleet_tones:
  "tone (toBusinessStatus (Some ''sailing'')) = Working" "tone (toBusinessStatus (Some ''choppy'')) = Attention"
  "tone (toBusinessStatus (Some ''lost'')) = Down" "tone (toBusinessStatus (Some ''docked'')) = Stopped"
  by (simp_all add: toBusinessStatus_def js_eval BUSINESS_WORKING_def BUSINESS_ATTENTION_def BUSINESS_DOWN_def BUSINESS_STOPPED_def)

lemma project_item_listed: "project_item p \<noteq> [] \<longleftrightarrow> project_fleet p = Choppy \<or> project_fleet p = Lost"
  by (cases "project_fleet p") (simp_all add: project_item_def Let_def fleet_tones)

lemma unknown_project_not_listed: "project_status p = ''unknown'' \<Longrightarrow> project_item p = []"
proof -
  assume "project_status p = ''unknown''"
  then have "project_fleet p = Docked" by (simp add: project_fleet_def fleet_words)
  then show ?thesis using project_item_listed [of p] by auto
qed


text \<open>A failed read looks like health. When the server list, the checks and the alerts all could not
  be read, the dashboard says that all systems are normal as long as every project works or is
  stopped, whatever the state of the servers, checks and alerts really is.\<close>

lemma normal_on_failure:
  assumes "\<forall>p \<in> set (dashboardData_projects dash). project_fleet p = Sailing \<or> project_fleet p = Docked"
  shows "banner (attention ago (dashboard_state dash audit (Inl e) services now) None None) = ''All systems normal''"
proof -
  have "project_item p = []" if "p \<in> set (dashboardData_projects dash)" for p
    using assms that project_item_listed [of p] by auto
  then have "concat (map project_item (dashboardData_projects dash)) = []" by simp
  then show ?thesis by (simp add: attention_def attention_items_def dashboard_state_def Let_def banner_def del: concat_eq_Nil_conv)
qed

end
