(* ===== verification/Page_Project.thy ===== *)
theory Page_Project
  imports Project_Details Ui_Widgets
begin

text \<open>
  The project page and the summary drawer, \<open>client/src/features/dashboard/ProjectDetailsPage.tsx\<close>
  and \<open>ProjectDrawer.tsx\<close>, over the project details hook: which control leads to which operation
  of the hook, when it is enabled, the three confirmation dialogs, and the page's own loading of
  the project named by the address. The body of the page is a component over the hook's machine;
  what is proved of the hook holds of the page by refinement.
\<close>

section \<open>The body of the page\<close>

record details_body =
  bd_hook :: pd_state
  bd_modal :: "confirm_modal option"
  bd_done :: nat

definition body_init :: "Project \<Rightarrow> details_body" where
  "body_init p = \<lparr>bd_hook = pd_init p, bd_modal = None, bd_done = 0\<rparr>"

datatype body_event =
    PressShip
  | PressStart
  | AskLifecycle lifecycle_action
  | ConfirmLifecycle
  | CloseLifecycle
  | PressTerminal
  | CloseTerminal
  | PressLog string
  | AskRollback Deployment
  | ConfirmRollback
  | CloseRollback
  | PressPeek int
  | TypeSecretName string
  | TypeSecretValue string
  | SubmitSecret
  | PressSnapshot
  | PressDeleteBackup int
  | AskRestore Backup
  | TypeRestore string
  | ConfirmRestore
  | CloseRestore
  | CloseProgress
  | ProgressDone
  | ParentProject Project
  | BodyLeave
  | HookLists pd_op reply reply reply reply
  | HookReply pd_op reply

text \<open>Whether some service has a container, for the terminal and the log buttons.\<close>

fun has_container :: "json option \<Rightarrow> bool" where
  "has_container (Some (JArr vs)) \<longleftrightarrow> (\<exists>v \<in> set vs. json_truthy (json_get ''containerName'' v))"
| "has_container _ \<longleftrightarrow> False"

text \<open>The hook operation behind an enabled control. \<open>ConfirmModal\<close> without a required text is disabled
  while busy; the one for a restore by its own machine.\<close>

fun body_press :: "details_body \<Rightarrow> body_event \<Rightarrow> pd_event option" where
  "body_press s PressShip = (if pd_busy (bd_hook s) then None else Some ShipIt)"
| "body_press s PressStart = (if pd_busy (bd_hook s) then None else Some (RunLifecycle Start))"
| "body_press s (AskLifecycle a) = (if pd_busy (bd_hook s) \<or> a = Start then None else Some (SetPending (Some a)))"
| "body_press s ConfirmLifecycle =
     (case pd_pending (bd_hook s) of None \<Rightarrow> None | Some a \<Rightarrow> if pd_busy (bd_hook s) then None else Some (RunLifecycle a))"
| "body_press s CloseLifecycle = (if pd_pending (bd_hook s) = None then None else Some (SetPending None))"
| "body_press s PressTerminal =
     (if pd_busy (bd_hook s) \<or> \<not> has_container (pd_services (bd_hook s)) then None else Some (SetShowTerminal True))"
| "body_press s CloseTerminal = (if pd_showTerminal (bd_hook s) then Some (SetShowTerminal False) else None)"
| "body_press s (PressLog c) = (if has_container (pd_services (bd_hook s)) then Some (SetLogService (Some c)) else None)"
| "body_press s (AskRollback d) = (if pd_busy (bd_hook s) then None else Some (SetPendingRollback (Some d)))"
| "body_press s ConfirmRollback =
     (case pd_pendingRollback (bd_hook s) of None \<Rightarrow> None | Some d \<Rightarrow> if pd_busy (bd_hook s) then None else Some (RollbackTo d))"
| "body_press s CloseRollback = (if pd_pendingRollback (bd_hook s) = None then None else Some (SetPendingRollback None))"
| "body_press s (PressPeek i) = Some (Peek i)"
| "body_press s (TypeSecretName t) = Some (SetNewName t)"
| "body_press s (TypeSecretValue t) = Some (SetNewValue t)"
| "body_press s SubmitSecret =
     (if js_trim (pd_newName (bd_hook s)) = [] \<or> pd_newValue (bd_hook s) = [] then None else Some AddSecret)"
| "body_press s PressSnapshot = (if pd_busy (bd_hook s) then None else Some CreateBackup)"
| "body_press s (PressDeleteBackup i) = (if pd_busy (bd_hook s) then None else Some (DeleteBackup i))"
| "body_press s (AskRestore b) = (if pd_busy (bd_hook s) then None else Some (SetPendingRestore (Some b)))"
| "body_press s ConfirmRestore =
     (case (pd_pendingRestore (bd_hook s), bd_modal s) of
        (Some b, Some m) \<Rightarrow> if cm_disabled m then None else Some (RestoreBackup b)
      | _ \<Rightarrow> None)"
| "body_press s CloseRestore = (if pd_pendingRestore (bd_hook s) = None then None else Some (SetPendingRestore None))"
| "body_press s CloseProgress = (if pd_progress (bd_hook s) = None then None else Some (SetProgress None))"
| "body_press s ProgressDone = (if pd_progress (bd_hook s) = None then None else Some RefreshLists)"
| "body_press s (ParentProject p) = (if project_id p = project_id (pd_project (bd_hook s)) then Some (SetProject p) else None)"
| "body_press s BodyLeave = Some Leave"
| "body_press s (HookLists q rs rd rsec rb) = Some (Lists q rs rd rsec rb)"
| "body_press s (HookReply q r) = Some (Reply q r)"
| "body_press s (TypeRestore t) = None"

text \<open>After a change of the hook the restore dialog is mounted, rendered again or gone.\<close>

definition render_modal :: "pd_state \<Rightarrow> confirm_modal option \<Rightarrow> confirm_modal option" where
  "render_modal h mo =
     (if pd_pendingRestore h = None then None
      else case mo of
        None \<Rightarrow> Some (ConfirmModal ''RESTORE'' (pd_busy h))
      | Some m \<Rightarrow> confirm_step m (RenderBusy (pd_busy h)))"

definition body_step :: "string \<Rightarrow> details_body \<Rightarrow> body_event \<Rightarrow> details_body option" where
  "body_step tmsg s e =
     (case e of
        TypeRestore t \<Rightarrow>
          (case bd_modal s of
             None \<Rightarrow> None
           | Some m \<Rightarrow> map_option (\<lambda>m'. s\<lparr>bd_modal := Some m'\<rparr>) (confirm_step m (TypeText t)))
      | _ \<Rightarrow>
          (case body_press s e of
             None \<Rightarrow> None
           | Some h \<Rightarrow>
               (case pd_step tmsg (bd_hook s) h of
                  None \<Rightarrow> None
                | Some k \<Rightarrow>
                    Some (s\<lparr>bd_hook := k, bd_modal := render_modal k (bd_modal s),
                            bd_done := (if e = ProgressDone then Suc (bd_done s) else bd_done s)\<rparr>))))"

lemma body_step_hook:
  assumes "body_step tmsg s e = Some s'"
  obtains (typed) t m where "e = TypeRestore t" "bd_modal s = Some m" "bd_hook s' = bd_hook s"
      "cm_require m \<noteq> []" "bd_modal s' = Some (m\<lparr>cm_disabled := (t \<noteq> cm_require m)\<rparr>)"
    | (hook) h where "body_press s e = Some h" "pd_step tmsg (bd_hook s) h = Some (bd_hook s')"
      "bd_modal s' = render_modal (bd_hook s') (bd_modal s)"
  using assms by (cases e) (auto simp: body_step_def split: option.splits if_splits)

text \<open>The page refines the hook: each of its steps is a step of the hook or concerns the dialog only.\<close>

interpretation body: simulation "body_step tmsg" "\<lambda>s. True" "pd_step tmsg" bd_hook for tmsg
proof unfold_locales
  fix s e s' assume st: "body_step tmsg s e = Some s'"
  show "\<exists>fs. run (pd_step tmsg) (bd_hook s) fs = Some (bd_hook s')"
    using st
  proof (cases rule: body_step_hook)
    case (typed t m)
    then show ?thesis by (intro exI [of _ "[]"]) simp
  next
    case (hook h)
    then show ?thesis by (intro exI [of _ "[h]"]) simp
  qed
qed simp

section \<open>What leads to an operation\<close>

definition body_why :: "details_body \<Rightarrow> body_event \<Rightarrow> pd_op \<Rightarrow> bool" where
  "body_why t e q =
     (let h = bd_hook t in
      case q of
        OpLifecycle p a \<Rightarrow>
          p = pd_project h \<and> \<not> pd_busy h \<and> (e = PressStart \<and> a = Start \<or> e = ConfirmLifecycle \<and> pd_pending h = Some a)
      | OpShip p \<Rightarrow> p = pd_project h \<and> \<not> pd_busy h \<and> e = PressShip
      | OpRollback p d \<Rightarrow> p = pd_project h \<and> \<not> pd_busy h \<and> e = ConfirmRollback \<and> pd_pendingRollback h = Some d
      | OpBackup p \<Rightarrow> p = pd_project h \<and> \<not> pd_busy h \<and> e = PressSnapshot
      | OpDeleteBackup p i \<Rightarrow> p = pd_project h \<and> \<not> pd_busy h \<and> e = PressDeleteBackup i
      | OpRestore p b \<Rightarrow>
          p = pd_project h \<and> e = ConfirmRestore \<and> pd_pendingRestore h = Some b \<and> (\<exists>m. bd_modal t = Some m \<and> \<not> cm_disabled m)
      | OpReveal i \<Rightarrow> e = PressPeek i
      | OpSeal p n v \<Rightarrow> p = pd_project h \<and> e = SubmitSecret \<and> n = js_trim (pd_newName h) \<and> v = pd_newValue h \<and> n \<noteq> [] \<and> v \<noteq> []
      | OpLoad g i \<Rightarrow> True
      | OpRefresh i \<Rightarrow> True)"

lemma in_remove1D: "x \<in> set (remove1 q xs) \<Longrightarrow> x \<in> set xs"
  using set_remove1_subset by fast

lemma answers_open:
  assumes "q \<in> set (pd_open s')" "op_answer tmsg r a s = Some s'"
  shows "q \<in> set (pd_open s) \<or> (\<exists>i. q = OpRefresh i)"
  using assms by (cases r) (auto simp: pd_answer_defs pd_action_defs split: sum.splits)

lemma hook_open:
  assumes "pd_step tmsg h x = Some h'" "q \<in> set (pd_open h')"
  shows "q \<in> set (pd_open h) \<or> (\<exists>i. q = OpRefresh i) \<or> user_action x h = Some h'"
  using assms(1)
proof (cases rule: pd_step_cases)
  case (load g i rs rd rsec rb)
  with assms(2) show ?thesis by (auto simp: list_answers_frame dest: in_remove1D)
next
  case (refresh i rs rd rsec rb)
  with assms(2) show ?thesis by (auto simp: list_answers_frame dest: in_remove1D)
next
  case (reply r a)
  from answers_open [OF assms(2) reply(3)] show ?thesis by (auto dest: in_remove1D)
qed simp

lemma action_why:
  assumes "body_press s e = Some x" "user_action x (bd_hook s) = Some h" "q \<in> set (pd_open h)"
  shows "q \<in> set (pd_open (bd_hook s)) \<or> body_why s e q"
  using assms by (cases e) (auto simp: pd_action_defs body_why_def split: if_splits option.splits)

interpretation controls: explained_system "body_step tmsg" "body_init p" "\<lambda>s. pd_open (bd_hook s)" body_why for tmsg p
proof unfold_locales
  fix s e s' q assume st: "body_step tmsg s e = Some s'" and q: "q \<in> set (pd_open (bd_hook s'))"
  show "q \<in> set (pd_open (bd_hook s)) \<or> body_why s e q"
    using st
  proof (cases rule: body_step_hook)
    case (typed t m)
    with q show ?thesis by simp
  next
    case (hook x)
    from hook_open [OF hook(2) q] show ?thesis
    proof (elim disjE exE)
      fix i assume "q = OpRefresh i"
      then show ?thesis by (simp add: body_why_def)
    qed (use action_why [OF hook(1)] q in auto)
  qed
qed

text \<open>The restore button is enabled only after the word was typed.\<close>

definition restore_open :: "details_body \<Rightarrow> bool" where
  "restore_open s \<longleftrightarrow> (\<exists>m. bd_modal s = Some m \<and> \<not> (cm_require m = ''RESTORE'' \<and> cm_prop m \<and> cm_disabled m))"

interpretation restore: traced_system "body_step tmsg" "body_init p" "\<lambda>u s. restore_open s" "\<lambda>u e. e = TypeRestore ''RESTORE''"
  for tmsg p
proof unfold_locales
  show "\<not> restore_open (body_init p)" by (simp add: restore_open_def body_init_def)
next
  fix s e s' assume st: "body_step tmsg s e = Some s'" and op: "restore_open s'"
  show "restore_open s \<or> e = TypeRestore ''RESTORE''"
    using st
  proof (cases rule: body_step_hook)
    case (typed t m)
    with op show ?thesis by (auto simp: restore_open_def)
  next
    case (hook x)
    with op show ?thesis
      by (auto simp: restore_open_def render_modal_def ConfirmModal_def Let_def split: if_splits option.splits)
  qed
qed

text \<open>C16: On the project page every operation goes back to the control that stands for it. The page is an
  execution of the project details hook, and each operation in flight was started by its own
  control in a state that allows it: deploying, starting, snapshots and deletions of snapshots by
  their buttons while nothing was busy; stopping, restarting and rolling back by the confirmation
  of exactly that action; restoring by the confirmation of exactly that snapshot after the word
  RESTORE was typed; a secret is sealed with the text of the two fields. Each for the project the
  page shows.\<close>

theorem project_page_sound:
  assumes "run (body_step tmsg) (body_init p) es = Some s"
  shows "(\<exists>fs. run (pd_step tmsg) (pd_init p) fs = Some (bd_hook s))
         \<and> (\<forall>q \<in> set (pd_open (bd_hook s)).
              q = OpLoad 0 (project_id p)
              \<or> explained_by (body_step tmsg) (body_init p) body_why es q)
         \<and> (\<forall>p' b. OpRestore p' b \<in> set (pd_open (bd_hook s)) \<longrightarrow> TypeRestore ''RESTORE'' \<in> set es)"
proof (intro conjI ballI allI impI)
  show "\<exists>fs. run (pd_step tmsg) (pd_init p) fs = Some (bd_hook s)"
    using body.run_refines [OF TrueI assms] by (simp add: body_init_def)
next
  fix q assume "q \<in> set (pd_open (bd_hook s))"
  from controls.explained [OF assms this]
  show "q = OpLoad 0 (project_id p) \<or> explained_by (body_step tmsg) (body_init p) body_why es q"
    by (simp add: body_init_def pd_init_def)
next
  fix p' b assume "OpRestore p' b \<in> set (pd_open (bd_hook s))"
  from controls.explained [OF assms this] have "explained_by (body_step tmsg) (body_init p) body_why es (OpRestore p' b)"
    by (simp add: body_init_def pd_init_def)
  then obtain as e bs t where t: "es = as @ e # bs" "run (body_step tmsg) (body_init p) as = Some t"
    "body_why t e (OpRestore p' b)"
    unfolding explained_by_def by blast
  then have "restore_open t" by (auto simp: body_why_def restore_open_def Let_def)
  from restore.traced [OF t(2) this] t(1) show "TypeRestore ''RESTORE'' \<in> set es" by auto
qed

abbreviation restore_case :: "Backup \<Rightarrow> body_event list" where
  "restore_case b \<equiv> [AskRestore b, TypeRestore ''RES'', TypeRestore ''RESTORE'', ConfirmRestore]"

lemma restore_case_run:
  "\<exists>s. run (body_step tmsg) (body_init p) (restore_case b @ [ConfirmRestore]) = Some s
     \<and> pd_open (bd_hook s) = [OpLoad 0 (project_id p), OpRestore p b, OpRestore p b]"
  "\<exists>s. run (body_step tmsg) (body_init p) (restore_case b) = Some s \<and> OpRestore p b \<in> set (pd_open (bd_hook s))"
  by (simp_all add: body_step_def body_init_def pd_init_def render_modal_def ConfirmModal_def restoreBackup_def open_op_def)

theorem project_page_sound_witness:
  "\<forall>b. \<exists>s. run (body_step []) (body_init (sample_project 1)) (restore_case b) = Some s
       \<and> OpRestore (sample_project 1) b \<in> set (pd_open (bd_hook s))
       \<and> TypeRestore ''RESTORE'' \<in> set (restore_case b)"
proof
  fix b
  obtain s where s: "run (body_step []) (body_init (sample_project 1)) (restore_case b) = Some s"
      "OpRestore (sample_project 1) b \<in> set (pd_open (bd_hook s))"
    using restore_case_run(2) by blast
  from project_page_sound [OF s(1)] s show "\<exists>s. run (body_step []) (body_init (sample_project 1)) (restore_case b) = Some s
       \<and> OpRestore (sample_project 1) b \<in> set (pd_open (bd_hook s)) \<and> TypeRestore ''RESTORE'' \<in> set (restore_case b)" by blast
qed

text \<open>The dialog with the required word does not follow the busy flag: a second press of its button sends
  the restore again while the first one runs.\<close>

lemma restore_sent_twice:
  "\<exists>s. run (body_step tmsg) (body_init p) (restore_case b @ [ConfirmRestore]) = Some s
     \<and> count_list (pd_open (bd_hook s)) (OpRestore p b) = 2"
  using restore_case_run(1) [of tmsg p b] by auto

section \<open>Loading the project\<close>

record project_page =
  pp_id :: int
  pp_project :: "Project option"
  pp_missing :: bool
  pp_open :: "int list"
  pp_toasts :: "(string \<times> bool) list"
  pp_online :: bool

definition pp_reload :: "project_page \<Rightarrow> project_page" where
  "pp_reload s = s\<lparr>pp_open := pp_open s @ [pp_id s]\<rparr>"

definition pp_init :: "int \<Rightarrow> project_page" where
  "pp_init i =
     pp_reload \<lparr>pp_id = i, pp_project = None, pp_missing = False, pp_open = [], pp_toasts = [], pp_online = False\<rparr>"

fun not_found :: "js_error \<Rightarrow> bool" where
  "not_found (ApiError st m) \<longleftrightarrow> st = 404"
| "not_found (JsError m) \<longleftrightarrow> False"

datatype pp_event =
    PpRoute int
  | PpChanged
  | PpAnswer int "js_error + Project"

fun pp_step :: "project_page \<Rightarrow> pp_event \<Rightarrow> project_page option" where
  "pp_step s (PpRoute i) = Some (if i = pp_id s then s else pp_reload (s\<lparr>pp_id := i\<rparr>))"
| "pp_step s PpChanged = (if pp_missing s \<or> pp_project s = None then None else Some (pp_reload s))"
| "pp_step s (PpAnswer i r) =
     (if i \<notin> set (pp_open s) then None
      else (let t = s\<lparr>pp_open := remove1 i (pp_open s)\<rparr> in
            Some (case r of
                    Inr p \<Rightarrow> t\<lparr>pp_project := Some p, pp_online := True\<rparr>
                  | Inl e \<Rightarrow> if not_found e then t\<lparr>pp_missing := True\<rparr>
                             else t\<lparr>pp_toasts := pp_toasts t @ [(error_message e, True)]\<rparr>)))"

datatype pp_view = PpNotFound | PpSkeleton | PpBody Project

definition pp_shown :: "project_page \<Rightarrow> pp_view" where
  "pp_shown s =
     (if pp_missing s then PpNotFound else case pp_project s of None \<Rightarrow> PpSkeleton | Some p \<Rightarrow> PpBody p)"

text \<open>While one address is shown, the page shows that project or says that it is missing.\<close>

definition pp_inv :: "project_page \<Rightarrow> bool" where
  "pp_inv s \<longleftrightarrow> set (pp_open s) \<subseteq> {pp_id s} \<and> (pp_project s = None \<or> (\<exists>p. pp_project s = Some p \<and> project_id p = pp_id s))"

text \<open>The server answers with the project that was asked for.\<close>

fun honest_answer :: "pp_event \<Rightarrow> bool" where
  "honest_answer (PpAnswer i (Inr p)) \<longleftrightarrow> project_id p = i"
| "honest_answer (PpRoute i) \<longleftrightarrow> False"
| "honest_answer _ \<longleftrightarrow> True"

lemma one_address:
  assumes "run pp_step (pp_init i) es = Some s" "\<forall>e \<in> set es. honest_answer e" "pp_shown s = PpBody p"
  shows "project_id p = i"
proof -
  have "pp_inv t \<and> pp_id t = i \<Longrightarrow> run pp_step t es = Some s \<Longrightarrow> pp_inv s \<and> pp_id s = i" for t
    using assms(2)
  proof (induction es arbitrary: t)
    case (Cons e es)
    then obtain u where u: "pp_step t e = Some u" "run pp_step u es = Some s" by (auto split: option.splits)
    have "pp_inv u \<and> pp_id u = i" using Cons.prems(1,3) u(1)
      by (cases e rule: honest_answer.cases)
        (auto simp: pp_inv_def pp_reload_def Let_def dest!: in_remove1D split: if_splits)
    with Cons u show ?case by simp
  qed simp
  moreover have "pp_inv (pp_init i) \<and> pp_id (pp_init i) = i" by (simp add: pp_inv_def pp_init_def pp_reload_def)
  ultimately have "pp_inv s \<and> pp_id s = i" using assms(1) by blast
  with assms(3) show ?thesis by (auto simp: pp_inv_def pp_shown_def split: if_splits option.splits)
qed

text \<open>After a change of the address neither holds: a project that was not found once hides all others,
  and a late answer shows the project of the previous address.\<close>

lemma missing_sticks:
  assumes "run pp_step s es = Some s'" "pp_missing s"
  shows "pp_shown s' = PpNotFound"
proof -
  have "pp_missing s'" using assms
  proof (induction es arbitrary: s)
    case (Cons e es)
    then obtain t where t: "pp_step s e = Some t" "run pp_step t es = Some s'" by (auto split: option.splits)
    then have "pp_missing t" using Cons.prems(2)
      by (cases e) (auto simp: pp_reload_def Let_def split: if_splits sum.splits)
    with Cons t show ?case by blast
  qed simp
  then show ?thesis by (simp add: pp_shown_def)
qed

lemma late_project:
  assumes "i \<noteq> j" "project_id p = i" "project_id q = j"
  shows "\<exists>s. run pp_step (pp_init i) [PpRoute j, PpAnswer j (Inr q), PpAnswer i (Inr p)] = Some s
     \<and> pp_id s = j \<and> pp_shown s = PpBody p \<and> pp_open s = []"
  using assms by (simp add: pp_init_def pp_reload_def pp_shown_def Let_def)

section \<open>Facts\<close>

definition or_dash :: "string option \<Rightarrow> string" where
  "or_dash t = (if js_truthy t then or_else t [] else em_dash)"

definition page_facts :: "Project \<Rightarrow> (string \<times> string) list" where
  "page_facts p =
     [(''Repository'', or_dash (project_repository p)), (''Branch'', or_dash (project_branch p)),
      (''Environment'', or_dash (project_environment p)), (''Compose file'', or_dash (project_composeFile p)),
      (''Deployment path'', or_dash (project_deploymentPath p)), (''Gateway prefix'', or_dash (project_gatewayPrefix p))]"

definition auto_deploy_text :: "Project \<Rightarrow> string" where
  "auto_deploy_text p = (if project_autoDeploy p then ''ON '' @ em_dash @ '' webhook steers'' else ''OFF '' @ em_dash @ '' manual helm'')"

definition drawer_facts :: "Project \<Rightarrow> (string \<times> string) list" where
  "drawer_facts p =
     [(''Repository'', or_dash (project_repository p)), (''Branch'', or_dash (project_branch p)),
      (''Environment'', or_dash (project_environment p)), (''Status'', or_dash (Some (project_status p))),
      (''Auto-deploy'', auto_deploy_text p)]"

fun json_length :: "json option \<Rightarrow> nat option" where
  "json_length (Some (JArr vs)) = Some (length vs)"
| "json_length _ = None"

definition drawer_counts :: "pd_state \<Rightarrow> (string \<times> nat option) list" where
  "drawer_counts s =
     [(''Stations'', json_length (pd_services s)), (''Launches'', json_length (pd_deployments s)),
      (''Secrets sealed'', json_length (pd_secrets s)), (''Snapshots'', json_length (pd_backups s))]"

text \<open>The container whose log is shown: the one picked, or the first service that has one.\<close>

definition log_container :: "pd_state \<Rightarrow> json option" where
  "log_container s =
     (case pd_logService s of
        Some c \<Rightarrow> Some (JStr c)
      | None \<Rightarrow>
          (case pd_services s of
             Some (JArr vs) \<Rightarrow>
               (case List.find (\<lambda>v. json_truthy (json_get ''containerName'' v)) vs of
                  Some v \<Rightarrow> json_get ''containerName'' v
                | None \<Rightarrow> Some (JStr []))
           | _ \<Rightarrow> Some (JStr [])))"

lemma log_container_listed:
  "pd_logService s = None \<Longrightarrow> has_container (pd_services s) \<Longrightarrow> json_truthy (log_container s)"
  by (cases "pd_services s" rule: has_container.cases)
    (auto simp: log_container_def find_Some_iff find_None_iff split: option.splits)

end
