(* ===== verification/Page_Signals.thy ===== *)
theory Page_Signals
  imports Page_Dashboard Web_Events
begin

text \<open>
  The live part of the dashboard (\<open>client/src/features/dashboard/DashboardPage.tsx\<close>): the notice and
  the reload for each event of the stream, the automatic import when the page is mounted, and the
  small views of the page: the backup strip, the page state and the project card.
\<close>

section \<open>Events\<close>

text \<open>\<open>str\<close>: text as it is, everything else as nothing.\<close>

fun event_str :: "json option \<Rightarrow> string" where
  "event_str (Some (JStr t)) = t"
| "event_str _ = []"

definition event_field :: "json option \<Rightarrow> string \<Rightarrow> json option" where
  "event_field d k = Option.bind d (json_get k)"

text \<open>\<open>Number\<close> of a JSON value; an array counts as the text of its elements joined by commas.\<close>

fun js_Number_json :: "json \<Rightarrow> jsnum" where
  "js_Number_json (JNum q) = Fin q"
| "js_Number_json (JStr t) = js_Number t"
| "js_Number_json (JBool b) = Fin (if b then 1 else 0)"
| "js_Number_json JNull = Fin 0"
| "js_Number_json (JArr []) = Fin 0"
| "js_Number_json (JArr [JBool b]) = NaN"
| "js_Number_json (JArr [v]) = js_Number_json v"
| "js_Number_json (JArr (v # w # vs)) = NaN"
| "js_Number_json (JObj ms) = NaN"

text \<open>\<open>Number(v ?? 0)\<close>.\<close>

definition event_num :: "json option \<Rightarrow> jsnum" where
  "event_num v = (case v of None \<Rightarrow> Fin 0 | Some JNull \<Rightarrow> Fin 0 | Some x \<Rightarrow> js_Number_json x)"

definition quiet_reload :: "string list" where
  "quiet_reload =
     [''server.heartbeat'', ''server.metrics'', ''server.status'', ''alert.triggered'', ''alert.resolved'',
      ''monitoring.alert.firing'', ''monitoring.alert.resolved'', ''deployment.started'']"

definition handled_ok :: "string \<Rightarrow> string \<Rightarrow> json option \<Rightarrow> (string \<times> bool) list \<times> bool" where
  "handled_ok what name d =
     (let f = event_field d in
      if json_truthy (f ''ok'') then ([(what @ '' '' @ event_str (f ''action'') @ '': '' @ name @ ''.'', False)], True)
      else if event_str (f ''detail'') \<noteq> [] then
        ([(what @ '' '' @ event_str (f ''action'') @ '' failed: '' @ event_str (f ''detail'') @ ''.'', True)], False)
      else ([], False))"

text \<open>The notices of an event and whether it reloads the page.\<close>

definition dash_signal :: "local_storage \<Rightarrow> string \<Rightarrow> json option \<Rightarrow> (string \<times> bool) list \<times> bool" where
  "dash_signal ls t d =
     (let f = event_field d; s = (\<lambda>k. event_str (f k)) in
      if t \<in> set quiet_reload then ([], True)
      else if t = ''deployment.completed'' then
        ([(''Update complete: '' @ s ''project'' @ '' @ '' @ shortSha (Some (s ''commit'')) @ '' ('' @ s ''durationSec'' @ ''s).'', False)], True)
      else if t = ''deployment.failed'' then
        ([(''Update failed: '' @ s ''project'' @ '' @ '' @ shortSha (Some (s ''commit'')) @ ''.'', True)], True)
      else if t \<in> {''container.start'', ''container.stop'', ''container.restart''} then
        handled_ok ''Container'' (shortId (Some (s ''id''))) d
      else if t \<in> {''project.start'', ''project.stop'', ''project.restart''} then handled_ok ''Project'' (s ''project'') d
      else if t = ''gateway.reloaded'' then
        (if json_truthy (f ''ok'') then ([(''Gateway reloaded.'', False)], False)
         else ([(''Gateway reload failed: '' @ s ''detail'' @ ''.'', True)], False))
      else if t = ''discovery.completed'' then
        ([([CHR 0xE2, CHR 0x80, CHR 0x9C] @ s ''project'' @ [CHR 0xE2, CHR 0x80, CHR 0x9D] @ '' was added.'', False)], True)
      else if t = ''backup.created'' then
        ([(''Snapshot ready: '' @ s ''project'' @ '' ('' @ fmtBytes (event_num (f ''sizeBytes'')) @ '').'', False)], False)
      else if t = ''backup.failed'' then ([(''Snapshot failed: '' @ s ''error'' @ ''.'', True)], False)
      else if t = ''backup.restored'' then ([(''Snapshot restored: '' @ s ''project'' @ ''.'', False)], False)
      else if t = ''backup.restoreFailed'' then ([(''Restore failed: '' @ s ''error'' @ ''.'', True)], False)
      else if t = ''telemetry.threshold'' then
        (if dash_pref ls HighUsage
         then ([(''Resource signal: host '' @ s ''resource'' @ '' at '' @ js_toFixed 1 (event_num (f ''value'')) @ ''% (limit ''
                  @ s ''threshold'' @ ''%).'', True)], False)
         else ([], False))
      else ([], False))"

text \<open>The numbers the server sends are lost: a duration and a limit that are JSON numbers are printed as
  nothing.\<close>

lemma completed_duration_lost:
  "event_field (Some d) ''durationSec'' = Some (JNum q)
    \<Longrightarrow> dash_signal ls ''deployment.completed'' (Some d)
        = ([(''Update complete: '' @ event_str (event_field (Some d) ''project'') @ '' @ ''
             @ shortSha (Some (event_str (event_field (Some d) ''commit''))) @ '' (s).'', False)], True)"
  by (simp add: dash_signal_def quiet_reload_def Let_def)

lemma threshold_limit_lost:
  "event_field (Some d) ''threshold'' = Some (JNum q) \<Longrightarrow> dash_pref ls HighUsage
    \<Longrightarrow> \<exists>t. dash_signal ls ''telemetry.threshold'' (Some d) = ([(t @ ''% (limit %).'', True)], False)"
  by (simp add: dash_signal_def quiet_reload_def Let_def)

text \<open>The page reloads for status events, which the subscription does not deliver.\<close>

lemma status_never_delivered: "''server.status'' \<notin> set TYPES" "dash_signal ls ''server.status'' d = ([], True)"
  by (simp_all add: TYPES_def dash_signal_def quiet_reload_def Let_def)

section \<open>Automatic import\<close>

datatype sync_op = SyncScan | SyncImport

type_synonym sync = "sync_op panel"

definition sync_init :: sync where
  "sync_init =
     \<lparr>pn_busy = False, pn_open = [(SyncScan, wire_of api_discovery)], pn_sent = [wire_of api_discovery], pn_toasts = [],
      pn_changed = 0\<rparr>"

definition sync_pending :: "DiscoveryResult \<Rightarrow> nat" where
  "sync_pending r =
     length (filter (\<lambda>p. \<not> discoveredProject_registered p) (discoveryResult_projects r))
     + length (filter (\<lambda>f. \<not> foundProject_registered f) (discoveryResult_filesystem r))"

definition sync_text :: "int \<Rightarrow> int \<Rightarrow> string" where
  "sync_text n k =
     int_str n @ '' project'' @ (if n = 1 then [] else ''s'') @ '' auto-registered with '' @ int_str k @ '' service''
     @ (if k = 1 then [] else ''s'') @ ''.''"

datatype sync_event =
    ScanAnswer "sync_op \<times> wire" "js_error + DiscoveryResult"
  | ImportAnswer "sync_op \<times> wire" "js_error + int \<times> int"

fun sync_step :: "sync \<Rightarrow> sync_event \<Rightarrow> sync option" where
  "sync_step s (ScanAnswer q r) =
     (if fst q \<noteq> SyncScan \<or> q \<notin> set (pn_open s) then None
      else Some (case r of
             Inr v \<Rightarrow> if sync_pending v = 0 then pn_done q s else pn_request SyncImport (wire_of api_importAllDiscovered) (pn_done q s)
           | Inl e \<Rightarrow> pn_done q s))"
| "sync_step s (ImportAnswer q r) =
     (if fst q \<noteq> SyncImport \<or> q \<notin> set (pn_open s) then None
      else Some (case r of
             Inr (n, k) \<Rightarrow> if n > 0 then pn_change (pn_toast (sync_text n k) False (pn_done q s)) else pn_done q s
           | Inl e \<Rightarrow> pn_done q s))"

definition sync_why :: "sync \<Rightarrow> sync_event \<Rightarrow> wire \<Rightarrow> bool" where
  "sync_why t e w \<longleftrightarrow> w = wire_of api_importAllDiscovered \<and> (\<exists>q v. e = ScanAnswer q (Inr v) \<and> sync_pending v > 0)"

interpretation sync: explained_system sync_step sync_init pn_sent sync_why
proof unfold_locales
  fix s e s' w assume st: "sync_step s e = Some s'" "w \<in> set (pn_sent s')"
  show "w \<in> set (pn_sent s) \<or> sync_why s e w"
    using st by (cases e) (auto simp: pn_defs sync_why_def split: if_splits sum.splits)
qed

text \<open>Something is imported only when a scan found something that is not registered.\<close>

lemma sync_imports_found:
  assumes "run sync_step sync_init es = Some s" "wire_of api_importAllDiscovered \<in> set (pn_sent s)"
  shows "\<exists>q v. ScanAnswer q (Inr v) \<in> set es \<and> sync_pending v > 0"
proof -
  have "wire_of api_importAllDiscovered \<noteq> wire_of api_discovery" by (simp add: wire_of_def call_init_def api_defs)
  with sync.explained [OF assms] have "explained_by sync_step sync_init sync_why es (wire_of api_importAllDiscovered)"
    by (simp add: sync_init_def)
  then obtain as e bs q v where "es = as @ e # bs" "e = ScanAnswer q (Inr v)" "sync_pending v > 0"
    unfolding explained_by_def sync_why_def by blast
  then have "ScanAnswer q (Inr v) \<in> set es" by simp
  with \<open>sync_pending v > 0\<close> show ?thesis by blast
qed

section \<open>Views\<close>

datatype strip_view = StripHidden | StripUnavailable | StripData string "string option" "string option"

text \<open>The backup strip: its line, the number of failed runs and the latest failure.\<close>

definition strip_line :: "VgDashboard \<Rightarrow> string" where
  "strip_line d =
     int_str (vgDashboard_total_jobs d) @ '' job'' @ (if vgDashboard_total_jobs d = 1 then [] else ''s'') @ '' '' @ middle_dot @ '' ''
     @ int_str (vgDashboard_agents_online d) @ '' agent'' @ (if vgDashboard_agents_online d = 1 then [] else ''s'') @ '' online''"

definition strip_failed :: "VgDashboard \<Rightarrow> VgBackupRun list" where
  "strip_failed d = take 3 (filter (\<lambda>r. vgBackupRun_status r = ''FAILED'') (vgDashboard_recent_runs d))"

definition strip_view :: "VgDashboard option \<Rightarrow> bool \<Rightarrow> bool \<Rightarrow> strip_view" where
  "strip_view data loading failed =
     (case data of
        None \<Rightarrow> if failed \<and> \<not> loading then StripUnavailable else StripHidden
      | Some d \<Rightarrow>
          StripData (strip_line d)
            (if vgDashboard_failed_runs d > 0 then Some (int_str (vgDashboard_failed_runs d) @ '' failed '' @ middle_dot @ '' 24h'') else None)
            (case strip_failed d of
               [] \<Rightarrow> None
             | r # rs \<Rightarrow> Some (''Latest failure: '' @ (if vgBackupRun_error_message r \<noteq> [] then vgBackupRun_error_message r
                                                    else js_slice 0 8 (vgBackupRun_id r)))))"

text \<open>A failure without data is always shown as such.\<close>

lemma strip_honest: "strip_view None False True = StripUnavailable" "strip_view None l f \<noteq> StripData a b c"
  by (simp_all add: strip_view_def)

datatype dash_view = DashSkeleton | DashError | DashReady DashboardData

definition dash_view :: "FullDashboardState option \<Rightarrow> bool \<Rightarrow> bool \<Rightarrow> dash_view" where
  "dash_view data loading failed =
     (case queryState \<lparr>q_hasData = (data \<noteq> None), q_isLoading = loading, q_isError = failed\<rparr> of
        QLoading \<Rightarrow> DashSkeleton
      | QError \<Rightarrow> DashError
      | QReady \<Rightarrow> (case data of None \<Rightarrow> DashError | Some f \<Rightarrow> DashReady (fd_dash f)))"

lemma dash_view_exclusive:
  "dash_view data l f = DashReady d \<longleftrightarrow> (\<exists>x. data = Some x \<and> fd_dash x = d)"
  "dash_view data l f = DashError \<longleftrightarrow> data = None \<and> f \<and> \<not> l"
  by (cases data; auto simp: dash_view_def queryState_def)+

text \<open>The services line of a project card: unknown, the first four and how many more.\<close>

datatype card_services = ServicesUnknown | ServicesShown "string list" "nat option"

definition card_services :: "bool \<Rightarrow> Service list \<Rightarrow> card_services" where
  "card_services unknown xs =
     (if unknown then ServicesUnknown
      else ServicesShown (map service_name (take 4 xs)) (if length xs > 4 then Some (length xs - 4) else None))"

lemma card_counts_all:
  "card_services False xs = ServicesShown ns rest \<Longrightarrow> length ns + or_else rest 0 = length xs"
  by (auto simp: card_services_def split: if_splits)

end
