(* ===== verification/Page_Access.thy ===== *)
theory Page_Access
  imports Page_Fleet Page_Checks Page_Signals
begin

text \<open>
  The access policy on the dashboard pages. They ask for no role: the fleet page, the tokens of a
  server and the automatic import offer or run for every user what the backend serves to higher
  roles only.
\<close>

lemma refused_calls:
  "r \<noteq> Admin \<Longrightarrow> \<not> permitted r (wire_of (api_bulkLifecycle ids a c))"
  "r \<noteq> Admin \<Longrightarrow> \<not> permitted r (wire_of (api_createAgentToken sid l))"
  "r = Viewer \<Longrightarrow> \<not> permitted r (wire_of api_importAllDiscovered)"
  by (cases r; simp add: call_roles)+

text \<open>For a user who is not an administrator, confirming a bulk stop and creating an agent token send
  requests the backend refuses; for a viewer the dashboard itself does, without a press, as soon as
  a scan finds a project that is not registered.\<close>

lemma pages_not_gated:
  assumes "r \<noteq> Admin" "sync_pending d > 0"
  shows "(\<exists>s. run fleet_step fleet_init [FleetLoaded [p], TickView, PressBulk Stop, ConfirmBulk] = Some s
             \<and> (\<exists>w \<in> set (pn_sent s). \<not> permitted r w))
         \<and> (\<exists>s. run (tokens_step sid) tokens_init [ToggleTokenForm, PressCreateToken] = Some s
             \<and> (\<exists>w \<in> set (pn_sent s). \<not> permitted r w))
         \<and> (r = Viewer \<longrightarrow> (\<exists>s. run sync_step sync_init [ScanAnswer (SyncScan, wire_of api_discovery) (Inr d)] = Some s
             \<and> (\<exists>w \<in> set (pn_sent s). \<not> permitted r w)))"
proof (intro conjI impI)
  show "\<exists>s. run fleet_step fleet_init [FleetLoaded [p], TickView, PressBulk Stop, ConfirmBulk] = Some s
      \<and> (\<exists>w \<in> set (pn_sent s). \<not> permitted r w)"
    using refused_calls(1) [OF assms(1)]
    by (simp add: fleet_init_def fleet_filtered_def js_trim_empty toggle_view_def runBulk_def pn_defs Let_def)
  show "\<exists>s. run (tokens_step sid) tokens_init [ToggleTokenForm, PressCreateToken] = Some s
      \<and> (\<exists>w \<in> set (pn_sent s). \<not> permitted r w)"
    using refused_calls(2) [OF assms(1)] by (simp add: tokens_init_def createToken_def pn_defs)
next
  assume "r = Viewer"
  then show "\<exists>s. run sync_step sync_init [ScanAnswer (SyncScan, wire_of api_discovery) (Inr d)] = Some s
      \<and> (\<exists>w \<in> set (pn_sent s). \<not> permitted r w)"
    using refused_calls(3) assms(2) by (simp add: sync_init_def pn_defs)
qed

end
