(* ===== verification/Web_Shell.thy ===== *)
theory Web_Shell
  imports Web_Stores Page_Dashboard
begin

text \<open>
  The shell of the web client: the route table and the guard of \<open>client/src/app/router.tsx\<close>, the dock and
  the command palette of \<open>client/src/components/chrome.tsx\<close>. How a path selects a route is the
  router library's; the model takes its choice as a parameter with the documented rules.
\<close>

section \<open>Routes\<close>

datatype page =
    PgDashboard | PgDatabases | PgSettings | PgTelemetry | PgServers | PgServerDetail | PgAlerts | PgHealthChecks | PgAudit
  | PgMonitoring | PgTransfers | PgDbBackups

datatype element = ElLogin | ElProtected page | ElNavigate string | ElNotFound

definition routes :: "(string \<times> element) list" where
  "routes =
     [(''login'', ElLogin), ([], ElProtected PgDashboard), (''fleet'', ElNavigate ''/''), (''projects/:id'', ElNavigate ''/''),
      (''databases'', ElProtected PgDatabases), (''settings'', ElProtected PgSettings), (''telemetry'', ElProtected PgTelemetry),
      (''servers'', ElProtected PgServers), (''servers/:id'', ElProtected PgServerDetail), (''alerts'', ElProtected PgAlerts),
      (''health-checks'', ElProtected PgHealthChecks), (''audit'', ElProtected PgAudit), (''monitoring'', ElProtected PgMonitoring),
      (''transfers'', ElProtected PgTransfers), (''db-backups'', ElProtected PgDbBackups), (''backups'', ElNavigate ''/db-backups''),
      (''*'', ElNotFound)]"

text \<open>The documented rules of the router: a path that is one of the patterns selects it, one more segment
  after \<open>servers\<close> the pattern with the parameter, and the choice is always one of the patterns.\<close>

definition static_patterns :: "string list" where
  "static_patterns = filter (\<lambda>p. CHR '':'' \<notin> set p \<and> p \<noteq> ''*'') (map fst routes)"

definition router_rules :: "(string list \<Rightarrow> string \<Rightarrow> string option) \<Rightarrow> bool" where
  "router_rules pick \<longleftrightarrow>
     (\<forall>p. p \<in> set static_patterns \<longrightarrow> pick (map fst routes) p = Some p)
     \<and> (\<forall>x. x \<noteq> [] \<and> CHR ''/'' \<notin> set x \<longrightarrow> pick (map fst routes) (''servers/'' @ x) = Some ''servers/:id'')
     \<and> (\<forall>path p. pick (map fst routes) path = Some p \<longrightarrow> p \<in> set (map fst routes))"

text \<open>The path of a link: without the leading slash and without the query.\<close>

definition link_path :: "string \<Rightarrow> string" where
  "link_path l = takeWhile (\<lambda>c. c \<noteq> CHR ''?'') (drop 1 l)"

definition routed :: "(string list \<Rightarrow> string \<Rightarrow> string option) \<Rightarrow> string \<Rightarrow> element" where
  "routed pick l =
     (case pick (map fst routes) (link_path l) of
        None \<Rightarrow> ElNotFound
      | Some p \<Rightarrow> or_else (map_of routes p) ElNotFound)"

definition opens_page :: "(string list \<Rightarrow> string \<Rightarrow> string option) \<Rightarrow> string \<Rightarrow> bool" where
  "opens_page pick l \<longleftrightarrow> (\<exists>pg. routed pick l = ElProtected pg)"

section \<open>The guard\<close>

datatype guarded = GdNothing | GdLogin | GdPage page

definition Protected :: "'z AuthState_scheme \<Rightarrow> page \<Rightarrow> guarded" where
  "Protected a pg = (if \<not> auth_checked a then GdNothing else if \<not> json_truthy (auth_user a) then GdLogin else GdPage pg)"

text \<open>A page is drawn only for a user that the session store shows as signed in.\<close>

lemma page_needs_user: "Protected a pg = GdPage pg' \<Longrightarrow> signed_in a \<and> auth_checked a \<and> pg' = pg"
  by (cases "auth_user a") (auto simp: Protected_def signed_in_def split: if_splits)

section \<open>Command palette\<close>

record palette_item =
  pi_title :: string
  pi_sub :: string
  pi_link :: string

definition palette_pages :: "palette_item list" where
  "palette_pages =
     map (\<lambda>(t, s, l). \<lparr>pi_title = t, pi_sub = s, pi_link = l\<rparr>)
       [(''Go to Dashboard'', ''page'', ''/''), (''Browse databases'', ''page'', ''/databases''),
        (''View Host Telemetry'', ''page'', ''/telemetry''), (''Monitoring'', ''page'', ''/monitoring''),
        (''File Transfers'', ''page'', ''/transfers''), (''Database Backups'', ''page'', ''/db-backups''),
        (''Managed Servers'', ''page'', ''/servers''), (''Alerts'', ''page'', ''/alerts''),
        (''Health Checks'', ''page'', ''/health-checks''), (''Audit Log'', ''page'', ''/audit''),
        (''Go to Settings'', ''page'', ''/settings''), (''Discover containers'', ''action'', ''/?scan=1'')]"

definition palette_project :: "Project \<Rightarrow> palette_item" where
  "palette_project p =
     \<lparr>pi_title = project_name p, pi_sub = ''open project'', pi_link = ''/?project='' @ int_str (project_id p)\<rparr>"

definition palette_items :: "string \<Rightarrow> Project list \<Rightarrow> palette_item list" where
  "palette_items q projects =
     (let needle = js_toLowerCase (js_trim q); all = palette_pages @ map palette_project projects in
      if needle = [] then all else filter (\<lambda>i. js_includes (js_toLowerCase (pi_title i)) needle) all)"

record command_palette =
  pl_open :: bool
  pl_q :: string
  pl_projects :: "Project list"
  pl_loading :: bool
  pl_sel :: int
  pl_visited :: "string list"

definition palette_init :: command_palette where
  "palette_init = \<lparr>pl_open = True, pl_q = [], pl_projects = [], pl_loading = True, pl_sel = 0, pl_visited = []\<rparr>"

definition pl_items :: "command_palette \<Rightarrow> palette_item list" where
  "pl_items s = palette_items (pl_q s) (pl_projects s)"

definition palette_choose :: "int \<Rightarrow> command_palette \<Rightarrow> command_palette" where
  "palette_choose i s =
     (if 0 \<le> i \<and> nat i < length (pl_items s)
      then s\<lparr>pl_open := False, pl_visited := pl_visited s @ [pi_link (pl_items s ! nat i)]\<rparr> else s)"

datatype palette_event =
    PlProjects "js_error + Project list"
  | PlType string
  | PlDown
  | PlUp
  | PlEnter
  | PlHover nat
  | PlClick nat
  | PlClose

fun palette_step :: "command_palette \<Rightarrow> palette_event \<Rightarrow> command_palette option" where
  "palette_step s (PlProjects r) =
     (if pl_loading s then Some (s\<lparr>pl_loading := False, pl_projects := (case r of Inr ps \<Rightarrow> ps | Inl e \<Rightarrow> [])\<rparr>) else None)"
| "palette_step s (PlType t) = (if pl_open s then Some (s\<lparr>pl_q := t, pl_sel := 0\<rparr>) else None)"
| "palette_step s PlDown =
     (if pl_open s then Some (s\<lparr>pl_sel := min (pl_sel s + 1) (int (length (pl_items s)) - 1)\<rparr>) else None)"
| "palette_step s PlUp = (if pl_open s then Some (s\<lparr>pl_sel := max (pl_sel s - 1) 0\<rparr>) else None)"
| "palette_step s PlEnter = (if pl_open s then Some (palette_choose (pl_sel s) s) else None)"
| "palette_step s (PlHover i) = (if pl_open s \<and> i < length (pl_items s) then Some (s\<lparr>pl_sel := int i\<rparr>) else None)"
| "palette_step s (PlClick i) = (if pl_open s \<and> i < length (pl_items s) then Some (palette_choose (int i) s) else None)"
| "palette_step s PlClose = (if pl_open s then Some (s\<lparr>pl_open := False\<rparr>) else None)"

text \<open>The highlighted item is one of the list; only an empty list can leave nothing highlighted, and
  what is visited is a link of the palette.\<close>

definition palette_link :: "string \<Rightarrow> bool" where
  "palette_link l \<longleftrightarrow> l \<in> pi_link ` set palette_pages \<or> (\<exists>p. l = pi_link (palette_project p))"

definition palette_inv :: "command_palette \<Rightarrow> bool" where
  "palette_inv s \<longleftrightarrow>
     -1 \<le> pl_sel s \<and> pl_sel s < max 1 (int (length (pl_items s))) \<and> (pl_loading s \<longrightarrow> pl_projects s = [])
     \<and> list_all palette_link (pl_visited s)"

lemma palette_items_grow: "length (palette_items q []) \<le> length (palette_items q ps)"
  by (simp add: palette_items_def Let_def)

lemma palette_items_link: "i \<in> set (palette_items q ps) \<Longrightarrow> palette_link (pi_link i)"
  by (auto simp: palette_items_def Let_def palette_link_def split: if_splits)

lemma palette_inv_choose: "palette_inv s \<Longrightarrow> palette_inv (palette_choose i s)"
  using palette_items_link [of "pl_items s ! nat i" "pl_q s" "pl_projects s"]
  by (auto simp: palette_inv_def palette_choose_def pl_items_def)

lemma palette_inv_step:
  assumes "palette_inv s" "palette_step s e = Some s'"
  shows "palette_inv s'"
proof (cases e)
  case (PlProjects r)
  then obtain ps where "pl_loading s" "s' = s\<lparr>pl_loading := False, pl_projects := ps\<rparr>" using assms(2) by (auto split: if_splits)
  with assms(1) palette_items_grow [of "pl_q s" ps] show ?thesis by (auto simp: palette_inv_def pl_items_def)
qed (use assms palette_inv_choose in \<open>auto simp: palette_inv_def pl_items_def split: if_splits\<close>)

interpretation palette: started_system palette_step palette_inv palette_init
proof unfold_locales
  show "palette_inv palette_init" by (simp add: palette_inv_def palette_init_def)
qed (rule palette_inv_step)

section \<open>Links\<close>

definition dock_links :: "string list" where
  "dock_links = [''/'', ''/servers'', ''/db-backups'', ''/transfers'', ''/audit'']"

definition dock_active :: "string \<Rightarrow> bool \<Rightarrow> string \<Rightarrow> bool" where
  "dock_active path exact pathname \<longleftrightarrow> (if exact then pathname = path else js_startsWith pathname path)"

lemma static_opens:
  assumes "router_rules pick"
    "link_path l \<in> {[], ''databases'', ''settings'', ''telemetry'', ''servers'', ''alerts'', ''health-checks'', ''audit'', ''monitoring'',
      ''transfers'', ''db-backups''}"
  shows "opens_page pick l"
proof -
  have st: "link_path l \<in> set static_patterns" using assms(2) by (auto simp: static_patterns_def routes_def)
  with assms(1) have "routed pick l = or_else (map_of routes (link_path l)) ElNotFound" by (simp add: routed_def router_rules_def)
  with assms(2) show ?thesis by (auto simp: opens_page_def routes_def)
qed

lemma server_opens:
  assumes "router_rules pick"
  shows "opens_page pick (''/servers/'' @ int_str i)"
proof -
  have c: "CHR ''/'' \<notin> set (int_str i)" "CHR ''?'' \<notin> set (int_str i)"
    using int_str_chars [of "CHR ''/''" i] int_str_chars [of "CHR ''?''" i] by (auto simp: is_digit_char_def)
  then have "link_path (''/servers/'' @ int_str i) = ''servers/'' @ int_str i"
    by (auto simp: link_path_def takeWhile_eq_all_conv)
  with assms c(1) show ?thesis by (simp add: opens_page_def routed_def router_rules_def) (simp add: routes_def)
qed

lemma home_opens: "router_rules pick \<Longrightarrow> opens_page pick (''/?'' @ q)"
  by (rule static_opens) (simp_all add: link_path_def)

lemma palette_opens:
  assumes "router_rules pick" "palette_link l"
  shows "opens_page pick l"
  using assms(2) unfolding palette_link_def
proof
  assume "l \<in> pi_link ` set palette_pages"
  then show ?thesis by (intro static_opens [OF assms(1)]) (auto simp: palette_pages_def link_path_def)
next
  assume "\<exists>p. l = pi_link (palette_project p)"
  then show ?thesis using home_opens [OF assms(1), of "''project='' @ int_str x" for x] by (auto simp: palette_project_def)
qed

lemma server_item_route: "x \<in> set (server_item v) \<Longrightarrow> at_route x = ''/servers/'' @ int_str (managedServer_id v)"
  by (cases "managedServer_status v") (auto simp: server_item_def Let_def)

lemma attention_opens:
  assumes "router_rules pick" "x \<in> set (attention_items ago f checks alerts)"
  shows "opens_page pick (at_route x)"
proof -
  have "opens_page pick ''/health-checks''" "opens_page pick ''/alerts''"
    by (rule static_opens [OF assms(1)], simp add: link_path_def)+
  with assms(2) home_opens [OF assms(1), of "''project='' @ int_str y" for y] server_opens [OF assms(1)] show ?thesis
    by (auto simp: attention_items_def project_item_def check_item_def alert_item_def Let_def dest!: server_item_route
        split: if_splits)
qed


text \<open>A choice of routes that follows the rules.\<close>

definition exact_pick :: "string list \<Rightarrow> string \<Rightarrow> string option" where
  "exact_pick ps path =
     (if path \<in> set static_patterns then Some path
      else if js_startsWith path ''servers/'' \<and> CHR ''/'' \<notin> set (drop 8 path) then Some ''servers/:id'' else Some ''*'')"

lemma exact_pick_rules: "router_rules exact_pick"
proof -
  have "''servers/'' @ x \<notin> set static_patterns" for x by (auto simp: static_patterns_def routes_def)
  then show ?thesis
    by (auto simp: router_rules_def exact_pick_def js_startsWith_iff_prefix static_patterns_def) (simp_all add: routes_def)
qed


text \<open>The pages of the project section are in the sources, but their routes lead home.\<close>

lemma project_routes_lead_home:
  "map_of routes ''fleet'' = Some (ElNavigate ''/'')" "map_of routes ''projects/:id'' = Some (ElNavigate ''/'')"
  by (simp_all add: routes_def)

end
