(* ===== verification/Mobile_Client.thy ===== *)
theory Mobile_Client
  imports Hub_Effects
begin

text \<open>
  The HTTP client of the mobile app, \<open>mobile/src/api/client.ts\<close>: the request interceptor
  that adds the stored token, session renewal with the stored refresh token, and the
  response interceptor with its one retry and its error messages. \<open>axios\<close> and
  \<open>expo-secure-store\<close> are parameters: \<open>ax\<close> answers a request in a world of any type,
  and \<open>S\<close> holds the store's operations, of which the key-value contract is assumed where
  a property needs it.
\<close>

section \<open>State and configuration\<close>

record ('s, 'w) phone =
  ph_store :: 's
  ph_world :: 'w
  ph_base :: "string option"

record ax_request =
  ax_baseURL :: "string option"
  ax_url :: string
  ax_method :: http_method
  ax_data :: "json option"
  ax_auth :: "string option"

text \<open>\<open>axios\<close> resolves with the data of a successful response, or rejects with the response
  (status and data) when there is one, and a message when there is one.\<close>

datatype ax_result =
    AxOk "json option"
  | AxFail "(int \<times> json option) option" "string option"

type_synonym 'w axios = "ax_request \<Rightarrow> 'w \<Rightarrow> ax_result \<times> 'w"

definition DEFAULT_API_BASE :: "string option \<Rightarrow> string" where
  "DEFAULT_API_BASE env =
     (let envUrl = map_option js_trim env in
      if js_truthy envUrl then or_else envUrl [] else ''http://192.168.0.111:4000'')"

definition TOKEN_KEY :: string where "TOKEN_KEY = ''serverhub_token''"
definition REFRESH_KEY :: string where "REFRESH_KEY = ''serverhub_refresh_token''"
definition USER_KEY :: string where "USER_KEY = ''serverhub_user''"

text \<open>The request configuration the interceptors pass on; \<open>cf_base\<close> is filled from the
  defaults when the request is first sent, and kept on a retry.\<close>

record ax_config =
  cf_base :: "string option"
  cf_url :: string
  cf_method :: http_method
  cf_data :: "json option"
  cf_auth :: "string option"
  cf_retried :: bool

definition base_in_effect :: "string option \<Rightarrow> ('s, 'w) phone \<Rightarrow> string" where
  "base_in_effect env p = or_else (ph_base p) (DEFAULT_API_BASE env)"

section \<open>Store access\<close>

definition store_get :: "'s kv_ops \<Rightarrow> string \<Rightarrow> (('s, 'w, 'z) phone_scheme, string option) io" where
  "store_get S k p = (getItem S (ph_store p) k, p)"

definition store_set :: "'s kv_ops \<Rightarrow> string \<Rightarrow> string \<Rightarrow> (('s, 'w, 'z) phone_scheme, unit) io" where
  "store_set S k v p =
     (case setItem S (ph_store p) k v of Inl e \<Rightarrow> (Inl e, p) | Inr s' \<Rightarrow> (Inr (), p\<lparr>ph_store := s'\<rparr>))"

definition store_delete :: "'s kv_ops \<Rightarrow> string \<Rightarrow> (('s, 'w, 'z) phone_scheme, unit) io" where
  "store_delete S k p =
     (case deleteItem S (ph_store p) k of Inl e \<Rightarrow> (Inl e, p) | Inr s' \<Rightarrow> (Inr (), p\<lparr>ph_store := s'\<rparr>))"

section \<open>Session renewal\<close>

definition bearer :: "string \<Rightarrow> string" where
  "bearer t = ''Bearer '' @ t"

definition refresh_config :: "string \<Rightarrow> string \<Rightarrow> ax_request" where
  "refresh_config base rt =
     \<lparr>ax_baseURL = None, ax_url = base @ ep_authRefresh, ax_method = POST,
      ax_data = Some (JObj [(''refreshToken'', JStr rt)]), ax_auth = None\<rparr>"

definition ax_send :: "'w axios \<Rightarrow> ax_request \<Rightarrow> (('s, 'w, 'z) phone_scheme, ax_result) io" where
  "ax_send ax r p = (case ax r (ph_world p) of (a, w') \<Rightarrow> (Inr a, p\<lparr>ph_world := w'\<rparr>))"

text \<open>A value the store refuses: it stores strings only.\<close>

definition bad_value :: js_error where
  "bad_value = JsError ''Invalid value provided to SecureStore''"

definition store_set_json :: "'s kv_ops \<Rightarrow> string \<Rightarrow> json option \<Rightarrow> (('s, 'w, 'z) phone_scheme, unit) io" where
  "store_set_json S k v = (case v of Some (JStr t) \<Rightarrow> store_set S k t | _ \<Rightarrow> io_throw bad_value)"

definition keep_tokens :: "'s kv_ops \<Rightarrow> json option \<Rightarrow> (('s, 'w, 'z) phone_scheme, bool) io" where
  "keep_tokens S d =
     (let access = Option.bind d (json_get ''token''); rotated = Option.bind d (json_get ''refreshToken'') in
      if \<not> json_truthy access then io_return False
      else io_seq (store_set_json S TOKEN_KEY access)
            (io_seq (io_when (json_truthy rotated) (store_set_json S REFRESH_KEY rotated))
              (io_return True)))"

definition refreshSession_m ::
  "'w axios \<Rightarrow> 's kv_ops \<Rightarrow> string option \<Rightarrow> (('s, 'w) phone, bool) io" where
  "refreshSession_m ax S env =
     io_catch
       (io_bind (store_get S REFRESH_KEY) (\<lambda>rt.
        io_bind (io_reads (base_in_effect env)) (\<lambda>base.
          if \<not> js_truthy rt then io_return False
          else io_bind (ax_send ax (refresh_config base (or_else rt []))) (\<lambda>a.
            case a of AxOk d \<Rightarrow> keep_tokens S d | AxFail r m \<Rightarrow> io_return False))))
       (\<lambda>e. io_return False)"

section \<open>Sending a request\<close>

definition isAuthPath :: "string \<Rightarrow> bool" where
  "isAuthPath url \<longleftrightarrow> url \<noteq> [] \<and> js_includes url ''/server-hub/api/auth/''"

text \<open>The request interceptor.\<close>

definition inject_token :: "'s kv_ops \<Rightarrow> ax_config \<Rightarrow> (('s, 'w, 'z) phone_scheme, ax_config) io" where
  "inject_token S cfg =
     io_bind (store_get S TOKEN_KEY) (\<lambda>t.
       io_return (if js_truthy t then cfg\<lparr>cf_auth := Some (bearer (or_else t []))\<rparr> else cfg))"

definition wire :: "ax_config \<Rightarrow> ax_request" where
  "wire c = \<lparr>ax_baseURL = cf_base c, ax_url = cf_url c, ax_method = cf_method c, ax_data = cf_data c,
             ax_auth = cf_auth c\<rparr>"

definition unreachable_message :: "string \<Rightarrow> string" where
  "unreachable_message base =
     ''Can'' @ [CHR 0x27] @ ''t reach the server at '' @ base @ ''. Check the server URL, that the backend is running, and that phone + PC share the same Wi-Fi.''"

text \<open>The error the response interceptor rejects with.\<close>

definition normalized_error :: "string \<Rightarrow> (int \<times> json option) option \<Rightarrow> string option \<Rightarrow> js_error" where
  "normalized_error base resp m =
     (let status = (case resp of None \<Rightarrow> 0 | Some (st, d) \<Rightarrow> st);
          served = (case resp of None \<Rightarrow> None | Some (st, d) \<Rightarrow> Option.bind d (json_get ''error''));
          msg = (case served of
                   Some v \<Rightarrow> if v = JNull then or_else m (''Request failed ('' @ int_str status @ '')'')
                             else js_String v
                 | None \<Rightarrow> or_else m (''Request failed ('' @ int_str status @ '')''))
      in ApiError status (if status = 0 then unreachable_message base else msg))"

definition reject_normalized ::
  "string option \<Rightarrow> (int \<times> json option) option \<Rightarrow> string option \<Rightarrow> (('s, 'w) phone, 'a) io" where
  "reject_normalized env resp m =
     io_bind (io_reads (base_in_effect env)) (\<lambda>base. io_throw (normalized_error base resp m))"

definition is_401 :: "(int \<times> json option) option \<Rightarrow> bool" where
  "is_401 resp \<longleftrightarrow> (case resp of None \<Rightarrow> False | Some (st, d) \<Rightarrow> st = 401)"

definition with_base :: "ax_config \<Rightarrow> ('s, 'w) phone \<Rightarrow> ax_config" where
  "with_base cfg p = cfg\<lparr>cf_base := (if cf_base cfg = None then ph_base p else cf_base cfg)\<rparr>"

definition retry_config :: "ax_config \<Rightarrow> string option \<Rightarrow> ax_config" where
  "retry_config cfg t =
     cfg\<lparr>cf_retried := True,
         cf_auth := (if js_truthy t then Some (bearer (or_else t [])) else cf_auth cfg)\<rparr>"

text \<open>\<open>client.request\<close>: interceptor, dispatch, and on failure the response interceptor. A
  rejected token read reaches the response interceptor as an error without response and
  without configuration.\<close>

function client_request ::
  "'w axios \<Rightarrow> 's kv_ops \<Rightarrow> string option \<Rightarrow> ax_config \<Rightarrow> ('s, 'w) phone \<Rightarrow> (js_error + json option) \<times> ('s, 'w) phone" where
  "client_request ax S env cfg p =
     (case inject_token S (with_base cfg p) p of
        (Inl e, p1) \<Rightarrow> reject_normalized env None (Some (error_message e)) p1
      | (Inr cfg1, p1) \<Rightarrow>
          (case ax (wire cfg1) (ph_world p1) of
             (AxOk d, w1) \<Rightarrow> (Inr d, p1\<lparr>ph_world := w1\<rparr>)
           | (AxFail resp m, w1) \<Rightarrow>
               let p2 = p1\<lparr>ph_world := w1\<rparr> in
               if is_401 resp \<and> \<not> cf_retried cfg \<and> \<not> isAuthPath (cf_url cfg) then
                 (case refreshSession_m ax S env p2 of
                    (Inr True, p3) \<Rightarrow>
                      (case store_get S TOKEN_KEY p3 of
                         (Inl e, p4) \<Rightarrow> (Inl e, p4)
                       | (Inr t, p4) \<Rightarrow>
                           client_request ax S env (retry_config cfg1 t) p4)
                  | (_, p3) \<Rightarrow> reject_normalized env resp m p3)
               else reject_normalized env resp m p2))"
  by pat_completeness auto
termination
  by (relation "measure (\<lambda>(ax, S, env, cfg, p). if cf_retried cfg then 0 else 1)")
     (auto simp: inject_token_def io_bind_def io_return_def store_get_def retry_config_def with_base_def
       split: sum.splits)

declare client_request.simps [simp del]

section \<open>Traffic\<close>

definition ax_recording :: "'w axios \<Rightarrow> ('w \<times> ax_request list) axios" where
  "ax_recording ax r w = (case ax r (fst w) of (a, w') \<Rightarrow> (a, (w', snd w @ [r])))"

definition ph_log :: "('s, 'w \<times> ax_request list, 'z) phone_scheme \<Rightarrow> ax_request list" where
  "ph_log p = snd (ph_world p)"

text \<open>The request a configuration sends, up to base URL and authorization.\<close>

definition sends :: "ax_config \<Rightarrow> ax_request \<Rightarrow> bool" where
  "sends c r \<longleftrightarrow> ax_url r = cf_url c \<and> ax_method r = cf_method c \<and> ax_data r = cf_data c"

definition renews :: "ax_request \<Rightarrow> bool" where
  "renews r \<longleftrightarrow> (\<exists>base rt. r = refresh_config base rt)"

lemma ax_recording_simps:
  "ax_recording ax r w = (a, w') \<Longrightarrow> snd w' = snd w @ [r]"
  by (auto simp: ax_recording_def split: prod.splits)

lemma store_keeps_world [io_keeps]:
  "keeps ph_world (store_get S k)" "keeps ph_world (store_set S k v)" "keeps ph_world (store_delete S k)"
  "keeps ph_world (store_set_json S k j)"
  by (auto simp: keeps_def store_get_def store_set_def store_delete_def store_set_json_def io_throw_def
      split: sum.splits option.splits json.splits)

lemma keep_tokens_world [io_keeps]: "keeps ph_world (keep_tokens S d)"
  unfolding keep_tokens_def Let_def by (intro io_keeps)

text \<open>A renewal as one case distinction: no refresh token, or one request.\<close>

lemma refreshSession_cases:
  obtains (none) "refreshSession_m ax S env p = (Inr False, p)"
  | (asked) rt a w' where "getItem S (ph_store p) REFRESH_KEY = Inr (Some rt)" "rt \<noteq> []"
      "ax (refresh_config (base_in_effect env p) rt) (ph_world p) = (a, w')"
      "refreshSession_m ax S env p =
         (case a of
            AxFail r m \<Rightarrow> (Inr False, p\<lparr>ph_world := w'\<rparr>)
          | AxOk d \<Rightarrow> io_catch (keep_tokens S d) (\<lambda>e. io_return False) (p\<lparr>ph_world := w'\<rparr>))"
proof (cases "getItem S (ph_store p) REFRESH_KEY")
  case (Inl e)
  then have "refreshSession_m ax S env p = (Inr False, p)"
    by (simp add: refreshSession_m_def io_catch_def io_bind_def store_get_def io_return_def)
  then show ?thesis by (rule none)
next
  case (Inr rt)
  show ?thesis
  proof (cases "js_truthy rt")
    case False
    with Inr have "refreshSession_m ax S env p = (Inr False, p)"
      by (simp add: refreshSession_m_def io_catch_def io_bind_def store_get_def io_return_def io_reads_def)
    then show ?thesis by (rule none)
  next
    case True
    then obtain t where t: "rt = Some t" "t \<noteq> []" by (cases rt) auto
    obtain a w' where a: "ax (refresh_config (base_in_effect env p) t) (ph_world p) = (a, w')"
      by (cases "ax (refresh_config (base_in_effect env p) t) (ph_world p)")
    with Inr t have "refreshSession_m ax S env p =
         (case a of
            AxFail r m \<Rightarrow> (Inr False, p\<lparr>ph_world := w'\<rparr>)
          | AxOk d \<Rightarrow> io_catch (keep_tokens S d) (\<lambda>e. io_return False) (p\<lparr>ph_world := w'\<rparr>))"
      by (simp add: refreshSession_m_def io_catch_def io_bind_def store_get_def io_return_def io_reads_def
          ax_send_def split: ax_result.splits)
    with Inr t a show ?thesis by (intro asked) auto
  qed
qed

lemma keep_tokens_catch_world:
  "ph_world (snd (io_catch (keep_tokens S d) (\<lambda>e. io_return b) p)) = ph_world p"
proof -
  have "keeps ph_world (io_catch (keep_tokens S d) (\<lambda>e. io_return b))" by (intro io_keeps)
  then show ?thesis unfolding keeps_def by blast
qed

lemma refresh_log:
  assumes "refreshSession_m (ax_recording ax) S env p = (r, p')"
  shows "(r \<noteq> Inr True \<and> ph_log p' = ph_log p) \<or> (\<exists>q. renews q \<and> ph_log p' = ph_log p @ [q])"
proof (cases rule: refreshSession_cases [of "ax_recording ax" S env p])
  case none
  with assms show ?thesis by auto
next
  case (asked rt a w')
  have "ph_world (snd (refreshSession_m (ax_recording ax) S env p)) = w'"
    using asked(4) by (simp add: keep_tokens_catch_world split: ax_result.splits)
  with assms have "ph_world p' = w'" by simp
  with ax_recording_simps [OF asked(3)] show ?thesis by (auto simp: ph_log_def renews_def)
qed

lemma inject_token_cases:
  obtains (failed) e where "inject_token S cfg p = (Inl e, p)"
  | (ok) a where "inject_token S cfg p = (Inr (cfg\<lparr>cf_auth := a\<rparr>), p)"
proof (cases "getItem S (ph_store p) TOKEN_KEY")
  case (Inl e)
  then show ?thesis by (intro failed) (simp add: inject_token_def io_bind_def store_get_def)
next
  case (Inr t)
  then have "inject_token S cfg p =
      (Inr (cfg\<lparr>cf_auth := if js_truthy t then Some (bearer (or_else t [])) else cf_auth cfg\<rparr>), p)"
    by (simp add: inject_token_def io_bind_def store_get_def io_return_def)
  then show ?thesis by (rule ok)
qed

lemma reject_normalized_world [simp]: "snd (reject_normalized env resp m p) = p"
  by (simp add: reject_normalized_def io_bind_def io_reads_def io_throw_def)

lemma client_request_after_renewal:
  assumes "inject_token S (with_base cfg p) p = (Inr c, p)" and "ax (wire c) (ph_world p) = (AxFail resp m, w')"
    and "is_401 resp" "\<not> cf_retried cfg" "\<not> isAuthPath (cf_url cfg)"
    and "refreshSession_m ax S env (p\<lparr>ph_world := w'\<rparr>) = (Inr True, p3)"
    and "store_get S TOKEN_KEY p3 = (Inr t, p3)"
  shows "client_request ax S env cfg p = client_request ax S env (retry_config c t) p3"
  using assms by (subst client_request.simps) simp

text \<open>A request that is not to be retried is sent at most once.\<close>

lemma request_once_log:
  assumes "cf_retried cfg \<or> isAuthPath (cf_url cfg)"
  shows "ph_log (snd (client_request (ax_recording ax) S env cfg p)) = ph_log p
       \<or> (\<exists>q. sends cfg q \<and> ph_log (snd (client_request (ax_recording ax) S env cfg p)) = ph_log p @ [q])"
proof (cases rule: inject_token_cases [of S "with_base cfg p" p])
  case (failed e)
  then show ?thesis by (subst (1 2) client_request.simps) simp
next
  case (ok a)
  let ?c = "(with_base cfg p)\<lparr>cf_auth := a\<rparr>"
  obtain r w' where send: "ax_recording ax (wire ?c) (ph_world p) = (r, w')"
    by (cases "ax_recording ax (wire ?c) (ph_world p)")
  have "ph_log (snd (client_request (ax_recording ax) S env cfg p)) = snd w'"
    using assms ok send by (subst client_request.simps) (auto simp: ph_log_def split: ax_result.splits)
  moreover have "sends cfg (wire ?c)" by (simp add: sends_def wire_def with_base_def)
  ultimately show ?thesis using ax_recording_simps [OF send] by (auto simp: ph_log_def)
qed

text \<open>After the first answer a request ends, or renews and ends, or renews and is sent once more.\<close>

lemma request_continues:
  assumes ok: "inject_token S (with_base cfg p) p = (Inr c, p)" "c = (with_base cfg p)\<lparr>cf_auth := a\<rparr>"
    and send: "ax (wire c) (ph_world p) = (r, w')"
    and ref: "refreshSession_m ax S env (p\<lparr>ph_world := w'\<rparr>) = (ref, p3)"
    and new: "\<not> (cf_retried cfg \<or> isAuthPath (cf_url cfg))"
  obtains (first) "snd (client_request ax S env cfg p) = p\<lparr>ph_world := w'\<rparr>"
    | (asked) "snd (client_request ax S env cfg p) = p3"
    | (again) c2 where "ref = Inr True" "cf_retried c2" "sends cfg = sends c2"
        "snd (client_request ax S env cfg p) = snd (client_request ax S env c2 p3)"
proof (cases "\<exists>resp m. r = AxFail resp m \<and> is_401 resp \<and> ref = Inr True \<and> (\<exists>t. store_get S TOKEN_KEY p3 = (Inr t, p3))")
  case True
  then obtain resp m t where t: "r = AxFail resp m" "is_401 resp" "ref = Inr True" "store_get S TOKEN_KEY p3 = (Inr t, p3)" by blast
  with ok send ref new have "client_request ax S env cfg p = client_request ax S env (retry_config c t) p3"
    by (intro client_request_after_renewal) auto
  with t(3) show ?thesis
    by (intro again [of "retry_config c t"]) (auto simp: ok(2) retry_config_def with_base_def sends_def fun_eq_iff)
next
  case False
  obtain tr where "store_get S TOKEN_KEY p3 = (tr, p3)" by (simp add: store_get_def)
  with False ok send ref new have "snd (client_request ax S env cfg p) \<in> {p\<lparr>ph_world := w'\<rparr>, p3}"
    by (subst client_request.simps) (auto simp: Let_def split: ax_result.splits sum.splits bool.splits if_splits)
  with first asked show ?thesis by blast
qed

text \<open>C11: the whole traffic of one request of the mobile client, whatever the server and the
  device store do. It sends the request at most twice, with the same path, method and data,
  and between the two attempts exactly one renewal with the refresh token; a request to an
  authentication endpoint, or one already retried, is sent at most once and never renews.\<close>

theorem mobile_traffic:
  "(\<exists>q1 q2 rn. sends cfg q1 \<and> sends cfg q2 \<and> renews rn \<and>
      ph_log (snd (client_request (ax_recording ax) S env cfg p)) \<in>
        {ph_log p, ph_log p @ [q1], ph_log p @ [q1, rn], ph_log p @ [q1, rn, q2]})
   \<and> (cf_retried cfg \<or> isAuthPath (cf_url cfg) \<longrightarrow>
        length (ph_log (snd (client_request (ax_recording ax) S env cfg p))) \<le> length (ph_log p) + 1)"
proof (cases "cf_retried cfg \<or> isAuthPath (cf_url cfg)")
  case True
  have ex: "\<exists>q rn. sends cfg q \<and> renews rn"
    by (intro exI [of _ "wire cfg"] exI [of _ "refresh_config [] []"]) (auto simp: sends_def wire_def renews_def)
  from request_once_log [OF True, of ax S env p] ex True show ?thesis by fastforce
next
  case False
  let ?c0 = "with_base cfg p"
  have ex: "\<exists>rn. renews rn" by (auto simp: renews_def)
  show ?thesis
  proof (cases rule: inject_token_cases [of S ?c0 p])
    case (failed e)
    then have "ph_log (snd (client_request (ax_recording ax) S env cfg p)) = ph_log p"
      by (subst client_request.simps) simp
    moreover have "sends cfg (wire cfg)" by (simp add: sends_def wire_def)
    ultimately show ?thesis using ex False by auto
  next
    case (ok a)
    let ?c = "?c0\<lparr>cf_auth := a\<rparr>"
    have q1: "sends cfg (wire ?c)" by (simp add: sends_def wire_def with_base_def)
    obtain r w' where send: "ax_recording ax (wire ?c) (ph_world p) = (r, w')"
      by (cases "ax_recording ax (wire ?c) (ph_world p)")
    let ?p = "p\<lparr>ph_world := w'\<rparr>"
    have log1: "ph_log ?p = ph_log p @ [wire ?c]"
      using ax_recording_simps [OF send] by (simp add: ph_log_def)
    obtain ref p3 where ref: "refreshSession_m (ax_recording ax) S env ?p = (ref, p3)"
      by (cases "refreshSession_m (ax_recording ax) S env ?p")
    from ok refl send ref False show ?thesis
    proof (cases rule: request_continues)
      case first
      with log1 q1 ex False show ?thesis by auto
    next
      case asked
      with log1 q1 ex False refresh_log [OF ref] show ?thesis by auto
    next
      case (again c2)
      then obtain q where q: "renews q" "ph_log p3 = ph_log p @ [wire ?c, q]"
        using log1 refresh_log [OF ref] by auto
      have "ph_log (snd (client_request (ax_recording ax) S env c2 p3)) = ph_log p3
          \<or> (\<exists>q2. sends cfg q2 \<and> ph_log (snd (client_request (ax_recording ax) S env c2 p3)) = ph_log p3 @ [q2])"
        using request_once_log [of c2 ax S env p3] again by auto
      with again(4) q q1 False show ?thesis by auto
    qed
  qed
qed

theorem mobile_traffic_witness:
  "\<exists>p'. client_request (ax_recording (\<lambda>r w. (AxFail (Some (401, None)) None, w))) map_store None
      \<lparr>cf_base = None, cf_url = ep_authMe, cf_method = GET, cf_data = None, cf_auth = None, cf_retried = False\<rparr>
      \<lparr>ph_store = Map.empty, ph_world = ((), []), ph_base = None\<rparr> = p' \<and> length (ph_log (snd p')) \<le> 1"
proof -
  have "isAuthPath ep_authMe" by (simp add: isAuthPath_def ep_authMe_def API_def)
  then show ?thesis
    using mobile_traffic [where ax = "\<lambda>r w. (AxFail (Some (401, None)) None, w)" and S = map_store
        and env = None and p = "\<lparr>ph_store = Map.empty, ph_world = ((), []), ph_base = None\<rparr>" and
        cfg = "\<lparr>cf_base = None, cf_url = ep_authMe, cf_method = GET, cf_data = None, cf_auth = None, cf_retried = False\<rparr>"]
    by (simp add: ph_log_def [of "\<lparr>ph_store = _, ph_world = _, ph_base = _\<rparr>"])
qed

section \<open>A renewal on a working device\<close>

lemma TOKEN_keys_distinct [simp]:
  "TOKEN_KEY \<noteq> REFRESH_KEY" "REFRESH_KEY \<noteq> TOKEN_KEY" "TOKEN_KEY \<noteq> USER_KEY" "USER_KEY \<noteq> TOKEN_KEY"
  "REFRESH_KEY \<noteq> USER_KEY" "USER_KEY \<noteq> REFRESH_KEY"
  by (simp_all add: TOKEN_KEY_def REFRESH_KEY_def USER_KEY_def)

context working_store
begin

lemma store_ops_work:
  "store_get ops k p = (Inr (wget (ph_store p) k), p)"
  "store_set ops k v p = (Inr (), p\<lparr>ph_store := wput k v (ph_store p)\<rparr>)"
  "store_delete ops k p = (Inr (), p\<lparr>ph_store := wdel k (ph_store p)\<rparr>)"
  by (simp_all add: store_get_def store_set_def store_delete_def getItem_wget setItem_wput deleteItem_wdel)

lemma keep_tokens_stores:
  assumes "json_get ''token'' v = Some (JStr a)" "a \<noteq> []"
    and "json_get ''refreshToken'' v = Some (JStr rt)" "rt \<noteq> []"
  shows "keep_tokens ops (Some v) p =
    (Inr True, p\<lparr>ph_store := wput REFRESH_KEY rt (wput TOKEN_KEY a (ph_store p))\<rparr>)"
  using assms
  by (simp add: keep_tokens_def store_set_json_def io_seq_def io_bind_def io_when_def io_return_def store_ops_work)

lemma inject_token_works:
  assumes "wget (ph_store p) TOKEN_KEY = Some t" "t \<noteq> []"
  shows "inject_token ops cfg p = (Inr (cfg\<lparr>cf_auth := Some (bearer t)\<rparr>), p)"
  using assms by (simp add: inject_token_def io_bind_def io_return_def store_ops_work)

lemma retry_sends_stored_token:
  assumes "cf_retried cfg" "wget (ph_store p) TOKEN_KEY = Some t" "t \<noteq> []"
  shows "client_request ax ops env cfg p =
    (case ax (wire ((with_base cfg p)\<lparr>cf_auth := Some (bearer t)\<rparr>)) (ph_world p) of
       (AxOk d, w) \<Rightarrow> (Inr d, p\<lparr>ph_world := w\<rparr>)
     | (AxFail resp m, w) \<Rightarrow> reject_normalized env resp m (p\<lparr>ph_world := w\<rparr>))"
  using assms inject_token_works [of p t "with_base cfg p"]
  by (subst client_request.simps) (simp split: prod.splits ax_result.splits)

end

text \<open>C30: on a phone whose store works, an expired access token is renewed and the request
  repeated without the user noticing: after a 401 and a renewal answered with new tokens,
  both tokens are stored, nothing else in the store changes, the repeated request carries
  the new access token, and its outcome is the outcome of the call.\<close>

theorem mobile_renewal:
  assumes "working_store S"
    and "getItem S (ph_store p) TOKEN_KEY = Inr (Some tok)" "tok \<noteq> []"
    and "getItem S (ph_store p) REFRESH_KEY = Inr (Some rt)" "rt \<noteq> []"
    and "\<not> cf_retried cfg" "\<not> isAuthPath (cf_url cfg)"
    and "ax (wire ((with_base cfg p)\<lparr>cf_auth := Some (bearer tok)\<rparr>)) (ph_world p) = (AxFail (Some (401, d)) m, w1)"
    and "ax (refresh_config (base_in_effect env p) rt) w1 = (AxOk (Some v), w2)"
    and "json_get ''token'' v = Some (JStr a)" "a \<noteq> []"
    and "json_get ''refreshToken'' v = Some (JStr rt')" "rt' \<noteq> []"
  shows "\<exists>s'. getItem S s' TOKEN_KEY = Inr (Some a) \<and> getItem S s' REFRESH_KEY = Inr (Some rt')
       \<and> (\<forall>k. k \<notin> {TOKEN_KEY, REFRESH_KEY} \<longrightarrow> getItem S s' k = getItem S (ph_store p) k)
       \<and> client_request ax S env cfg p =
           (case ax (wire ((with_base cfg p)\<lparr>cf_auth := Some (bearer a)\<rparr>)) w2 of
              (AxOk d', w3) \<Rightarrow> (Inr d', p\<lparr>ph_store := s', ph_world := w3\<rparr>)
            | (AxFail resp m', w3) \<Rightarrow>
                (Inl (normalized_error (base_in_effect env p) resp m'), p\<lparr>ph_store := s', ph_world := w3\<rparr>))"
proof -
  note W = assms(1)
  let ?s = "working_store.wput S REFRESH_KEY rt' (working_store.wput S TOKEN_KEY a (ph_store p))"
  let ?c = "(with_base cfg p)\<lparr>cf_auth := Some (bearer tok)\<rparr>"
  let ?p2 = "p\<lparr>ph_store := ?s, ph_world := w2\<rparr>"
  have get: "getItem S ?s k = (if k = REFRESH_KEY then Inr (Some rt') else
      if k = TOKEN_KEY then Inr (Some a) else getItem S (ph_store p) k)" for k
    by (simp add: working_store.getItem_wget [OF W] working_store.wget_wput [OF W])
  have tok: "working_store.wget S (ph_store p) TOKEN_KEY = Some tok"
    and rt: "working_store.wget S (ph_store p) REFRESH_KEY = Some rt"
    using assms(2,4) by (simp_all add: working_store.getItem_wget [OF W])
  have inj: "inject_token S (with_base cfg p) p = (Inr ?c, p)"
    using tok assms(3) by (rule working_store.inject_token_works [OF W])
  have "refreshSession_m ax S env (p\<lparr>ph_world := w1\<rparr>) = (Inr True, ?p2)"
    using rt assms(5,9-13) working_store.keep_tokens_stores [OF W assms(10-13), of "p\<lparr>ph_world := w2\<rparr>"]
    by (simp add: refreshSession_m_def io_catch_def io_bind_def io_reads_def ax_send_def
        base_in_effect_def working_store.store_ops_work [OF W])
  then have "client_request ax S env cfg p = client_request ax S env (retry_config ?c (Some a)) ?p2"
    using inj assms(6-8) get [of TOKEN_KEY]
    by (intro client_request_after_renewal) (auto simp: is_401_def store_get_def)
  moreover have "working_store.wget S (ph_store ?p2) TOKEN_KEY = Some a"
    using get [of TOKEN_KEY] by (simp add: working_store.getItem_wget [OF W])
  ultimately show ?thesis
    using assms(11) get
    by (intro exI [of _ ?s])
       (auto simp: working_store.retry_sends_stored_token [OF W] retry_config_def with_base_def wire_def
         reject_normalized_def io_bind_def io_reads_def io_throw_def base_in_effect_def
         split: prod.splits ax_result.splits)
qed

definition sample_tokens :: json where
  "sample_tokens = JObj [(''token'', JStr ''new''), (''refreshToken'', JStr ''r2'')]"

definition sample_server :: "unit axios" where
  "sample_server r w =
     (if ax_data r = Some (JObj [(''refreshToken'', JStr ''r1'')]) then AxOk (Some sample_tokens)
      else if ax_auth r = Some ''Bearer new'' then AxOk (Some (JStr ''projects''))
      else AxFail (Some (401, None)) None, w)"

definition sample_phone :: "(string \<rightharpoonup> string, unit) phone" where
  "sample_phone =
     \<lparr>ph_store = [TOKEN_KEY \<mapsto> ''old'', REFRESH_KEY \<mapsto> ''r1''], ph_world = (), ph_base = Some ''http://h''\<rparr>"

definition sample_config :: ax_config where
  "sample_config =
     \<lparr>cf_base = None, cf_url = ep_projects, cf_method = GET, cf_data = None, cf_auth = None, cf_retried = False\<rparr>"

theorem mobile_renewal_witness:
  "\<exists>s'. getItem map_store s' TOKEN_KEY = Inr (Some ''new'') \<and> getItem map_store s' REFRESH_KEY = Inr (Some ''r2'')
     \<and> client_request sample_server map_store None sample_config sample_phone =
         (Inr (Some (JStr ''projects'')), sample_phone\<lparr>ph_store := s'\<rparr>)"
proof -
  note sample_defs = sample_phone_def sample_config_def sample_server_def sample_tokens_def
  have 1: "getItem map_store (ph_store sample_phone) TOKEN_KEY = Inr (Some ''old'')" "''old'' \<noteq> []"
    by (simp_all add: sample_defs map_store_def)
  have 2: "getItem map_store (ph_store sample_phone) REFRESH_KEY = Inr (Some ''r1'')" "''r1'' \<noteq> []"
    by (simp_all add: sample_defs map_store_def)
  have 3: "\<not> cf_retried sample_config" "\<not> isAuthPath (cf_url sample_config)"
    by (simp_all add: sample_config_def isAuthPath_def ep_projects_def API_def)
  have 4: "sample_server (wire ((with_base sample_config sample_phone)\<lparr>cf_auth := Some (bearer ''old'')\<rparr>))
      (ph_world sample_phone) = (AxFail (Some (401, None)) None, ())"
    by (simp add: sample_defs wire_def with_base_def bearer_def)
  have 5: "sample_server (refresh_config (base_in_effect None sample_phone) ''r1'') () = (AxOk (Some sample_tokens), ())"
    by (simp add: sample_server_def refresh_config_def)
  have 6: "json_get ''token'' sample_tokens = Some (JStr ''new'')" "''new'' \<noteq> []"
    "json_get ''refreshToken'' sample_tokens = Some (JStr ''r2'')" "''r2'' \<noteq> []"
    by (simp_all add: sample_tokens_def)
  have 7: "sample_server (wire ((with_base sample_config sample_phone)\<lparr>cf_auth := Some (bearer ''new'')\<rparr>)) () =
      (AxOk (Some (JStr ''projects'')), ())"
    by (simp add: sample_defs wire_def with_base_def bearer_def)
  have 8: "sample_phone\<lparr>ph_store := s, ph_world := ()\<rparr> = sample_phone\<lparr>ph_store := s\<rparr>" for s
    by (simp add: sample_phone_def)
  show ?thesis
    using mobile_renewal [OF ms.working_store_axioms 1 2 3 4 5 6] unfolding 7 by (auto simp: 8)
qed

end
