(* ===== verification/Mobile_Api.thy ===== *)
theory Mobile_Api
  imports Mobile_Client Web_Api Types_Fleet
begin

text \<open>
  The API objects of the mobile app, \<open>mobile/src/api/\<close> \<open>auth.ts\<close>, \<open>dashboard.ts\<close>,
  \<open>logs.ts\<close>, \<open>monitoring.ts\<close>, \<open>notifications.ts\<close>, \<open>operations.ts\<close>,
  \<open>projects.ts\<close> and \<open>servers.ts\<close>. A method builds a call, whose type argument is the
  response type it casts to. The notification object of \<open>servers.ts\<close> is called
  \<open>inAppApi\<close> here, since \<open>notifications.ts\<close> has one of the same name.
\<close>

named_theorems mcall_defs \<open>definitions of the mobile API methods\<close>

section \<open>Calls\<close>

datatype 'a mcall = MCall (mc_url: string) (mc_method: http_method) (mc_data: "json option")

definition mc_config :: "'a mcall \<Rightarrow> ax_config" where
  "mc_config c =
     \<lparr>cf_base = None, cf_url = mc_url c, cf_method = mc_method c, cf_data = mc_data c, cf_auth = None,
      cf_retried = False\<rparr>"

definition mperform ::
  "'w axios \<Rightarrow> 's kv_ops \<Rightarrow> string option \<Rightarrow> 'a mcall \<Rightarrow> (('s, 'w) phone, json option) io" where
  "mperform ax S env c = client_request ax S env (mc_config c)"

record SilenceMatcher =
  sm_name :: string
  sm_value :: string
  sm_isRegex :: bool
  sm_isEqual :: bool

record SilenceBody =
  sb_matchers :: "SilenceMatcher list"
  sb_startsAt :: string
  sb_endsAt :: string
  sb_createdBy :: string
  sb_comment :: string

definition silenceBody_json :: "SilenceBody \<Rightarrow> json" where
  "silenceBody_json b =
     JObj [(''matchers'', JArr (map (\<lambda>m. JObj [(''name'', JStr (sm_name m)), (''value'', JStr (sm_value m)),
             (''isRegex'', JBool (sm_isRegex m)), (''isEqual'', JBool (sm_isEqual m))]) (sb_matchers b))),
           (''startsAt'', JStr (sb_startsAt b)), (''endsAt'', JStr (sb_endsAt b)),
           (''createdBy'', JStr (sb_createdBy b)), (''comment'', JStr (sb_comment b))]"

record NotifySettingsView_events =
  nsv_deployFailed :: bool
  nsv_threshold :: bool
  nsv_backupFailed :: bool
  nsv_projectFailed :: bool

record NotifySettingsView_telegram =
  nsv_telegram_enabled :: bool
  nsv_telegram_chatId :: string
  nsv_telegram_hasToken :: bool

record NotifySettingsView_email =
  nsv_email_enabled :: bool
  nsv_email_host :: string
  nsv_email_port :: string
  nsv_email_username :: string
  nsv_email_from :: string
  nsv_email_to :: string
  nsv_email_tls :: bool
  nsv_email_hasPassword :: bool
  nsv_email_emailGroupId :: "int option"

record NotifySettingsView =
  nsv_enabled :: bool
  nsv_events :: NotifySettingsView_events
  nsv_telegram :: NotifySettingsView_telegram
  nsv_email :: NotifySettingsView_email

section \<open>Methods\<close>

definition authApi_login :: "string \<Rightarrow> string \<Rightarrow> (string \<times> string \<times> string \<times> string option) mcall" where
  [mcall_defs]: "authApi_login username password =
     MCall ep_authToken POST (Some (JObj [(''username'', JStr username), (''password'', JStr password)]))"

definition authApi_logout :: "bool mcall" where
  [mcall_defs]: "authApi_logout =
     MCall ep_authLogout POST None"

definition authApi_me :: "User mcall" where
  [mcall_defs]: "authApi_me =
     MCall ep_authMe GET None"

definition authApi_changePassword :: "string \<Rightarrow> string \<Rightarrow> bool mcall" where
  [mcall_defs]: "authApi_changePassword currentPassword newPassword =
     MCall ep_authPassword PUT (Some (JObj [(''currentPassword'', JStr currentPassword), (''newPassword'', JStr newPassword)]))"

definition dashboardApi_dashboard :: "DashboardData mcall" where
  [mcall_defs]: "dashboardApi_dashboard =
     MCall ep_dashboard GET None"

definition dashboardApi_server :: "ServerInfo mcall" where
  [mcall_defs]: "dashboardApi_server =
     MCall ep_server GET None"

definition dashboardApi_audit :: "int option \<Rightarrow> (AuditLog list) mcall" where
  [mcall_defs]: "dashboardApi_audit limit =
     MCall (ep_audit (Some (or_else limit 8))) GET None"

definition logsApi_list :: "LogsParams option \<Rightarrow> (AppLog list) mcall" where
  [mcall_defs]: "logsApi_list ps =
     MCall (ep_logs ps) GET None"

definition monitoringApi_overview :: "MonitoringOverview mcall" where
  [mcall_defs]: "monitoringApi_overview =
     MCall ep_monitoringOverview GET None"

definition monitoringApi_prometheusStatus :: "PrometheusStatus mcall" where
  [mcall_defs]: "monitoringApi_prometheusStatus =
     MCall ep_prometheusStatus GET None"

definition monitoringApi_alertmanagerStatus :: "AlertmanagerStatus mcall" where
  [mcall_defs]: "monitoringApi_alertmanagerStatus =
     MCall ep_alertmanagerStatus GET None"

definition monitoringApi_alerts :: "(AmAlert list) mcall" where
  [mcall_defs]: "monitoringApi_alerts =
     MCall ep_monitoringAlerts GET None"

definition monitoringApi_metricHistory :: "string \<Rightarrow> string option \<Rightarrow> string option \<Rightarrow> MonitoringMetricHistory mcall" where
  [mcall_defs]: "monitoringApi_metricHistory metric r st =
     MCall (ep_monitoringMetrics metric (Some (or_else r ''1h'')) (Some (or_else st ''60''))) GET None"

definition monitoringApi_targets :: "PromTargetsData mcall" where
  [mcall_defs]: "monitoringApi_targets =
     MCall ep_prometheusTargets GET None"

definition monitoringApi_rules :: "json mcall" where
  [mcall_defs]: "monitoringApi_rules =
     MCall ep_prometheusRules GET None"

definition monitoringApi_silences :: "(AmSilence list) mcall" where
  [mcall_defs]: "monitoringApi_silences =
     MCall ep_monitoringSilences GET None"

definition monitoringApi_createSilence :: "SilenceBody \<Rightarrow> string mcall" where
  [mcall_defs]: "monitoringApi_createSilence b =
     MCall ep_monitoringSilences POST (Some (silenceBody_json b))"

definition monitoringApi_deleteSilence :: "string \<Rightarrow> bool mcall" where
  [mcall_defs]: "monitoringApi_deleteSilence i =
     MCall (ep_monitoringSilence i) DELETE None"

definition notificationsApi_settings :: "NotifySettingsView mcall" where
  [mcall_defs]: "notificationsApi_settings =
     MCall ep_notifySettings GET None"

definition notificationsApi_updateSettings :: "json \<Rightarrow> bool mcall" where
  [mcall_defs]: "notificationsApi_updateSettings b =
     MCall ep_notifySettings PUT (Some b)"

definition notificationsApi_test :: "(string \<times> string) mcall" where
  [mcall_defs]: "notificationsApi_test =
     MCall ep_notifyTest POST (Some (JObj []))"

definition notificationsApi_policy :: "DeliveryPolicy mcall" where
  [mcall_defs]: "notificationsApi_policy =
     MCall ep_notificationPolicy GET None"

definition notificationsApi_updatePolicy :: "json \<Rightarrow> DeliveryPolicy mcall" where
  [mcall_defs]: "notificationsApi_updatePolicy b =
     MCall ep_notificationPolicy PUT (Some b)"

definition notificationsApi_deliveries :: "DeliveriesParams option \<Rightarrow> (DeliveryRecord list) mcall" where
  [mcall_defs]: "notificationsApi_deliveries ps =
     MCall (ep_notificationDeliveries ps) GET None"

definition notificationsApi_windows :: "(MaintenanceWindow list) mcall" where
  [mcall_defs]: "notificationsApi_windows =
     MCall ep_maintenanceWindows GET None"

definition notificationsApi_createWindow :: "json \<Rightarrow> (int \<times> string) mcall" where
  [mcall_defs]: "notificationsApi_createWindow b =
     MCall ep_maintenanceWindows POST (Some b)"

definition notificationsApi_deleteWindow :: "int \<Rightarrow> bool mcall" where
  [mcall_defs]: "notificationsApi_deleteWindow i =
     MCall (ep_maintenanceWindow i) DELETE None"

definition operationsApi_list :: "int option \<Rightarrow> (Operation list) mcall" where
  [mcall_defs]: "operationsApi_list limit =
     MCall (ep_operations (Some (or_else limit 20))) GET None"

definition operationsApi_get :: "string \<Rightarrow> Operation mcall" where
  [mcall_defs]: "operationsApi_get i =
     MCall (ep_operation i) GET None"

definition projectsApi_list :: "(Project list) mcall" where
  [mcall_defs]: "projectsApi_list =
     MCall ep_projects GET None"

definition projectsApi_get :: "int \<Rightarrow> Project mcall" where
  [mcall_defs]: "projectsApi_get i =
     MCall (ep_project i) GET None"

definition projectsApi_services :: "int \<Rightarrow> (Service list) mcall" where
  [mcall_defs]: "projectsApi_services projectId =
     MCall (ep_projectServices projectId) GET None"

definition projectsApi_deployments :: "int \<Rightarrow> (Deployment list) mcall" where
  [mcall_defs]: "projectsApi_deployments projectId =
     MCall (ep_projectDeployments projectId) GET None"

definition projectsApi_action :: "int \<Rightarrow> lifecycle_action \<Rightarrow> bool option \<Rightarrow> (bool \<times> string option) mcall" where
  [mcall_defs]: "projectsApi_action i action confirm =
     MCall (ep_projectAction i action (Some (or_else confirm False))) POST None"

definition serversApi_list :: "(ManagedServer list) mcall" where
  [mcall_defs]: "serversApi_list =
     MCall ep_servers GET None"

definition serversApi_get :: "int \<Rightarrow> ManagedServer mcall" where
  [mcall_defs]: "serversApi_get i =
     MCall (ep_serverById i) GET None"

definition serversApi_metricsLatest :: "int \<Rightarrow> ServerMetricPoint mcall" where
  [mcall_defs]: "serversApi_metricsLatest i =
     MCall (ep_serverMetricsLatest i) GET None"

definition serversApi_metrics :: "int \<Rightarrow> string option \<Rightarrow> (string \<times> ServerMetricPoint list) mcall" where
  [mcall_defs]: "serversApi_metrics i r =
     MCall (ep_serverMetrics i (Some (or_else r ''1h''))) GET None"

definition serversApi_groups :: "(ServerGroup list) mcall" where
  [mcall_defs]: "serversApi_groups =
     MCall ep_serverGroups GET None"

definition alertsApi_list :: "string option \<Rightarrow> (Alert list) mcall" where
  [mcall_defs]: "alertsApi_list st =
     MCall (ep_alerts st) GET None"

definition alertsApi_resolve :: "int \<Rightarrow> bool mcall" where
  [mcall_defs]: "alertsApi_resolve i =
     MCall (ep_alertResolve i) PATCH None"

definition inAppApi_list :: "(InAppNotification list) mcall" where
  [mcall_defs]: "inAppApi_list =
     MCall ep_notifications GET None"

definition inAppApi_markRead :: "int \<Rightarrow> bool mcall" where
  [mcall_defs]: "inAppApi_markRead i =
     MCall (ep_notificationRead i) PATCH None"

definition inAppApi_markAllRead :: "bool mcall" where
  [mcall_defs]: "inAppApi_markAllRead =
     MCall ep_notificationsReadAll POST None"

section \<open>Agreement with the web client\<close>

text \<open>Both clients put the same request on the wire: path, method, and body.\<close>

definition same_request :: "'a mcall \<Rightarrow> 'b call \<Rightarrow> bool" where
  "same_request m c \<longleftrightarrow>
     mc_url m = call_path c \<and> mc_method m = call_method c
     \<and> (case mc_data m of None \<Rightarrow> call_body c = NoBody | Some d \<Rightarrow> call_body c = TextBody (JSON_stringify d))"

definition well_formed_mcall :: "'a mcall \<Rightarrow> bool" where
  "well_formed_mcall m \<longleftrightarrow>
     js_startsWith (mc_url m) (API @ ''/'') \<and> (mc_method m = GET \<longrightarrow> mc_data m = None)"


end
