(* ===== verification/Mobile_Url.thy ===== *)
theory Mobile_Url
  imports Mobile_Client
begin

text \<open>
  The server address of the mobile app, \<open>mobile/src/api/serverUrl.ts\<close>: normalisation,
  the address in effect, the stored override and the reachability probe. The shared axios
  instance's default base URL is the phone's \<open>ph_base\<close>.
\<close>

definition SERVER_URL_KEY :: string where
  "SERVER_URL_KEY = ''serverhub_api_url''"

definition normalizeUrl :: "string \<Rightarrow> string" where
  "normalizeUrl url = strip_end is_slash (js_trim url)"

definition defaultBaseUrl :: "string option \<Rightarrow> string" where
  "defaultBaseUrl env = normalizeUrl (DEFAULT_API_BASE env)"

definition currentBaseUrl :: "string option \<Rightarrow> ('s, 'w) phone \<Rightarrow> string" where
  "currentBaseUrl env p = normalizeUrl (or_else (ph_base p) (DEFAULT_API_BASE env))"

definition applyBaseUrl :: "string \<Rightarrow> (('s, 'w, 'z) phone_scheme, string) io" where
  "applyBaseUrl url p = (let clean = normalizeUrl url in (Inr clean, p\<lparr>ph_base := Some clean\<rparr>))"

definition initStoredBaseUrl :: "'s kv_ops \<Rightarrow> string option \<Rightarrow> (('s, 'w, 'z) phone_scheme, string) io" where
  "initStoredBaseUrl S env =
     io_bind
       (io_catch
         (io_bind (store_get S SERVER_URL_KEY) (\<lambda>stored.
            if js_truthy stored \<and> js_trim (or_else stored []) \<noteq> []
            then io_bind (applyBaseUrl (or_else stored [])) (\<lambda>u. io_return (Some u))
            else io_return None))
         (\<lambda>e. io_return None))
       (\<lambda>r. case r of Some u \<Rightarrow> io_return u | None \<Rightarrow> applyBaseUrl (defaultBaseUrl env))"

text \<open>The test \<open>/^https?:\/\/.+/\<close>; the dot does not match a line break.\<close>

definition rest_ok :: "string \<Rightarrow> bool" where
  "rest_ok s \<longleftrightarrow> (case s of [] \<Rightarrow> False | c # cs \<Rightarrow> c \<noteq> CHR 0x0A \<and> c \<noteq> CHR 0x0D)"

definition valid_url :: "string \<Rightarrow> bool" where
  "valid_url s \<longleftrightarrow>
     (js_startsWith s ''http://'' \<and> rest_ok (drop 7 s)) \<or> (js_startsWith s ''https://'' \<and> rest_ok (drop 8 s))"

definition saveBaseUrl :: "'s kv_ops \<Rightarrow> string \<Rightarrow> (('s, 'w, 'z) phone_scheme, string) io" where
  "saveBaseUrl S url =
     (let clean = normalizeUrl url in
      if \<not> valid_url clean then io_throw (JsError ''Server URL must start with http:// or https://'')
      else io_seq (store_set S SERVER_URL_KEY clean) (applyBaseUrl clean))"

definition resetBaseUrl :: "'s kv_ops \<Rightarrow> string option \<Rightarrow> (('s, 'w, 'z) phone_scheme, string) io" where
  "resetBaseUrl S env =
     io_seq (io_catch (store_delete S SERVER_URL_KEY) (\<lambda>e. io_return ()))
       (applyBaseUrl (defaultBaseUrl env))"

text \<open>What \<open>fetch\<close> of the health address gives the probe: a response, the abort of the
  timeout, another error, or a value that is no error.\<close>

datatype probe_fetch = ProbeStatus int | ProbeAborted | ProbeError string | ProbeOther

definition probeBaseUrl :: "(string \<Rightarrow> probe_fetch) \<Rightarrow> string \<Rightarrow> js_error + unit" where
  "probeBaseUrl fetch url =
     (case fetch (normalizeUrl url @ ''/health'') of
        ProbeStatus st \<Rightarrow>
          if 200 \<le> st \<and> st \<le> 299 then Inr ()
          else Inl (JsError (''Server answered with HTTP '' @ int_str st))
      | ProbeAborted \<Rightarrow>
          Inl (JsError ''Timed out reaching the server. Check the IP, port 4000, and that phone + PC share the same Wi-Fi.'')
      | ProbeError m \<Rightarrow> Inl (JsError m)
      | ProbeOther \<Rightarrow> Inl (JsError ''Could not reach the server at that address.''))"

section \<open>Normalisation\<close>

lemma normalizeUrl_no_slash: "normalizeUrl u \<noteq> [] \<Longrightarrow> last (normalizeUrl u) \<noteq> CHR ''/''"
  using strip_end_last [of is_slash] by (auto simp: normalizeUrl_def is_slash_def)

lemma js_trim_last: "js_trim u \<noteq> [] \<Longrightarrow> \<not> is_space_char (last (js_trim u))"
  by (simp add: js_trim_def js_trimEnd_strip strip_end_last)

lemma slash_not_space [simp]: "\<not> is_space_char (CHR ''/'')"
  by (simp add: is_space_char_def)

lemma normalizeUrl_trimmed:
  assumes "u = [] \<or> (\<not> is_space_char (hd u) \<and> \<not> is_space_char (last u))"
  shows "normalizeUrl u = strip_end is_slash u"
  using js_trim_fixed [OF assms] by (simp add: normalizeUrl_def)

lemma normalizeUrl_slashes:
  assumes "u \<noteq> []" "\<not> is_space_char (hd u)" "\<not> is_space_char (last u)"
  shows "normalizeUrl (u @ replicate n (CHR ''/'')) = normalizeUrl u"
proof -
  have "\<not> is_space_char (last (u @ replicate n (CHR ''/'')))" using assms by (cases n) auto
  then have "normalizeUrl (u @ replicate n (CHR ''/'')) = strip_end is_slash (u @ replicate n (CHR ''/''))"
    using assms by (intro normalizeUrl_trimmed) auto
  moreover have "normalizeUrl u = strip_end is_slash u"
    using assms by (intro normalizeUrl_trimmed) auto
  ultimately show ?thesis by (simp add: is_slash_def)
qed

lemma js_trim_hd_prefix: "js_trim u \<noteq> [] \<Longrightarrow> normalizeUrl u \<noteq> [] \<Longrightarrow> hd (normalizeUrl u) = hd (js_trim u)"
  by (simp add: normalizeUrl_def hd_strip_end)

lemma normalizeUrl_idem:
  assumes "normalizeUrl u = [] \<or> \<not> is_space_char (last (normalizeUrl u))"
  shows "normalizeUrl (normalizeUrl u) = normalizeUrl u"
proof (cases "normalizeUrl u = []")
  case True
  then show ?thesis by (simp add: normalizeUrl_def [of "[]"] js_trim_fixed strip_end_id)
next
  case False
  then have "js_trim u \<noteq> []" by (auto simp: normalizeUrl_def strip_end_def)
  with False js_trim_hd_prefix js_trim_hd have "\<not> is_space_char (hd (normalizeUrl u))" by metis
  with False assms have "normalizeUrl (normalizeUrl u) = strip_end is_slash (normalizeUrl u)"
    by (intro normalizeUrl_trimmed) auto
  then show ?thesis by (simp add: normalizeUrl_def)
qed

lemma js_trim_surround:
  assumes "\<forall>c \<in> set a. is_space_char c" "\<forall>c \<in> set b. is_space_char c"
  shows "js_trim (a @ u @ b) = js_trim u"
proof -
  have "js_trimStart (a @ v) = js_trimStart v" for v
    using assms(1) by (simp add: js_trimStart_def dropWhile_append2)
  moreover have "js_trim (u @ b) = js_trim u"
  proof (cases "\<forall>c \<in> set u. is_space_char c")
    case True
    with assms(2) have "\<forall>c \<in> set (u @ b). is_space_char c" by auto
    then have "js_trimStart (u @ b) = []" "js_trimStart u = []"
      using True by (simp_all only: js_trimStart_def dropWhile_eq_Nil_conv)
    then show ?thesis by (simp add: js_trim_def)
  next
    case False
    then have "js_trimStart (u @ b) = js_trimStart u @ b"
      by (auto simp: js_trimStart_def dropWhile_append1)
    with assms(2) show ?thesis by (simp add: js_trim_def js_trimEnd_strip)
  qed
  ultimately show ?thesis by (simp add: js_trim_def)
qed

text \<open>Spaces around an address and slashes after it make no difference: an address without
  outer spaces, with any spaces around it and any number of slashes appended, normalises to
  the same text as the address itself; the result never ends in a slash, and normalising it
  again changes nothing unless a space is left at its end.\<close>

lemma url_normal_form:
  assumes "u \<noteq> []" "\<not> is_space_char (hd u)" "\<not> is_space_char (last u)"
    and "\<forall>c \<in> set a. is_space_char c" "\<forall>c \<in> set b. is_space_char c"
  shows "normalizeUrl (a @ u @ replicate n (CHR ''/'') @ b) = normalizeUrl u
       \<and> (normalizeUrl u \<noteq> [] \<longrightarrow> last (normalizeUrl u) \<noteq> CHR ''/'')
       \<and> (normalizeUrl u = [] \<or> \<not> is_space_char (last (normalizeUrl u)) \<longrightarrow>
            normalizeUrl (normalizeUrl u) = normalizeUrl u)"
proof -
  have "normalizeUrl (a @ (u @ replicate n (CHR ''/'')) @ b) = normalizeUrl (u @ replicate n (CHR ''/''))"
    unfolding normalizeUrl_def using assms(4,5) by (simp only: js_trim_surround)
  with normalizeUrl_slashes [OF assms(1-3)] normalizeUrl_no_slash normalizeUrl_idem show ?thesis by simp
qed

section \<open>The stored override\<close>

lemma js_trim_not_Nil: "s \<noteq> [] \<Longrightarrow> \<not> is_space_char (hd s) \<Longrightarrow> js_trim s \<noteq> []"
  by (cases s) (auto simp: js_trim_def js_trimStart_def js_trimEnd_strip strip_end_def)

lemma valid_url_start: "valid_url u \<Longrightarrow> u \<noteq> [] \<and> hd u = CHR ''h''"
  by (cases u) (auto simp: valid_url_def)

context working_store
begin

lemma save_then_init:
  assumes "valid_url (normalizeUrl url)"
  shows "saveBaseUrl ops url p =
      (Inr (normalizeUrl (normalizeUrl url)),
       p\<lparr>ph_store := wput SERVER_URL_KEY (normalizeUrl url) (ph_store p),
         ph_base := Some (normalizeUrl (normalizeUrl url))\<rparr>)"
    and "wget (ph_store q) SERVER_URL_KEY = Some (normalizeUrl url) \<Longrightarrow>
      initStoredBaseUrl ops env q =
        (Inr (normalizeUrl (normalizeUrl url)), q\<lparr>ph_base := Some (normalizeUrl (normalizeUrl url))\<rparr>)"
proof -
  have v: "normalizeUrl url \<noteq> []" "\<not> is_space_char (hd (normalizeUrl url))"
    using valid_url_start [OF assms] by (auto simp: is_space_char_def)
  show "saveBaseUrl ops url p =
      (Inr (normalizeUrl (normalizeUrl url)),
       p\<lparr>ph_store := wput SERVER_URL_KEY (normalizeUrl url) (ph_store p),
         ph_base := Some (normalizeUrl (normalizeUrl url))\<rparr>)"
    using assms by (simp add: saveBaseUrl_def Let_def io_seq_def io_bind_def store_ops_work applyBaseUrl_def)
  show "initStoredBaseUrl ops env q =
        (Inr (normalizeUrl (normalizeUrl url)), q\<lparr>ph_base := Some (normalizeUrl (normalizeUrl url))\<rparr>)"
    if "wget (ph_store q) SERVER_URL_KEY = Some (normalizeUrl url)"
    using that v js_trim_not_Nil [OF v]
    by (simp add: initStoredBaseUrl_def io_catch_def io_bind_def store_ops_work applyBaseUrl_def
        io_return_def Let_def)
qed

lemma init_without_override:
  assumes "wget (ph_store q) SERVER_URL_KEY = None"
  shows "initStoredBaseUrl ops env q =
    (Inr (normalizeUrl (defaultBaseUrl env)), q\<lparr>ph_base := Some (normalizeUrl (defaultBaseUrl env))\<rparr>)"
  using assms
  by (simp add: initStoredBaseUrl_def io_catch_def io_bind_def store_ops_work applyBaseUrl_def
      io_return_def Let_def)

end

text \<open>A saved server address survives a restart. On a working device, an address that is
  not http or https is refused and changes nothing; an accepted one is in effect at once,
  and every later start of the app with that store comes up with the same address, until it
  is reset, after which the app starts with the built-in address.\<close>

lemma saved_url_survives_restart:
  assumes "working_store S" and "saveBaseUrl S url p = (r, p')"
  shows "(\<not> valid_url (normalizeUrl url) \<longrightarrow> (\<exists>e. r = Inl e) \<and> p' = p)
       \<and> (valid_url (normalizeUrl url) \<longrightarrow>
            (\<exists>u. r = Inr u \<and> ph_base p' = Some u
               \<and> (\<forall>q. ph_store q = ph_store p' \<longrightarrow> initStoredBaseUrl S env q = (Inr u, q\<lparr>ph_base := Some u\<rparr>))))
       \<and> (\<forall>q. ph_store q = ph_store (snd (resetBaseUrl S env p')) \<longrightarrow>
            fst (initStoredBaseUrl S env q) = fst (resetBaseUrl S env p'))"
proof -
  note W = assms(1)
  have bad: "\<not> valid_url (normalizeUrl url) \<Longrightarrow> (\<exists>e. r = Inl e) \<and> p' = p"
    using assms(2) by (auto simp: saveBaseUrl_def io_throw_def)
  have good: "\<exists>u. r = Inr u \<and> ph_base p' = Some u
      \<and> (\<forall>q. ph_store q = ph_store p' \<longrightarrow> initStoredBaseUrl S env q = (Inr u, q\<lparr>ph_base := Some u\<rparr>))"
    if v: "valid_url (normalizeUrl url)"
  proof -
    let ?u = "normalizeUrl (normalizeUrl url)"
    have p': "r = Inr ?u" "ph_base p' = Some ?u"
      "ph_store p' = working_store.wput S SERVER_URL_KEY (normalizeUrl url) (ph_store p)"
      using assms(2) working_store.save_then_init(1) [OF W v, of p] by auto
    then have "working_store.wget S (ph_store p') SERVER_URL_KEY = Some (normalizeUrl url)"
      using working_store.wget_wput [OF W] by simp
    then have "initStoredBaseUrl S env q = (Inr ?u, q\<lparr>ph_base := Some ?u\<rparr>)" if "ph_store q = ph_store p'" for q
      using working_store.save_then_init(2) [OF W v, of q env] that by simp
    with p' show ?thesis by blast
  qed
  have reset: "fst (initStoredBaseUrl S env q) = fst (resetBaseUrl S env p')"
    if "ph_store q = ph_store (snd (resetBaseUrl S env p'))" for q
  proof -
    have "ph_store q = working_store.wdel S SERVER_URL_KEY (ph_store p')"
      and "fst (resetBaseUrl S env p') = Inr (normalizeUrl (defaultBaseUrl env))"
      using that working_store.store_ops_work(3) [OF W, of SERVER_URL_KEY p']
      by (simp_all add: resetBaseUrl_def io_seq_def io_bind_def io_catch_def applyBaseUrl_def Let_def)
    then show ?thesis
      using working_store.init_without_override [OF W, of q env] working_store.wget_wdel [OF W]
      by simp
  qed
  from bad good reset show ?thesis by blast
qed

text \<open>The address check runs before the address takes its final form: an address of only a
  scheme followed by a space passes it, and the base URL put in effect has no host.\<close>

lemma url_check_gap:
  "saveBaseUrl map_store ''http:// /'' p =
     (Inr ''http:'', p\<lparr>ph_store := (ph_store p)(SERVER_URL_KEY \<mapsto> ''http:// ''), ph_base := Some ''http:''\<rparr>)
   \<and> \<not> valid_url ''http:''"
proof -
  have n: "normalizeUrl ''http:// /'' = ''http:// ''" "normalizeUrl ''http:// '' = ''http:''"
    "valid_url ''http:// ''" "\<not> valid_url ''http:''"
    by (simp_all add: normalizeUrl_def js_eval strip_end_def is_slash_def valid_url_def rest_ok_def)
  then show ?thesis
    by (simp add: saveBaseUrl_def Let_def io_seq_def io_bind_def store_set_def map_store_def applyBaseUrl_def)
qed

end
