(* ===== verification/Mobile_Stores.thy ===== *)
theory Mobile_Stores
  imports Mobile_Api Mobile_Url Hub_Steps
begin

text \<open>
  The stores of the mobile app, \<open>mobile/src/stores/\<close> \<open>authStore.ts\<close>,
  \<open>biometricStore.ts\<close> and \<open>connectivityStore.ts\<close>. The session store runs on the phone
  (store, network, base URL) and its own state; the connectivity store is a step machine
  over the events of the network-info library.
\<close>

section \<open>Session store\<close>

record MobileAuth =
  ma_user :: "json option"
  ma_token :: "string option"
  ma_checked :: bool
  ma_busy :: bool
  ma_error :: "string option"

definition ma_init :: MobileAuth where
  "ma_init = \<lparr>ma_user = Some JNull, ma_token = None, ma_checked = False, ma_busy = False, ma_error = None\<rparr>"

type_synonym ('s, 'w) mobile = "('s, 'w) phone \<times> MobileAuth"

text \<open>\<open>setItemAsync(k, JSON.stringify(v))\<close>: \<open>undefined\<close> prints to \<open>undefined\<close>, which
  the store refuses.\<close>

definition store_printed :: "'s kv_ops \<Rightarrow> string \<Rightarrow> json option \<Rightarrow> (('s, 'w, 'z) phone_scheme, unit) io" where
  "store_printed S k v = (case v of None \<Rightarrow> io_throw bad_value | Some j \<Rightarrow> store_set S k (JSON_stringify j))"

definition forget_session :: "'s kv_ops \<Rightarrow> (('s, 'w, 'z) phone_scheme, unit) io" where
  "forget_session S =
     io_seq (store_delete S TOKEN_KEY) (io_seq (store_delete S REFRESH_KEY) (store_delete S USER_KEY))"

definition hydrate :: "'w axios \<Rightarrow> 's kv_ops \<Rightarrow> string option \<Rightarrow> (('s, 'w) mobile, unit) io" where
  "hydrate ax S env =
     io_catch
       (io_seq (on_fst (initStoredBaseUrl S env))
         (io_bind (on_fst (store_get S TOKEN_KEY)) (\<lambda>token.
          io_bind (on_fst (store_get S USER_KEY)) (\<lambda>userJson.
            if js_truthy token \<and> js_truthy userJson then
              io_catch
                (io_bind (on_fst (mperform ax S env authApi_me)) (\<lambda>freshUser.
                  io_seq (on_fst (store_printed S USER_KEY freshUser))
                    (modify_snd (\<lambda>a. a\<lparr>ma_user := freshUser, ma_token := token, ma_checked := True\<rparr>))))
                (\<lambda>e. io_seq (on_fst (forget_session S))
                  (modify_snd (\<lambda>a. a\<lparr>ma_user := Some JNull, ma_token := None, ma_checked := True\<rparr>)))
            else modify_snd (\<lambda>a. a\<lparr>ma_checked := True\<rparr>)))))
       (\<lambda>e. modify_snd (\<lambda>a. a\<lparr>ma_checked := True\<rparr>))"

definition login_result ::
  "string \<Rightarrow> 's kv_ops \<Rightarrow> json option \<Rightarrow> (('s, 'w) mobile, unit) io" where
  "login_result tmsg S res =
     (case (field_of tmsg ''username'' res, field_of tmsg ''role'' res, field_of tmsg ''token'' res,
            field_of tmsg ''refreshToken'' res) of
        (Inr u, Inr r, Inr t, Inr rt) \<Rightarrow>
          let user = jobj [(''username'', u), (''role'', r)] in
          io_seq (on_fst (store_set_json S TOKEN_KEY t))
            (io_seq (io_when (json_truthy rt) (on_fst (store_set_json S REFRESH_KEY rt)))
              (io_seq (on_fst (store_printed S USER_KEY (Some user)))
                (modify_snd (\<lambda>a. a\<lparr>ma_user := Some user,
                    ma_token := (case t of Some (JStr x) \<Rightarrow> Some x | _ \<Rightarrow> None), ma_busy := False\<rparr>))))
      | _ \<Rightarrow> io_throw (JsError tmsg))"

definition login_m ::
  "'w axios \<Rightarrow> string \<Rightarrow> 's kv_ops \<Rightarrow> string option \<Rightarrow> string \<Rightarrow> string \<Rightarrow> (('s, 'w) mobile, unit) io" where
  "login_m ax tmsg S env username password =
     io_seq (modify_snd (\<lambda>a. a\<lparr>ma_busy := True, ma_error := None\<rparr>))
       (io_catch
         (io_bind (on_fst (mperform ax S env (authApi_login username password))) (login_result tmsg S))
         (\<lambda>e. io_seq (modify_snd (\<lambda>a. a\<lparr>ma_busy := False, ma_error := Some (error_message e)\<rparr>)) (io_throw e)))"

definition logout_m :: "'w axios \<Rightarrow> 's kv_ops \<Rightarrow> string option \<Rightarrow> (('s, 'w) mobile, unit) io" where
  "logout_m ax S env =
     io_finally
       (io_catch (io_seq (on_fst (mperform ax S env authApi_logout)) (io_return ())) (\<lambda>e. io_return ()))
       (io_seq (on_fst (forget_session S)) (modify_snd (\<lambda>a. a\<lparr>ma_user := Some JNull, ma_token := None\<rparr>)))"

definition clearError :: "(('s, 'w) mobile, unit) io" where
  "clearError = modify_snd (\<lambda>a. a\<lparr>ma_error := None\<rparr>)"

text \<open>Starting the app always ends the start-up check. Whatever the store and the network
  do, failing reads and writes included, hydration returns without an error and leaves the
  checked flag set, so the app never stays on its loading screen.\<close>

lemma hydrate_always_checked:
  "\<exists>p' a'. hydrate ax S env (p, a) = (Inr (), p', a') \<and> ma_checked a'"
proof -
  have total: "\<exists>x s. hydrate ax S env (p, a) = (Inr x, s)"
    unfolding hydrate_def
    by (rule io_catch_total) (auto simp: modify_snd_def io_modify_def)
  have "ends_in (\<lambda>s. ma_checked (snd s)) (hydrate ax S env)"
    unfolding hydrate_def modify_snd_def by (intro io_ends) auto
  then have "hydrate ax S env (p, a) = (Inr x, s) \<Longrightarrow> ma_checked (snd s)" for x s
    unfolding ends_in_def by blast
  with total show ?thesis by (metis old.unit.exhaust snd_conv surj_pair)
qed

subsection \<open>Signing out\<close>

lemma request_once_phone:
  assumes "cf_retried cfg \<or> isAuthPath (cf_url cfg)"
  shows "\<exists>r w. client_request ax S env cfg p = (r, p\<lparr>ph_world := w\<rparr>)"
proof (cases rule: inject_token_cases [of S "with_base cfg p" p])
  case (failed e)
  then have "client_request ax S env cfg p = reject_normalized env None (Some (error_message e)) (p\<lparr>ph_world := ph_world p\<rparr>)"
    by (subst client_request.simps) simp
  then show ?thesis by (metis reject_normalized_world prod.collapse)
next
  case (ok a)
  obtain r w where send: "ax (wire ((with_base cfg p)\<lparr>cf_auth := a\<rparr>)) (ph_world p) = (r, w)"
    by (cases "ax (wire ((with_base cfg p)\<lparr>cf_auth := a\<rparr>)) (ph_world p)")
  have "snd (client_request ax S env cfg p) = p\<lparr>ph_world := w\<rparr>"
    using assms ok send by (subst client_request.simps) (auto split: ax_result.splits)
  then show ?thesis by (metis prod.collapse)
qed

lemma reject_normalized_eq:
  "reject_normalized env resp m p = (Inl (normalized_error (base_in_effect env p) resp m), p)"
  by (simp add: reject_normalized_def io_bind_def io_reads_def io_throw_def)

lemma auth_calls_exempt:
  "isAuthPath (cf_url (mc_config authApi_logout))" "isAuthPath (cf_url (mc_config authApi_me))"
  "isAuthPath (cf_url (mc_config (authApi_login u q)))"
  by (simp_all add: isAuthPath_def mc_config_def mcall_defs endpoint_defs API_def)

context working_store
begin

definition forgotten :: "'s \<Rightarrow> 's" where
  "forgotten s = wdel USER_KEY (wdel REFRESH_KEY (wdel TOKEN_KEY s))"

lemma wget_forgotten:
  "wget (forgotten s) k = (if k \<in> {TOKEN_KEY, REFRESH_KEY, USER_KEY} then None else wget s k)"
  by (simp add: forgotten_def wget_wdel)

lemma forget_session_works:
  "forget_session ops p = (Inr (), p\<lparr>ph_store := forgotten (ph_store p)\<rparr>)"
  by (simp add: forget_session_def io_seq_def io_bind_def store_ops_work forgotten_def)

lemma logout_works:
  "\<exists>w. logout_m ax ops env (p, a) =
     (Inr (), p\<lparr>ph_store := forgotten (ph_store p), ph_world := w\<rparr>, a\<lparr>ma_user := Some JNull, ma_token := None\<rparr>)"
proof -
  obtain r w where req: "mperform ax ops env authApi_logout p = (r, p\<lparr>ph_world := w\<rparr>)"
    using request_once_phone auth_calls_exempt(1) unfolding mperform_def by metis
  have "io_catch (io_seq (on_fst (mperform ax ops env authApi_logout)) (io_return ())) (\<lambda>e. io_return ()) (p, a) =
      (Inr (), p\<lparr>ph_world := w\<rparr>, a)"
    by (cases r) (simp_all add: io_catch_def io_seq_def io_bind_def on_fst_simp req io_return_def)
  then show ?thesis
    by (simp add: logout_m_def io_finally_def io_seq_def io_bind_def on_fst_simp modify_snd_simp
        forget_session_works) (metis phone.surjective phone.update_convs)
qed

end

text \<open>Signing out on a working device always succeeds locally: whatever the server answers
  to the logout request, the call returns, no user and no token remain in memory, the three
  session entries are gone from the device store, and nothing else in the store changes.\<close>

lemma logout_clears_session:
  assumes "working_store S"
  shows "\<exists>p' a'. logout_m ax S env (p, a) = (Inr (), p', a') \<and> ma_user a' = Some JNull \<and> ma_token a' = None
       \<and> (\<forall>k. getItem S (ph_store p') k =
            (if k \<in> {TOKEN_KEY, REFRESH_KEY, USER_KEY} then Inr None else getItem S (ph_store p) k))"
proof -
  obtain w where "logout_m ax S env (p, a) =
     (Inr (), p\<lparr>ph_store := working_store.forgotten S (ph_store p), ph_world := w\<rparr>,
      a\<lparr>ma_user := Some JNull, ma_token := None\<rparr>)"
    using working_store.logout_works [OF assms, of ax env p a] by blast
  then show ?thesis
    by (auto simp: working_store.getItem_wget [OF assms] working_store.wget_forgotten [OF assms])
qed

subsection \<open>Signing in and restarting\<close>

lemma io_bind_Inr:
  "io_bind m f s = (Inr y, s') \<longleftrightarrow> (\<exists>x s1. m s = (Inr x, s1) \<and> f x s1 = (Inr y, s'))"
  by (auto simp: io_bind_def split: prod.splits sum.splits)

lemma io_seq_Inr:
  "io_seq m n s = (Inr y, s') \<longleftrightarrow> (\<exists>x s1. m s = (Inr x, s1) \<and> n s1 = (Inr y, s'))"
  by (simp add: io_seq_def io_bind_Inr)

lemma field_of_Inr: "field_of tmsg k res = Inr x \<Longrightarrow> \<exists>v. res = Some v \<and> v \<noteq> JNull \<and> x = json_get k v"
  by (cases "(tmsg, k, res)" rule: field_of.cases) auto

definition me_request :: "string \<Rightarrow> string \<Rightarrow> ax_request" where
  "me_request base t =
     \<lparr>ax_baseURL = Some base, ax_url = ep_authMe, ax_method = GET, ax_data = None, ax_auth = Some (bearer t)\<rparr>"

context working_store
begin

lemma store_json_Inr:
  "store_set_json ops k v p = (Inr (), p') \<longleftrightarrow> (\<exists>t. v = Some (JStr t) \<and> p' = p\<lparr>ph_store := wput k t (ph_store p)\<rparr>)"
  by (auto simp: store_set_json_def io_throw_def store_ops_work split: option.splits json.splits)

lemma login_result_stores:
  assumes "login_result tmsg ops res (p, a) = (Inr (), p', a')"
  shows "\<exists>t user. ma_token a' = Some t \<and> ma_user a' = Some user \<and> \<not> ma_busy a'
    \<and> wget (ph_store p') TOKEN_KEY = Some t \<and> wget (ph_store p') USER_KEY = Some (JSON_stringify user)
    \<and> wget (ph_store p') SERVER_URL_KEY = wget (ph_store p) SERVER_URL_KEY"
proof -
  obtain u r t rt where f: "field_of tmsg ''username'' res = Inr u" "field_of tmsg ''role'' res = Inr r"
    "field_of tmsg ''token'' res = Inr t" "field_of tmsg ''refreshToken'' res = Inr rt"
    using assms by (auto simp: login_result_def io_throw_def split: sum.splits)
  let ?user = "jobj [(''username'', u), (''role'', r)]"
  from assms f obtain x where t: "t = Some (JStr x)"
    by (auto simp: login_result_def Let_def io_seq_Inr on_fst_simp store_json_Inr
        store_set_json_def io_throw_def split: option.splits json.splits)
  have keys: "SERVER_URL_KEY \<notin> {TOKEN_KEY, REFRESH_KEY, USER_KEY}"
    by (simp add: SERVER_URL_KEY_def TOKEN_KEY_def REFRESH_KEY_def USER_KEY_def)
  show ?thesis
  proof (cases "json_truthy rt")
    case False
    with assms f t keys show ?thesis
      by (auto simp: login_result_def Let_def io_seq_def io_bind_def on_fst_simp store_set_json_def
          io_when_def io_return_def store_printed_def store_ops_work modify_snd_simp wget_wput)
  next
    case True
    with assms f t obtain y where "rt = Some (JStr y)"
      by (auto simp: login_result_def Let_def io_seq_def io_bind_def on_fst_simp store_set_json_def
          io_when_def io_throw_def store_ops_work split: option.splits json.splits)
    with True assms f t keys show ?thesis
      by (auto simp: login_result_def Let_def io_seq_def io_bind_def on_fst_simp store_set_json_def
          io_when_def io_return_def store_printed_def store_ops_work modify_snd_simp wget_wput)
  qed
qed

lemma me_answered:
  assumes "wget (ph_store q) TOKEN_KEY = Some t" "t \<noteq> []" "ph_base q = Some b"
    and "ax (me_request b t) (ph_world q) = (res, w)"
  shows "mperform ax ops env authApi_me q =
    (case res of AxOk d \<Rightarrow> (Inr d, q\<lparr>ph_world := w\<rparr>)
     | AxFail resp m \<Rightarrow> reject_normalized env resp m (q\<lparr>ph_world := w\<rparr>))"
proof -
  have inj: "inject_token ops (with_base (mc_config authApi_me) q) q =
      (Inr ((with_base (mc_config authApi_me) q)\<lparr>cf_auth := Some (bearer t)\<rparr>), q)"
    using assms(1,2) by (rule inject_token_works)
  have "wire ((with_base (mc_config authApi_me) q)\<lparr>cf_auth := Some (bearer t)\<rparr>) = me_request b t"
    using assms(3) by (simp add: wire_def with_base_def mc_config_def me_request_def authApi_me_def)
  with inj assms(4) auth_calls_exempt(2) show ?thesis
    unfolding mperform_def by (subst client_request.simps) (auto split: ax_result.splits)
qed

end

context working_store
begin

lemma init_works: "\<exists>b. initStoredBaseUrl ops env q = (Inr b, q\<lparr>ph_base := Some b\<rparr>)"
  by (auto simp: initStoredBaseUrl_def io_catch_def io_bind_def store_ops_work applyBaseUrl_def
      io_return_def Let_def)

lemma hydrate_answered:
  assumes "wget (ph_store q) TOKEN_KEY = Some t" "t \<noteq> []"
    and "wget (ph_store q) USER_KEY = Some uj" "uj \<noteq> []"
    and "initStoredBaseUrl ops env q = (Inr b, q\<lparr>ph_base := Some b\<rparr>)"
    and "ax (me_request b t) (ph_world q) = (res, w)"
  shows "hydrate ax ops env (q, a) =
    (case res of
       AxOk (Some fresh) \<Rightarrow>
         (Inr (), q\<lparr>ph_base := Some b, ph_world := w, ph_store := wput USER_KEY (JSON_stringify fresh) (ph_store q)\<rparr>,
          a\<lparr>ma_user := Some fresh, ma_token := Some t, ma_checked := True\<rparr>)
     | _ \<Rightarrow>
         (Inr (), q\<lparr>ph_base := Some b, ph_world := w, ph_store := forgotten (ph_store q)\<rparr>,
          a\<lparr>ma_user := Some JNull, ma_token := None, ma_checked := True\<rparr>))"
proof -
  let ?q = "q\<lparr>ph_base := Some b\<rparr>"
  have me: "mperform ax ops env authApi_me ?q =
    (case res of AxOk d \<Rightarrow> (Inr d, ?q\<lparr>ph_world := w\<rparr>)
     | AxFail resp m \<Rightarrow> reject_normalized env resp m (?q\<lparr>ph_world := w\<rparr>))"
    using assms by (intro me_answered) auto
  have tk: "store_get ops TOKEN_KEY ?q = (Inr (Some t), ?q)" "store_get ops USER_KEY ?q = (Inr (Some uj), ?q)"
    using assms by (simp_all add: store_ops_work)
  have "hydrate ax ops env (q, a) =
      io_catch
        (io_bind (on_fst (mperform ax ops env authApi_me)) (\<lambda>freshUser.
          io_seq (on_fst (store_printed ops USER_KEY freshUser))
            (modify_snd (\<lambda>a. a\<lparr>ma_user := freshUser, ma_token := Some t, ma_checked := True\<rparr>))))
        (\<lambda>e. io_seq (on_fst (forget_session ops))
          (modify_snd (\<lambda>a. a\<lparr>ma_user := Some JNull, ma_token := None, ma_checked := True\<rparr>))) (?q, a)"
    (is "_ = ?inner")
  proof -
    have "\<exists>s. ?inner = (Inr (), s)"
      by (auto simp: io_catch_def io_seq_def io_bind_def on_fst_simp modify_snd_simp forget_session_works
          split: prod.splits sum.splits)
    then show ?thesis
      using assms(2,4) tk
      by (auto simp: hydrate_def io_catch_def [where h = "\<lambda>e. modify_snd (\<lambda>a. a\<lparr>ma_checked := True\<rparr>)"]
          io_seq_def [of "on_fst (initStoredBaseUrl ops env)"] io_bind_def [of "on_fst (initStoredBaseUrl ops env)"]
          io_bind_def [of "on_fst (store_get ops _)"] on_fst_simp assms(5))
  qed
  also have "\<dots> = (case res of
       AxOk (Some fresh) \<Rightarrow>
         (Inr (), ?q\<lparr>ph_world := w, ph_store := wput USER_KEY (JSON_stringify fresh) (ph_store q)\<rparr>,
          a\<lparr>ma_user := Some fresh, ma_token := Some t, ma_checked := True\<rparr>)
     | _ \<Rightarrow>
         (Inr (), ?q\<lparr>ph_world := w, ph_store := forgotten (ph_store q)\<rparr>,
          a\<lparr>ma_user := Some JNull, ma_token := None, ma_checked := True\<rparr>))"
  proof (cases res)
    case (AxOk d)
    with me show ?thesis
      by (cases d) (simp_all add: io_catch_def io_seq_def io_bind_def on_fst_simp modify_snd_simp
          forget_session_works store_printed_def io_throw_def store_ops_work)
  next
    case (AxFail resp m)
    with me show ?thesis
      by (simp add: reject_normalized_eq io_catch_def io_seq_def io_bind_def on_fst_simp modify_snd_simp forget_session_works)
  qed
  finally show ?thesis by simp
qed

end

text \<open>C36: a login survives a restart. When a login returns on a working device, the token and
  the user it reports are the ones in the device store, and starting the app again from that
  store asks the server for the user with that token; when the server answers, the same
  token and the user the server sent are in memory again.\<close>

theorem login_survives_restart:
  assumes "working_store S" and "login_m ax tmsg S env username password (p, a) = (Inr (), p', a')"
    and "ph_store q = ph_store p'" and "ma_token a' \<noteq> Some []"
    and "initStoredBaseUrl S env q = (Inr b, q\<lparr>ph_base := Some b\<rparr>)"
    and "\<And>t. ma_token a' = Some t \<Longrightarrow> ax (me_request b t) (ph_world q) = (AxOk (Some fresh), w)"
  shows "\<not> ma_busy a' \<and> ma_token a' \<noteq> None \<and> getItem S (ph_store p') TOKEN_KEY = Inr (ma_token a')
       \<and> getItem S (ph_store p') USER_KEY = Inr (map_option JSON_stringify (ma_user a'))
       \<and> (\<exists>q' a''. hydrate ax S env (q, ma_init) = (Inr (), q', a'') \<and> ma_token a'' = ma_token a'
            \<and> ma_user a'' = Some fresh)"
proof -
  note W = assms(1)
  obtain res p1 a1 where "login_result tmsg S res (p1, a1) = (Inr (), p', a')"
    using assms(2)
    by (auto simp: login_m_def io_seq_Inr modify_snd_simp io_catch_def io_throw_def io_bind_Inr io_seq_def io_bind_def
        on_fst_simp split: prod.splits sum.splits)
  from working_store.login_result_stores [OF W this] obtain t user where
    st: "ma_token a' = Some t" "ma_user a' = Some user" "\<not> ma_busy a'"
      "working_store.wget S (ph_store p') TOKEN_KEY = Some t"
      "working_store.wget S (ph_store p') USER_KEY = Some (JSON_stringify user)"
    by blast
  have "JSON_stringify user \<noteq> []" using stringify_start [of user] by auto
  with st assms(3-6) have "hydrate ax S env (q, ma_init) =
      (Inr (), q\<lparr>ph_base := Some b, ph_world := w,
         ph_store := working_store.wput S USER_KEY (JSON_stringify fresh) (ph_store q)\<rparr>,
       ma_init\<lparr>ma_user := Some fresh, ma_token := Some t, ma_checked := True\<rparr>)"
    using working_store.hydrate_answered [OF W, of q t "JSON_stringify user" env b ax "AxOk (Some fresh)" w ma_init]
    by simp
  with st show ?thesis by (simp add: working_store.getItem_wget [OF W])
qed

lemma map_store_ops [simp]:
  "getItem map_store s k = Inr (s k)" "setItem map_store s k v = Inr (s(k \<mapsto> v))"
  "deleteItem map_store s k = Inr (s(k := None))"
  by (simp_all add: map_store_def)

definition token_server :: "unit axios" where
  "token_server r w =
     (if ax_url r = ep_authToken
      then AxOk (Some (JObj [(''username'', JStr ''ann''), (''role'', JStr ''admin''), (''token'', JStr ''t1'')]))
      else AxOk (Some (JStr ''ann'')), w)"

theorem login_survives_restart_witness:
  "\<exists>p' a' q' a''. login_m token_server [] map_store None ''ann'' ''pw'' (sample_phone, ma_init) = (Inr (), p', a')
     \<and> hydrate token_server map_store None (p', ma_init) = (Inr (), q', a'')
     \<and> ma_token a'' = Some ''t1'' \<and> ma_user a'' = Some (JStr ''ann'')"
proof -
  have tok: "mperform token_server map_store None (authApi_login ''ann'' ''pw'') sample_phone =
      (Inr (Some (JObj [(''username'', JStr ''ann''), (''role'', JStr ''admin''), (''token'', JStr ''t1'')])),
       sample_phone)"
    unfolding mperform_def
    by (subst client_request.simps)
       (simp add: inject_token_def io_bind_def io_return_def store_get_def sample_phone_def
         token_server_def wire_def with_base_def mc_config_def authApi_login_def)
  obtain p' a' where login: "login_m token_server [] map_store None ''ann'' ''pw'' (sample_phone, ma_init) = (Inr (), p', a')"
    and t: "ma_token a' = Some ''t1''"
    by (simp add: login_m_def io_seq_def io_bind_def io_catch_def modify_snd_simp on_fst_simp tok login_result_def
        Let_def store_set_json_def store_set_def store_printed_def io_when_def io_return_def ma_init_def)
  obtain b where b: "initStoredBaseUrl map_store None p' = (Inr b, p'\<lparr>ph_base := Some b\<rparr>)"
    using ms.init_works [of None p'] by blast
  have "token_server (me_request b x) (ph_world p') = (AxOk (Some (JStr ''ann'')), ())" for x
    by (simp add: token_server_def me_request_def endpoint_defs)
  with login_survives_restart [OF ms.working_store_axioms login refl _ b, of "JStr ''ann''" "()"] t login
  show ?thesis by auto
qed

text \<open>The session check at start-up does not renew. With an expired access token and a
  valid refresh token in the store, hydration sends the session check and nothing else, and
  a 401 answer to it deletes both tokens and the user, so the user has to sign in again.\<close>

lemma hydrate_never_renews:
  assumes "working_store S"
    and "getItem S (ph_store q) TOKEN_KEY = Inr (Some t)" "t \<noteq> []"
    and "getItem S (ph_store q) REFRESH_KEY = Inr (Some rt)" "rt \<noteq> []"
    and "getItem S (ph_store q) USER_KEY = Inr (Some uj)" "uj \<noteq> []"
    and "\<And>b w. fst (ax (me_request b t) w) = AxFail (Some (401, None)) None"
  shows "\<exists>b q' a'. hydrate (ax_recording ax) S env (q, a) = (Inr (), q', a')
       \<and> ph_log q' = ph_log q @ [me_request b t]
       \<and> getItem S (ph_store q') TOKEN_KEY = Inr None \<and> getItem S (ph_store q') REFRESH_KEY = Inr None
       \<and> getItem S (ph_store q') USER_KEY = Inr None \<and> ma_user a' = Some JNull"
proof -
  note W = assms(1)
  obtain b where b: "initStoredBaseUrl S env q = (Inr b, q\<lparr>ph_base := Some b\<rparr>)"
    using working_store.init_works [OF W, of env q] by blast
  obtain w where ax: "ax_recording ax (me_request b t) (ph_world q) = (AxFail (Some (401, None)) None, w)"
    using assms(8) [of b "fst (ph_world q)"]
    by (cases "ax (me_request b t) (fst (ph_world q))") (simp add: ax_recording_def)
  have "hydrate (ax_recording ax) S env (q, a) =
      (Inr (), q\<lparr>ph_base := Some b, ph_world := w, ph_store := working_store.forgotten S (ph_store q)\<rparr>,
       a\<lparr>ma_user := Some JNull, ma_token := None, ma_checked := True\<rparr>)"
    using working_store.hydrate_answered [OF W, of q t uj env b "ax_recording ax" "AxFail (Some (401, None)) None" w a]
      assms(2,3,6,7) b ax
    by (simp add: working_store.getItem_wget [OF W])
  moreover have "ph_log (q\<lparr>ph_base := Some b, ph_world := w, ph_store := s\<rparr>) = ph_log q @ [me_request b t]" for s
    using ax_recording_simps [OF ax] by (simp add: ph_log_def)
  ultimately show ?thesis
    by (auto simp: working_store.getItem_wget [OF W] working_store.wget_forgotten [OF W])
qed

end
