(* ===== verification/Mobile_Device.thy ===== *)
theory Mobile_Device
  imports Mobile_Client Hub_Steps Api_Status
begin

text \<open>
  The device stores of the mobile app: \<open>mobile/src/stores/biometricStore.ts\<close> and
  \<open>connectivityStore.ts\<close>, and the palette of \<open>mobile/src/theme/colors.ts\<close>. The answers of
  \<open>expo-local-authentication\<close> and of the network-info library are arguments and events.
\<close>

section \<open>Biometric lock\<close>

definition BIOMETRIC_KEY :: string where
  "BIOMETRIC_KEY = ''serverhub_biometric_enabled''"

record BiometricState =
  bio_enabled :: bool
  bio_supported :: bool

definition bio_init :: BiometricState where
  "bio_init = \<lparr>bio_enabled = False, bio_supported = False\<rparr>"

definition io_of :: "js_error + 'a \<Rightarrow> ('s, 'a) io" where
  "io_of r s = (r, s)"

definition bio_load ::
  "js_error + bool \<Rightarrow> js_error + bool \<Rightarrow> 's kv_ops \<Rightarrow> (('s, 'w) phone \<times> BiometricState, unit) io" where
  "bio_load hasHardware isEnrolled S =
     io_bind (io_of hasHardware) (\<lambda>supported.
     io_bind (io_of isEnrolled) (\<lambda>enrolled.
     io_bind (on_fst (store_get S BIOMETRIC_KEY)) (\<lambda>raw.
       modify_snd (\<lambda>b. b\<lparr>bio_supported := supported \<and> enrolled, bio_enabled := (raw = Some ''true'')\<rparr>))))"

definition bio_setEnabled :: "'s kv_ops \<Rightarrow> bool \<Rightarrow> (('s, 'w) phone \<times> BiometricState, unit) io" where
  "bio_setEnabled S v =
     io_seq (on_fst (store_set S BIOMETRIC_KEY (if v then ''true'' else ''false'')))
       (modify_snd (\<lambda>b. b\<lparr>bio_enabled := v\<rparr>))"

text \<open>\<open>prompt\<close> is the outcome of \<open>authenticateAsync\<close>, asked only when the lock is enabled.\<close>

definition bio_authenticate :: "js_error + bool \<Rightarrow> (('s, 'w) phone \<times> BiometricState, bool) io" where
  "bio_authenticate prompt = (\<lambda>(p, b). if \<not> bio_enabled b then (Inr True, p, b) else (prompt, p, b))"

text \<open>The biometric switch survives a restart, and the lock holds. On a working device the
  switch set to a value and loaded again after a restart has that value; with the lock
  enabled, access is granted only when the device reports success: an error or a refusal
  never grants it.\<close>

lemma biometric_lock:
  assumes "working_store S" and "bio_setEnabled S v (p, b) = (r, p', b')"
    and "ph_store q = ph_store p'"
  shows "r = Inr () \<and> bio_enabled b' = v
       \<and> bio_load (Inr hw) (Inr en) S (q, bio_init) = (Inr (), q, \<lparr>bio_enabled = v, bio_supported = (hw \<and> en)\<rparr>)
       \<and> (v \<longrightarrow> (fst (bio_authenticate prompt (p', b')) = Inr True \<longleftrightarrow> prompt = Inr True))"
proof -
  note W = assms(1)
  let ?v = "if v then ''true'' else ''false''"
  have r: "r = Inr ()" "b' = b\<lparr>bio_enabled := v\<rparr>" "ph_store p' = working_store.wput S BIOMETRIC_KEY ?v (ph_store p)"
    using assms(2) working_store.store_ops_work(2) [OF W, of BIOMETRIC_KEY ?v p]
    by (auto simp: bio_setEnabled_def io_seq_def io_bind_def on_fst_simp modify_snd_simp)
  have "working_store.wget S (ph_store q) BIOMETRIC_KEY = Some ?v"
    using assms(3) r(3) by (simp add: working_store.wget_wput [OF W])
  then have "bio_load (Inr hw) (Inr en) S (q, bio_init) = (Inr (), q, \<lparr>bio_enabled = v, bio_supported = (hw \<and> en)\<rparr>)"
    using working_store.store_ops_work(1) [OF W, of BIOMETRIC_KEY q]
    by (simp add: bio_load_def io_bind_def io_of_def on_fst_simp modify_snd_simp bio_init_def)
  with r show ?thesis by (simp add: bio_authenticate_def)
qed

section \<open>Connectivity\<close>

record net_reading =
  nr_isConnected :: "bool option"
  nr_isInternetReachable :: "bool option"

record conn_sys =
  cn_isConnected :: "bool option"
  cn_isInternetReachable :: "bool option"
  cn_subscription :: "nat option"
  cn_listeners :: "nat list"
  cn_added :: nat
  cn_fetches :: nat

definition conn_init :: conn_sys where
  "conn_init =
     \<lparr>cn_isConnected = None, cn_isInternetReachable = None, cn_subscription = None, cn_listeners = [],
      cn_added = 0, cn_fetches = 0\<rparr>"

definition conn_snapshot :: "net_reading \<Rightarrow> conn_sys \<Rightarrow> conn_sys" where
  "conn_snapshot n s =
     s\<lparr>cn_isConnected := nr_isConnected n, cn_isInternetReachable := nr_isInternetReachable n\<rparr>"

definition startListening :: "conn_sys \<Rightarrow> conn_sys" where
  "startListening s =
     (if cn_subscription s \<noteq> None then s
      else s\<lparr>cn_fetches := Suc (cn_fetches s), cn_subscription := Some (cn_added s),
             cn_listeners := cn_added s # cn_listeners s, cn_added := Suc (cn_added s)\<rparr>)"

definition stopListening :: "conn_sys \<Rightarrow> conn_sys" where
  "stopListening s =
     (case cn_subscription s of
        None \<Rightarrow> s
      | Some i \<Rightarrow> s\<lparr>cn_listeners := removeAll i (cn_listeners s), cn_subscription := None\<rparr>)"

definition useIsOffline :: "conn_sys \<Rightarrow> bool" where
  "useIsOffline s \<longleftrightarrow> cn_isConnected s = Some False"

text \<open>The library calls each registered listener, and resolves each \<open>fetch\<close> once, at any
  later time.\<close>

datatype conn_event = StartListening | StopListening | Notified nat net_reading | Fetched net_reading

fun conn_step :: "conn_sys \<Rightarrow> conn_event \<Rightarrow> conn_sys option" where
  "conn_step s StartListening = Some (startListening s)"
| "conn_step s StopListening = Some (stopListening s)"
| "conn_step s (Notified i n) = (if i \<in> set (cn_listeners s) then Some (conn_snapshot n s) else None)"
| "conn_step s (Fetched n) =
     (case cn_fetches s of 0 \<Rightarrow> None | Suc k \<Rightarrow> Some (conn_snapshot n (s\<lparr>cn_fetches := k\<rparr>)))"

lemmas conn_defs = startListening_def stopListening_def conn_snapshot_def

definition conn_inv :: "conn_sys \<Rightarrow> bool" where
  "conn_inv s \<longleftrightarrow> cn_listeners s = (case cn_subscription s of None \<Rightarrow> [] | Some i \<Rightarrow> [i])"

interpretation conn: started_system conn_step conn_inv conn_init
proof unfold_locales
  show "conn_inv conn_init" by (simp add: conn_inv_def conn_init_def)
next
  fix s e s' assume "conn_inv s" "conn_step s e = Some s'"
  then show "conn_inv s'"
    by (cases e) (auto simp: conn_inv_def conn_defs split: option.splits if_splits nat.splits)
qed

definition disconnect_source :: "unit \<Rightarrow> conn_event \<Rightarrow> bool" where
  "disconnect_source x e \<longleftrightarrow>
     (\<exists>n. nr_isConnected n = Some False \<and> ((\<exists>i. e = Notified i n) \<or> e = Fetched n))"

interpretation conn_offline: traced_system conn_step conn_init "\<lambda>_. useIsOffline" disconnect_source
proof unfold_locales
  show "\<not> useIsOffline conn_init" by (simp add: useIsOffline_def conn_init_def)
next
  fix s e s' assume "conn_step s e = Some s'" "useIsOffline s'"
  then show "useIsOffline s \<or> disconnect_source x e" for x
    by (cases e) (auto simp: useIsOffline_def disconnect_source_def conn_defs
        split: option.splits if_splits nat.splits)
qed

text \<open>Starting twice registers one listener, a stopped store receives no notification, and
  the offline banner is never shown without a reading that says so: unknown counts as
  online, in every order of starts, stops, notifications and late answers of the initial
  reading.\<close>

lemma connectivity_sound:
  assumes "run conn_step conn_init es = Some s"
  shows "length (cn_listeners s) \<le> 1
       \<and> (cn_subscription s = None \<longrightarrow> (\<forall>i n. conn_step s (Notified i n) = None))
       \<and> (useIsOffline s \<longrightarrow>
            (\<exists>n. nr_isConnected n = Some False \<and> ((\<exists>i. Notified i n \<in> set es) \<or> Fetched n \<in> set es)))"
  using conn.reachable_inv [OF assms] conn_offline.traced [OF assms]
  by (auto simp: conn_inv_def disconnect_source_def split: option.splits)

section \<open>Palette\<close>

record palette =
  pal_paper :: string
  pal_ink :: string
  pal_muted :: string
  pal_line :: string
  pal_accent :: string
  pal_accentHover :: string
  pal_accentDeep :: string
  pal_moss :: string
  pal_statusAmber :: string
  pal_brick :: string
  pal_stone :: string
  pal_tint :: string
  pal_skel :: string
  pal_white :: string
  pal_abyss :: string
  pal_panel :: string
  pal_emboss :: string
  pal_bone :: string
  pal_fog :: string
  pal_edge :: string
  pal_ember :: string
  pal_emberHover :: string
  pal_dangerNight :: string

definition colors :: palette where
  "colors =
     \<lparr>pal_paper = ''#faf7f0'', pal_ink = ''#1c1917'', pal_muted = ''#78716c'', pal_line = ''#e7e0d3'',
      pal_accent = ''#ea580c'', pal_accentHover = ''#c2410c'', pal_accentDeep = ''#a33900'',
      pal_moss = ''#16a34a'', pal_statusAmber = ''#d97706'', pal_brick = ''#dc2626'',
      pal_stone = ''#a8a29e'', pal_tint = ''#f6ece6'', pal_skel = ''#eae1da'', pal_white = ''#ffffff'',
      pal_abyss = ''#121316'', pal_panel = ''#1b1e22'', pal_emboss = ''#24272c'', pal_bone = ''#ece7df'',
      pal_fog = ''#a39c90'', pal_edge = ''#2c3036'', pal_ember = ''#f59e0b'', pal_emberHover = ''#d97706'',
      pal_dangerNight = ''#251a10''\<rparr>"

fun statusColors :: "FleetStatus \<Rightarrow> string" where
  "statusColors Sailing = pal_moss colors"
| "statusColors Choppy = pal_statusAmber colors"
| "statusColors Lost = pal_brick colors"
| "statusColors Docked = pal_stone colors"

text \<open>The colour of a status dot tells the fleet statuses apart: two machine status words
  get the same colour exactly when they have the same fleet status.\<close>

lemma status_colors_distinct:
  "statusColors (toFleetStatus s) = statusColors (toFleetStatus t) \<longleftrightarrow> toFleetStatus s = toFleetStatus t"
  by (cases "toFleetStatus s"; cases "toFleetStatus t") (simp_all add: colors_def)

end
