(* ===== verification/Mobile_Monitoring.thy ===== *)
theory Mobile_Monitoring
  imports Mobile_Api Page_Monitoring Rules_Form "HOL-Library.Product_Lexorder"
begin

text \<open>
  The monitoring screen of the mobile app, \<open>mobile/app/(app)/monitoring.tsx\<close>: the history strip and
  the figures of its dashboard, the alert list with its filter, order and silence dialog, and the
  list of silences. What the query library reports (data, first load, error) is an event with
  arbitrary values; requests that change something are kept while they run.
\<close>

section \<open>Figures\<close>

definition screen_fmtBytes :: "rat option \<Rightarrow> string" where
  "screen_fmtBytes b =
     (case b of
        None \<Rightarrow> em_dash
      | Some q \<Rightarrow>
          if q < 0 then em_dash
          else if q < 1024 then js_toFixed 0 (Fin q) @ '' B/s''
          else if q < 1024 * 1024 then js_toFixed 1 (Fin (q / 1024)) @ '' KB/s''
          else js_toFixed 1 (Fin (q / 1024 / 1024)) @ '' MB/s'')"

text \<open>The age of a start time, both in milliseconds.\<close>

definition screen_fmtDuration :: "int \<Rightarrow> int \<Rightarrow> string" where
  "screen_fmtDuration now start =
     (let s = (now - start) div 1000 in
      if s < 60 then int_str s @ ''s'' else if s < 3600 then int_str (s div 60) @ ''m'' else int_str (s div 3600) @ ''h'')"

definition severityRank :: "string option \<Rightarrow> int" where
  "severityRank sev =
     (let s = js_toLowerCase (or_else sev []) in if s = ''critical'' then 0 else if s = ''warning'' then 1 else 2)"

section \<open>History strip\<close>

text \<open>\<open>parseFloat\<close>: the value of the longest prefix that is a decimal number.\<close>

definition js_parseFloat :: "string \<Rightarrow> jsnum" where
  "js_parseFloat s =
     (let t = js_trimStart s in
      case find (\<lambda>p. js_signed p \<noteq> NaN) (map (\<lambda>n. take n t) (rev [1..<Suc (length t)])) of
        None \<Rightarrow> NaN
      | Some p \<Rightarrow> js_signed p)"

definition history_stride :: "nat \<Rightarrow> nat" where
  "history_stride n = max 1 (n div 48)"

fun every_nth :: "nat \<Rightarrow> 'a list \<Rightarrow> 'a list" where
  "every_nth k [] = []"
| "every_nth k (x # xs) = x # every_nth k (drop (k - 1) xs)"

definition finite_value :: "string \<Rightarrow> rat option" where
  "finite_value t = (case js_parseFloat t of Fin q \<Rightarrow> Some q | _ \<Rightarrow> None)"

definition history_series :: "MonitoringMetricHistory option \<Rightarrow> (rat \<times> string) list" where
  "history_series h =
     (case h of
        None \<Rightarrow> []
      | Some m \<Rightarrow> (case promRangeResult_result (monitoringMetricHistory_data m) of
                      [] \<Rightarrow> [] | r # rs \<Rightarrow> promRangeResult_result_item_values r))"

definition cpuValues :: "MonitoringMetricHistory option \<Rightarrow> rat option list" where
  "cpuValues h =
     (let series = history_series h in
      map (\<lambda>p. finite_value (snd p)) (every_nth (history_stride (length series)) series))"

text \<open>The bars: a grey one of height two for no reading, otherwise at least two and in proportion to
  the largest reading, which counts as at least one.\<close>

datatype bar_color = BarNone | BarHigh | BarWarm | BarNormal

definition has_reading :: "rat option \<Rightarrow> bool" where
  "has_reading v \<longleftrightarrow> (case v of None \<Rightarrow> False | Some q \<Rightarrow> 0 \<le> q)"

definition strip_max :: "rat option list \<Rightarrow> rat" where
  "strip_max vs = Max (insert 1 (set (map the (filter has_reading vs))))"

definition bar_height :: "rat \<Rightarrow> rat option \<Rightarrow> int" where
  "bar_height m v = (if has_reading v then max 2 (js_round (the v / m * 64)) else 2)"

definition bar_tone :: "rat option \<Rightarrow> bar_color" where
  "bar_tone v =
     (if \<not> has_reading v then BarNone else if the v \<ge> 90 then BarHigh else if the v \<ge> 70 then BarWarm else BarNormal)"

definition HistoryStrip :: "rat option list \<Rightarrow> (int \<times> bar_color) list" where
  "HistoryStrip vs = map (\<lambda>v. (bar_height (strip_max vs) v, bar_tone v)) vs"

lemma strip_max_ge:
  "1 \<le> strip_max vs" "v \<in> set vs \<Longrightarrow> has_reading v \<Longrightarrow> the v \<le> strip_max vs"
  by (simp_all add: strip_max_def)

lemma bar_height_bounds:
  assumes "v \<in> set vs"
  shows "2 \<le> bar_height (strip_max vs) v" "bar_height (strip_max vs) v \<le> 64"
proof -
  have "js_round (the v / strip_max vs * 64) \<le> 64" if r: "has_reading v"
  proof -
    have "the v / strip_max vs \<le> 1"
      using strip_max_ge(1) [of vs] strip_max_ge(2) [OF assms r] by (simp add: divide_le_eq)
    then have "the v / strip_max vs * 64 + 1 / 2 < 65" by simp
    then show ?thesis unfolding js_round_def by (simp add: floor_le_iff)
  qed
  then show "2 \<le> bar_height (strip_max vs) v" "bar_height (strip_max vs) v \<le> 64" by (auto simp: bar_height_def)
qed

text \<open>Zero and no reading stay apart: they have the same height and different colours.\<close>

lemma strip_zero_apart: "bar_tone v = BarNone \<longleftrightarrow> \<not> has_reading v"
  by (simp add: bar_tone_def)

lemma every_nth_length: "0 < k \<Longrightarrow> length (every_nth k xs) = (length xs + k - 1) div k"
proof (induction k xs rule: every_nth.induct)
  case (2 k x xs)
  then have IH: "length (every_nth k (drop (k - 1) xs)) = (length (drop (k - 1) xs) + k - 1) div k" by simp
  have "(Suc (length xs) + k - 1) div k = Suc (length xs div k)" using 2(2) by simp
  moreover have "(length xs - (k - 1) + k - 1) div k = length xs div k"
  proof (cases "k - 1 \<le> length xs")
    case False
    then have "(length xs - (k - 1) + k - 1) div k = 0" "length xs div k = 0" using 2(2) by simp_all
    then show ?thesis by simp
  qed (use 2(2) in simp)
  ultimately show ?case using IH by simp
qed simp

text \<open>At most 95 bars are drawn, where the comment promises 48; the three ranges of the screen, which ask
  for 61, 73 and 97 samples, all draw more.\<close>

lemma strip_bars_bounded: "length (cpuValues h) \<le> 95"
proof -
  define n where "n = length (history_series h)"
  have k: "0 < history_stride n" by (simp add: history_stride_def)
  have "length (cpuValues h) = (n + history_stride n - 1) div history_stride n"
    by (simp add: cpuValues_def Let_def every_nth_length [OF k [unfolded n_def]] n_def)
  also have "\<dots> \<le> 95"
  proof (cases "n < 48")
    case False
    then have d: "history_stride n = n div 48" "1 \<le> n div 48" by (auto simp: history_stride_def)
    have "n < 48 * (n div 48) + 48" using div_mult_mod_eq [of n 48] mod_less_divisor [of 48 n] by linarith
    with d(2) have "n + n div 48 - 1 < 96 * (n div 48)" by linarith
    then have "(n + n div 48 - 1) div (n div 48) < 96" by (rule less_mult_imp_div_less)
    with d(1) show ?thesis by simp
  qed (simp add: history_stride_def)
  finally show ?thesis .
qed

lemma strip_bars_of_ranges:
  "length (every_nth (history_stride n) xs) = bars" if "length xs = n" "(n, bars) \<in> {(61, 61), (73, 73), (97, 49)}"
  using that by (auto simp: every_nth_length history_stride_def div_nat_eqI)

section \<open>Dashboard\<close>

definition MetricBar :: "rat option \<Rightarrow> (int \<times> bar_color \<times> string) option" where
  "MetricBar v =
     (if \<not> has_reading v then None
      else (let pct = max 0 (min 100 (the v)) in
            Some (js_round pct, (if pct \<ge> 90 then BarHigh else if pct \<ge> 70 then BarWarm else BarNormal), js_toFixed 1 (Fin pct) @ ''%'')))"

lemma app_bar_width: "MetricBar v = Some (w, c, t) \<Longrightarrow> 0 \<le> w \<and> w \<le> 100"
proof -
  assume "MetricBar v = Some (w, c, t)"
  then have w: "w = js_round (max 0 (min 100 (the v)))" by (auto simp: MetricBar_def Let_def split: if_splits)
  have "0 \<le> \<lfloor>max 0 (min 100 (the v)) + 1 / 2\<rfloor>" by (simp add: le_floor_iff)
  moreover have "\<lfloor>max 0 (min 100 (the v)) + 1 / 2\<rfloor> \<le> 100" by (simp add: floor_le_iff)
  ultimately show ?thesis unfolding w js_round_def by simp
qed

text \<open>The mark of an integration: unknown, up or down.\<close>

definition status_mark :: "(bool \<times> bool option) option \<Rightarrow> bool option" where
  "status_mark st =
     (case st of
        None \<Rightarrow> None
      | Some (available, healthy) \<Rightarrow> (case healthy of Some h \<Rightarrow> Some h | None \<Rightarrow> if available then None else Some False))"

definition is_firing :: "AmAlert \<Rightarrow> bool" where
  "is_firing a \<longleftrightarrow> amAlert_status_state (amAlert_status a) = AmAlert_statusState_active"

definition is_suppressed :: "AmAlert \<Rightarrow> bool" where
  "is_suppressed a \<longleftrightarrow> amAlert_status_state (amAlert_status a) = AmAlert_statusState_suppressed"

definition firing_count :: "AmAlert list option \<Rightarrow> nat" where
  "firing_count alerts = length (filter is_firing (or_else alerts []))"

definition target_counts :: "PromTargetsData option \<Rightarrow> (nat \<times> nat) option" where
  "target_counts t =
     map_option (\<lambda>d. (length (filter (\<lambda>x. promTarget_health x = PromTargetHealth_up) (promTargetsData_activeTargets d)),
                      length (filter (\<lambda>x. promTarget_health x \<noteq> PromTargetHealth_up) (promTargetsData_activeTargets d)))) t"

lemma target_counts_total:
  "target_counts (Some d) = Some (u, n) \<Longrightarrow> u + n = length (promTargetsData_activeTargets d)"
  by (auto simp: target_counts_def sum_length_filter_compl)

section \<open>The alert list\<close>

datatype sev_filter = SevAll | SevCritical | SevWarning | SevOther

definition alert_label :: "string \<Rightarrow> AmAlert \<Rightarrow> string option" where
  "alert_label k a = map_of (amAlert_labels a) k"

definition alert_note :: "string \<Rightarrow> AmAlert \<Rightarrow> string option" where
  "alert_note k a = map_of (amAlert_annotations a) k"

definition passes_sev :: "sev_filter \<Rightarrow> AmAlert \<Rightarrow> bool" where
  "passes_sev f a =
     (let sev = js_toLowerCase (or_else (alert_label ''severity'' a) []) in
      case f of
        SevAll \<Rightarrow> True
      | SevOther \<Rightarrow> sev \<noteq> ''critical'' \<and> sev \<noteq> ''warning''
      | SevCritical \<Rightarrow> sev = ''critical''
      | SevWarning \<Rightarrow> sev = ''warning'')"

definition search_text :: "AmAlert \<Rightarrow> string" where
  "search_text a =
     js_toLowerCase (or_else (alert_label ''alertname'' a) [] @ '' '' @ or_else (alert_label ''instance'' a) [] @ '' ''
       @ or_else (alert_label ''job'' a) [] @ '' '' @ or_else (alert_note ''summary'' a) [])"

text \<open>Start times are read by the engine's date parser; the order is that of readable times.\<close>

definition shown_alerts :: "string \<Rightarrow> sev_filter \<Rightarrow> AmAlert list \<Rightarrow> AmAlert list" where
  "shown_alerts query f alerts =
     (let q = js_toLowerCase (js_trim query) in filter (\<lambda>a. passes_sev f a \<and> (q = [] \<or> js_includes (search_text a) q)) alerts)"

definition visible_alerts :: "(string \<Rightarrow> int) \<Rightarrow> string \<Rightarrow> sev_filter \<Rightarrow> bool \<Rightarrow> AmAlert list \<Rightarrow> AmAlert list" where
  "visible_alerts time query f newest alerts =
     (if newest then sort_key (\<lambda>a. - time (amAlert_startsAt a)) (shown_alerts query f alerts)
      else sort_key (\<lambda>a. (severityRank (alert_label ''severity'' a), - time (amAlert_startsAt a))) (shown_alerts query f alerts))"

text \<open>The list is the matching alerts, each as often as the server sent it, in the order of the button:
  newest first, or by severity and newest first within one severity.\<close>

lemma visible_alerts_exact:
  "mset (visible_alerts time query f newest alerts) = mset (shown_alerts query f alerts)"
  "sorted_wrt (\<lambda>a b. time (amAlert_startsAt b) \<le> time (amAlert_startsAt a)) (visible_alerts time query f True alerts)"
  "sorted_wrt (\<lambda>a b. severityRank (alert_label ''severity'' a) < severityRank (alert_label ''severity'' b)
       \<or> severityRank (alert_label ''severity'' a) = severityRank (alert_label ''severity'' b)
           \<and> time (amAlert_startsAt b) \<le> time (amAlert_startsAt a)) (visible_alerts time query f False alerts)"
proof -
  have n: "sorted (map (\<lambda>a. - time (amAlert_startsAt a)) (visible_alerts time query f True alerts))"
    by (simp add: visible_alerts_def)
  have r: "sorted (map (\<lambda>a. (severityRank (alert_label ''severity'' a), - time (amAlert_startsAt a))) (visible_alerts time query f False alerts))"
    by (simp add: visible_alerts_def del: sorted_map)
  show "mset (visible_alerts time query f newest alerts) = mset (shown_alerts query f alerts)"
    by (simp add: visible_alerts_def)
  show "sorted_wrt (\<lambda>a b. time (amAlert_startsAt b) \<le> time (amAlert_startsAt a)) (visible_alerts time query f True alerts)"
    using n by (simp add: sorted_map)
  show "sorted_wrt (\<lambda>a b. severityRank (alert_label ''severity'' a) < severityRank (alert_label ''severity'' b)
       \<or> severityRank (alert_label ''severity'' a) = severityRank (alert_label ''severity'' b)
           \<and> time (amAlert_startsAt b) \<le> time (amAlert_startsAt a)) (visible_alerts time query f False alerts)"
    using r unfolding sorted_map by (rule sorted_wrt_mono_rel [rotated]) (auto simp: less_eq_prod_simp)
qed

text \<open>The severity filters split the list: critical, warning and other together are all.\<close>

lemma sev_filters_partition:
  "length (filter (passes_sev SevCritical) xs) + length (filter (passes_sev SevWarning) xs)
     + length (filter (passes_sev SevOther) xs) = length (filter (passes_sev SevAll) xs)"
  by (induction xs) (auto simp: passes_sev_def Let_def)

section \<open>Silencing an alert\<close>

definition SILENCE_DURATIONS :: "(string \<times> int) list" where
  "SILENCE_DURATIONS = [(''30m'', 30), (''1h'', 60), (''4h'', 240)]"

definition mobile_silence :: "AmAlert \<Rightarrow> int \<Rightarrow> string \<Rightarrow> int \<Rightarrow> SilenceBody" where
  "mobile_silence a dur comment now =
     \<lparr>sb_matchers = map (\<lambda>(n, v). \<lparr>sm_name = n, sm_value = v, sm_isRegex = False, sm_isEqual = True\<rparr>) (amAlert_labels a),
      sb_startsAt = toISOString now, sb_endsAt = toISOString (now + dur * 60000), sb_createdBy = ''serverhub-mobile'',
      sb_comment = (if comment = [] then ''Silenced via ServerHub mobile for '' @ int_str dur @ ''m'' else comment)\<rparr>"

text \<open>For the same alert, moment and duration both clients ask for the same silence.\<close>

lemma silences_agree:
  assumes "(d, m) \<in> set SILENCE_DURATIONS" "k \<in> {''matchers'', ''startsAt'', ''endsAt''}"
  shows "json_get k (silenceBody_json (mobile_silence a m c now)) = json_get k (silence_body a d c' now)"
proof -
  have "silence_minutes d = m" using assms(1) by (auto simp: SILENCE_DURATIONS_def silence_minutes_def)
  then have m: "silenceBody_json (mobile_silence a m c now)
      = JObj [(''matchers'', JArr (map silence_matcher (amAlert_labels a))), (''startsAt'', JStr (toISOString now)),
              (''endsAt'', JStr (toISOString (now + silence_minutes d * 60000))), (''createdBy'', JStr ''serverhub-mobile''),
              (''comment'', JStr (sb_comment (mobile_silence a m c now)))]"
    by (simp add: silenceBody_json_def mobile_silence_def silence_matcher_def case_prod_beta)
  from assms(2) show ?thesis unfolding m silence_body_def by auto
qed

record alerts_screen =
  as_alerts :: "AmAlert list option"
  as_loading :: bool
  as_error :: "js_error option"
  as_silencing :: "AmAlert option"
  as_detail :: "AmAlert option"
  as_dur :: int
  as_comment :: string
  as_busy :: bool
  as_query :: string
  as_sev :: sev_filter
  as_newest :: bool
  as_now :: int
  as_open :: "ax_config list"
  as_sent :: "ax_config list"
  as_refetches :: nat

definition alerts_screen_init :: alerts_screen where
  "alerts_screen_init =
     \<lparr>as_alerts = None, as_loading = True, as_error = None, as_silencing = None, as_detail = None, as_dur = 60, as_comment = [],
      as_busy = False, as_query = [], as_sev = SevAll, as_newest = True, as_now = 0, as_open = [], as_sent = [], as_refetches = 0\<rparr>"

datatype screen_event =
    ScQuery "AmAlert list option" bool "js_error option"
  | ScClock int
  | ScSearch string
  | ScSeverity sev_filter
  | ScOrder
  | ScDetail AmAlert
  | ScCloseDetail
  | ScSilenceDetail
  | ScSilence AmAlert
  | ScDuration int
  | ScComment string
  | ScCancel
  | ScCreate
  | ScAnswer ax_config "js_error + json option"

text \<open>The list and the dialogs are drawn only when there is neither a first load nor an error.\<close>

definition sc_drawn :: "alerts_screen \<Rightarrow> bool" where
  "sc_drawn s \<longleftrightarrow> \<not> as_loading s \<and> as_error s = None"

definition sc_listed :: "AmAlert \<Rightarrow> alerts_screen \<Rightarrow> bool" where
  "sc_listed a s \<longleftrightarrow> sc_drawn s \<and> a \<in> set (shown_alerts (as_query s) (as_sev s) (or_else (as_alerts s) []))"

definition silence_request :: "AmAlert \<Rightarrow> alerts_screen \<Rightarrow> ax_config" where
  "silence_request a s = mc_config (monitoringApi_createSilence (mobile_silence a (as_dur s) (as_comment s) (as_now s)))"

definition mobile_doSilence :: "AmAlert \<Rightarrow> alerts_screen \<Rightarrow> alerts_screen" where
  "mobile_doSilence a s =
     s\<lparr>as_busy := True, as_open := as_open s @ [silence_request a s], as_sent := as_sent s @ [silence_request a s]\<rparr>"

definition mobile_silenced :: "js_error + json option \<Rightarrow> alerts_screen \<Rightarrow> alerts_screen" where
  "mobile_silenced r s =
     (case r of
        Inr v \<Rightarrow> s\<lparr>as_silencing := None, as_comment := [], as_refetches := as_refetches s + 2, as_busy := False\<rparr>
      | Inl e \<Rightarrow> s\<lparr>as_busy := False\<rparr>)"

fun screen_step :: "alerts_screen \<Rightarrow> screen_event \<Rightarrow> alerts_screen option" where
  "screen_step s (ScQuery xs l e) = Some (s\<lparr>as_alerts := xs, as_loading := l, as_error := e\<rparr>)"
| "screen_step s (ScClock t) = Some (s\<lparr>as_now := t\<rparr>)"
| "screen_step s (ScSearch t) = (if sc_drawn s then Some (s\<lparr>as_query := t\<rparr>) else None)"
| "screen_step s (ScSeverity f) = (if sc_drawn s then Some (s\<lparr>as_sev := f\<rparr>) else None)"
| "screen_step s ScOrder = (if sc_drawn s then Some (s\<lparr>as_newest := (\<not> as_newest s)\<rparr>) else None)"
| "screen_step s (ScDetail a) = (if sc_listed a s then Some (s\<lparr>as_detail := Some a\<rparr>) else None)"
| "screen_step s ScCloseDetail = (if sc_drawn s then Some (s\<lparr>as_detail := None\<rparr>) else None)"
| "screen_step s ScSilenceDetail =
     (case as_detail s of
        None \<Rightarrow> None
      | Some a \<Rightarrow> if sc_drawn s \<and> is_firing a then Some (s\<lparr>as_silencing := Some a, as_detail := None\<rparr>) else None)"
| "screen_step s (ScSilence a) = (if sc_listed a s \<and> is_firing a then Some (s\<lparr>as_silencing := Some a\<rparr>) else None)"
| "screen_step s (ScDuration n) =
     (if sc_drawn s \<and> as_silencing s \<noteq> None \<and> n \<in> snd ` set SILENCE_DURATIONS then Some (s\<lparr>as_dur := n\<rparr>) else None)"
| "screen_step s (ScComment t) = (if sc_drawn s \<and> as_silencing s \<noteq> None then Some (s\<lparr>as_comment := t\<rparr>) else None)"
| "screen_step s ScCancel = (if sc_drawn s \<and> as_silencing s \<noteq> None then Some (s\<lparr>as_silencing := None\<rparr>) else None)"
| "screen_step s ScCreate =
     (case as_silencing s of
        None \<Rightarrow> None
      | Some a \<Rightarrow> if sc_drawn s \<and> \<not> as_busy s then Some (mobile_doSilence a s) else None)"
| "screen_step s (ScAnswer q r) =
     (if q \<in> set (as_open s) then Some (mobile_silenced r (s\<lparr>as_open := remove1 q (as_open s)\<rparr>)) else None)"

lemmas screen_defs = mobile_doSilence_def mobile_silenced_def silence_request_def

lemma listed_sent: "sc_listed a s \<Longrightarrow> a \<in> set (or_else (as_alerts s) [])"
  by (simp add: sc_listed_def shown_alerts_def Let_def)

text \<open>Which alerts the screen keeps, and from where.\<close>

definition alert_reported :: "screen_event list \<Rightarrow> AmAlert \<Rightarrow> bool" where
  "alert_reported es a \<longleftrightarrow> (\<exists>xs l e. ScQuery (Some xs) l e \<in> set es \<and> a \<in> set xs)"

definition screen_law :: "screen_event list \<Rightarrow> alerts_screen \<Rightarrow> bool" where
  "screen_law es s \<longleftrightarrow>
     (\<forall>a. a \<in> set (or_else (as_alerts s) []) \<or> as_detail s = Some a \<longrightarrow> alert_reported es a)
     \<and> (\<forall>a. as_silencing s = Some a \<longrightarrow> alert_reported es a \<and> is_firing a)
     \<and> as_dur s \<in> {30, 60, 240}
     \<and> (as_busy s \<longleftrightarrow> as_open s \<noteq> []) \<and> length (as_open s) \<le> 1"

lemma reported_more: "alert_reported es a \<Longrightarrow> alert_reported (es @ [e]) a"
  by (auto simp: alert_reported_def)

lemma law_parts:
  assumes "screen_law es s"
  shows "\<And>a. a \<in> set (or_else (as_alerts s) []) \<Longrightarrow> alert_reported es a"
    and "\<And>a. as_detail s = Some a \<Longrightarrow> alert_reported es a"
    and "\<And>a. as_silencing s = Some a \<Longrightarrow> alert_reported es a \<and> is_firing a"
    and "as_dur s \<in> {30, 60, 240}" and "as_busy s \<longleftrightarrow> as_open s \<noteq> []" and "length (as_open s) \<le> 1"
  using assms by (auto simp: screen_law_def)

lemma law_keep:
  assumes "screen_law es s" "as_alerts s' = as_alerts s" "as_open s' = as_open s" "as_busy s' = as_busy s"
    "as_detail s' = None \<or> as_detail s' = as_detail s \<or> (\<exists>a. as_detail s' = Some a \<and> a \<in> set (or_else (as_alerts s) []))"
    "as_silencing s' = None \<or> as_silencing s' = as_silencing s \<or> (\<exists>a. as_silencing s' = Some a \<and> is_firing a
       \<and> (a \<in> set (or_else (as_alerts s) []) \<or> as_detail s = Some a))"
    "as_dur s' = as_dur s \<or> as_dur s' \<in> {30, 60, 240}"
  shows "screen_law (es @ [e]) s'"
proof -
  note parts = law_parts [OF assms(1)]
  have kept: "alert_reported (es @ [e]) a" if "a \<in> set (or_else (as_alerts s) []) \<or> as_detail s = Some a" for a
    using that parts(1,2) reported_more by blast
  have "alert_reported (es @ [e]) a" if "as_detail s' = Some a" for a
    using assms(5) that kept by (elim disjE exE) simp_all
  moreover have "alert_reported (es @ [e]) a \<and> is_firing a" if a: "as_silencing s' = Some a" for a
    using assms(6)
  proof (elim disjE exE conjE)
    assume "as_silencing s' = as_silencing s"
    with a parts(3) [of a] reported_more [of es a e] show ?thesis by simp
  qed (use a kept in simp_all)
  moreover have "as_dur s' \<in> {30, 60, 240}" using assms(7) parts(4) by (elim disjE) simp_all
  ultimately show ?thesis unfolding screen_law_def assms(2-4) using kept parts(5,6) by blast
qed

interpretation screen: recorded_system screen_step alerts_screen_init screen_law
proof unfold_locales
  show "screen_law [] alerts_screen_init" by (simp add: screen_law_def alerts_screen_init_def)
next
  fix es s e s' assume law: "screen_law es s" and st: "screen_step s e = Some s'"
  note parts = law_parts [OF law]
  show "screen_law (es @ [e]) s'"
  proof (cases e)
    case (ScQuery xs l er)
    then have "a \<in> set (or_else xs []) \<Longrightarrow> alert_reported (es @ [e]) a" for a
      by (cases xs) (auto simp: alert_reported_def)
    then show ?thesis using ScQuery st parts reported_more [of es _ e] by (auto simp: screen_law_def)
  next
    case ScCreate
    then obtain a where "as_silencing s = Some a" "\<not> as_busy s" "s' = mobile_doSilence a s"
      using st by (auto split: option.splits if_splits)
    then show ?thesis using parts reported_more [of es _ e] by (auto simp: screen_law_def mobile_doSilence_def)
  next
    case (ScAnswer q r)
    then have q: "q \<in> set (as_open s)" "s' = mobile_silenced r (s\<lparr>as_open := remove1 q (as_open s)\<rparr>)"
      using st by (auto split: if_splits)
    then have "as_open s = [q]" using parts(6) by (cases "as_open s") auto
    then show ?thesis using q parts reported_more [of es _ e] by (cases r) (auto simp: screen_law_def mobile_silenced_def)
  next
    case (ScDetail a)
    with st have "sc_listed a s" "s' = s\<lparr>as_detail := Some a\<rparr>" by (auto split: if_splits)
    then show ?thesis using listed_sent [of a s] by (intro law_keep [OF law]) simp_all
  next
    case (ScSilence a)
    with st have "sc_listed a s" "is_firing a" "s' = s\<lparr>as_silencing := Some a\<rparr>" by (auto split: if_splits)
    then show ?thesis using listed_sent [of a s] by (intro law_keep [OF law]) simp_all
  next
    case (ScDuration n)
    with st show ?thesis by (intro law_keep [OF law]) (auto simp: SILENCE_DURATIONS_def split: if_splits)
  qed (use st in \<open>auto intro!: law_keep [OF law] split: option.splits if_splits\<close>)
qed

definition silence_why :: "alerts_screen \<Rightarrow> screen_event \<Rightarrow> ax_config \<Rightarrow> bool" where
  "silence_why t e w \<longleftrightarrow> e = ScCreate \<and> \<not> as_busy t \<and> (\<exists>a. as_silencing t = Some a \<and> w = silence_request a t)"

interpretation creating: explained_system screen_step alerts_screen_init as_sent silence_why
proof unfold_locales
  fix s e s' w assume st: "screen_step s e = Some s'" and w: "w \<in> set (as_sent s')"
  show "w \<in> set (as_sent s) \<or> silence_why s e w"
    using st w by (cases e)
      (auto simp: silence_why_def mobile_doSilence_def mobile_silenced_def split: if_splits option.splits sum.splits)
qed


definition firing_alert :: "string \<Rightarrow> AmAlert" where
  "firing_alert n =
     \<lparr>amAlert_fingerprint = n,
      amAlert_status = \<lparr>amAlert_status_state = AmAlert_statusState_active, amAlert_status_silencedBy = [], amAlert_status_inhibitedBy = []\<rparr>,
      amAlert_labels = [(''alertname'', n)], amAlert_annotations = [], amAlert_startsAt = [], amAlert_endsAt = [],
      amAlert_generatorURL = [], amAlert_receivers = []\<rparr>"

abbreviation two_alerts :: "screen_event list" where
  "two_alerts \<equiv> [ScQuery (Some [firing_alert ''a'', firing_alert ''b'']) False None, ScSilence (firing_alert ''a''), ScDuration 30, ScCreate]"

lemma two_alerts_shown: "sc_drawn s \<Longrightarrow> as_query s = [] \<Longrightarrow> as_sev s = SevAll \<Longrightarrow> sc_listed a s \<longleftrightarrow> a \<in> set (or_else (as_alerts s) [])"
proof -
  show "sc_drawn s \<Longrightarrow> as_query s = [] \<Longrightarrow> as_sev s = SevAll \<Longrightarrow> sc_listed a s \<longleftrightarrow> a \<in> set (or_else (as_alerts s) [])"
    by (simp add: sc_listed_def shown_alerts_def passes_sev_def js_trim_empty)
qed

lemma two_alerts_run:
  "\<exists>s. run screen_step alerts_screen_init two_alerts = Some s \<and> as_sent s \<noteq> []"
  by (simp add: alerts_screen_init_def two_alerts_shown sc_drawn_def is_firing_def firing_alert_def SILENCE_DURATIONS_def
      mobile_doSilence_def)


text \<open>An answer closes whatever dialog is open: cancelling while the request runs and opening the dialog
  of another alert loses what was typed there.\<close>

lemma late_silence_closes:
  "\<exists>s q. run screen_step alerts_screen_init (two_alerts @ [ScCancel, ScSilence (firing_alert ''b''), ScComment c]) = Some s
     \<and> as_open s = [q] \<and> as_silencing s = Some (firing_alert ''b'')
     \<and> (\<forall>v. \<exists>s'. screen_step s (ScAnswer q (Inr v)) = Some s' \<and> as_silencing s' = None \<and> as_comment s' = [] \<and> as_sent s' = [q])"
  by (simp add: alerts_screen_init_def two_alerts_shown sc_drawn_def is_firing_def firing_alert_def SILENCE_DURATIONS_def
      screen_defs)

section \<open>The list of silences\<close>

record silences_screen =
  ss_items :: "AmSilence list option"
  ss_loading :: bool
  ss_error :: bool
  ss_deleting :: "string option"
  ss_open :: "string list"
  ss_sent :: "ax_config list"
  ss_refetches :: nat

definition app_silences_init :: silences_screen where
  "app_silences_init =
     \<lparr>ss_items = None, ss_loading = True, ss_error = False, ss_deleting = None, ss_open = [], ss_sent = [], ss_refetches = 0\<rparr>"

datatype app_silences_event =
    SsQuery "AmSilence list option" bool bool
  | SsExpire AmSilence
  | SsAnswer string bool

definition silence_active :: "AmSilence \<Rightarrow> bool" where
  "silence_active x \<longleftrightarrow> amSilence_status_state (amSilence_status x) = AmSilence_statusState_active"

definition mobile_doDelete :: "string \<Rightarrow> silences_screen \<Rightarrow> silences_screen" where
  "mobile_doDelete i s =
     s\<lparr>ss_deleting := Some i, ss_open := ss_open s @ [i], ss_sent := ss_sent s @ [mc_config (monitoringApi_deleteSilence i)]\<rparr>"

fun mobile_silences_step :: "silences_screen \<Rightarrow> app_silences_event \<Rightarrow> silences_screen option" where
  "mobile_silences_step s (SsQuery xs l e) = Some (s\<lparr>ss_items := xs, ss_loading := l, ss_error := e\<rparr>)"
| "mobile_silences_step s (SsExpire x) =
     (if \<not> ss_loading s \<and> \<not> ss_error s \<and> x \<in> set (or_else (ss_items s) []) \<and> silence_active x \<and> ss_deleting s \<noteq> Some (amSilence_id x)
      then Some (mobile_doDelete (amSilence_id x) s) else None)"
| "mobile_silences_step s (SsAnswer i ok) =
     (if i \<in> set (ss_open s)
      then Some (s\<lparr>ss_open := remove1 i (ss_open s), ss_refetches := ss_refetches s + (if ok then 1 else 0), ss_deleting := None\<rparr>)
      else None)"

definition expire_why :: "silences_screen \<Rightarrow> app_silences_event \<Rightarrow> ax_config \<Rightarrow> bool" where
  "expire_why t e w \<longleftrightarrow> (\<exists>x. e = SsExpire x \<and> x \<in> set (or_else (ss_items t) []) \<and> silence_active x
     \<and> w = mc_config (monitoringApi_deleteSilence (amSilence_id x)))"

interpretation expiring: explained_system mobile_silences_step app_silences_init ss_sent expire_why
proof unfold_locales
  fix s e s' w assume st: "mobile_silences_step s e = Some s'" and w: "w \<in> set (ss_sent s')"
  show "w \<in> set (ss_sent s) \<or> expire_why s e w"
    using st w by (cases e) (auto simp: expire_why_def mobile_doDelete_def split: if_splits)
qed

text \<open>Only silences that are listed as active are expired.\<close>

lemma expire_listed:
  assumes "run mobile_silences_step app_silences_init es = Some s" "w \<in> set (ss_sent s)"
  shows "explained_by mobile_silences_step app_silences_init expire_why es w"
  using expiring.explained [OF assms] by (simp add: app_silences_init_def)

text \<open>The screen remembers one silence being expired: the answer for another one enables the button of
  this one again while its request still runs.\<close>

lemma expire_sent_twice:
  assumes "silence_active x" "silence_active y" "amSilence_id x \<noteq> amSilence_id y"
  shows "\<exists>s. run mobile_silences_step app_silences_init
      [SsQuery (Some [x, y]) False False, SsExpire x, SsExpire y, SsAnswer (amSilence_id x) True, SsExpire y] = Some s
      \<and> ss_open s = [amSilence_id y, amSilence_id y]"
  using assms by (simp add: app_silences_init_def mobile_doDelete_def)

end
