(* ===== verification/Mobile_Screens.thy ===== *)
theory Mobile_Screens
  imports Mobile_Api Page_Monitoring
begin

text \<open>
  Screens of the mobile app that change something: the notification settings
  (\<open>mobile/app/(app)/notification-settings.tsx\<close>) with the draft of the delivery policy, the actions of
  a project (\<open>projects/[id].tsx\<close> with \<open>ConfirmSheet.tsx\<close>), and the alert, notification and log
  lists (\<open>alerts.tsx\<close>, \<open>notifications.tsx\<close>, \<open>logs/index.tsx\<close>).
\<close>

section \<open>Notification settings\<close>

definition POLICY_DEFAULTS :: "(string \<times> int) list" where
  "POLICY_DEFAULTS =
     [(''cooldownCriticalSec'', 900), (''cooldownWarningSec'', 3600), (''cooldownInfoSec'', 21600), (''repeatIntervalSec'', 3600),
      (''maxRepeats'', 3), (''emailPerHour'', 60), (''tgPerHour'', 60), (''digestIntervalMin'', 60)]"

text \<open>The fields of the form: all defaults but the last.\<close>

definition POLICY_FIELDS :: "string list" where
  "POLICY_FIELDS =
     [''cooldownCriticalSec'', ''cooldownWarningSec'', ''cooldownInfoSec'', ''repeatIntervalSec'', ''maxRepeats'', ''emailPerHour'',
      ''tgPerHour'']"

definition policy_number :: "DeliveryPolicy \<Rightarrow> string \<Rightarrow> int option" where
  "policy_number p =
     map_of [(''cooldownCriticalSec'', deliveryPolicy_cooldownCriticalSec p), (''cooldownWarningSec'', deliveryPolicy_cooldownWarningSec p),
             (''cooldownInfoSec'', deliveryPolicy_cooldownInfoSec p), (''repeatIntervalSec'', deliveryPolicy_repeatIntervalSec p),
             (''maxRepeats'', deliveryPolicy_maxRepeats p), (''emailPerHour'', deliveryPolicy_emailPerHour p),
             (''tgPerHour'', deliveryPolicy_tgPerHour p)]"

type_synonym draft = "(string \<times> string) list"

definition field_text :: "draft option \<Rightarrow> DeliveryPolicy option \<Rightarrow> string \<Rightarrow> int \<Rightarrow> string" where
  "field_text draft policy key fallback =
     (case Option.bind draft (\<lambda>d. map_of d key) of
        Some t \<Rightarrow> t
      | None \<Rightarrow> int_str (or_else (Option.bind policy (\<lambda>p. policy_number p key)) fallback))"

text \<open>\<open>{...d, [key]: v}\<close>: a known key keeps its place, a new one comes last.\<close>

definition put_field :: "string \<Rightarrow> string \<Rightarrow> draft \<Rightarrow> draft" where
  "put_field k v d =
     (if k \<in> fst ` set d then map (\<lambda>(x, y). if x = k then (x, v) else (x, y)) d else d @ [(k, v)])"

definition setNum :: "string \<Rightarrow> string \<Rightarrow> draft option \<Rightarrow> draft option" where
  "setNum key v d = Some (put_field key (filter is_digit_char v) (or_else d []))"

definition draft_patch :: "draft \<Rightarrow> json" where
  "draft_patch d = JObj (map (\<lambda>(k, v). (k, JNum (of_nat (digits_val v)))) (filter (\<lambda>(k, v). v \<noteq> []) d))"

definition defaults_patch :: json where
  "defaults_patch = JObj (map (\<lambda>(k, n). (k, JNum (of_int n))) POLICY_DEFAULTS @ [(''notifyOnRecovery'', JBool True)])"

definition pause_patch :: "bool \<Rightarrow> int \<Rightarrow> json" where
  "pause_patch v now =
     (if v then JObj [(''emergencyPause'', JBool True), (''pauseUntil'', JStr (toISOString (now + 60 * 60 * 1000))),
                      (''pauseReason'', JStr ''Paused from mobile'')]
      else JObj [(''clearPause'', JBool True)])"

datatype channel = ChEmail | ChTelegram

definition channel_patch :: "channel \<Rightarrow> bool \<Rightarrow> json" where
  "channel_patch c v = JObj [((case c of ChEmail \<Rightarrow> ''email'' | ChTelegram \<Rightarrow> ''telegram''), JObj [(''enabled'', JBool v)])]"

text \<open>What runs: a request, or the reload that a save waits for.\<close>

datatype policy_op = PoSave | PoTest | PoChannel | PoReload "string option"

record policy_screen =
  po_admin :: bool
  po_saving :: bool
  po_msg :: "string option"
  po_draft :: "draft option"
  po_drawn :: bool
  po_alert :: bool
  po_now :: int
  po_running :: "policy_op option"
  po_sent :: "ax_config list"

definition policy_init :: "bool \<Rightarrow> policy_screen" where
  "policy_init admin =
     \<lparr>po_admin = admin, po_saving = False, po_msg = None, po_draft = None, po_drawn = False, po_alert = False, po_now = 0,
      po_running = None, po_sent = []\<rparr>"

definition po_start :: "policy_op \<Rightarrow> ax_config \<Rightarrow> policy_screen \<Rightarrow> policy_screen" where
  "po_start k c s = s\<lparr>po_saving := True, po_running := Some k, po_sent := po_sent s @ [c]\<rparr>"

definition savePolicy :: "json \<Rightarrow> policy_screen \<Rightarrow> policy_screen" where
  "savePolicy patch s = po_start PoSave (mc_config (notificationsApi_updatePolicy patch)) (s\<lparr>po_msg := None\<rparr>)"

definition po_free :: "policy_screen \<Rightarrow> policy_screen" where
  "po_free s = s\<lparr>po_saving := False, po_running := None\<rparr>"

datatype policy_event =
    PoDrawn bool
  | PoClock int
  | PoType string string
  | PoSaveDraft
  | PoAskDefaults
  | PoCancelDefaults
  | PoConfirmDefaults
  | PoRecovery bool
  | PoPause bool
  | PoSendTest
  | PoToggle channel bool
  | PoSaved "js_error + json option"
  | PoTested "js_error + string \<times> string"
  | PoToggled "js_error + json option"
  | PoReloaded

text \<open>While the question about the defaults is shown, nothing else can be pressed.\<close>

definition po_enabled :: "policy_screen \<Rightarrow> bool" where
  "po_enabled s \<longleftrightarrow> po_drawn s \<and> \<not> po_alert s \<and> po_admin s \<and> \<not> po_saving s"

fun policy_step :: "policy_screen \<Rightarrow> policy_event \<Rightarrow> policy_screen option" where
  "policy_step s (PoDrawn b) = Some (s\<lparr>po_drawn := b\<rparr>)"
| "policy_step s (PoClock t) = Some (s\<lparr>po_now := t\<rparr>)"
| "policy_step s (PoType k v) =
     (if po_drawn s \<and> \<not> po_alert s \<and> po_admin s \<and> k \<in> set POLICY_FIELDS then Some (s\<lparr>po_draft := setNum k v (po_draft s)\<rparr>) else None)"
| "policy_step s PoSaveDraft =
     (case po_draft s of None \<Rightarrow> None | Some d \<Rightarrow> if po_enabled s then Some (savePolicy (draft_patch d) s) else None)"
| "policy_step s PoAskDefaults = (if po_enabled s then Some (s\<lparr>po_alert := True\<rparr>) else None)"
| "policy_step s PoCancelDefaults = (if po_alert s then Some (s\<lparr>po_alert := False\<rparr>) else None)"
| "policy_step s PoConfirmDefaults = (if po_alert s then Some (savePolicy defaults_patch (s\<lparr>po_alert := False\<rparr>)) else None)"
| "policy_step s (PoRecovery v) = (if po_enabled s then Some (savePolicy (JObj [(''notifyOnRecovery'', JBool v)]) s) else None)"
| "policy_step s (PoPause v) = (if po_enabled s then Some (savePolicy (pause_patch v (po_now s)) s) else None)"
| "policy_step s PoSendTest =
     (if po_enabled s then Some (po_start PoTest (mc_config notificationsApi_test) (s\<lparr>po_msg := None\<rparr>)) else None)"
| "policy_step s (PoToggle c v) =
     (if po_enabled s then Some (po_start PoChannel (mc_config (notificationsApi_updateSettings (channel_patch c v))) s) else None)"
| "policy_step s (PoSaved r) =
     (if po_running s \<noteq> Some PoSave then None
      else Some (case r of
             Inr v \<Rightarrow> s\<lparr>po_draft := None, po_running := Some (PoReload (Some ''Policy saved.''))\<rparr>
           | Inl e \<Rightarrow> po_free (s\<lparr>po_msg := Some (error_message e)\<rparr>)))"
| "policy_step s (PoTested r) =
     (if po_running s \<noteq> Some PoTest then None
      else Some (po_free (case r of
             Inr (t, m) \<Rightarrow> s\<lparr>po_msg := Some (''Test: telegram='' @ t @ '' email='' @ m)\<rparr>
           | Inl e \<Rightarrow> s\<lparr>po_msg := Some (error_message e)\<rparr>)))"
| "policy_step s (PoToggled r) =
     (if po_running s \<noteq> Some PoChannel then None
      else Some (case r of
             Inr v \<Rightarrow> s\<lparr>po_running := Some (PoReload None)\<rparr>
           | Inl e \<Rightarrow> po_free (s\<lparr>po_msg := Some (error_message e)\<rparr>)))"
| "policy_step s PoReloaded =
     (case po_running s of
        Some (PoReload m) \<Rightarrow> Some (po_free (case m of None \<Rightarrow> s | Some t \<Rightarrow> s\<lparr>po_msg := Some t\<rparr>))
      | _ \<Rightarrow> None)"

lemmas po_defs = po_start_def savePolicy_def po_free_def po_enabled_def

subsection \<open>Invariant\<close>

text \<open>Drafts hold digits under the names of the fields, each once; the busy mark is exactly a running
  operation; only administrators have a draft, a question or a request.\<close>

definition draft_ok :: "draft \<Rightarrow> bool" where
  "draft_ok d \<longleftrightarrow> distinct (map fst d) \<and> list_all (\<lambda>(k, v). k \<in> set POLICY_FIELDS \<and> list_all is_digit_char v) d"

lemma put_field_keys: "map fst (put_field k v d) = (if k \<in> fst ` set d then map fst d else map fst d @ [k])"
  by (auto simp: put_field_def)

lemma put_field_ok:
  assumes "draft_ok d" "k \<in> set POLICY_FIELDS" "list_all is_digit_char v"
  shows "draft_ok (put_field k v d)"
proof -
  have "distinct (map fst (put_field k v d))" using assms(1) by (auto simp: put_field_keys draft_ok_def)
  moreover have "list_all (\<lambda>(k, v). k \<in> set POLICY_FIELDS \<and> list_all is_digit_char v) (put_field k v d)"
    using assms unfolding put_field_def draft_ok_def list_all_iff by (auto split: if_splits)
  ultimately show ?thesis by (simp add: draft_ok_def)
qed

lemma setNum_ok:
  assumes "\<forall>d. do = Some d \<longrightarrow> draft_ok d" "k \<in> set POLICY_FIELDS" "setNum k v do = Some d'"
  shows "draft_ok d'"
proof -
  have "draft_ok (or_else do [])" using assms(1) by (cases do) (simp_all add: draft_ok_def)
  with assms(2,3) show ?thesis unfolding setNum_def by (auto intro!: put_field_ok simp: list_all_iff)
qed

lemma map_of_replaced:
  "map_of (map (\<lambda>(x, y). if x = k then (x, t) else (x, y)) d) x
     = (if x = k then (if k \<in> fst ` set d then Some t else None) else map_of d x)"
  by (induction d) (auto simp: rev_image_eqI)

text \<open>What was typed last into a field is what the field shows.\<close>

lemma field_shows_typed:
  "field_text (setNum k v do) policy k n = filter is_digit_char v"
  "k' \<noteq> k \<Longrightarrow> field_text (setNum k v do) policy k' n = field_text do policy k' n"
proof -
  have m: "map_of (put_field k t d) x = (if x = k then Some t else map_of d x)" for t d x
  proof (cases "k \<in> fst ` set d")
    case True
    then show ?thesis by (simp add: put_field_def map_of_replaced)
  next
    case False
    then have "map_of d k = None" by (simp add: map_of_eq_None_iff)
    with False show ?thesis by (auto simp: put_field_def map_add_def split: option.splits)
  qed
  show "field_text (setNum k v do) policy k n = filter is_digit_char v"
    by (simp add: field_text_def setNum_def m)
  show "k' \<noteq> k \<Longrightarrow> field_text (setNum k v do) policy k' n = field_text do policy k' n"
    by (cases "do") (simp_all add: field_text_def setNum_def m)
qed

definition policy_inv :: "policy_screen \<Rightarrow> bool" where
  "policy_inv s \<longleftrightarrow>
     (po_saving s \<longleftrightarrow> po_running s \<noteq> None) \<and> (\<forall>d. po_draft s = Some d \<longrightarrow> draft_ok d)
     \<and> (po_alert s \<longrightarrow> po_admin s \<and> \<not> po_saving s) \<and> (po_draft s \<noteq> None \<or> po_saving s \<longrightarrow> po_admin s)"

lemma policy_inv_step:
  assumes "policy_inv s" "policy_step s e = Some s'"
  shows "policy_inv s'"
proof (cases e)
  case (PoType k v)
  with assms(2) have t: "k \<in> set POLICY_FIELDS" "po_admin s" "s' = s\<lparr>po_draft := setNum k v (po_draft s)\<rparr>"
    by (auto split: if_splits)
  have "draft_ok d" if "setNum k v (po_draft s) = Some d" for d
    using setNum_ok [OF _ t(1) that] assms(1) by (simp add: policy_inv_def)
  with t assms(1) show ?thesis by (auto simp: policy_inv_def)
qed (use assms in \<open>auto simp: policy_inv_def po_defs split: if_splits option.splits sum.splits policy_op.splits\<close>)

interpretation policy: started_system policy_step policy_inv "policy_init admin" for admin
proof unfold_locales
  show "policy_inv (policy_init admin)" by (simp add: policy_inv_def policy_init_def)
qed (rule policy_inv_step)

subsection \<open>Requests\<close>

text \<open>Which control stands for which request.\<close>

definition policy_why :: "policy_screen \<Rightarrow> policy_event \<Rightarrow> ax_config \<Rightarrow> bool" where
  "policy_why t e c \<longleftrightarrow>
     (\<exists>d. e = PoSaveDraft \<and> po_draft t = Some d \<and> c = mc_config (notificationsApi_updatePolicy (draft_patch d)))
     \<or> (e = PoConfirmDefaults \<and> po_alert t \<and> c = mc_config (notificationsApi_updatePolicy defaults_patch))
     \<or> (\<exists>v. e = PoRecovery v \<and> c = mc_config (notificationsApi_updatePolicy (JObj [(''notifyOnRecovery'', JBool v)])))
     \<or> (\<exists>v. e = PoPause v \<and> c = mc_config (notificationsApi_updatePolicy (pause_patch v (po_now t))))
     \<or> (e = PoSendTest \<and> c = mc_config notificationsApi_test)
     \<or> (\<exists>ch v. e = PoToggle ch v \<and> c = mc_config (notificationsApi_updateSettings (channel_patch ch v)))"

definition policy_sends :: "policy_screen \<Rightarrow> policy_event \<Rightarrow> ax_config \<Rightarrow> bool" where
  "policy_sends t e c \<longleftrightarrow> policy_why t e c \<and> (po_alert t \<or> po_enabled t)"

interpretation policy_requests: explained_system policy_step "policy_init admin" po_sent policy_sends for admin
proof unfold_locales
  fix s e s' c assume st: "policy_step s e = Some s'" and c: "c \<in> set (po_sent s')"
  show "c \<in> set (po_sent s) \<or> policy_sends s e c"
    using st c by (cases e) (auto simp: policy_sends_def policy_why_def po_defs split: if_splits option.splits sum.splits policy_op.splits)
qed

lemma admin_constant:
  assumes "run policy_step (policy_init admin) es = Some s"
  shows "po_admin s = admin"
proof -
  have "run policy_step t es = Some s \<Longrightarrow> po_admin s = po_admin t" for t
  proof (induction es arbitrary: t)
    case (Cons e es)
    then obtain u where u: "policy_step t e = Some u" "run policy_step u es = Some s" by (auto split: option.splits)
    from u(1) have "po_admin u = po_admin t"
      by (cases e) (auto simp: po_defs split: if_splits option.splits sum.splits policy_op.splits)
    with Cons.IH u(2) show ?case by simp
  qed simp
  with assms show ?thesis by (simp add: policy_init_def)
qed


abbreviation policy_case :: "policy_event list" where
  "policy_case \<equiv> [PoDrawn True, PoType ''maxRepeats'' ''a5'', PoSaveDraft]"

lemma policy_case_run:
  "\<exists>s. run policy_step (policy_init True) policy_case = Some s \<and> po_running s = Some PoSave
     \<and> po_sent s = [mc_config (notificationsApi_updatePolicy (JObj [(''maxRepeats'', JNum 5)]))]"
proof -
  have "filter is_digit_char ''a5'' = ''5''" "digits_val ''5'' = 5" by (simp_all add: is_digit_char_def digits_val_def digit_val_def)
  then show ?thesis
    by (simp add: policy_init_def po_defs setNum_def put_field_def POLICY_FIELDS_def draft_patch_def)
qed


text \<open>Digits typed while a save is running are lost when it succeeds: the whole draft is dropped.\<close>

lemma typing_lost_while_saving:
  "\<exists>s. run policy_step (policy_init True) (policy_case @ [PoType k v, PoSaved (Inr r), PoReloaded]) = Some s
     \<and> po_draft s = None \<and> length (po_sent s) = 1 \<and> po_msg s = Some ''Policy saved.''"
  if "k \<in> set POLICY_FIELDS"
  using that by (simp add: policy_init_def po_defs setNum_def) (simp add: POLICY_FIELDS_def)

section \<open>Actions of a project\<close>

record project_screen =
  pj_shown :: bool
  pj_confirm :: "lifecycle_action option"
  pj_pending :: bool
  pj_error :: "js_error option"
  pj_sent :: "ax_config list"
  pj_refetches :: nat

definition project_init :: project_screen where
  "project_init = \<lparr>pj_shown = False, pj_confirm = None, pj_pending = False, pj_error = None, pj_sent = [], pj_refetches = 0\<rparr>"

datatype project_event =
    PjQuery bool
  | PjAsk lifecycle_action
  | PjCancel
  | PjConfirm
  | PjAnswer "js_error + json option"

definition project_request :: "int \<Rightarrow> lifecycle_action \<Rightarrow> ax_config" where
  "project_request i a = mc_config (projectsApi_action i a (Some (a \<noteq> Start)))"

text \<open>The buttons and the sheet's button are disabled while the mutation is pending; a tap beside the
  sheet cancels at any time.\<close>

fun project_step :: "int \<Rightarrow> project_screen \<Rightarrow> project_event \<Rightarrow> project_screen option" where
  "project_step i s (PjQuery b) = Some (s\<lparr>pj_shown := b\<rparr>)"
| "project_step i s (PjAsk a) = (if pj_shown s \<and> \<not> pj_pending s then Some (s\<lparr>pj_confirm := Some a\<rparr>) else None)"
| "project_step i s PjCancel = (if pj_shown s \<and> pj_confirm s \<noteq> None then Some (s\<lparr>pj_confirm := None\<rparr>) else None)"
| "project_step i s PjConfirm =
     (case pj_confirm s of
        None \<Rightarrow> None
      | Some a \<Rightarrow> if pj_shown s \<and> \<not> pj_pending s
                  then Some (s\<lparr>pj_pending := True, pj_error := None, pj_sent := pj_sent s @ [project_request i a]\<rparr>) else None)"
| "project_step i s (PjAnswer r) =
     (if \<not> pj_pending s then None
      else Some (case r of
             Inr v \<Rightarrow> s\<lparr>pj_pending := False, pj_confirm := None, pj_refetches := pj_refetches s + 2\<rparr>
           | Inl e \<Rightarrow> s\<lparr>pj_pending := False, pj_error := Some e\<rparr>))"

fun project_arm :: "project_screen \<Rightarrow> project_event \<Rightarrow> lifecycle_action option" where
  "project_arm s (PjAsk a) = Some a"
| "project_arm s _ = None"

interpretation project_sheet: confirmed_system "project_step i" project_init pj_confirm project_arm "\<lambda>e. e = PjCancel" pj_sent PjConfirm
    "\<lambda>c. True" "\<lambda>a c. c = project_request i a" for i
proof unfold_locales
  fix s e s' x assume "project_step i s e = Some s'" "pj_confirm s' = Some x"
  then show "project_arm s e = Some x \<or> (pj_confirm s = Some x \<and> \<not> e = PjCancel \<and> project_arm s e = None)"
    by (cases e) (auto split: if_splits option.splits sum.splits)
next
  fix s e s' c assume "project_step i s e = Some s'" "c \<in> set (pj_sent s')"
  then show "c \<in> set (pj_sent s) \<or> (e = PjConfirm \<and> (\<exists>x. pj_confirm s = Some x \<and> c = project_request i x))"
    by (cases e) (auto split: if_splits option.splits sum.splits)
qed (simp_all add: project_init_def)

text \<open>An action is sent only by confirming the sheet of that action, which was opened by its button and
  not cancelled; stopping and restarting carry the confirmation the server asks for.\<close>

lemma project_actions_confirmed:
  assumes "run (project_step i) project_init es = Some s" "c \<in> set (pj_sent s)"
  shows "\<exists>es' cs a. es = es' @ PjConfirm # cs \<and> armed_by (project_step i) project_init project_arm (\<lambda>e. e = PjCancel) es' a
           \<and> c = project_request i a"
  using project_sheet.confirmed [OF assms TrueI] .

section \<open>Lists\<close>

datatype app_level = LvAll | LvInfo | LvWarn | LvError

definition level_param :: "app_level \<Rightarrow> string option" where
  "level_param l = (case l of LvAll \<Rightarrow> None | LvInfo \<Rightarrow> Some ''info'' | LvWarn \<Rightarrow> Some ''warn'' | LvError \<Rightarrow> Some ''error'')"

text \<open>The query of the log screen, with the project number of the address when there is one.\<close>

definition app_logs_query :: "app_level \<Rightarrow> int option \<Rightarrow> ax_config" where
  "app_logs_query l pid =
     mc_config (logsApi_list (Some \<lparr>logsParams_level = level_param l, logsParams_source = None, logsParams_search = None,
       logsParams_projectId = pid, logsParams_limit = Some 100, logsParams_offset = None\<rparr>))"

text \<open>The server stores the levels in upper case and compares them exactly: no log has a level the
  filter asks for.\<close>

lemma log_filter_matches_nothing: "level_param l = Some t \<Longrightarrow> stored \<in> {''INFO'', ''WARN'', ''ERROR''} \<Longrightarrow> stored \<noteq> t"
  by (auto simp: level_param_def split: app_level.splits)

datatype list_view = ListLoading | ListEmpty | ListItems

text \<open>What the alert and notification lists show for the data of the query: an error is not a case.\<close>

definition list_views :: "'a list option \<Rightarrow> bool \<Rightarrow> list_view list" where
  "list_views data loading =
     (if loading then [ListLoading] else []) @ (if \<not> loading \<and> or_else data [] = [] then [ListEmpty] else [])
     @ (if or_else data [] \<noteq> [] then [ListItems] else [])"

lemma failed_list_reads_empty: "list_views None False = [ListEmpty]"
  by (simp add: list_views_def)

record alert_card =
  cd_busy :: bool
  cd_sent :: "ax_config list"
  cd_refetches :: nat

definition resolve_press :: "Alert \<Rightarrow> alert_card \<Rightarrow> alert_card option" where
  "resolve_press a s =
     (if alert_status a = AlertStatus_TRIGGERED \<and> \<not> cd_busy s
      then Some (s\<lparr>cd_busy := True, cd_sent := cd_sent s @ [mc_config (alertsApi_resolve (alert_id a))]\<rparr>) else None)"

definition resolve_answer :: "bool \<Rightarrow> alert_card \<Rightarrow> alert_card" where
  "resolve_answer ok s = s\<lparr>cd_busy := False, cd_refetches := cd_refetches s + (if ok then 1 else 0)\<rparr>"

definition markRead_press :: "InAppNotification \<Rightarrow> ax_config list" where
  "markRead_press n = (if inAppNotification_read n then [] else [mc_config (inAppApi_markRead (inAppNotification_id n))])"

end
