(* ===== verification/Mobile_Account.thy ===== *)
theory Mobile_Account
  imports Mobile_Url Mobile_Stores
begin

text \<open>
  Account and server address on the phone: the sign-in screen \<open>mobile/app/(auth)/login.tsx\<close> and the
  settings screen \<open>mobile/app/(app)/(tabs)/settings.tsx\<close>, which have the same form for the server
  address; the password form; and the guards of \<open>mobile/app/_layout.tsx\<close>,
  \<open>app/index.tsx\<close> and \<open>app/(app)/_layout.tsx\<close>.
\<close>

section \<open>Server address\<close>

text \<open>\<open>handleSaveServer\<close> awaits the probe and then the device store; the address is the one typed when it
  was started. \<open>sv_base\<close> is the address in effect.\<close>

datatype server_wait = SvProbing string | SvStoring string

record server_form =
  sv_text :: string
  sv_editing :: bool
  sv_busy :: bool
  sv_msg :: "string option"
  sv_wait :: "server_wait option"
  sv_base :: string

definition server_init :: "string \<Rightarrow> server_form" where
  "server_init base =
     \<lparr>sv_text = normalizeUrl base, sv_editing = False, sv_busy = False, sv_msg = None, sv_wait = None, sv_base = base\<rparr>"

datatype server_event =
    SvToggle
  | SvType string
  | SvSave
  | SvProbed "js_error + unit"
  | SvStored "js_error + unit"

definition sv_failed :: "js_error \<Rightarrow> server_form \<Rightarrow> server_form" where
  "sv_failed e s = s\<lparr>sv_msg := Some (error_message e), sv_busy := False, sv_wait := None\<rparr>"

text \<open>After the probe \<open>saveBaseUrl\<close> checks the address before it touches the device.\<close>

fun server_step :: "server_form \<Rightarrow> server_event \<Rightarrow> server_form option" where
  "server_step s SvToggle = Some (s\<lparr>sv_editing := (\<not> sv_editing s)\<rparr>)"
| "server_step s (SvType t) = (if sv_editing s then Some (s\<lparr>sv_text := t\<rparr>) else None)"
| "server_step s SvSave =
     (if sv_editing s \<and> \<not> sv_busy s \<and> js_trim (sv_text s) \<noteq> []
      then Some (s\<lparr>sv_busy := True, sv_msg := None, sv_wait := Some (SvProbing (sv_text s))\<rparr>) else None)"
| "server_step s (SvProbed r) =
     (case sv_wait s of
        Some (SvProbing u) \<Rightarrow>
          Some (case r of
                  Inl e \<Rightarrow> sv_failed e s
                | Inr _ \<Rightarrow>
                    if valid_url (normalizeUrl u) then s\<lparr>sv_wait := Some (SvStoring u)\<rparr>
                    else sv_failed (JsError ''Server URL must start with http:// or https://'') s)
      | _ \<Rightarrow> None)"
| "server_step s (SvStored r) =
     (case sv_wait s of
        Some (SvStoring u) \<Rightarrow>
          Some (case r of
                  Inl e \<Rightarrow> sv_failed e s
                | Inr _ \<Rightarrow>
                    (let clean = normalizeUrl (normalizeUrl u) in
                     s\<lparr>sv_base := clean, sv_text := clean, sv_editing := False, sv_msg := Some (''Connected to '' @ clean),
                       sv_busy := False, sv_wait := None\<rparr>))
      | _ \<Rightarrow> None)"

text \<open>The steps after the probe are those of \<open>saveBaseUrl\<close>.\<close>

lemma server_saves:
  assumes "sv_wait s = Some (SvProbing u)" "saveBaseUrl S u p = (r, p')"
  shows "\<exists>es s'. run server_step s (SvProbed (Inr ()) # es) = Some s' \<and> sv_wait s' = None
      \<and> (case r of Inr b \<Rightarrow> sv_base s' = b \<and> ph_base p' = Some b \<and> sv_text s' = b
                 | Inl e \<Rightarrow> sv_base s' = sv_base s \<and> ph_base p' = ph_base p \<and> sv_msg s' = Some (error_message e))"
proof (cases "valid_url (normalizeUrl u)")
  case False
  then show ?thesis using assms
    by (intro exI [of _ "[]"]) (auto simp: saveBaseUrl_def Let_def io_throw_def sv_failed_def)
next
  case True
  show ?thesis
  proof (cases "setItem S (ph_store p) SERVER_URL_KEY (normalizeUrl u)")
    case (Inl e)
    with True assms show ?thesis
      by (intro exI [of _ "[SvStored (Inl e)]"])
        (auto simp: saveBaseUrl_def Let_def io_seq_def io_bind_def store_set_def sv_failed_def)
  next
    case (Inr st)
    with True assms show ?thesis
      by (intro exI [of _ "[SvStored (Inr ())]"])
        (auto simp: saveBaseUrl_def Let_def io_seq_def io_bind_def store_set_def applyBaseUrl_def)
  qed
qed

definition server_law :: "string \<Rightarrow> server_event list \<Rightarrow> server_form \<Rightarrow> bool" where
  "server_law b es s \<longleftrightarrow>
     (sv_busy s \<longleftrightarrow> sv_wait s \<noteq> None)
     \<and> (\<forall>u. sv_wait s = Some (SvStoring u) \<longrightarrow> SvProbed (Inr ()) \<in> set es \<and> valid_url (normalizeUrl u))
     \<and> (sv_base s = b \<or> SvProbed (Inr ()) \<in> set es \<and> (\<exists>u. valid_url (normalizeUrl u) \<and> sv_base s = normalizeUrl (normalizeUrl u)))"

interpretation server: recorded_system server_step "server_init b" "server_law b" for b
proof unfold_locales
  show "server_law b [] (server_init b)" by (simp add: server_law_def server_init_def)
next
  fix es s e s' assume "server_law b es s" "server_step s e = Some s'"
  then show "server_law b (es @ [e]) s'"
    by (cases e) (auto simp: server_law_def sv_failed_def Let_def split: if_splits option.splits server_wait.splits sum.splits)
qed

text \<open>The address in effect changes only to a well-formed one, after a server answered a probe; a save in
  progress always ends.\<close>

lemma address_probed:
  assumes "run server_step (server_init b) es = Some s" "sv_base s \<noteq> b"
  shows "SvProbed (Inr ()) \<in> set es \<and> (\<exists>u. valid_url (normalizeUrl u) \<and> sv_base s = normalizeUrl (normalizeUrl u))"
  using server.recorded [OF assms(1)] assms(2) by (auto simp: server_law_def)

lemma save_ends:
  assumes "run server_step (server_init b) es = Some s" "sv_busy s"
  shows "\<exists>e s'. (\<exists>x. e = SvProbed (Inl x) \<or> e = SvStored (Inl x)) \<and> server_step s e = Some s' \<and> \<not> sv_busy s'"
proof -
  from server.recorded [OF assms(1)] assms(2) obtain w where w: "sv_wait s = Some w" by (auto simp: server_law_def)
  show ?thesis
  proof (cases w)
    case (SvProbing u)
    with w show ?thesis by (intro exI [of _ "SvProbed (Inl (JsError []))"]) (simp add: sv_failed_def)
  next
    case (SvStoring u)
    with w show ?thesis by (intro exI [of _ "SvStored (Inl (JsError []))"]) (simp add: sv_failed_def)
  qed
qed

text \<open>Cancel keeps the typed text, which is then shown as the address of the server.\<close>

lemma cancelled_address_shown:
  "\<exists>s. run server_step (server_init b) [SvToggle, SvType t, SvToggle] = Some s
     \<and> \<not> sv_editing s \<and> sv_text s = t \<and> sv_base s = b"
  by (simp add: server_init_def)

section \<open>Password\<close>

text \<open>The length of a text in UTF-16 units, from its UTF-8 bytes.\<close>

definition utf16_length :: "string \<Rightarrow> nat" where
  "utf16_length s =
     sum_list (map (\<lambda>c. let b = (of_char c :: nat) in if 128 \<le> b \<and> b < 192 then 0 else if 240 \<le> b then 2 else 1) s)"

record password_form =
  pw_open :: bool
  pw_current :: string
  pw_new :: string
  pw_error :: "string option"
  pw_busy :: bool
  pw_sent :: "ax_config list"

definition password_init :: password_form where
  "password_init = \<lparr>pw_open = False, pw_current = [], pw_new = [], pw_error = None, pw_busy = False, pw_sent = []\<rparr>"

datatype password_event = PwToggle | PwCurrent string | PwNew string | PwSubmit | PwAnswer "js_error + json option"

definition handleChangePassword :: "password_form \<Rightarrow> password_form" where
  "handleChangePassword s =
     (if utf16_length (pw_new s) < 8 then s\<lparr>pw_error := Some ''New password must be at least 8 characters.''\<rparr>
      else s\<lparr>pw_busy := True, pw_error := None,
             pw_sent := pw_sent s @ [mc_config (authApi_changePassword (pw_current s) (pw_new s))]\<rparr>)"

fun password_step :: "password_form \<Rightarrow> password_event \<Rightarrow> password_form option" where
  "password_step s PwToggle = Some (s\<lparr>pw_open := (\<not> pw_open s)\<rparr>)"
| "password_step s (PwCurrent t) = (if pw_open s then Some (s\<lparr>pw_current := t\<rparr>) else None)"
| "password_step s (PwNew t) = (if pw_open s then Some (s\<lparr>pw_new := t\<rparr>) else None)"
| "password_step s PwSubmit =
     (if pw_open s \<and> \<not> pw_busy s \<and> pw_current s \<noteq> [] \<and> pw_new s \<noteq> [] then Some (handleChangePassword s) else None)"
| "password_step s (PwAnswer r) =
     (if \<not> pw_busy s then None
      else Some (case r of
             Inr v \<Rightarrow> s\<lparr>pw_open := False, pw_current := [], pw_new := [], pw_busy := False\<rparr>
           | Inl e \<Rightarrow> s\<lparr>pw_error := Some (error_message e), pw_busy := False\<rparr>))"

definition password_why :: "password_form \<Rightarrow> password_event \<Rightarrow> ax_config \<Rightarrow> bool" where
  "password_why t e c \<longleftrightarrow> e = PwSubmit \<and> \<not> pw_busy t \<and> pw_current t \<noteq> [] \<and> 8 \<le> utf16_length (pw_new t)
     \<and> c = mc_config (authApi_changePassword (pw_current t) (pw_new t))"

interpretation password: explained_system password_step password_init pw_sent password_why
proof unfold_locales
  fix s e s' c assume "password_step s e = Some s'" "c \<in> set (pw_sent s')"
  then show "c \<in> set (pw_sent s) \<or> password_why s e c"
    by (cases e) (auto simp: password_why_def handleChangePassword_def not_less split: if_splits sum.splits)
qed

text \<open>A new password is sent only as typed, together with the current one, and with at least eight units.\<close>

lemma password_as_typed:
  assumes "run password_step password_init es = Some s" "c \<in> set (pw_sent s)"
  shows "explained_by password_step password_init password_why es c"
  using password.explained [OF assms] by (simp add: password_init_def)

text \<open>Closing the form keeps both passwords in the fields: opening it again shows them filled in.\<close>

lemma closed_form_keeps_passwords:
  "\<exists>s. run password_step password_init [PwToggle, PwCurrent c, PwNew n, PwToggle, PwToggle] = Some s
     \<and> pw_current s = c \<and> pw_new s = n \<and> pw_open s"
  by (simp add: password_init_def)

section \<open>Signing in\<close>

text \<open>Whether the screen moves on to the app.\<close>

definition handleLogin ::
  "'w axios \<Rightarrow> string \<Rightarrow> 's kv_ops \<Rightarrow> string option \<Rightarrow> string \<Rightarrow> string \<Rightarrow> (('s, 'w) mobile, bool) io" where
  "handleLogin ax tmsg S env username password =
     (if js_trim username = [] \<or> password = [] then io_return False
      else io_seq clearError
             (io_catch (io_seq (login_m ax tmsg S env (js_trim username) password) (io_return True)) (\<lambda>e. io_return False)))"

lemma login_moves_on:
  "fst (handleLogin ax tmsg S env u pw m) = Inr True
     \<longleftrightarrow> js_trim u \<noteq> [] \<and> pw \<noteq> []
         \<and> fst (login_m ax tmsg S env (js_trim u) pw (fst m, (snd m)\<lparr>ma_error := None\<rparr>)) = Inr ()"
  "\<exists>b. fst (handleLogin ax tmsg S env u pw m) = Inr b"
proof -
  obtain p a where m: "m = (p, a)" by (cases m)
  obtain r q where r: "login_m ax tmsg S env (js_trim u) pw (p, a\<lparr>ma_error := None\<rparr>) = (r, q)"
    by (cases "login_m ax tmsg S env (js_trim u) pw (p, a\<lparr>ma_error := None\<rparr>)")
  have h: "handleLogin ax tmsg S env u pw m
      = (if js_trim u = [] \<or> pw = [] then (Inr False, m) else (Inr (case r of Inr _ \<Rightarrow> True | Inl _ \<Rightarrow> False), q))"
    unfolding handleLogin_def m clearError_def
    by (cases r) (simp_all add: io_seq_def io_bind_def io_catch_def io_return_def modify_snd_simp r)
  show "fst (handleLogin ax tmsg S env u pw m) = Inr True
     \<longleftrightarrow> js_trim u \<noteq> [] \<and> pw \<noteq> []
         \<and> fst (login_m ax tmsg S env (js_trim u) pw (fst m, (snd m)\<lparr>ma_error := None\<rparr>)) = Inr ()"
    using h r by (simp add: m split: sum.splits)
  show "\<exists>b. fst (handleLogin ax tmsg S env u pw m) = Inr b" using h by (cases "js_trim u = [] \<or> pw = []") auto
qed

datatype app_screen = AppBlank | AppIntro | AppLogin | AppTabs

text \<open>What the root draws: nothing before fonts and session check are done, then the intro once, then the
  tabs for a user and the sign-in screen otherwise.\<close>

definition root_screen :: "bool \<Rightarrow> bool \<Rightarrow> bool \<Rightarrow> json option \<Rightarrow> app_screen" where
  "root_screen fontsLoaded checked introDone user =
     (if \<not> fontsLoaded \<or> \<not> checked then AppBlank else if \<not> introDone then AppIntro
      else if json_truthy user then AppTabs else AppLogin)"

lemma tabs_need_user: "root_screen f c i u = AppTabs \<Longrightarrow> c \<and> json_truthy u"
  by (simp add: root_screen_def split: if_splits)

end
