(* ===== verification/Spec2Isabelle.thy ===== *)
theory Spec2Isabelle
  imports
    Format Endpoints
    Web_Refresh Web_Api Web_Stores Web_Events Web_Settings Web_Dashboard Project_Details
    Page_Transfers Page_Progress Page_Logs Page_Terminal Settings_Props
    Page_Servers Page_Charts Page_Databases Page_Fleet Page_Monitoring Page_Checks Page_Dashboard
    Page_Project Page_Access Web_Shell
    Mobile_Api Mobile_Url Mobile_Stores Mobile_Device Mobile_Monitoring Mobile_Screens Mobile_Account
begin

text \<open>
  \<^bold>\<open>ServerHub clients.\<close> ServerHub is a self-hosted platform that monitors and manages
  servers: a Go backend with an HTTP interface, a React web client (\<open>src/client\<close>), an
  Expo mobile app (\<open>src/mobile\<close>) and a package both clients share
  (\<open>src/packages/shared\<close>). This library models the TypeScript side: the shared
  contracts, and of each client the request core, the session handling, the stores and the
  hooks that carry state.

  \<^bold>\<open>How the parts interact.\<close> Pages call methods of the API objects; a method builds a
  path with the shared endpoint builders and a JSON body, and sends it through the request
  core, which renews an expired session once and repeats the request. Stores and hooks keep
  the answers. The backend and the browser's or phone's network are a parameter of the model
  (\<open>net\<close> for \<open>fetch\<close>, \<open>ax\<close> for \<open>axios\<close>): an arbitrary function from request and
  world to answer and world, so every theorem holds for every behaviour of the server. The
  device store of the phone is a parameter too, with the key-value laws as a locale.

  \<^bold>\<open>Theories and sources.\<close>

  \<^item> \<open>Hub_Prelude\<close>, \<open>Js_Uri\<close>, \<open>Js_Number\<close>, \<open>Js_Json\<close>: the part of the JavaScript
    library the sources use. Strings are UTF-8 byte lists; numbers that matter are exact
    rationals with the special values added; \<open>JSON_parse\<close> recurses on fuel, of which
    it takes more than twice the length of the text, enough for every printed value by
    \<open>JSON_parse_stringify\<close>. Codecs meet the locales \<open>chunk_codec\<close> and
    \<open>text_codec\<close>, interpreted for URL components, form encoding and JSON strings.
  \<^item> \<open>Hub_Steps\<close>: executions of event-driven components as event lists; the locales
    \<open>step_invariant\<close>, \<open>started_system\<close>, \<open>decreasing_system\<close>, \<open>traced_system\<close>,
    \<open>recorded_system\<close> (a law about the events so far), \<open>explained_system\<close> (every request goes back to an
    event in a state that explains it), \<open>confirmed_system\<close> (an effect needs an arming event that
    was not cancelled) and \<open>simulation\<close> turn a property of one step into one of all executions. Every step
    machine below is an interpretation.
  \<^item> \<open>Hub_Effects\<close>: \<open>async\<close> functions that await in sequence, as computations that
    return or throw; the locales \<open>kv_store\<close> and \<open>working_store\<close> for
    \<open>localStorage\<close> and the phone's secure store.
  \<^item> \<open>Types_Core\<close>, \<open>Types_Fleet\<close>, \<open>Types_Notify\<close>, \<open>Types_Vault\<close>: the
    interfaces of \<open>packages/shared/src/api-types.ts\<close>; \<open>Api_Status\<close>: its status and
    alert functions.
  \<^item> \<open>Endpoints\<close>: \<open>packages/shared/src/endpoints.ts\<close>; \<open>Format\<close>:
    \<open>packages/shared/src/format.ts\<close>.
  \<^item> \<open>Web_Request\<close>, \<open>Web_Refresh\<close>, \<open>Web_Api\<close>: \<open>client/src/lib/api.ts\<close>, as
    the request core on one call, the shared refresh promise under concurrent calls, and the
    API objects.
  \<^item> \<open>Web_Stores\<close>: \<open>client/src/stores/store.ts\<close>. \<open>Web_Events\<close>:
    \<open>client/src/lib/useEvents.ts\<close>. \<open>Web_Settings\<close>: \<open>useTheme.ts\<close>,
    \<open>useAlerts.ts\<close> and the backup helpers. \<open>Web_Dashboard\<close>: \<open>useDashboard.ts\<close>.
    \<open>Project_Details\<close>: \<open>useProjectDetails.ts\<close>.
  \<^item> \<open>Page_Transfers\<close>, \<open>Page_Progress\<close>, \<open>Page_Logs\<close>, \<open>Page_Terminal\<close>: the
    file page (\<open>features/transfers\<close>) and the deploy progress, log and terminal dialogs
    (\<open>features/dashboard\<close>).
  \<^item> \<open>Page_Dashboard\<close>, \<open>Page_Signals\<close>: \<open>DashboardPage.tsx\<close>, its notices and attention list, and
    its live events, automatic import and small views. \<open>Page_Project\<close>: \<open>ProjectDetailsPage.tsx\<close>
    and \<open>ProjectDrawer.tsx\<close> over the project details hook. \<open>Page_Servers\<close>: \<open>ServersPage.tsx\<close> with its wizard.
    \<open>Page_Databases\<close>: \<open>DatabasesPage.tsx\<close>. \<open>Page_Fleet\<close>: \<open>FleetPage.tsx\<close>, \<open>DiscoveryModal.tsx\<close>.
    \<open>Page_Monitoring\<close>: the range effect of \<open>TelemetryPage.tsx\<close> and the tabs of
    \<open>MonitoringPage.tsx\<close>. \<open>Page_Charts\<close>: the charts and figures of these two and of
    \<open>ServerDetailPage.tsx\<close>. \<open>Page_Checks\<close>: \<open>HealthChecksPage.tsx\<close>, \<open>AlertsPage.tsx\<close>,
    \<open>AuditLogPage.tsx\<close>, and the agent tokens and queries of \<open>ServerDetailPage.tsx\<close> (all in
    \<open>features/dashboard\<close>).
  \<^item> \<open>Web_Shell\<close>: the route table and guard of \<open>client/src/app/router.tsx\<close>, the dock and the
    command palette of \<open>components/chrome.tsx\<close>; the router's choice of a route is a parameter.
    The routes of the fleet and project pages lead home at present; the pages are modelled as they
    are in the sources. \<open>Page_Access\<close>: the access policy on the dashboard pages.
  \<^item> \<open>Access_Policy\<close>: the routes of \<open>server/cmd/server/main.go\<close> with the role each requires,
    as the specification of what a user's pages may send. \<open>Ui_Panel\<close>: what the components of
    the pages share (busy flag, requests in flight and sent, toasts) and the locale
    \<open>panel_page\<close>, by which a component refines that specification.
  \<^item> \<open>Ui_Widgets\<close>: the confirmation dialog and the meter of \<open>components/ui.tsx\<close>.
    \<open>Crud_Tab\<close>, \<open>Backup_Tabs\<close>: the storage, connection and policy tabs of
    \<open>features/dbbackups\<close>, which are one component over three page descriptions (locale
    \<open>crud_access\<close>). \<open>Backup_Agents\<close>, \<open>Backup_Jobs\<close>, \<open>Backup_Runs\<close>: the agents, restores,
    jobs, runs and overview tabs; \<open>Backup_Props\<close>: what the page guarantees.
  \<^item> \<open>Rules_Form\<close>: \<open>features/settings/NotificationRulesSection.tsx\<close>. \<open>Settings_Team\<close>: the team
    and diagnostics tabs. \<open>Settings_Notify\<close>, \<open>Settings_Groups\<close>: the notification tab, its draft
    in \<open>SettingsPage.tsx\<close> and its group manager. \<open>Settings_Props\<close>: access on this page.
  \<^item> \<open>Mobile_Client\<close>, \<open>Mobile_Url\<close>, \<open>Mobile_Api\<close>: \<open>mobile/src/api\<close>.
    \<open>Mobile_Stores\<close>: \<open>authStore.ts\<close>. \<open>Mobile_Device\<close>: \<open>biometricStore.ts\<close>,
    \<open>connectivityStore.ts\<close> and \<open>theme/colors.ts\<close>. \<open>Mobile_Monitoring\<close>: the monitoring
    screen \<open>mobile/app/(app)/monitoring.tsx\<close>. \<open>Mobile_Screens\<close>: the notification settings, the
    actions of a project and the alert, notification and log lists (\<open>notification-settings.tsx\<close>,
    \<open>projects/[id].tsx\<close>, \<open>alerts.tsx\<close>, \<open>notifications.tsx\<close>, \<open>logs/index.tsx\<close>).
    \<open>Mobile_Account\<close>: the sign-in screen \<open>mobile/app/(auth)/login.tsx\<close>, the address and password
    forms of \<open>(tabs)/settings.tsx\<close> and the root guards.

  \<^bold>\<open>What the lemmas show.\<close> Requests: the exact traffic and outcome of a call in both
  clients, that concurrent calls share one refresh and always finish, which calls are
  exempt. Encodings: what a server parses from path, query and body is what the caller
  passed. Stores: a user is signed in only by a server answer, sign-out and login persist
  correctly on the device, toasts expire, settings survive a reload. Hooks: the event
  subscription has one connection or one retry, the dashboard never shows a failure as an
  empty fleet, the project page never mixes loads and never stays disabled. Access: every API
  method hits a route of the backend; the components of the backup page and the rule and
  group sections of the settings page refine the access policy for the role of their user.
  Confirmation: deletions and restores follow the confirmation of that very object, secrets are
  sent only when typed. Forms: a rule survives being opened and saved. Pages: the
  dashboard announces exactly what changed and lists the most severe problems, the charts draw
  each run of readings and stay in their frames, the wizard creates one server, telemetry shows
  only the selected range, silences, bulk actions, registrations and tokens are exactly what the
  user asked for, the project page runs exactly the operations its controls stand for; the app's screens create
  silences and change the delivery policy only as picked, typed and allowed; no link of the shell
  is dead. Agreement: the two clients send the same requests. Some theorems state where the code departs from its
  comments: the session checks never renew, a refresh for a previous project is not
  dropped, an address check can be passed by an address without host, editing a rule loses
  its description, three settings tabs offer what the backend refuses, late answers are shown
  under another server or metric, failed reads look like an empty or healthy system, and the
  log filter of the app asks for levels that no log has.

  \<^bold>\<open>Conventions.\<close> An \<open>async\<close> action that can interleave is split at its awaits into
  a begin and an answer function, and the outstanding requests are part of the state; one
  that awaits in sequence is an effectful computation. A response is the JSON value the
  server sent: TypeScript's casts do not check it, so fields are read with \<open>json_get\<close>,
  and reading a field of \<open>null\<close> or \<open>undefined\<close> is a branch that throws. Loops that the
  sources express by recursion are total functions with a measure.

  \<^bold>\<open>Not modelled.\<close> The Go server and agent (another language, behind the network
  parameter); rendering, styling and the router library; the cache of the query library; locale
  dependent dates. The other mobile screens only draw the modelled stores and API objects and
  call their operations.
\<close>

end
